(* ===== verification/Prelude.thy ===== *)
theory Prelude
  imports Main
begin

text \<open>
  Shared vocabulary of the development: results as sums (\<open>Inl\<close> an error, \<open>Inr\<close> a value),
  the composition of fallible calls, Go's 64-bit \<open>time.Duration\<close> arithmetic, and the lemma
  collections the component theories extend.
\<close>

section \<open>Lemma collections\<close>

named_theorems go_simps \<open>unfolding rules for the models of Go's built-in operations\<close>
named_theorems step_intros \<open>facts that lift one call to a run of calls\<close>

section \<open>Results\<close>

text \<open>
  A Go function returning \<open>(T, error)\<close> is modelled by a sum: \<open>Inl e\<close> is the return with a
  non-nil error, \<open>Inr x\<close> the successful return. \<open>bindE\<close> is the idiom
  \<^verbatim>\<open>x, err := f(); if err != nil { return err }\<close>, and \<open>mapErr\<close> is
  \<^verbatim>\<open>fmt.Errorf("...: %w", err)\<close>.
\<close>

definition bindE :: "'e + 'a \<Rightarrow> ('a \<Rightarrow> 'e + 'b) \<Rightarrow> 'e + 'b" where
  "bindE m f = (case m of Inl e \<Rightarrow> Inl e | Inr x \<Rightarrow> f x)"

definition mapErr :: "('e \<Rightarrow> 'f) \<Rightarrow> 'e + 'a \<Rightarrow> 'f + 'a" where
  "mapErr g m = (case m of Inl e \<Rightarrow> Inl (g e) | Inr x \<Rightarrow> Inr x)"

definition is_ok :: "'e + 'a \<Rightarrow> bool" where
  "is_ok m = (case m of Inl _ \<Rightarrow> False | Inr _ \<Rightarrow> True)"

lemma bindE_simps [simp]:
  "bindE (Inl e) f = Inl e" "bindE (Inr x) f = f x"
  by (simp_all add: bindE_def)

lemma mapErr_simps [simp]:
  "mapErr g (Inl e) = Inl (g e)" "mapErr g (Inr x) = Inr x"
  by (simp_all add: mapErr_def)

lemma is_ok_simps [simp]: "\<not> is_ok (Inl e)" "is_ok (Inr x)"
  by (simp_all add: is_ok_def)

lemma bindE_Inr_iff: "bindE m f = Inr y \<longleftrightarrow> (\<exists>x. m = Inr x \<and> f x = Inr y)"
  by (cases m) auto

lemma bindE_Inl_iff: "bindE m f = Inl e \<longleftrightarrow> m = Inl e \<or> (\<exists>x. m = Inr x \<and> f x = Inl e)"
  by (cases m) auto

lemma mapErr_Inr_iff [simp]: "mapErr g m = Inr x \<longleftrightarrow> m = Inr x"
  by (cases m) auto

lemma is_ok_iff: "is_ok m \<longleftrightarrow> (\<exists>x. m = Inr x)"
  by (cases m) auto

section \<open>Times and durations\<close>

text \<open>
  A \<open>time.Time\<close> is the number of nanoseconds since Go's zero time (January 1, year 1, UTC),
  so \<open>IsZero\<close> is comparison with 0 and \<open>UTC()\<close>, which changes the location only, is the
  identity. A \<open>time.Duration\<close> is a signed 64-bit count of nanoseconds: \<open>Sub\<close> saturates at the
  ends of that range, and unary minus wraps around.
\<close>

type_synonym gotime = int
type_synonym duration = int

definition dur_min :: duration where "dur_min = - (2 ^ 63)"
definition dur_max :: duration where "dur_max = 2 ^ 63 - 1"

definition wrap64 :: "int \<Rightarrow> int" where
  "wrap64 i = (i + 2 ^ 63) mod 2 ^ 64 - 2 ^ 63"

definition time_sub :: "gotime \<Rightarrow> gotime \<Rightarrow> duration" where
  "time_sub t u =
     (if t - u < dur_min then dur_min else if t - u > dur_max then dur_max else t - u)"

definition dur_neg :: "duration \<Rightarrow> duration" where
  "dur_neg d = wrap64 (- d)"

definition IsZero :: "gotime \<Rightarrow> bool" where
  "IsZero t \<longleftrightarrow> t = 0"

definition Nanosecond :: duration where "Nanosecond = 1"
definition Millisecond :: duration where "Millisecond = 1000000"
definition Second :: duration where "Second = 1000000000"
definition Minute :: duration where "Minute = 60 * Second"
definition Hour :: duration where "Hour = 60 * Minute"

lemmas duration_units = Nanosecond_def Millisecond_def Second_def Minute_def Hour_def

lemma wrap64_id: "- (2 ^ 63) \<le> i \<Longrightarrow> i < 2 ^ 63 \<Longrightarrow> wrap64 i = i"
  by (simp add: wrap64_def)

lemma wrap64_range: "- (2 ^ 63) \<le> wrap64 i \<and> wrap64 i < 2 ^ 63"
  using pos_mod_bound [of "2 ^ 64 :: int" "i + 2 ^ 63"] pos_mod_sign [of "2 ^ 64 :: int" "i + 2 ^ 63"]
  by (simp add: wrap64_def)

lemma time_sub_exact: "dur_min \<le> t - u \<Longrightarrow> t - u \<le> dur_max \<Longrightarrow> time_sub t u = t - u"
  by (simp add: time_sub_def)

lemma time_sub_saturates: "t - u < dur_min \<Longrightarrow> time_sub t u = dur_min"
  by (simp add: time_sub_def)

text \<open>The one duration whose negation is itself: the root of the skew defect below.\<close>

lemma dur_neg_min: "dur_neg dur_min = dur_min"
  by (simp add: dur_neg_def dur_min_def wrap64_def)

lemma dur_neg_exact: "dur_min < d \<Longrightarrow> d \<le> dur_max \<Longrightarrow> dur_neg d = - d"
  by (simp add: dur_neg_def dur_min_def dur_max_def wrap64_id)

section \<open>Lists\<close>

lemma distinct_map_filter: "distinct (map f xs) \<Longrightarrow> distinct (map f (filter P xs))"
  by (induction xs) auto

lemma sum_list_map_upd:
  "i < length xs \<Longrightarrow> map f (xs[i := x]) = (map f xs)[i := f x]"
  by (simp add: map_update)

end
