(* ===== verification/NodeRating.thy ===== *)
theory NodeRating
  imports Prelude
begin

text \<open>
  \<^verbatim>\<open>server/node_rating.go\<close>: the five independent measurements of a node, the eligibility of a
  node for a workload class and its provider-facing tier. Scores are Go \<open>int\<close>s that the code only
  compares, so they are HOL integers; tiers and classes are the strings of the source.
\<close>

section \<open>The types of node\_rating.go\<close>

type_synonym NodeTier = string

definition NodeTierUnrated :: NodeTier where "NodeTierUnrated = ''unrated''"
definition NodeTierBasic :: NodeTier where "NodeTierBasic = ''basic''"
definition NodeTierStandard :: NodeTier where "NodeTierStandard = ''standard''"
definition NodeTierGold :: NodeTier where "NodeTierGold = ''gold''"
definition NodeTierPlatinum :: NodeTier where "NodeTierPlatinum = ''platinum''"
definition NodeTierDatacenter :: NodeTier where "NodeTierDatacenter = ''datacenter''"

lemmas tier_names = NodeTierUnrated_def NodeTierBasic_def NodeTierStandard_def NodeTierGold_def
  NodeTierPlatinum_def NodeTierDatacenter_def

type_synonym WorkloadClass = string

definition WorkloadClassTextInference :: WorkloadClass where
  "WorkloadClassTextInference = ''text-inference''"
definition WorkloadClassLargeData :: WorkloadClass where
  "WorkloadClassLargeData = ''large-data''"

record NodeRating =
  ComputeScore :: int
  NetworkScore :: int
  ReliabilityScore :: int
  AvailabilityScore :: int
  TrustScore :: int
  ComputeKnown :: bool
  NetworkKnown :: bool
  ReliabilityKnown :: bool
  AvailabilityKnown :: bool
  TrustKnown :: bool
  Tier :: NodeTier

record EligibilityResult =
  Eligible :: bool
  Reasons :: "string list"
  Limitations :: "string list"

definition no_result :: EligibilityResult where
  "no_result = \<lparr>Eligible = False, Reasons = [], Limitations = []\<rparr>"

section \<open>Operations\<close>

definition limitation :: "EligibilityResult \<Rightarrow> string \<Rightarrow> EligibilityResult" where
  "limitation result text = result\<lparr>Limitations := Limitations result @ [text]\<rparr>"

definition checkKnownMinimum ::
    "EligibilityResult \<Rightarrow> string \<Rightarrow> int \<Rightarrow> bool \<Rightarrow> int \<Rightarrow> EligibilityResult" where
  "checkKnownMinimum result dimension value known minimum =
     (if \<not> known then limitation result (dimension @ '' score evidence unavailable'')
      else if value \<ge> minimum then result
      else limitation result (dimension @ '' score below workload requirement''))"

definition checkDimensions ::
    "NodeRating \<Rightarrow> int \<Rightarrow> int \<Rightarrow> int \<Rightarrow> int \<Rightarrow> int \<Rightarrow> EligibilityResult \<Rightarrow> EligibilityResult" where
  "checkDimensions rating c n r a t result0 =
     (let result1 = checkKnownMinimum result0 ''compute'' (ComputeScore rating) (ComputeKnown rating) c;
          result2 = checkKnownMinimum result1 ''network'' (NetworkScore rating) (NetworkKnown rating) n;
          result3 = checkKnownMinimum result2 ''reliability'' (ReliabilityScore rating) (ReliabilityKnown rating) r;
          result4 = checkKnownMinimum result3 ''availability'' (AvailabilityScore rating) (AvailabilityKnown rating) a
      in checkKnownMinimum result4 ''trust'' (TrustScore rating) (TrustKnown rating) t)"

definition concludeEligibility :: "EligibilityResult \<Rightarrow> EligibilityResult" where
  "concludeEligibility result0 =
     (let result = result0\<lparr>Eligible := (length (Limitations result0) = 0)\<rparr>
      in if Eligible result
         then result\<lparr>Reasons := Reasons result @ [''node satisfies workload-specific requirements'']\<rparr>
         else result)"

definition EvaluateNodeEligibility :: "NodeRating \<Rightarrow> WorkloadClass \<Rightarrow> EligibilityResult" where
  "EvaluateNodeEligibility rating workload =
     (if workload = WorkloadClassTextInference then
        concludeEligibility (checkDimensions rating 40 25 50 50 50 no_result)
      else if workload = WorkloadClassLargeData then
        concludeEligibility (checkDimensions rating 50 70 60 60 60 no_result)
      else limitation no_result ''unsupported workload class'')"

definition all_known :: "NodeRating \<Rightarrow> bool" where
  "all_known rating \<longleftrightarrow> ComputeKnown rating \<and> NetworkKnown rating \<and> ReliabilityKnown rating
     \<and> AvailabilityKnown rating \<and> TrustKnown rating"

definition lowestScore :: "NodeRating \<Rightarrow> int" where
  "lowestScore rating =
     foldl (\<lambda>lowest value. if value < lowest then value else lowest) (ComputeScore rating)
       [NetworkScore rating, ReliabilityScore rating, AvailabilityScore rating, TrustScore rating]"

definition DetermineNodeTier :: "NodeRating \<Rightarrow> NodeTier" where
  "DetermineNodeTier rating =
     (if \<not> ComputeKnown rating \<or> \<not> NetworkKnown rating \<or> \<not> ReliabilityKnown rating
         \<or> \<not> AvailabilityKnown rating \<or> \<not> TrustKnown rating
      then NodeTierUnrated
      else (let lowest = lowestScore rating
            in if lowest \<ge> 90 then NodeTierDatacenter
               else if lowest \<ge> 80 then NodeTierPlatinum
               else if lowest \<ge> 70 then NodeTierGold
               else if lowest \<ge> 50 then NodeTierStandard
               else NodeTierBasic))"

section \<open>Lemmas\<close>

text \<open>What a class asks of one dimension: evidence, and at least the minimum.\<close>

definition dimension_ok :: "int \<Rightarrow> bool \<Rightarrow> int \<Rightarrow> bool" where
  "dimension_ok value known minimum \<longleftrightarrow> known \<and> minimum \<le> value"

definition all_dimensions_ok :: "NodeRating \<Rightarrow> int \<Rightarrow> int \<Rightarrow> int \<Rightarrow> int \<Rightarrow> int \<Rightarrow> bool" where
  "all_dimensions_ok rating c n r a t \<longleftrightarrow>
     dimension_ok (ComputeScore rating) (ComputeKnown rating) c
   \<and> dimension_ok (NetworkScore rating) (NetworkKnown rating) n
   \<and> dimension_ok (ReliabilityScore rating) (ReliabilityKnown rating) r
   \<and> dimension_ok (AvailabilityScore rating) (AvailabilityKnown rating) a
   \<and> dimension_ok (TrustScore rating) (TrustKnown rating) t"

lemma check_keeps_or_adds:
  "Limitations (checkKnownMinimum result d v k m) =
     Limitations result @ (if dimension_ok v k m then []
       else [d @ (if k then '' score below workload requirement'' else '' score evidence unavailable'')])"
  by (auto simp: checkKnownMinimum_def limitation_def dimension_ok_def)

lemma checkDimensions_clean:
  "Limitations (checkDimensions rating c n r a t no_result) = [] \<longleftrightarrow> all_dimensions_ok rating c n r a t"
  by (simp add: checkDimensions_def Let_def check_keeps_or_adds all_dimensions_ok_def no_result_def)

lemma conclude_eligible: "Eligible (concludeEligibility res) \<longleftrightarrow> Limitations res = []"
  by (simp add: concludeEligibility_def Let_def)

lemma conclude_limitations: "Limitations (concludeEligibility res) = Limitations res"
  by (simp add: concludeEligibility_def Let_def)

lemma classes_differ: "WorkloadClassTextInference \<noteq> WorkloadClassLargeData"
  by (simp add: WorkloadClassTextInference_def WorkloadClassLargeData_def)

lemma unsupported_not_eligible: "\<not> Eligible (limitation no_result text)"
  by (simp add: limitation_def no_result_def)

lemma lowestScore_le:
  "lowestScore rating \<le> ComputeScore rating" "lowestScore rating \<le> NetworkScore rating"
  "lowestScore rating \<le> ReliabilityScore rating" "lowestScore rating \<le> AvailabilityScore rating"
  "lowestScore rating \<le> TrustScore rating"
  by (simp_all add: lowestScore_def)

lemma tier_unrated_iff: "DetermineNodeTier rating = NodeTierUnrated \<longleftrightarrow> \<not> all_known rating"
  by (auto simp: DetermineNodeTier_def all_known_def Let_def tier_names)

lemma tier_standard:
  "DetermineNodeTier rating \<in> {NodeTierStandard, NodeTierGold, NodeTierPlatinum, NodeTierDatacenter}
   \<Longrightarrow> all_known rating \<and> 50 \<le> lowestScore rating"
  by (auto simp: DetermineNodeTier_def all_known_def Let_def tier_names split: if_splits)

lemma tier_gold:
  "DetermineNodeTier rating \<in> {NodeTierGold, NodeTierPlatinum, NodeTierDatacenter}
   \<Longrightarrow> all_known rating \<and> 70 \<le> lowestScore rating"
  by (auto simp: DetermineNodeTier_def all_known_def Let_def tier_names split: if_splits)

lemma all_ok_of_lowest:
  assumes "all_known rating" "c \<le> lowestScore rating" "n \<le> lowestScore rating" "r \<le> lowestScore rating"
    "a \<le> lowestScore rating" "t \<le> lowestScore rating"
  shows "all_dimensions_ok rating c n r a t"
  using assms lowestScore_le [of rating]
  by (simp add: all_dimensions_ok_def dimension_ok_def all_known_def)

lemma eligibility_ok_iff:
  "Eligible (EvaluateNodeEligibility rating WorkloadClassTextInference) \<longleftrightarrow> all_dimensions_ok rating 40 25 50 50 50"
  "Eligible (EvaluateNodeEligibility rating WorkloadClassLargeData) \<longleftrightarrow> all_dimensions_ok rating 50 70 60 60 60"
  using classes_differ
  by (auto simp: EvaluateNodeEligibility_def conclude_eligible checkDimensions_clean)

section \<open>Properties\<close>

text \<open>C21: a node is eligible exactly when the class is one of the two supported ones and each of
  the five dimensions, on its own, has evidence and reaches the minimum of that class. No
  dimension makes up for another.\<close>

theorem eligibility_iff:
  "Eligible (EvaluateNodeEligibility rating workload) \<longleftrightarrow>
     (workload = WorkloadClassTextInference \<and> all_dimensions_ok rating 40 25 50 50 50)
   \<or> (workload = WorkloadClassLargeData \<and> all_dimensions_ok rating 50 70 60 60 60)"
  using classes_differ
  by (auto simp: EvaluateNodeEligibility_def conclude_eligible checkDimensions_clean
      unsupported_not_eligible)

text \<open>The limitations of a supported class name exactly the failing dimensions, in the order
  compute, network, reliability, availability, trust, each with the reason it fails.\<close>

theorem eligibility_limitations:
  "Limitations (EvaluateNodeEligibility rating WorkloadClassLargeData) =
     concat (map (\<lambda>(d, v, k, m). if dimension_ok v k m then []
         else [d @ (if k then '' score below workload requirement'' else '' score evidence unavailable'')])
       [(''compute'', ComputeScore rating, ComputeKnown rating, 50),
        (''network'', NetworkScore rating, NetworkKnown rating, 70),
        (''reliability'', ReliabilityScore rating, ReliabilityKnown rating, 60),
        (''availability'', AvailabilityScore rating, AvailabilityKnown rating, 60),
        (''trust'', TrustScore rating, TrustKnown rating, 60)])"
  using classes_differ
  by (simp add: EvaluateNodeEligibility_def conclude_limitations checkDimensions_def Let_def
      check_keeps_or_adds no_result_def)

text \<open>The tier agrees with the scheduler. It is \<open>unrated\<close> exactly when evidence for some
  dimension is missing (the constraint of migration 9 on \<open>node_ratings\<close>); a node of tier standard
  or better is eligible for text inference, and a node of tier gold or better for large data
  too.\<close>

theorem tier_implies_eligible:
  "(DetermineNodeTier rating = NodeTierUnrated \<longleftrightarrow> \<not> all_known rating)
   \<and> (DetermineNodeTier rating \<in> {NodeTierStandard, NodeTierGold, NodeTierPlatinum, NodeTierDatacenter}
       \<longrightarrow> Eligible (EvaluateNodeEligibility rating WorkloadClassTextInference))
   \<and> (DetermineNodeTier rating \<in> {NodeTierGold, NodeTierPlatinum, NodeTierDatacenter}
       \<longrightarrow> Eligible (EvaluateNodeEligibility rating WorkloadClassLargeData))"
proof (intro conjI impI)
  show "(DetermineNodeTier rating = NodeTierUnrated) = (\<not> all_known rating)"
    by (rule tier_unrated_iff)
  show "Eligible (EvaluateNodeEligibility rating WorkloadClassTextInference)"
    if "DetermineNodeTier rating \<in> {NodeTierStandard, NodeTierGold, NodeTierPlatinum, NodeTierDatacenter}"
    using tier_standard [OF that] unfolding eligibility_ok_iff by (intro all_ok_of_lowest) auto
  show "Eligible (EvaluateNodeEligibility rating WorkloadClassLargeData)"
    if "DetermineNodeTier rating \<in> {NodeTierGold, NodeTierPlatinum, NodeTierDatacenter}"
    using tier_gold [OF that] unfolding eligibility_ok_iff by (intro all_ok_of_lowest) auto
qed

definition sample_rating :: NodeRating where
  "sample_rating = \<lparr>ComputeScore = 75, NetworkScore = 72, ReliabilityScore = 90, AvailabilityScore = 80,
     TrustScore = 71, ComputeKnown = True, NetworkKnown = True, ReliabilityKnown = True,
     AvailabilityKnown = True, TrustKnown = True, Tier = NodeTierUnrated\<rparr>"

lemma sample_rating_gold: "DetermineNodeTier sample_rating = NodeTierGold"
  by code_simp

theorem tier_implies_eligible_witness:
  "Eligible (EvaluateNodeEligibility sample_rating WorkloadClassLargeData)
   \<and> Eligible (EvaluateNodeEligibility sample_rating WorkloadClassTextInference)"
  using tier_implies_eligible [of sample_rating] sample_rating_gold by simp

end
