(* ===== verification/GoStrings.thy ===== *)
theory GoStrings
  imports Prelude "HOL-Library.Char_ord" "HOL-Library.Sublist" "HOL-Library.Word"
begin

text \<open>
  Go strings and byte slices as lists of bytes (\<open>char\<close> has 8 bits), and the functions of the
  packages \<open>strings\<close> and \<open>strconv\<close> the code calls. \<open>len\<close> is \<open>length\<close>: it counts bytes.
  \<open>TrimSpace\<close> and \<open>Fields\<close> know the white space of Unicode, whose UTF-8 encodings are listed
  in \<open>wide_spaces\<close>; UTF-8 is self-synchronising, so a list of bytes starts (ends) with a white
  space rune exactly when it starts (ends) with one of these encodings.
\<close>

type_synonym bytes = string

section \<open>White space\<close>

definition ascii_space :: "char \<Rightarrow> bool" where
  "ascii_space c \<longleftrightarrow>
     c = CHR '' '' \<or> c = CHR 0x09 \<or> c = CHR 0x0A \<or> c = CHR 0x0B \<or> c = CHR 0x0C \<or> c = CHR 0x0D"

definition wide_spaces :: "string list" where
  "wide_spaces =
     [[CHR 0xC2, CHR 0x85], [CHR 0xC2, CHR 0xA0], [CHR 0xE1, CHR 0x9A, CHR 0x80],
      [CHR 0xE2, CHR 0x80, CHR 0x80], [CHR 0xE2, CHR 0x80, CHR 0x81], [CHR 0xE2, CHR 0x80, CHR 0x82],
      [CHR 0xE2, CHR 0x80, CHR 0x83], [CHR 0xE2, CHR 0x80, CHR 0x84], [CHR 0xE2, CHR 0x80, CHR 0x85],
      [CHR 0xE2, CHR 0x80, CHR 0x86], [CHR 0xE2, CHR 0x80, CHR 0x87], [CHR 0xE2, CHR 0x80, CHR 0x88],
      [CHR 0xE2, CHR 0x80, CHR 0x89], [CHR 0xE2, CHR 0x80, CHR 0x8A], [CHR 0xE2, CHR 0x80, CHR 0xA8],
      [CHR 0xE2, CHR 0x80, CHR 0xA9], [CHR 0xE2, CHR 0x80, CHR 0xAF], [CHR 0xE2, CHR 0x81, CHR 0x9F],
      [CHR 0xE3, CHR 0x80, CHR 0x80]]"

text \<open>Length in bytes of the white space rune at the front of a string, 0 if there is none.\<close>

definition ascii_byte :: "char \<Rightarrow> bool" where
  "ascii_byte c \<longleftrightarrow> (of_char c :: nat) < 128"

fun space_len :: "string list \<Rightarrow> string \<Rightarrow> nat" where
  "space_len ws [] = 0"
| "space_len ws (c # cs) =
     (if ascii_space c then 1
      else if ascii_byte c then 0
      else (case find (\<lambda>w. prefix w (c # cs)) ws of None \<Rightarrow> 0 | Some w \<Rightarrow> length w))"

function trim_front :: "string list \<Rightarrow> string \<Rightarrow> string" where
  "trim_front ws s =
     (if s = [] \<or> space_len ws s = 0 then s else trim_front ws (drop (space_len ws s) s))"
  by pat_completeness auto
termination
  by (relation "measure (\<lambda>(ws, s). length s)") auto

declare trim_front.simps [simp del]

definition TrimSpace :: "string \<Rightarrow> string" where
  "TrimSpace s =
     rev (trim_front (map rev wide_spaces) (rev (trim_front wide_spaces s)))"

lemma length_trim_front: "length (trim_front ws s) \<le> length s"
proof (induction ws s rule: trim_front.induct)
  case (1 ws s)
  then show ?case by (subst trim_front.simps) (auto intro: le_trans)
qed

lemma length_TrimSpace: "length (TrimSpace s) \<le> length s"
  unfolding TrimSpace_def
  by (metis length_rev length_trim_front le_trans)

lemma trim_front_Nil [simp]: "trim_front ws [] = []"
  by (subst trim_front.simps) simp

lemma TrimSpace_Nil [simp]: "TrimSpace [] = []"
  by (simp add: TrimSpace_def)

lemma trim_front_fix: "space_len ws s = 0 \<Longrightarrow> trim_front ws s = s"
  by (subst trim_front.simps) simp

lemma trim_front_done: "trim_front ws s = [] \<or> space_len ws (trim_front ws s) = 0"
proof (induction ws s rule: trim_front.induct)
  case (1 ws s)
  show ?case
  proof (cases "s = [] \<or> space_len ws s = 0")
    case True
    then show ?thesis by (auto simp: trim_front_fix)
  next
    case False
    with 1 have "trim_front ws s = trim_front ws (drop (space_len ws s) s)"
      by (subst trim_front.simps) simp
    with 1 False show ?thesis by simp
  qed
qed

lemma trim_front_idem: "trim_front ws (trim_front ws s) = trim_front ws s"
  using trim_front_done [of ws s] by (auto simp: trim_front_fix)

text \<open>A string that starts and ends with a printable ASCII byte is its own trim.\<close>

definition plain :: "char \<Rightarrow> bool" where
  "plain c \<longleftrightarrow> ascii_byte c \<and> \<not> ascii_space c"

lemma TrimSpace_plain:
  assumes "s \<noteq> []" "plain (hd s)" "plain (last s)"
  shows "TrimSpace s = s"
proof -
  have "space_len wide_spaces s = 0"
    using assms by (cases s) (auto simp: plain_def)
  moreover have "space_len (map rev wide_spaces) (rev s) = 0"
    using assms by (cases s rule: rev_cases) (auto simp: plain_def)
  ultimately show ?thesis by (simp add: TrimSpace_def trim_front_fix)
qed

section \<open>Prefixes, suffixes, cutting, splitting\<close>

definition HasPrefix :: "string \<Rightarrow> string \<Rightarrow> bool" where
  "HasPrefix s p \<longleftrightarrow> prefix p s"

definition HasSuffix :: "string \<Rightarrow> string \<Rightarrow> bool" where
  "HasSuffix s p \<longleftrightarrow> suffix p s"

definition TrimPrefix :: "string \<Rightarrow> string \<Rightarrow> string" where
  "TrimPrefix s p = (if HasPrefix s p then drop (length p) s else s)"

definition TrimSuffix :: "string \<Rightarrow> string \<Rightarrow> string" where
  "TrimSuffix s p = (if HasSuffix s p then take (length s - length p) s else s)"

text \<open>\<open>strings.TrimRight(s, "/")\<close>: drops every trailing byte of the one-byte cutset.\<close>

definition TrimRight :: "string \<Rightarrow> char \<Rightarrow> string" where
  "TrimRight s c = rev (dropWhile (\<lambda>x. x = c) (rev s))"

text \<open>\<open>strings.Split(s, sep)\<close> for a one-byte separator: always at least one piece.\<close>

fun Split :: "char \<Rightarrow> string \<Rightarrow> string list" where
  "Split sep [] = [[]]"
| "Split sep (c # cs) =
     (if c = sep then [] # Split sep cs
      else (case Split sep cs of [] \<Rightarrow> [[c]] | p # ps \<Rightarrow> (c # p) # ps))"

text \<open>\<open>strings.Cut\<close> (and \<open>SplitN\<close> with limit 2) for a one-byte separator.\<close>

definition Cut :: "char \<Rightarrow> string \<Rightarrow> (string \<times> string) option" where
  "Cut sep s =
     (if sep \<in> set s
      then Some (takeWhile (\<lambda>c. c \<noteq> sep) s, tl (dropWhile (\<lambda>c. c \<noteq> sep) s))
      else None)"

text \<open>\<open>strings.Fields\<close>: the maximal runs of non-space bytes, with an accumulator for the run.\<close>

function fields_from :: "string \<Rightarrow> string \<Rightarrow> string list" where
  "fields_from acc [] = (if acc = [] then [] else [rev acc])"
| "fields_from acc (c # cs) =
     (if space_len wide_spaces (c # cs) = 0 then fields_from (c # acc) cs
      else (if acc = [] then [] else [rev acc])
           @ fields_from [] (drop (space_len wide_spaces (c # cs)) (c # cs)))"
  by pat_completeness auto
termination
  by (relation "measure (\<lambda>(acc, s). length s)") (auto split: if_splits option.splits)

definition Fields :: "string \<Rightarrow> string list" where
  "Fields s = fields_from [] s"

fun Join :: "string list \<Rightarrow> string \<Rightarrow> string" where
  "Join [] sep = []"
| "Join [x] sep = x"
| "Join (x # y # xs) sep = x @ sep @ Join (y # xs) sep"

lemma Split_not_Nil [simp]: "Split sep s \<noteq> []"
  by (induction s) (auto split: list.splits)

lemma Split_no_sep: "p \<in> set (Split sep s) \<Longrightarrow> sep \<notin> set p"
  by (induction s arbitrary: p) (auto split: list.splits if_splits)

lemma Join_Split: "Join (Split sep s) [sep] = s"
proof (induction s)
  case (Cons c cs)
  then obtain p ps where ps: "Split sep cs = p # ps"
    by (cases "Split sep cs") auto
  with Cons show ?case by (cases ps) auto
qed simp

lemma Cut_Some:
  assumes "Cut sep s = Some (k, v)"
  shows "s = k @ sep # v" "sep \<notin> set k"
proof -
  from assms have "sep \<in> set s" and kv: "k = takeWhile (\<lambda>c. c \<noteq> sep) s"
      "v = tl (dropWhile (\<lambda>c. c \<noteq> sep) s)"
    by (auto simp: Cut_def split: if_splits)
  then obtain d where "dropWhile (\<lambda>c. c \<noteq> sep) s = sep # d"
    by (metis (mono_tags, lifting) dropWhile_eq_Nil_conv hd_Cons_tl hd_dropWhile)
  with kv show "s = k @ sep # v"
    by (metis list.sel(3) takeWhile_dropWhile_id)
  from kv show "sep \<notin> set k"
    by (auto dest: set_takeWhileD)
qed

lemma fields_from_nonempty: "f \<in> set (fields_from acc s) \<Longrightarrow> f \<noteq> []"
  by (induction acc s rule: fields_from.induct) (auto split: if_splits)

lemma Fields_nonempty: "f \<in> set (Fields s) \<Longrightarrow> f \<noteq> []"
  by (simp add: Fields_def fields_from_nonempty)

lemma HasPrefix_TrimPrefix: "HasPrefix s p \<Longrightarrow> p @ TrimPrefix s p = s"
  by (auto simp: HasPrefix_def TrimPrefix_def prefix_def)

section \<open>Letter case\<close>

definition lower_char :: "char \<Rightarrow> char" where
  "lower_char c = (if 65 \<le> (of_char c :: nat) \<and> (of_char c :: nat) \<le> 90
                   then char_of ((of_char c :: nat) + 32) else c)"

text \<open>
  \<open>strings.ToLower\<close> and \<open>strings.EqualFold\<close> as far as a comparison with ASCII text can see
  them: beside the ASCII letters, exactly the Kelvin sign (U+212A) and the dotted capital I
  (U+0130) have an ASCII lower case, and exactly the Kelvin sign and the long s (U+017F) fold to
  ASCII letters. Every other rune keeps an encoding outside ASCII. The code compares the results
  with ASCII constants only.
\<close>

fun map_runes :: "(string \<times> char) list \<Rightarrow> string \<Rightarrow> string" where
  "map_runes tab [] = []"
| "map_runes tab (c # cs) =
     (if ascii_byte c then lower_char c # map_runes tab cs
      else (case find (\<lambda>(w, _). prefix w (c # cs)) tab of
              None \<Rightarrow> c # map_runes tab cs
            | Some (w, d) \<Rightarrow> d # map_runes tab (drop (length w - 1) cs)))"

definition ToLower :: "string \<Rightarrow> string" where
  "ToLower = map_runes [([CHR 0xE2, CHR 0x84, CHR 0xAA], CHR ''k''), ([CHR 0xC4, CHR 0xB0], CHR ''i'')]"

definition fold_runes :: "string \<Rightarrow> string" where
  "fold_runes = map_runes [([CHR 0xE2, CHR 0x84, CHR 0xAA], CHR ''k''), ([CHR 0xC5, CHR 0xBF], CHR ''s'')]"

definition EqualFold :: "string \<Rightarrow> string \<Rightarrow> bool" where
  "EqualFold s t \<longleftrightarrow> fold_runes s = fold_runes t"

lemma map_runes_ascii: "list_all ascii_byte s \<Longrightarrow> map_runes tab s = map lower_char s"
  by (induction s) auto

definition upper_char :: "char \<Rightarrow> char" where
  "upper_char c = (if 97 \<le> (of_char c :: nat) \<and> (of_char c :: nat) \<le> 122
                   then char_of ((of_char c :: nat) - 32) else c)"

definition Contains :: "string \<Rightarrow> string \<Rightarrow> bool" where
  "Contains s t \<longleftrightarrow> sublist t s"

section \<open>Decimal numbers\<close>

definition is_digit :: "char \<Rightarrow> bool" where
  "is_digit c \<longleftrightarrow> 48 \<le> (of_char c :: nat) \<and> (of_char c :: nat) \<le> 57"

definition digit_val :: "char \<Rightarrow> int" where
  "digit_val c = of_char c - 48"

definition digits_val :: "string \<Rightarrow> int" where
  "digits_val s = foldl (\<lambda>n c. 10 * n + digit_val c) 0 s"

text \<open>\<open>strconv.ParseUint(s, 10, 64)\<close>, \<open>ParseInt(s, 10, 64)\<close> and \<open>Atoi\<close> (on a 64-bit
  platform the two agree): \<open>None\<close> is any error, syntax or range.\<close>

type_synonym u64 = "64 word"

definition ParseUint :: "string \<Rightarrow> u64 option" where
  "ParseUint s =
     (if s \<noteq> [] \<and> list_all is_digit s \<and> digits_val s < 2 ^ 64
      then Some (word_of_int (digits_val s)) else None)"

definition ParseInt :: "string \<Rightarrow> int option" where
  "ParseInt s =
     (let (neg, ds) = (case s of [] \<Rightarrow> (False, [])
                       | c # cs \<Rightarrow> if c = CHR ''-'' then (True, cs)
                                   else if c = CHR ''+'' then (False, cs) else (False, s));
          v = (if neg then - digits_val ds else digits_val ds)
      in if ds \<noteq> [] \<and> list_all is_digit ds \<and> - (2 ^ 63) \<le> v \<and> v < 2 ^ 63 then Some v else None)"

definition Atoi :: "string \<Rightarrow> int option" where
  "Atoi = ParseInt"

lemma ParseInt_range: "ParseInt s = Some v \<Longrightarrow> - (2 ^ 63) \<le> v \<and> v < 2 ^ 63"
  by (auto simp: ParseInt_def Let_def split: if_splits prod.splits)

text \<open>\<open>%d\<close> of a non-negative and of any integer.\<close>

fun nat_dec :: "nat \<Rightarrow> string" where
  "nat_dec n = (if n < 10 then [char_of (48 + n)] else nat_dec (n div 10) @ [char_of (48 + n mod 10)])"

declare nat_dec.simps [simp del]

definition Itoa :: "int \<Rightarrow> string" where
  "Itoa i = (if i < 0 then CHR ''-'' # nat_dec (nat (- i)) else nat_dec (nat i))"

lemma digits_val_snoc: "digits_val (s @ [c]) = 10 * digits_val s + digit_val c"
  by (simp add: digits_val_def)

lemma digit_char: "n < 10 \<Longrightarrow> is_digit (char_of (48 + n)) \<and> digit_val (char_of (48 + n)) = int n"
proof -
  assume "n < 10"
  then have "(of_char (char_of (48 + n) :: char) :: nat) = 48 + n" by simp
  moreover have "(of_char (char_of (48 + n) :: char) :: int) = int (of_char (char_of (48 + n) :: char))"
    by (simp add: of_char_def)
  ultimately show ?thesis using \<open>n < 10\<close> by (simp add: is_digit_def digit_val_def)
qed

lemma nat_dec_digits:
  "nat_dec n \<noteq> [] \<and> list_all is_digit (nat_dec n) \<and> digits_val (nat_dec n) = int n"
proof (induction n rule: nat_dec.induct)
  case (1 n)
  show ?case
  proof (cases "n < 10")
    case True
    then show ?thesis
      using digit_char [of n] by (simp add: nat_dec.simps [of n] digits_val_def)
  next
    case False
    with 1 show ?thesis
      using digit_char [of "n mod 10"]
      by (simp add: nat_dec.simps [of n] digits_val_snoc zdiv_int zmod_int)
  qed
qed

lemma ParseUint_nat_dec: "n < 2 ^ 64 \<Longrightarrow> ParseUint (nat_dec n) = Some (of_nat n)"
proof -
  assume "n < 2 ^ 64"
  then have "int n < 2 ^ 64" by (metis of_nat_less_iff of_nat_numeral of_nat_power)
  then show ?thesis using nat_dec_digits [of n] by (simp add: ParseUint_def)
qed

end
