(* ===== verification/GoEncoding.thy ===== *)
theory GoEncoding
  imports GoStrings
begin

unbundle bit_operations_syntax

text \<open>
  Decoded binary data (keys, signatures, digests, UUIDs) as lists of bytes \<open>8 word\<close>, the
  packages \<open>encoding/hex\<close> and \<open>encoding/base64\<close> (\<open>RawStdEncoding\<close>, \<open>RawURLEncoding\<close>), and the
  UUIDv4 functions, which \<open>agent/identity.go\<close> and \<open>server/enrollment.go\<close> share word for word.
\<close>

type_synonym u8 = "8 word"

section \<open>Hexadecimal\<close>

definition hex_digits :: string where
  "hex_digits = ''0123456789abcdef''"

definition hex_char :: "nat \<Rightarrow> char" where
  "hex_char n = hex_digits ! n"

definition hex_val :: "char \<Rightarrow> nat option" where
  "hex_val c =
     (let n = (of_char c :: nat)
      in if 48 \<le> n \<and> n \<le> 57 then Some (n - 48)
         else if 97 \<le> n \<and> n \<le> 102 then Some (n - 87)
         else if 65 \<le> n \<and> n \<le> 70 then Some (n - 55) else None)"

fun hex_encode :: "u8 list \<Rightarrow> string" where
  "hex_encode [] = []"
| "hex_encode (b # bs) = hex_char (unat b div 16) # hex_char (unat b mod 16) # hex_encode bs"

fun hex_decode :: "string \<Rightarrow> u8 list option" where
  "hex_decode [] = Some []"
| "hex_decode [c] = None"
| "hex_decode (c # d # cs) =
     (case (hex_val c, hex_val d, hex_decode cs) of
        (Some h, Some l, Some bs) \<Rightarrow> Some (of_nat (16 * h + l) # bs)
      | _ \<Rightarrow> None)"

lemma all_below_16:
  "\<forall>n < 16. hex_val (hex_char n) = Some n \<and> hex_char n \<noteq> CHR ''-'' \<and> hex_char n \<in> set hex_digits"
proof -
  have "list_all (\<lambda>n. hex_val (hex_char n) = Some n \<and> hex_char n \<noteq> CHR ''-''
          \<and> hex_char n \<in> set hex_digits) [0..<16]"
    by code_simp
  then show ?thesis by (simp add: list_all_iff)
qed

lemma hex_val_char: "n < 16 \<Longrightarrow> hex_val (hex_char n) = Some n"
  using all_below_16 by blast

lemma u8_bound: "unat (b :: u8) < 256"
proof -
  have "unat b < 2 ^ LENGTH(8)" by (rule unsigned_less)
  then show ?thesis by simp
qed

lemma u8_nibbles: "unat (b :: u8) div 16 < 16"
  using u8_bound [of b] by (simp add: less_mult_imp_div_less)

lemma hex_decode_encode: "hex_decode (hex_encode bs) = Some bs"
proof (induction bs)
  case (Cons b bs)
  have "16 * (unat b div 16) + unat b mod 16 = unat b" by simp
  then show ?case
    using Cons u8_nibbles [of b] by (simp add: hex_val_char del: of_nat_add of_nat_mult)
qed simp

lemma length_hex_encode: "length (hex_encode bs) = 2 * length bs"
  by (induction bs) auto

lemma set_hex_encode: "set (hex_encode bs) \<subseteq> set hex_digits"
proof (induction bs)
  case (Cons b bs)
  with all_below_16 u8_nibbles [of b] show ?case by auto
qed simp

lemma no_dash_hex_encode: "CHR ''-'' \<notin> set (hex_encode bs)"
  using set_hex_encode [of bs] by (auto simp: hex_digits_def)

lemma hex_encode_inj: "hex_encode bs = hex_encode bs' \<longleftrightarrow> bs = bs'"
  by (metis hex_decode_encode option.inject)

section \<open>Base64 without padding\<close>

definition std_alphabet :: string where
  "std_alphabet = ''ABCDEFGHIJKLMNOPQRSTUVWXYZabcdefghijklmnopqrstuvwxyz0123456789+/''"

definition url_alphabet :: string where
  "url_alphabet = ''ABCDEFGHIJKLMNOPQRSTUVWXYZabcdefghijklmnopqrstuvwxyz0123456789-_''"

fun b64_encode :: "string \<Rightarrow> u8 list \<Rightarrow> string" where
  "b64_encode al (a # b # c # bs) =
     (let n = 65536 * uint a + 256 * uint b + uint c
      in al ! nat (n div 262144) # al ! nat (n div 4096 mod 64) # al ! nat (n div 64 mod 64)
         # al ! nat (n mod 64) # b64_encode al bs)"
| "b64_encode al [a, b] =
     (let n = 1024 * uint a + 4 * uint b
      in [al ! nat (n div 4096), al ! nat (n div 64 mod 64), al ! nat (n mod 64)])"
| "b64_encode al [a] = (let n = 16 * uint a in [al ! nat (n div 64), al ! nat (n mod 64)])"
| "b64_encode al [] = []"

fun index_of :: "string \<Rightarrow> char \<Rightarrow> int option" where
  "index_of [] c = None"
| "index_of (x # xs) c = (if x = c then Some 0 else map_option (\<lambda>i. i + 1) (index_of xs c))"

text \<open>The decoder skips carriage returns and newlines, rejects every other byte outside the
  alphabet and a lone trailing character, and drops the unused low bits of a short group.\<close>

fun b64_groups :: "int list \<Rightarrow> u8 list option" where
  "b64_groups (a # b # c # d # vs) =
     (case b64_groups vs of None \<Rightarrow> None
      | Some bs \<Rightarrow> (let n = 262144 * a + 4096 * b + 64 * c + d
                   in Some (word_of_int (n div 65536) # word_of_int (n div 256 mod 256)
                            # word_of_int (n mod 256) # bs)))"
| "b64_groups [a, b, c] =
     (let n = 4096 * a + 64 * b + c
      in Some [word_of_int (n div 1024), word_of_int (n div 4 mod 256)])"
| "b64_groups [a, b] = (let n = 64 * a + b in Some [word_of_int (n div 16)])"
| "b64_groups [a] = None"
| "b64_groups [] = Some []"

fun all_some :: "'a option list \<Rightarrow> 'a list option" where
  "all_some [] = Some []"
| "all_some (None # xs) = None"
| "all_some (Some x # xs) = map_option (Cons x) (all_some xs)"

definition b64_values :: "string \<Rightarrow> string \<Rightarrow> int list option" where
  "b64_values al s = all_some (map (index_of al) (filter (\<lambda>c. c \<noteq> CHR 0x0A \<and> c \<noteq> CHR 0x0D) s))"

definition b64_decode :: "string \<Rightarrow> string \<Rightarrow> u8 list option" where
  "b64_decode al s = (case b64_values al s of None \<Rightarrow> None | Some vs \<Rightarrow> b64_groups vs)"

text \<open>\<open>base64.RawStdEncoding.DecodeString\<close> and \<open>EncodeToString\<close>.\<close>

definition DecodeString :: "string \<Rightarrow> u8 list option" where
  "DecodeString = b64_decode std_alphabet"

definition EncodeToString :: "u8 list \<Rightarrow> string" where
  "EncodeToString = b64_encode std_alphabet"

definition alphabet_ok :: "string \<Rightarrow> bool" where
  "alphabet_ok al \<longleftrightarrow> length al = 64 \<and>
     list_all (\<lambda>n. index_of al (al ! n) = Some (int n) \<and> al ! n \<noteq> CHR 0x0A \<and> al ! n \<noteq> CHR 0x0D) [0..<64]"

lemma std_alphabet_ok: "alphabet_ok std_alphabet" by code_simp
lemma url_alphabet_ok: "alphabet_ok url_alphabet" by code_simp

lemma b64_values_Nil [simp]: "b64_values al [] = Some []"
  by (simp add: b64_values_def)

lemma b64_values_nth:
  assumes "alphabet_ok al" "0 \<le> n" "n < 64"
  shows "b64_values al (al ! nat n # s) = map_option (Cons n) (b64_values al s)"
proof -
  have "index_of al (al ! nat n) = Some (int (nat n))"
    "al ! nat n \<noteq> CHR 0x0A" "al ! nat n \<noteq> CHR 0x0D"
    using assms by (auto simp: alphabet_ok_def list_all_iff)
  then show ?thesis using assms(2) by (simp add: b64_values_def)
qed

lemma b64_values_app:
  assumes "alphabet_ok al" "list_all (\<lambda>v. 0 \<le> v \<and> v < 64) us"
  shows "b64_values al (map (\<lambda>v. al ! nat v) us @ s) = map_option ((@) us) (b64_values al s)"
  using assms(2)
proof (induction us)
  case Nil
  then show ?case by (cases "b64_values al s") auto
next
  case (Cons v us)
  then show ?case by (cases "b64_values al s") (auto simp: b64_values_nth [OF assms(1)])
qed

lemma mod64_ok: "0 \<le> (v :: int) mod 64 \<and> v mod 64 < 64"
  by simp

lemma u8_int: "0 \<le> uint (b :: u8)" "uint b < 256"
proof -
  have "uint b < 2 ^ LENGTH(8)" by (rule unsigned_less)
  then show "uint b < 256" by simp
qed simp

lemma word_of_uint: "word_of_int (uint (b :: u8)) = b"
  by simp

text \<open>Splitting a 24-bit, 18-bit or 12-bit group into sextets and back.\<close>

lemma div_less_bound: "0 < k \<Longrightarrow> (n :: int) < m * k \<Longrightarrow> n div k < m"
proof (rule ccontr)
  assume k: "0 < k" "n < m * k" "\<not> n div k < m"
  then have "m * k \<le> n div k * k" by (intro mult_right_mono) auto
  moreover have "n div k * k \<le> n" using k(1) pos_mod_sign [of k n] div_mult_mod_eq [of n k] by linarith
  ultimately show False using k(2) by linarith
qed

lemma sextet: "(n :: int) div (64 * k) * 64 + n div k mod 64 = n div k" if "0 < k"
proof -
  have "n div (64 * k) = n div k div 64" using that zdiv_zmult2_eq [of 64 n k] by (simp add: mult.commute [of 64])
  then show ?thesis by simp
qed

lemma sextets3:
  fixes n :: int assumes "0 \<le> n" "n < 16777216"
  shows "0 \<le> n div 262144" "n div 262144 < 64"
    "262144 * (n div 262144) + 4096 * (n div 4096 mod 64) + 64 * (n div 64 mod 64) + n mod 64 = n"
proof -
  show "0 \<le> n div 262144" using assms by (simp add: pos_imp_zdiv_nonneg_iff)
  show "n div 262144 < 64" using assms by (simp add: div_less_bound)
  define p q r where "p = n div 262144" and "q = n div 4096" and "r = n div 64"
  have "p * 64 + q mod 64 = q" "q * 64 + r mod 64 = r" "r * 64 + n mod 64 = n"
    using sextet [of 4096 n] sextet [of 64 n] by (simp_all add: p_def q_def r_def)
  then show "262144 * (n div 262144) + 4096 * (n div 4096 mod 64) + 64 * (n div 64 mod 64) + n mod 64 = n"
    unfolding p_def [symmetric] q_def [symmetric] r_def [symmetric] by linarith
qed

lemma octets3:
  fixes a b c :: int assumes "0 \<le> a" "a < 256" "0 \<le> b" "b < 256" "0 \<le> c" "c < 256"
  defines "n \<equiv> 65536 * a + 256 * b + c"
  shows "n div 65536 = a" "n div 256 mod 256 = b" "n mod 256 = c" "0 \<le> n" "n < 16777216"
proof -
  show "0 \<le> n" "n < 16777216" using assms by (simp_all add: n_def)
  show "n div 65536 = a" using assms by (intro int_div_pos_eq [where r = "256 * b + c"]) (simp_all add: n_def)
  show "n mod 256 = c" using assms by (intro int_mod_pos_eq [where q = "256 * a + b"]) (simp_all add: n_def)
  have "n div 256 = 256 * a + b" using assms by (intro int_div_pos_eq [where r = c]) (simp_all add: n_def)
  then show "n div 256 mod 256 = b" using assms by simp
qed

lemma sextets2:
  fixes a b :: int assumes "0 \<le> a" "a < 256" "0 \<le> b" "b < 256"
  defines "n \<equiv> 1024 * a + 4 * b"
  shows "0 \<le> n div 4096" "n div 4096 < 64"
    "4096 * (n div 4096) + 64 * (n div 64 mod 64) + n mod 64 = n"
    "n div 1024 = a" "n div 4 mod 256 = b"
proof -
  have n: "0 \<le> n" "n < 262144" using assms by (simp_all add: n_def)
  then show "0 \<le> n div 4096" by (simp add: pos_imp_zdiv_nonneg_iff)
  show "n div 4096 < 64" using n by (simp add: div_less_bound)
  define q r where "q = n div 4096" and "r = n div 64"
  have "q * 64 + r mod 64 = r" "r * 64 + n mod 64 = n"
    using sextet [of 64 n] by (simp_all add: q_def r_def)
  then show "4096 * (n div 4096) + 64 * (n div 64 mod 64) + n mod 64 = n"
    unfolding q_def [symmetric] r_def [symmetric] by linarith
  show "n div 1024 = a" using assms by (intro int_div_pos_eq [where r = "4 * b"]) (simp_all add: n_def)
  have "n div 4 = 256 * a + b" using assms by (intro int_div_pos_eq [where r = 0]) (simp_all add: n_def)
  then show "n div 4 mod 256 = b" using assms by simp
qed

lemma sextets1:
  fixes a :: int assumes "0 \<le> a" "a < 256"
  shows "0 \<le> 16 * a div 64" "16 * a div 64 < 64" "64 * (16 * a div 64) + 16 * a mod 64 = 16 * a"
    "16 * a div 16 = a"
proof -
  show "0 \<le> 16 * a div 64" using assms by (simp add: pos_imp_zdiv_nonneg_iff)
  show "16 * a div 64 < 64" using assms by (intro div_less_bound) auto
  show "64 * (16 * a div 64) + 16 * a mod 64 = 16 * a" by (rule mult_div_mod_eq)
  show "16 * a div 16 = a" by simp
qed

lemma b64_groups4:
  assumes "b64_groups vs = Some bs" "262144 * p + 4096 * q + 64 * r + s = n"
    "n div 65536 = uint a" "n div 256 mod 256 = uint b" "n mod 256 = uint c"
  shows "b64_groups (p # q # r # s # vs) = Some (a # b # c # bs)"
  using assms(1) by (simp only: b64_groups.simps Let_def option.case assms(2-) word_of_uint)

lemma b64_groups3:
  assumes "4096 * p + 64 * q + r = n" "n div 1024 = uint a" "n div 4 mod 256 = uint b"
  shows "b64_groups [p, q, r] = Some [a, b]"
  by (simp only: b64_groups.simps Let_def assms word_of_uint)

lemma b64_values_encode:
  assumes "alphabet_ok al"
  shows "\<exists>vs. b64_values al (b64_encode al bs) = Some vs \<and> b64_groups vs = Some bs"
  using assms
proof (induction al bs rule: b64_encode.induct)
  case (1 al a b c bs)
  define n where "n = 65536 * uint a + 256 * uint b + uint c"
  note r = octets3 [OF u8_int u8_int u8_int, of a b c, folded n_def]
  from 1 obtain vs where vs: "b64_values al (b64_encode al bs) = Some vs" "b64_groups vs = Some bs" by blast
  let ?us = "[n div 262144, n div 4096 mod 64, n div 64 mod 64, n mod 64]"
  have us: "list_all (\<lambda>v. 0 \<le> v \<and> v < 64) ?us"
    using sextets3(1,2) [OF r(4,5)] mod64_ok by (simp only: list.pred_inject simp_thms)
  have "b64_encode al (a # b # c # bs) = map (\<lambda>v. al ! nat v) ?us @ b64_encode al bs"
    by (simp only: b64_encode.simps Let_def n_def list.map append.simps)
  then have "b64_values al (b64_encode al (a # b # c # bs)) = Some (?us @ vs)"
    using b64_values_app [OF 1(2) us] vs(1) by (simp only: option.map)
  moreover have "b64_groups (?us @ vs) = Some (a # b # c # bs)"
    unfolding append.simps by (rule b64_groups4 [OF vs(2) sextets3(3) [OF r(4,5)] r(1-3)])
  ultimately show ?case by blast
next
  case (2 al a b)
  define n where "n = 1024 * uint a + 4 * uint b"
  note r = sextets2 [OF u8_int u8_int, of a b, folded n_def]
  let ?us = "[n div 4096, n div 64 mod 64, n mod 64]"
  have us: "list_all (\<lambda>v. 0 \<le> v \<and> v < 64) ?us"
    using r(1,2) mod64_ok by (simp only: list.pred_inject simp_thms)
  have "b64_encode al [a, b] = map (\<lambda>v. al ! nat v) ?us @ []"
    by (simp only: b64_encode.simps Let_def n_def list.map append.simps)
  then have "b64_values al (b64_encode al [a, b]) = Some ?us"
    using b64_values_app [OF 2 us, of "[]"] by (simp only: b64_values_Nil option.map append_Nil2)
  moreover have "b64_groups ?us = Some [a, b]" by (rule b64_groups3 [OF r(3-5)])
  ultimately show ?case by blast
next
  case (3 al a)
  note r = sextets1 [OF u8_int, of a]
  let ?us = "[16 * uint a div 64, 16 * uint a mod 64]"
  have us: "list_all (\<lambda>v. 0 \<le> v \<and> v < 64) ?us"
    using r(1,2) mod64_ok by (simp only: list.pred_inject simp_thms)
  have "b64_encode al [a] = map (\<lambda>v. al ! nat v) ?us @ []"
    by (simp only: b64_encode.simps Let_def list.map append.simps)
  then have "b64_values al (b64_encode al [a]) = Some ?us"
    using b64_values_app [OF 3 us, of "[]"] by (simp only: b64_values_Nil option.map append_Nil2)
  moreover have "b64_groups ?us = Some [a]" using r(3,4) by (simp only: b64_groups.simps Let_def word_of_uint)
  ultimately show ?case by blast
qed auto

lemma b64_decode_encode: "alphabet_ok al \<Longrightarrow> b64_decode al (b64_encode al bs) = Some bs"
  using b64_values_encode [of al bs] by (auto simp: b64_decode_def)

lemma Decode_EncodeToString: "DecodeString (EncodeToString bs) = Some bs"
  by (simp add: DecodeString_def EncodeToString_def b64_decode_encode std_alphabet_ok)

section \<open>UUID version 4\<close>

text \<open>\<open>newUUIDv4\<close> on the 16 random bytes it drew, and \<open>validUUIDv4\<close>.\<close>

definition slice :: "nat \<Rightarrow> nat \<Rightarrow> 'a list \<Rightarrow> 'a list" where
  "slice i j s = take (j - i) (drop i s)"

definition newUUIDv4 :: "u8 list \<Rightarrow> string" where
  "newUUIDv4 raw0 =
     (let raw1 = raw0[6 := (raw0 ! 6 AND 0x0F) OR 0x40];
          raw = raw1[8 := (raw1 ! 8 AND 0x3F) OR 0x80];
          hexValue = hex_encode raw
      in slice 0 8 hexValue @ ''-'' @ slice 8 12 hexValue @ ''-'' @ slice 12 16 hexValue @ ''-''
         @ slice 16 20 hexValue @ ''-'' @ slice 20 32 hexValue)"

definition validUUIDv4 :: "string \<Rightarrow> bool" where
  "validUUIDv4 value \<longleftrightarrow>
     \<not> (length value \<noteq> 36 \<or> value ! 8 \<noteq> CHR ''-'' \<or> value ! 13 \<noteq> CHR ''-''
        \<or> value ! 18 \<noteq> CHR ''-'' \<or> value ! 23 \<noteq> CHR ''-'')
     \<and> (case hex_decode (filter (\<lambda>c. c \<noteq> CHR ''-'') value) of
          None \<Rightarrow> False
        | Some raw \<Rightarrow> length raw = 16 \<and> drop_bit 4 (raw ! 6) = 4 \<and> raw ! 8 AND 0xC0 = 0x80)"

lemma version_bits: "drop_bit 4 ((x AND 0x0F) OR 0x40 :: u8) = 4"
  by (auto intro!: bit_word_eqI simp: bit_simps)

lemma variant_bits: "((x AND 0x3F) OR 0x80 :: u8) AND 0xC0 = 0x80"
proof (rule bit_word_eqI)
  fix n assume "n < LENGTH(8)"
  then have "n = 0 \<or> n = 1 \<or> n = 2 \<or> n = 3 \<or> n = 4 \<or> n = 5 \<or> n = 6 \<or> n = 7" by auto
  then show "bit (((x AND 0x3F) OR 0x80 :: u8) AND 0xC0) n \<longleftrightarrow> bit (0x80 :: u8) n"
    by (auto simp: bit_simps)
qed

lemma length_slice: "j \<le> length s \<Longrightarrow> length (slice i j s) = j - i"
  by (simp add: slice_def)

lemma slice_join:
  assumes "i \<le> j" "j \<le> k"
  shows "slice i j s @ slice j k s = slice i k s"
proof -
  have "take ((j - i) + (k - j)) (drop i s) = take (j - i) (drop i s) @ take (k - j) (drop (j - i) (drop i s))"
    by (rule take_add)
  then show ?thesis using assms by (simp add: slice_def)
qed

lemma slice_full: "slice 0 (length s) s = s"
  by (simp add: slice_def)

lemma validUUIDv4_newUUIDv4:
  assumes "length raw = 16"
  shows "validUUIDv4 (newUUIDv4 raw)"
proof -
  define r1 where "r1 = raw[6 := (raw ! 6 AND 0x0F) OR 0x40]"
  define r where "r = r1[8 := (r1 ! 8 AND 0x3F) OR 0x80]"
  define h where "h = hex_encode r"
  have len: "length r = 16" "length h = 32" using assms by (simp_all add: r_def r1_def h_def length_hex_encode)
  have uuid: "newUUIDv4 raw = slice 0 8 h @ ''-'' @ slice 8 12 h @ ''-'' @ slice 12 16 h @ ''-''
         @ slice 16 20 h @ ''-'' @ slice 20 32 h"
    by (simp add: newUUIDv4_def Let_def r_def r1_def h_def)
  have ls: "length (slice 0 8 h) = 8" "length (slice 8 12 h) = 4" "length (slice 12 16 h) = 4"
    "length (slice 16 20 h) = 4" "length (slice 20 32 h) = 12"
    using len by (simp_all add: length_slice)
  have nd: "filter (\<lambda>c. c \<noteq> CHR ''-'') (slice i j h) = slice i j h" for i j
  proof -
    have "set (slice i j h) \<subseteq> set h" unfolding slice_def by (meson order_trans set_drop_subset set_take_subset)
    then show ?thesis using no_dash_hex_encode [of r] by (auto simp: filter_id_conv h_def)
  qed
  have "filter (\<lambda>c. c \<noteq> CHR ''-'') (newUUIDv4 raw)
      = slice 0 8 h @ slice 8 12 h @ slice 12 16 h @ slice 16 20 h @ slice 20 32 h"
    by (simp add: uuid nd)
  also have "\<dots> = h"
    using len slice_full [of h] by (simp add: slice_join)
  finally have dec: "hex_decode (filter (\<lambda>c. c \<noteq> CHR ''-'') (newUUIDv4 raw)) = Some r"
    by (simp add: h_def hex_decode_encode)
  have "drop_bit 4 (r ! 6) = 4" "r ! 8 AND 0xC0 = 0x80"
    using assms by (simp_all add: r_def r1_def version_bits variant_bits)
  moreover have "length (newUUIDv4 raw) = 36" using ls by (simp add: uuid)
  moreover have "newUUIDv4 raw ! 8 = CHR ''-''" "newUUIDv4 raw ! 13 = CHR ''-''"
    "newUUIDv4 raw ! 18 = CHR ''-''" "newUUIDv4 raw ! 23 = CHR ''-''"
    using ls by (simp_all add: uuid nth_append)
  ultimately show ?thesis using dec len by (simp add: validUUIDv4_def)
qed

end
