(* ===== verification/GoFloat.thy ===== *)
theory GoFloat
  imports Prelude Complex_Main "HOL-Library.Log_Nat"
begin

text \<open>
  Go's \<open>float64\<close>: IEEE 754 binary64 with round to nearest, ties to even. A value is a real
  number, an infinity or NaN (the two zeros are one value: the code never divides by a zero
  whose sign it could see). Every arithmetic operation is the exact real operation followed by
  the rounding \<open>fl\<close>; a multiply-add is not fused, as on amd64, the platform of both machines
  the repository's records name.

  The locale \<open>rounding\<close> is the interface the score components rely on: monotone, exact on
  integers of moderate size, odd. It is interpreted on \<open>fround\<close>, the model's own rounding.
\<close>

section \<open>Rounding a real number to 53 bits\<close>

text \<open>Floor of the binary logarithm of a positive real, computed on integers.\<close>

definition ilog2 :: "real \<Rightarrow> int" where
  "ilog2 x = (if 1 \<le> x then bitlen \<lfloor>x\<rfloor> - 1 else - bitlen (\<lceil>1 / x\<rceil> - 1))"

definition round_even :: "real \<Rightarrow> int" where
  "round_even z =
     (let n = \<lfloor>z\<rfloor>; d = z - of_int n
      in if d < 1 / 2 then n else if 1 / 2 < d then n + 1 else if even n then n else n + 1)"

definition ulp_exp :: "real \<Rightarrow> int" where
  "ulp_exp x = max (ilog2 \<bar>x\<bar> - 52) (- 1074)"

definition fround :: "real \<Rightarrow> real" where
  "fround x =
     (if x = 0 then 0
      else of_int (round_even (x / 2 powi (ulp_exp x))) * 2 powi (ulp_exp x))"

lemma bitlen_split:
  assumes "1 \<le> n"
  obtains k where "bitlen n = int k + 1" "(2::real) ^ k \<le> of_int n" "of_int n + 1 \<le> (2::real) ^ Suc k"
proof -
  define k where "k = nat (bitlen n - 1)"
  from assms have "bitlen n \<noteq> 0" by (simp add: bitlen_eq_zero_iff)
  with bitlen_nonneg [of n] have k: "bitlen n = int k + 1" by (simp add: k_def)
  then have "nat (bitlen n) = Suc k" by simp
  with bitlen_bounds [of n] assms have b: "2 ^ k \<le> n" "n + 1 \<le> 2 ^ Suc k" by (auto simp: k_def)
  from b(1) have "real_of_int (2 ^ k) \<le> of_int n" by (simp only: of_int_le_iff)
  then have "(2::real) ^ k \<le> of_int n" by simp
  moreover from b(2) have "real_of_int (n + 1) \<le> of_int (2 ^ Suc k)" by (simp only: of_int_le_iff)
  then have "of_int n + 1 \<le> (2::real) ^ Suc k" by simp
  ultimately show thesis using k by (rule_tac that)
qed

lemma ilog2_bounds:
  assumes "0 < x"
  shows "2 powi (ilog2 x) \<le> x" "x < 2 powi (ilog2 x + 1)"
proof -
  have "2 powi (ilog2 x) \<le> x \<and> x < 2 powi (ilog2 x + 1)"
  proof (cases "1 \<le> x")
    case True
    then have "1 \<le> \<lfloor>x\<rfloor>" by (simp add: le_floor_iff)
    then obtain k where k: "bitlen \<lfloor>x\<rfloor> = int k + 1" "(2::real) ^ k \<le> of_int \<lfloor>x\<rfloor>"
        "of_int \<lfloor>x\<rfloor> + 1 \<le> (2::real) ^ Suc k"
      by (rule bitlen_split)
    have "of_int \<lfloor>x\<rfloor> \<le> x" "x < of_int \<lfloor>x\<rfloor> + 1" by linarith+
    with k have "2 ^ k \<le> x" "x < 2 ^ Suc k" by linarith+
    moreover have "ilog2 x = int k" using True k by (simp add: ilog2_def)
    moreover have "2 powi (int k + 1) = (2::real) ^ Suc k" by (simp add: power_int_add)
    ultimately show ?thesis by simp
  next
    case False
    then have y: "1 < 1 / x" using assms by simp
    then have "1 \<le> \<lceil>1 / x\<rceil> - 1" by (simp add: le_diff_eq less_ceiling_iff)
    then obtain k where k: "bitlen (\<lceil>1 / x\<rceil> - 1) = int k + 1" "(2::real) ^ k \<le> of_int (\<lceil>1 / x\<rceil> - 1)"
        "of_int (\<lceil>1 / x\<rceil> - 1) + 1 \<le> (2::real) ^ Suc k"
      by (rule bitlen_split)
    have "of_int (\<lceil>1 / x\<rceil> - 1) < 1 / x" "1 / x \<le> of_int (\<lceil>1 / x\<rceil> - 1) + 1" by linarith+
    with k have "2 ^ k < 1 / x" "1 / x \<le> 2 ^ Suc k" by linarith+
    then have "x < 1 / 2 ^ k" "1 / 2 ^ Suc k \<le> x"
      using assms by (simp_all add: field_simps)
    moreover have "ilog2 x = - (int k + 1)" using False k by (simp add: ilog2_def)
    moreover have "2 powi (- int k) = 1 / (2::real) ^ k" "2 powi (- int k - 1) = 1 / (2::real) ^ Suc k"
      by (simp_all add: power_int_minus power_int_diff field_simps)
    ultimately show ?thesis by simp
  qed
  then show "2 powi (ilog2 x) \<le> x" "x < 2 powi (ilog2 x + 1)" by auto
qed

lemma round_even_le: "of_int (round_even z) \<le> z + 1 / 2"
  unfolding round_even_def Let_def by (auto split: if_splits) linarith+

lemma round_even_ge: "z - 1 / 2 \<le> of_int (round_even z)"
  unfolding round_even_def Let_def by (auto split: if_splits) linarith+

lemma round_even_of_int [simp]: "round_even (of_int k) = k"
  by (simp add: round_even_def)

lemma round_even_mono: "y \<le> z \<Longrightarrow> round_even y \<le> round_even z"
proof -
  assume yz: "y \<le> z"
  show ?thesis
  proof (cases "\<lfloor>y\<rfloor> = \<lfloor>z\<rfloor>")
    case True
    with yz show ?thesis by (auto simp: round_even_def Let_def)
  next
    case False
    with yz have "\<lfloor>y\<rfloor> + 1 \<le> \<lfloor>z\<rfloor>" by (meson floor_mono order_less_le zless_imp_add1_zle)
    moreover have "round_even y \<le> \<lfloor>y\<rfloor> + 1" "\<lfloor>z\<rfloor> \<le> round_even z"
      by (auto simp: round_even_def Let_def)
    ultimately show ?thesis by linarith
  qed
qed

lemma floor_neg_cases: "\<lfloor>- z\<rfloor> = (if z = of_int \<lfloor>z\<rfloor> then - \<lfloor>z\<rfloor> else - \<lfloor>z\<rfloor> - 1)"
  by (auto simp: floor_eq_iff) linarith+

lemma round_even_neg: "round_even (- z) = - round_even z"
proof (cases "z = of_int \<lfloor>z\<rfloor>")
  case True
  then obtain k where "z = of_int k" by blast
  then show ?thesis using round_even_of_int [of "- k"] by simp
next
  case False
  then have "\<lfloor>- z\<rfloor> = - \<lfloor>z\<rfloor> - 1" by (simp add: floor_neg_cases)
  moreover have "of_int \<lfloor>z\<rfloor> < z" using False by linarith
  ultimately show ?thesis by (auto simp: round_even_def Let_def) 
qed

lemma fround_0 [simp]: "fround 0 = 0"
  by (simp add: fround_def)

lemma fround_neg: "fround (- x) = - fround x"
  by (simp add: fround_def ulp_exp_def round_even_neg)

lemma fround_nonneg: "0 \<le> x \<Longrightarrow> 0 \<le> fround x"
  using round_even_mono [of 0 "x / 2 powi (ulp_exp x)"] round_even_of_int [of 0]
  by (simp add: fround_def)

text \<open>A binade: rounding keeps a number between the powers of two around it.\<close>

lemma round_even_le_int: "z \<le> of_int k \<Longrightarrow> round_even z \<le> k"
  using round_even_mono [of z "of_int k"] by simp

lemma round_even_ge_int: "of_int k \<le> z \<Longrightarrow> k \<le> round_even z"
  using round_even_mono [of "of_int k" z] by simp

lemma fround_grid:
  assumes "x \<noteq> 0" "y = of_int m * 2 powi (ulp_exp x)"
  shows "x \<le> y \<Longrightarrow> fround x \<le> y" "y \<le> x \<Longrightarrow> y \<le> fround x"
proof -
  let ?p = "2 powi (ulp_exp x) :: real"
  have p: "0 < ?p" by simp
  assume "x \<le> y"
  then have "x / ?p \<le> of_int m" using p assms by (simp add: divide_le_eq)
  then have "of_int (round_even (x / ?p)) \<le> (of_int m :: real)"
    using round_even_le_int by (simp add: of_int_le_iff)
  then show "fround x \<le> y" using p assms by (simp add: fround_def)
next
  let ?p = "2 powi (ulp_exp x) :: real"
  have p: "0 < ?p" by simp
  assume "y \<le> x"
  then have "of_int m \<le> x / ?p" using p assms by (simp add: le_divide_eq)
  then have "(of_int m :: real) \<le> of_int (round_even (x / ?p))"
    using round_even_ge_int by (simp add: of_int_le_iff)
  then show "y \<le> fround x" using p assms by (simp add: fround_def)
qed

lemma powi2_less: "(2::real) powi a < 2 powi b \<longleftrightarrow> a < b"
  using power_int_strict_increasing [of a b "2::real"] power_int_increasing [of b a "2::real"]
  by (cases "a < b") auto

lemma powi2_le: "(2::real) powi a \<le> 2 powi b \<longleftrightarrow> a \<le> b"
  using powi2_less [of b a] by (simp add: linorder_not_less [symmetric])

lemma powi_grid:
  assumes "e \<le> k"
  obtains m where "(2::real) powi k = of_int m * 2 powi e"
proof -
  from assms obtain n where "k = e + int n" by (metis zle_iff_zadd)
  then have "(2::real) powi k = of_int (2 ^ n) * 2 powi e" by (simp add: power_int_add)
  then show thesis by (rule that)
qed

lemma ilog2_mono: "0 < x \<Longrightarrow> x \<le> y \<Longrightarrow> ilog2 x \<le> ilog2 y"
proof (rule ccontr)
  assume xy: "0 < x" "x \<le> y" and "\<not> ilog2 x \<le> ilog2 y"
  then have "(2::real) powi (ilog2 y + 1) \<le> 2 powi (ilog2 x)" by (intro power_int_increasing) auto
  with ilog2_bounds(1) [of x] ilog2_bounds(2) [of y] xy show False by linarith
qed

text \<open>Rounding respects every power of two in range, hence is monotone.\<close>

lemma fround_le_powi:
  assumes "0 < x" "x \<le> 2 powi k" "- 1074 \<le> k"
  shows "fround x \<le> 2 powi k"
proof -
  have "ulp_exp x \<le> k"
  proof -
    have "2 powi (ilog2 x) \<le> (2::real) powi k" using ilog2_bounds(1) assms by (meson order_trans)
    then have "ilog2 x \<le> k" by (simp only: powi2_le)
    with assms show ?thesis by (simp add: ulp_exp_def)
  qed
  then obtain m where "(2::real) powi k = of_int m * 2 powi (ulp_exp x)" by (rule powi_grid)
  with assms show ?thesis by (intro fround_grid(1)) auto
qed

lemma fround_ge_powi:
  assumes "2 powi k \<le> x" "- 1074 \<le> k"
  shows "2 powi k \<le> fround x"
proof -
  have x: "0 < x" using assms by (meson order_less_le_trans zero_less_power_int zero_less_numeral)
  show ?thesis
  proof (cases "ulp_exp x \<le> k")
    case True
    then obtain m where "(2::real) powi k = of_int m * 2 powi (ulp_exp x)" by (rule powi_grid)
    with assms x show ?thesis by (intro fround_grid(2)) auto
  next
    case False
    then have k: "k < ilog2 x - 52" using assms x by (auto simp: ulp_exp_def)
    let ?l = "ilog2 x"
    have "ulp_exp x \<le> ?l" using k assms x by (auto simp: ulp_exp_def)
    then obtain m where "(2::real) powi ?l = of_int m * 2 powi (ulp_exp x)" by (rule powi_grid)
    then have "2 powi ?l \<le> fround x" using x ilog2_bounds(1) [of x] by (intro fround_grid(2)) auto
    moreover have "(2::real) powi k \<le> 2 powi ?l" using k by (intro power_int_increasing) auto
    ultimately show ?thesis by linarith
  qed
qed

lemma fround_mono_pos:
  assumes "0 < x" "x \<le> y"
  shows "fround x \<le> fround y"
proof (cases "ulp_exp x = ulp_exp y")
  case True
  let ?p = "2 powi (ulp_exp y) :: real"
  have "x / ?p \<le> y / ?p" using assms by (simp add: divide_right_mono)
  then have "round_even (x / ?p) \<le> round_even (y / ?p)" by (rule round_even_mono)
  with assms True show ?thesis by (simp add: fround_def mult_right_mono)
next
  case False
  let ?l = "ilog2 y"
  have le: "ilog2 x \<le> ?l" using assms ilog2_mono by simp
  with False have l: "ilog2 x < ?l" "- 1074 \<le> ?l"
    by (auto simp: ulp_exp_def max_def split: if_splits) (use assms in \<open>auto simp: abs_if\<close>)
  have "x \<le> 2 powi ?l"
  proof -
    have "x < 2 powi (ilog2 x + 1)" using assms by (simp add: ilog2_bounds)
    moreover have "(2::real) powi (ilog2 x + 1) \<le> 2 powi ?l" using l by (intro power_int_increasing) auto
    ultimately show ?thesis by linarith
  qed
  then have "fround x \<le> 2 powi ?l" using assms l by (intro fround_le_powi)
  also have "\<dots> \<le> fround y" using assms l by (intro fround_ge_powi ilog2_bounds) auto
  finally show ?thesis .
qed

lemma fround_mono: "x \<le> y \<Longrightarrow> fround x \<le> fround y"
proof -
  assume xy: "x \<le> y"
  consider "0 < x" | "y < 0" | "x \<le> 0" "0 \<le> y" by linarith
  then show ?thesis
  proof cases
    case 1
    then show ?thesis using xy by (rule fround_mono_pos)
  next
    case 2
    then have "fround (- y) \<le> fround (- x)" using xy by (intro fround_mono_pos) auto
    then show ?thesis by (simp add: fround_neg)
  next
    case 3
    then have "0 \<le> fround (- x)" "0 \<le> fround y" by (auto intro: fround_nonneg)
    then show ?thesis by (simp add: fround_neg)
  qed
qed

text \<open>Integers of at most 53 bits are represented exactly.\<close>

lemma fround_exact:
  assumes "x = of_int m * 2 powi e" "- 1074 \<le> e" "\<bar>m\<bar> < 2 ^ 53"
  shows "fround x = x"
proof (cases "x = 0")
  case False
  then have x: "0 < \<bar>x\<bar>" by simp
  have "\<bar>x\<bar> < 2 powi (e + 53)"
  proof -
    have "\<bar>of_int m\<bar> < (2::real) ^ 53"
      using assms(3) by (metis of_int_abs of_int_less_iff of_int_numeral of_int_power)
    then have "\<bar>x\<bar> < 2 ^ 53 * 2 powi e" using assms(1) by (simp add: abs_mult)
    then show ?thesis by (simp add: power_int_add mult.commute)
  qed
  then have "(2::real) powi (ilog2 \<bar>x\<bar>) < 2 powi (e + 53)" using ilog2_bounds(1) [OF x] by linarith
  then have "ilog2 \<bar>x\<bar> < e + 53" by (simp only: powi2_less)
  then have "ulp_exp x \<le> e" using assms(2) by (simp add: ulp_exp_def)
  then obtain n where n: "(2::real) powi e = of_int n * 2 powi (ulp_exp x)" by (rule powi_grid)
  then have "x = of_int (m * n) * 2 powi (ulp_exp x)" using assms(1) by simp
  then show ?thesis using False fround_grid [of x x "m * n"] by simp
qed simp

lemma fround_of_int: "\<bar>m\<bar> < 2 ^ 53 \<Longrightarrow> fround (of_int m) = of_int m"
  using fround_exact [of "of_int m" m 0] by simp

text \<open>A rounded number is a float: rounding it again changes nothing.\<close>

lemma fround_idem: "fround (fround x) = fround x"
proof (cases "x = 0")
  case False
  define e m where "e = ulp_exp x" and "m = round_even (x / 2 powi e)"
  have x: "fround x = of_int m * 2 powi e" using False by (simp add: fround_def e_def m_def)
  have e: "- 1074 \<le> e" "ilog2 \<bar>x\<bar> + 1 \<le> e + 53" by (simp_all add: e_def ulp_exp_def)
  have "\<bar>x\<bar> < 2 powi (ilog2 \<bar>x\<bar> + 1)" using False by (simp add: ilog2_bounds)
  also have "\<dots> \<le> (2::real) powi (e + 53)" using e by (simp only: powi2_le)
  also have "\<dots> = 2 ^ 53 * 2 powi e" by (simp add: power_int_add)
  finally have b: "\<bar>x\<bar> \<le> 2 ^ 53 * 2 powi e" by simp
  have p: "(0::real) < 2 powi e" by simp
  have "x / 2 powi e \<le> of_int (2 ^ 53)" "of_int (- (2 ^ 53)) \<le> x / 2 powi e"
    using b p by (simp_all add: divide_le_eq le_divide_eq)
  then have m: "m \<le> 2 ^ 53" "- (2 ^ 53) \<le> m"
    unfolding m_def by (auto intro: round_even_le_int round_even_ge_int)
  show ?thesis
  proof (cases "\<bar>m\<bar> < 2 ^ 53")
    case True
    then show ?thesis using e(1) by (intro fround_exact [OF x])
  next
    case False
    with m have "m = 2 * 2 ^ 52 \<or> m = 2 * - (2 ^ 52)" by auto
    then obtain k where k: "m = 2 * k" "\<bar>k\<bar> < 2 ^ 53" by (auto 0 3)
    then have "fround x = of_int k * 2 powi (e + 1)" using x by (simp add: power_int_add)
    then show ?thesis using e(1) k(2) by (intro fround_exact [where m = k and e = "e + 1"]) auto
  qed
qed simp

section \<open>The interface of a rounding\<close>

text \<open>
  What the bounds and monotonicity of the scores need to know about rounding: it is monotone,
  odd, and exact on the integers below \<open>2 ^ 53\<close>.
\<close>

locale rounding =
  fixes rnd :: "real \<Rightarrow> real"
  assumes rnd_mono: "x \<le> y \<Longrightarrow> rnd x \<le> rnd y"
    and rnd_neg: "rnd (- x) = - rnd x"
    and rnd_int: "\<bar>m\<bar> < 2 ^ 53 \<Longrightarrow> rnd (of_int m) = of_int m"
begin

lemma rnd_0: "rnd 0 = 0"
  using rnd_int [of 0] by simp

lemma rnd_ge_int: "of_int m \<le> x \<Longrightarrow> \<bar>m\<bar> < 2 ^ 53 \<Longrightarrow> of_int m \<le> rnd x"
  using rnd_mono [of "of_int m" x] rnd_int [of m] by simp

lemma rnd_le_int: "x \<le> of_int n \<Longrightarrow> \<bar>n\<bar> < 2 ^ 53 \<Longrightarrow> rnd x \<le> of_int n"
  using rnd_mono [of x "of_int n"] rnd_int [of n] by simp

lemma rnd_nonneg: "0 \<le> x \<Longrightarrow> 0 \<le> rnd x"
  using rnd_ge_int [of 0 x] by simp

lemma rnd_sum_mono: "a \<le> a' \<Longrightarrow> b \<le> b' \<Longrightarrow> rnd (a + b) \<le> rnd (a' + b')"
  by (intro rnd_mono) simp

lemma rnd_prod_mono: "0 \<le> a \<Longrightarrow> a \<le> a' \<Longrightarrow> 0 \<le> b \<Longrightarrow> b \<le> b' \<Longrightarrow> rnd (a * b) \<le> rnd (a' * b')"
  by (intro rnd_mono mult_mono) auto

lemma rnd_abs_le: "\<bar>x\<bar> \<le> of_int n \<Longrightarrow> \<bar>n\<bar> < 2 ^ 53 \<Longrightarrow> \<bar>rnd x\<bar> \<le> of_int n"
proof -
  assume a: "\<bar>x\<bar> \<le> of_int n" "\<bar>n\<bar> < 2 ^ 53"
  then have "x \<le> of_int n" "of_int (- n) \<le> x" by auto
  with a(2) have "rnd x \<le> of_int n" "of_int (- n) \<le> rnd x"
    by (auto intro: rnd_le_int rnd_ge_int simp del: of_int_minus)
  then show ?thesis by auto
qed

end

interpretation ieee: rounding fround
  by unfold_locales (simp_all add: fround_mono fround_neg fround_of_int)

section \<open>Values and operations\<close>

datatype f64 = NaN | NegInf | Fin real | PosInf

text \<open>A result of magnitude \<open>2 ^ 1024\<close> or more overflows to an infinity.\<close>

definition fl :: "real \<Rightarrow> f64" where
  "fl x = (let y = fround x
           in if y \<noteq> 0 \<and> 1024 \<le> ilog2 \<bar>y\<bar> then (if 0 < y then PosInf else NegInf) else Fin y)"

lemma overflow_iff: "y \<noteq> 0 \<Longrightarrow> 1024 \<le> ilog2 \<bar>y\<bar> \<longleftrightarrow> 2 ^ 1024 \<le> \<bar>y\<bar>"
proof -
  assume "y \<noteq> 0"
  then have y: "0 < \<bar>y\<bar>" by simp
  have p: "(2::real) ^ 1024 = 2 powi 1024" by simp
  show ?thesis unfolding p
  proof
    assume "1024 \<le> ilog2 \<bar>y\<bar>"
    then have "(2::real) powi 1024 \<le> 2 powi (ilog2 \<bar>y\<bar>)" by (simp only: powi2_le)
    with ilog2_bounds(1) [OF y] show "2 powi 1024 \<le> \<bar>y\<bar>" by linarith
  next
    assume "2 powi 1024 \<le> \<bar>y\<bar>"
    with ilog2_bounds(2) [OF y] have "(2::real) powi 1024 < 2 powi (ilog2 \<bar>y\<bar> + 1)" by linarith
    then have "1024 < ilog2 \<bar>y\<bar> + 1" by (simp only: powi2_less)
    then show "1024 \<le> ilog2 \<bar>y\<bar>" by simp
  qed
qed

fun f_neg :: "f64 \<Rightarrow> f64" where
  "f_neg NaN = NaN"
| "f_neg NegInf = PosInf"
| "f_neg PosInf = NegInf"
| "f_neg (Fin x) = Fin (- x)"

fun f_add :: "f64 \<Rightarrow> f64 \<Rightarrow> f64" where
  "f_add (Fin x) (Fin y) = fl (x + y)"
| "f_add NaN b = NaN"
| "f_add a NaN = NaN"
| "f_add PosInf NegInf = NaN"
| "f_add NegInf PosInf = NaN"
| "f_add PosInf b = PosInf"
| "f_add NegInf b = NegInf"
| "f_add a PosInf = PosInf"
| "f_add a NegInf = NegInf"

definition f_sub :: "f64 \<Rightarrow> f64 \<Rightarrow> f64" where
  "f_sub a b = f_add a (f_neg b)"

text \<open>An infinity of the sign of a non-zero real, NaN for zero: \<open>\<infinity> * 0\<close> is NaN.\<close>

definition inf_sgn :: "real \<Rightarrow> f64" where
  "inf_sgn x = (if x > 0 then PosInf else if x < 0 then NegInf else NaN)"

fun f_mul :: "f64 \<Rightarrow> f64 \<Rightarrow> f64" where
  "f_mul (Fin x) (Fin y) = fl (x * y)"
| "f_mul NaN b = NaN"
| "f_mul a NaN = NaN"
| "f_mul PosInf (Fin y) = inf_sgn y"
| "f_mul NegInf (Fin y) = inf_sgn (- y)"
| "f_mul (Fin x) PosInf = inf_sgn x"
| "f_mul (Fin x) NegInf = inf_sgn (- x)"
| "f_mul PosInf b = b"
| "f_mul NegInf b = f_neg b"

fun f_div :: "f64 \<Rightarrow> f64 \<Rightarrow> f64" where
  "f_div (Fin x) (Fin y) = (if y = 0 then inf_sgn x else fl (x / y))"
| "f_div NaN b = NaN"
| "f_div a NaN = NaN"
| "f_div PosInf (Fin y) = (if y < 0 then NegInf else PosInf)"
| "f_div NegInf (Fin y) = (if y < 0 then PosInf else NegInf)"
| "f_div (Fin x) b = Fin 0"
| "f_div a b = NaN"

text \<open>Go's comparisons: false whenever an operand is NaN.\<close>

fun f_lt :: "f64 \<Rightarrow> f64 \<Rightarrow> bool" where
  "f_lt (Fin x) (Fin y) = (x < y)"
| "f_lt NegInf b = (b = PosInf \<or> (\<exists>y. b = Fin y))"
| "f_lt (Fin x) PosInf = True"
| "f_lt a b = False"

definition f_le :: "f64 \<Rightarrow> f64 \<Rightarrow> bool" where
  "f_le a b \<longleftrightarrow> f_lt a b \<or> (a = b \<and> a \<noteq> NaN)"

definition f_ne :: "f64 \<Rightarrow> f64 \<Rightarrow> bool" where
  "f_ne a b \<longleftrightarrow> a = NaN \<or> a \<noteq> b"

definition IsNaN :: "f64 \<Rightarrow> bool" where "IsNaN a \<longleftrightarrow> a = NaN"
definition IsInf :: "f64 \<Rightarrow> bool" where "IsInf a \<longleftrightarrow> a = PosInf \<or> a = NegInf"

fun f_abs :: "f64 \<Rightarrow> f64" where
  "f_abs (Fin x) = Fin \<bar>x\<bar>"
| "f_abs NegInf = PosInf"
| "f_abs a = a"

fun f_sqrt :: "f64 \<Rightarrow> f64" where
  "f_sqrt (Fin x) = (if x < 0 then NaN else fl (sqrt x))"
| "f_sqrt PosInf = PosInf"
| "f_sqrt a = NaN"

text \<open>\<open>math.Round\<close>: to the nearest integer, halves away from zero.\<close>

fun f_round :: "f64 \<Rightarrow> f64" where
  "f_round (Fin x) = Fin (of_int (if 0 \<le> x then \<lfloor>x + 1 / 2\<rfloor> else - \<lfloor>1 / 2 - x\<rfloor>))"
| "f_round a = a"

text \<open>\<open>float64(i)\<close>, and \<open>int(x)\<close>: truncation, and the most negative integer when the value is
  out of range, which is what amd64 computes.\<close>

definition f_of_int :: "int \<Rightarrow> f64" where
  "f_of_int i = fl (of_int i)"

definition trunc_real :: "real \<Rightarrow> int" where
  "trunc_real x = (if 0 \<le> x then \<lfloor>x\<rfloor> else \<lceil>x\<rceil>)"

fun f_to_int :: "f64 \<Rightarrow> int" where
  "f_to_int (Fin x) = (if - (2 ^ 63) \<le> trunc_real x \<and> trunc_real x < 2 ^ 63 then trunc_real x
                       else - (2 ^ 63))"
| "f_to_int a = - (2 ^ 63)"

subsection \<open>The order of \<open>sort.Float64s\<close>\<close>

fun f_key :: "f64 \<Rightarrow> nat \<times> real" where
  "f_key NaN = (0, 0)"
| "f_key NegInf = (1, 0)"
| "f_key (Fin x) = (2, x)"
| "f_key PosInf = (3, 0)"

instantiation f64 :: linorder
begin

definition less_eq_f64 :: "f64 \<Rightarrow> f64 \<Rightarrow> bool" where
  "a \<le> b \<longleftrightarrow> fst (f_key a) < fst (f_key b)
           \<or> (fst (f_key a) = fst (f_key b) \<and> snd (f_key a) \<le> snd (f_key b))"

definition less_f64 :: "f64 \<Rightarrow> f64 \<Rightarrow> bool" where
  "(a :: f64) < b \<longleftrightarrow> a \<le> b \<and> \<not> b \<le> a"

instance
proof
  fix a b c :: f64
  show "a < b \<longleftrightarrow> a \<le> b \<and> \<not> b \<le> a" by (simp add: less_f64_def)
  show "a \<le> a" by (simp add: less_eq_f64_def)
  show "a \<le> b \<Longrightarrow> b \<le> c \<Longrightarrow> a \<le> c" by (auto simp: less_eq_f64_def)
  show "a \<le> b \<Longrightarrow> b \<le> a \<Longrightarrow> a = b" by (cases a; cases b) (auto simp: less_eq_f64_def)
  show "a \<le> b \<or> b \<le> a" by (auto simp: less_eq_f64_def)
qed

end

lemma Fin_le_iff [simp]: "Fin x \<le> Fin y \<longleftrightarrow> x \<le> y"
  by (simp add: less_eq_f64_def)

section \<open>Bounds and monotonicity of the operations\<close>

text \<open>\<open>fin_in m n a\<close>: the value is finite and between two integers.\<close>

definition fin_in :: "int \<Rightarrow> int \<Rightarrow> f64 \<Rightarrow> bool" where
  "fin_in m n a \<longleftrightarrow> (case a of Fin x \<Rightarrow> of_int m \<le> x \<and> x \<le> of_int n | _ \<Rightarrow> False)"

text \<open>\<open>fin_le a b\<close>: both finite, and ordered.\<close>

definition fin_le :: "f64 \<Rightarrow> f64 \<Rightarrow> bool" where
  "fin_le a b \<longleftrightarrow> (case a of Fin x \<Rightarrow> (case b of Fin y \<Rightarrow> x \<le> y | _ \<Rightarrow> False) | _ \<Rightarrow> False)"

lemma fin_in_iff: "fin_in m n a \<longleftrightarrow> (\<exists>x. a = Fin x \<and> of_int m \<le> x \<and> x \<le> of_int n)"
  by (auto simp: fin_in_def split: f64.splits)

lemma fin_le_iff: "fin_le a b \<longleftrightarrow> (\<exists>x y. a = Fin x \<and> b = Fin y \<and> x \<le> y)"
  by (auto simp: fin_le_def split: f64.splits)

lemma two_53_1024: "(2::real) ^ 53 < 2 ^ 1024"
  by (rule power_strict_increasing) auto

lemma fl_small:
  assumes "\<bar>x\<bar> \<le> of_int n" "\<bar>n\<bar> < 2 ^ 53"
  shows "fl x = Fin (fround x)"
proof -
  have "\<bar>fround x\<bar> \<le> of_int n" using assms by (rule ieee.rnd_abs_le)
  moreover have "real_of_int n < 2 ^ 53"
  proof -
    have "n < 2 ^ 53" using assms(2) by linarith
    then have "real_of_int n < of_int (2 ^ 53)" by (simp only: of_int_less_iff)
    then show ?thesis by simp
  qed
  ultimately have "\<bar>fround x\<bar> < 2 ^ 1024" using two_53_1024 by linarith
  then show ?thesis using overflow_iff [of "fround x"] by (auto simp: fl_def Let_def)
qed

lemma fl_between:
  assumes "of_int m \<le> x" "x \<le> of_int n" "\<bar>m\<bar> < 2 ^ 53" "\<bar>n\<bar> < 2 ^ 53"
  shows "fl x = Fin (fround x)" "of_int m \<le> fround x" "fround x \<le> of_int n"
proof -
  have "\<bar>x\<bar> \<le> of_int (max \<bar>m\<bar> \<bar>n\<bar>)" "\<bar>max \<bar>m\<bar> \<bar>n\<bar>\<bar> < 2 ^ 53" using assms by linarith+
  then show "fl x = Fin (fround x)" by (rule fl_small)
  show "of_int m \<le> fround x" "fround x \<le> of_int n"
    using assms by (simp_all add: ieee.rnd_ge_int ieee.rnd_le_int)
qed

lemma fl_of_int: "\<bar>m\<bar> < 2 ^ 53 \<Longrightarrow> fl (of_int m) = Fin (of_int m)"
  using fl_small [of "of_int m" "\<bar>m\<bar>"] by (simp add: fround_of_int)

lemma f_of_int_small: "\<bar>m\<bar> < 2 ^ 53 \<Longrightarrow> f_of_int m = Fin (of_int m)"
  by (simp add: f_of_int_def fl_of_int)

lemma fin_in_add:
  assumes "fin_in m n a" "fin_in m' n' b" "\<bar>m + m'\<bar> < 2 ^ 53" "\<bar>n + n'\<bar> < 2 ^ 53"
  shows "fin_in (m + m') (n + n') (f_add a b)"
proof -
  obtain x y where "a = Fin x" "b = Fin y" "of_int (m + m') \<le> x + y" "x + y \<le> of_int (n + n')"
    using assms(1,2) by (auto simp: fin_in_iff)
  then show ?thesis using fl_between [of "m + m'" "x + y" "n + n'"] assms(3,4) by (simp add: fin_in_def)
qed

lemma fin_in_mul:
  assumes "fin_in 0 n a" "fin_in 0 n' b" "\<bar>n * n'\<bar> < 2 ^ 53"
  shows "fin_in 0 (n * n') (f_mul a b)"
proof -
  obtain x y where xy: "a = Fin x" "b = Fin y" "0 \<le> x" "x \<le> of_int n" "0 \<le> y" "y \<le> of_int n'"
    using assms(1,2) by (auto simp: fin_in_iff)
  then have "0 \<le> x * y" "x * y \<le> of_int (n * n')" by (auto intro: mult_mono)
  then show ?thesis using fl_between [of 0 "x * y" "n * n'"] assms(3) xy by (simp add: fin_in_def)
qed

lemma fin_le_add:
  assumes "fin_le a a'" "fin_le b b'" "fin_in m n a" "fin_in m' n' b" "fin_in m n a'" "fin_in m' n' b'"
    "\<bar>m + m'\<bar> < 2 ^ 53" "\<bar>n + n'\<bar> < 2 ^ 53"
  shows "fin_le (f_add a b) (f_add a' b')"
proof -
  obtain x y x' y' where v: "a = Fin x" "b = Fin y" "a' = Fin x'" "b' = Fin y'" "x \<le> x'" "y \<le> y'"
    using assms(1,2) by (auto simp: fin_le_iff)
  have "fl (x + y) = Fin (fround (x + y))" "fl (x' + y') = Fin (fround (x' + y'))"
    using fl_between(1) [of "m + m'" "x + y" "n + n'"] fl_between(1) [of "m + m'" "x' + y'" "n + n'"]
      assms v by (simp_all add: fin_in_def)
  then show ?thesis using v by (simp add: fin_le_def ieee.rnd_sum_mono)
qed

lemma fin_le_mul:
  assumes "fin_le a a'" "fin_le b b'" "fin_in 0 n a" "fin_in 0 n' b" "fin_in 0 n a'" "fin_in 0 n' b'"
    "\<bar>n * n'\<bar> < 2 ^ 53"
  shows "fin_le (f_mul a b) (f_mul a' b')"
proof -
  obtain x y x' y' where v: "a = Fin x" "b = Fin y" "a' = Fin x'" "b' = Fin y'" "x \<le> x'" "y \<le> y'"
    using assms(1,2) by (auto simp: fin_le_iff)
  have nn: "0 \<le> x" "x \<le> of_int n" "0 \<le> y" "y \<le> of_int n'"
    "0 \<le> x'" "x' \<le> of_int n" "0 \<le> y'" "y' \<le> of_int n'" using assms v by (simp_all add: fin_in_def)
  have "x * y \<le> of_int (n * n')" "x' * y' \<le> of_int (n * n')"
    using mult_mono [of x "of_int n" y "of_int n'"] mult_mono [of x' "of_int n" y' "of_int n'"] nn by auto
  then have "fl (x * y) = Fin (fround (x * y))" "fl (x' * y') = Fin (fround (x' * y'))"
    using fl_between(1) [of 0 "x * y" "n * n'"] fl_between(1) [of 0 "x' * y'" "n * n'"] assms(7) nn by simp_all
  then show ?thesis using v nn by (simp add: fin_le_def ieee.rnd_prod_mono)
qed

lemma fin_le_refl: "fin_in m n a \<Longrightarrow> fin_le a a"
  by (auto simp: fin_in_iff fin_le_iff)

text \<open>Rounding with overflow as a whole: never NaN, monotone in the order of \<open>sort.Float64s\<close>.\<close>

lemma fl_alt:
  "fl x = (if 2 ^ 1024 \<le> fround x then PosInf else if fround x \<le> - (2 ^ 1024) then NegInf
           else Fin (fround x))"
proof (cases "fround x = 0")
  case True
  have "(0::real) < 2 ^ 1024" by (rule zero_less_power) simp
  with True show ?thesis unfolding fl_def Let_def by (simp del: power_numeral)
next
  case False
  define B :: real where "B = 2 ^ 1024"
  have B: "0 < B" unfolding B_def by (rule zero_less_power) simp
  show ?thesis
    using False B unfolding fl_def Let_def overflow_iff [OF False] B_def [symmetric] by auto
qed

lemma fl_mono: "x \<le> y \<Longrightarrow> fl x \<le> fl y"
proof -
  assume "x \<le> y"
  then have "fround x \<le> fround y" by (rule fround_mono)
  then show ?thesis unfolding fl_alt by (auto simp: less_eq_f64_def simp del: power_numeral)
qed

lemma fl_not_NaN [simp]: "fl x \<noteq> NaN"
  by (simp add: fl_def Let_def)

lemma fl_nonneg: "0 \<le> x \<Longrightarrow> fl x = PosInf \<or> (\<exists>y. fl x = Fin y \<and> 0 \<le> y)"
  using fround_nonneg [of x] by (auto simp: fl_def Let_def)

lemma le_Fin_cases: "a \<le> Fin y \<Longrightarrow> a \<noteq> NaN \<Longrightarrow> a = NegInf \<or> (\<exists>x. a = Fin x \<and> x \<le> y)"
  by (cases a) (auto simp: less_eq_f64_def)

lemma Fin_le_cases: "Fin x \<le> a \<Longrightarrow> a = PosInf \<or> (\<exists>y. a = Fin y \<and> x \<le> y)"
  by (cases a) (auto simp: less_eq_f64_def)

lemma NegInf_le [simp]: "NegInf \<le> a \<longleftrightarrow> a \<noteq> NaN"
  by (cases a) (auto simp: less_eq_f64_def)

lemma le_PosInf [simp]: "a \<le> PosInf"
  by (cases a) (auto simp: less_eq_f64_def)

lemma NaN_le [simp]: "NaN \<le> a"
  by (cases a) (auto simp: less_eq_f64_def)

lemma le_NaN [simp]: "a \<le> NaN \<longleftrightarrow> a = NaN"
  by (cases a) (auto simp: less_eq_f64_def)

lemma PosInf_le [simp]: "PosInf \<le> a \<longleftrightarrow> a = PosInf"
  by (cases a) (auto simp: less_eq_f64_def)

lemma le_NegInf [simp]: "a \<le> NegInf \<longleftrightarrow> a = NegInf \<or> a = NaN"
  by (cases a) (auto simp: less_eq_f64_def)

lemma f_lt_code [code]:
  "f_lt a b = (case a of NaN \<Rightarrow> False
     | NegInf \<Rightarrow> (case b of NaN \<Rightarrow> False | NegInf \<Rightarrow> False | _ \<Rightarrow> True)
     | PosInf \<Rightarrow> False
     | Fin x \<Rightarrow> (case b of Fin y \<Rightarrow> x < y | PosInf \<Rightarrow> True | _ \<Rightarrow> False))"
  by (cases a; cases b) auto

end
