(* ===== verification/Protocol.thy ===== *)
theory Protocol
  imports GoEncoding GoFloat
begin

text \<open>
  \<^verbatim>\<open>protocol/v1\<close>: the messages agent and control server exchange, with the field order of the
  Go structs, and the three messages an agent signs. A pointer field is an option (nil is
  \<open>None\<close>), a \<open>uint64\<close> a \<open>64 word\<close>, a \<open>float64\<close> an \<open>f64\<close>. The SHA-256 function is a parameter
  \<open>sha256\<close>: the code relies on nothing of it but that it is a function of the bytes.
\<close>

section \<open>types.go\<close>

definition Version :: string where "Version = ''v1''"

record EnrollRequest =
  er_NodeID :: string
  er_EnrollmentToken :: string
  er_AgentVersion :: string

record SecureEnrollRequest =
  ser_NodeID :: string
  ser_EnrollmentCode :: string
  ser_AgentVersion :: string
  ser_PublicKey :: string

record EnrollResponse =
  ersp_NodeID :: string
  ersp_Accepted :: bool

record EnrollmentCodeResponse =
  ecr_EnrollmentCode :: string
  ecr_ExpiresAt :: gotime

record HeartbeatRequest =
  hb_NodeID :: string
  hb_ObservedAt :: gotime
  hb_Mode :: string

record Node =
  nd_NodeID :: string
  nd_AgentVersion :: string
  nd_Status :: string
  nd_Mode :: string
  nd_LastHeartbeat :: gotime

record User =
  usr_ID :: string
  usr_Email :: string

record LoginRequest =
  lr_Email :: string
  lr_Password :: string

record DashboardResponse =
  db_BalanceMicrounits :: int
  db_OnlineNodes :: int
  db_ComputeScore :: "f64 option"
  db_NetworkScore :: "f64 option"
  db_CurrentStatus :: string
  db_CurrentRateMicrounits :: "int option"
  db_TodayEarningsMicrounits :: int

record WalletTransaction =
  wt_ID :: string
  wt_JobID :: string
  wt_TransactionType :: string
  wt_AmountMicrounits :: int
  wt_CreatedAt :: gotime

record WalletResponse =
  wr_BalanceMicrounits :: int
  wr_Transactions :: "WalletTransaction list"

record JobSummary =
  js_ID :: string
  js_ProviderNodeID :: string
  js_Status :: string
  js_CreatedAt :: gotime

section \<open>inventory.go\<close>

definition HardwareInventorySchemaVersion :: string where
  "HardwareInventorySchemaVersion = ''m7-v1''"

record OperatingSystemInventory =
  os_Name :: string
  os_Version :: string
  os_Architecture :: string
  os_Kernel :: string

record CPUInventory =
  cpu_Model :: string
  cpu_PhysicalCores :: int
  cpu_LogicalCores :: int

record MemoryInventory =
  mem_TotalBytes :: u64

record GPUInventory =
  gpu_Vendor :: string
  gpu_Model :: string
  gpu_DeviceType :: string
  gpu_MemoryType :: string
  gpu_UsableVRAMBytes :: "u64 option"
  gpu_KernelDriver :: string
  gpu_DriverName :: string
  gpu_DriverVersion :: string

record AccelerationRuntime =
  acc_Name :: string
  acc_Version :: string
  acc_Status :: string

record AIRuntimeInventory =
  air_Name :: string
  air_Version :: string
  air_Status :: string

record ModelInventory =
  mdl_Name :: string
  mdl_Runtime :: string
  mdl_Format :: string
  mdl_Quantization :: string
  mdl_SizeBytes :: u64

record HardwareInventory =
  hi_SchemaVersion :: string
  hi_CollectedAt :: gotime
  hi_OS :: OperatingSystemInventory
  hi_CPU :: CPUInventory
  hi_Memory :: MemoryInventory
  hi_GPUs :: "GPUInventory list"
  hi_Acceleration :: "AccelerationRuntime list"
  hi_AIRuntimes :: "AIRuntimeInventory list"
  hi_Models :: "ModelInventory list"

section \<open>network\_benchmark.go and compute\_benchmark.go\<close>

definition NetworkBenchmarkSchemaVersion :: string where
  "NetworkBenchmarkSchemaVersion = ''m8-v1''"

record NetworkBenchmark =
  nb_SchemaVersion :: string
  nb_CollectedAt :: gotime
  nb_IPv4Available :: bool
  nb_IPv6Available :: bool
  nb_DownloadMbps :: f64
  nb_UploadMbps :: f64
  nb_LatencyMs :: f64
  nb_JitterMs :: f64
  nb_PacketLossPercent :: f64
  nb_PreferredPath :: string

definition ComputeBenchmarkSchemaVersion :: string where
  "ComputeBenchmarkSchemaVersion = ''m9-v1''"

record ComputeBenchmarkSample =
  cs_Run :: int
  cs_PromptTokens :: int
  cs_GeneratedTokens :: int
  cs_PromptTokensPerSecond :: f64
  cs_GenerationTokensPerSecond :: f64
  cs_TimeToFirstTokenMs :: f64
  cs_PeakSystemRAMBytes :: u64
  cs_PeakVRAMBytes :: "u64 option"
  cs_TemperatureCelsius :: "f64 option"
  cs_Throttled :: "bool option"
  cs_Success :: bool
  cs_Error :: string

record ComputeBenchmark =
  cb_SchemaVersion :: string
  cb_CollectedAt :: gotime
  cb_WorkloadID :: string
  cb_Condition :: string
  cb_Runtime :: string
  cb_RuntimeVersion :: string
  cb_Model :: string
  cb_Quantization :: string
  cb_ContextSize :: int
  cb_Samples :: "ComputeBenchmarkSample list"

section \<open>The three submissions and their reports\<close>

definition InventorySubmissionPath :: string where "InventorySubmissionPath = ''/v1/agent/inventory''"
definition InventorySignatureHeader :: string where "InventorySignatureHeader = ''X-MeshAlot-Signature''"
definition InventorySigningDomain :: string where "InventorySigningDomain = ''MESHALOT-M7-INVENTORY''"
definition InventorySubmissionVersion :: string where "InventorySubmissionVersion = ''m7-v1''"

definition NetworkBenchmarkSubmissionPath :: string where
  "NetworkBenchmarkSubmissionPath = ''/v1/agent/network-benchmark''"
definition NetworkBenchmarkSigningDomain :: string where
  "NetworkBenchmarkSigningDomain = ''MESHALOT-M8-NETWORK-BENCHMARK''"
definition NetworkBenchmarkSubmissionVersion :: string where
  "NetworkBenchmarkSubmissionVersion = ''m8-v1''"

definition ComputeBenchmarkSubmissionPath :: string where
  "ComputeBenchmarkSubmissionPath = ''/v1/agent/compute-benchmark''"
definition ComputeBenchmarkSigningDomain :: string where
  "ComputeBenchmarkSigningDomain = ''MESHALOT-M9-COMPUTE-BENCHMARK''"
definition ComputeBenchmarkSubmissionVersion :: string where
  "ComputeBenchmarkSubmissionVersion = ''m9-v1''"

record InventorySubmission =
  isub_Version :: string
  isub_NodeID :: string
  isub_ReportID :: string
  isub_SignedAt :: gotime
  isub_Inventory :: HardwareInventory

record NetworkBenchmarkSubmission =
  nsub_Version :: string
  nsub_NodeID :: string
  nsub_ReportID :: string
  nsub_SignedAt :: gotime
  nsub_Benchmark :: NetworkBenchmark

record ComputeBenchmarkSubmission =
  csub_Version :: string
  csub_NodeID :: string
  csub_ReportID :: string
  csub_SignedAt :: gotime
  csub_Benchmark :: ComputeBenchmark

record SubmissionResponse =
  sr_ReportID :: string
  sr_Accepted :: bool

record InventoryReport =
  ir_ReportID :: string
  ir_NodeID :: string
  ir_ReceivedAt :: gotime
  ir_Inventory :: HardwareInventory

text \<open>The records of stored benchmarks, which no endpoint returns yet.\<close>

record NetworkBenchmarkReport =
  nr_ReportID :: string
  nr_NodeID :: string
  nr_ReceivedAt :: gotime
  nr_Score :: f64
  nr_Benchmark :: NetworkBenchmark

record ComputeBenchmarkReport =
  cbr_ReportID :: string
  cbr_NodeID :: string
  cbr_ReceivedAt :: gotime
  cbr_Score :: f64
  cbr_Benchmark :: ComputeBenchmark

text \<open>The signed messages: \<open>sha256\<close> maps the body to the 32 bytes of its digest.\<close>

definition InventorySigningMessage :: "(string \<Rightarrow> u8 list) \<Rightarrow> string \<Rightarrow> string" where
  "InventorySigningMessage sha256 body =
     InventorySigningDomain @ [CHR 0x0A] @ ''POST'' @ [CHR 0x0A] @ InventorySubmissionPath @ [CHR 0x0A]
       @ hex_encode (sha256 body)"

definition NetworkBenchmarkSigningMessage :: "(string \<Rightarrow> u8 list) \<Rightarrow> string \<Rightarrow> string" where
  "NetworkBenchmarkSigningMessage sha256 body =
     NetworkBenchmarkSigningDomain @ [CHR 0x0A] @ ''POST'' @ [CHR 0x0A] @ NetworkBenchmarkSubmissionPath
       @ [CHR 0x0A] @ hex_encode (sha256 body)"

definition ComputeBenchmarkSigningMessage :: "(string \<Rightarrow> u8 list) \<Rightarrow> string \<Rightarrow> string" where
  "ComputeBenchmarkSigningMessage sha256 body =
     ComputeBenchmarkSigningDomain @ [CHR 0x0A] @ ''POST'' @ [CHR 0x0A] @ ComputeBenchmarkSubmissionPath
       @ [CHR 0x0A] @ hex_encode (sha256 body)"

lemmas signing_messages = InventorySigningMessage_def NetworkBenchmarkSigningMessage_def
  ComputeBenchmarkSigningMessage_def

lemmas signing_domains = InventorySigningDomain_def NetworkBenchmarkSigningDomain_def
  ComputeBenchmarkSigningDomain_def

lemma signing_injective:
  "InventorySigningMessage h b = InventorySigningMessage h b' \<longleftrightarrow> h b = h b'"
  "NetworkBenchmarkSigningMessage h b = NetworkBenchmarkSigningMessage h b' \<longleftrightarrow> h b = h b'"
  "ComputeBenchmarkSigningMessage h b = ComputeBenchmarkSigningMessage h b' \<longleftrightarrow> h b = h b'"
  by (simp_all add: signing_messages hex_encode_inj)

text \<open>Domain separation. Whatever the digest function and the bodies, a message signed for
  one of the three submission endpoints is never the message signed for another one, so a
  signature cannot be replayed across endpoints; and within one endpoint two bodies share a
  message only when they share a digest.\<close>

theorem signing_domain_separation:
  "InventorySigningMessage h a \<noteq> NetworkBenchmarkSigningMessage h' b
   \<and> InventorySigningMessage h a \<noteq> ComputeBenchmarkSigningMessage h'' c
   \<and> NetworkBenchmarkSigningMessage h' b \<noteq> ComputeBenchmarkSigningMessage h'' c
   \<and> (InventorySigningMessage h a = InventorySigningMessage h a' \<longleftrightarrow> h a = h a')
   \<and> (NetworkBenchmarkSigningMessage h b = NetworkBenchmarkSigningMessage h b' \<longleftrightarrow> h b = h b')
   \<and> (ComputeBenchmarkSigningMessage h c = ComputeBenchmarkSigningMessage h c' \<longleftrightarrow> h c = h c')"
  unfolding signing_injective by (simp add: signing_messages signing_domains)

end
