(* ===== verification/ServerTypes.thy ===== *)
theory ServerTypes
  imports Protocol
begin

text \<open>
  The error values of the package \<open>server\<close> (the sentinels its handlers tell apart with
  \<open>errors.Is\<close>, and every other database error), and the cryptographic functions it calls as
  parameters: \<open>Sum256\<close> is \<open>sha256.Sum256\<close> and \<open>Ed25519Verify\<close> is \<open>ed25519.Verify\<close> (public
  key, message, signature).
\<close>

datatype srv_err =
    ErrNoRows
  | ErrInvalidInventorySubmission | ErrInventorySignature | ErrInventoryTimestamp
  | ErrInvalidNetworkBenchmarkSubmission | ErrNetworkBenchmarkSignature | ErrNetworkBenchmarkTimestamp
  | ErrInvalidComputeBenchmarkSubmission | ErrComputeBenchmarkSignature | ErrComputeBenchmarkTimestamp
  | ErrInventoryReplay | ErrNetworkBenchmarkReplay | ErrComputeBenchmarkReplay
  | ErrInvalidEnrollmentCode | ErrTooManyActiveEnrollmentCodes | ErrNodeIdentityConflict
  | ErrNodeOwnership | ErrInvalidCredentials
  | PqError string | OtherError string

record crypto =
  Sum256 :: "string \<Rightarrow> u8 list"
  Ed25519Verify :: "u8 list \<Rightarrow> string \<Rightarrow> u8 list \<Rightarrow> bool"

definition PublicKeySize :: nat where "PublicKeySize = 32"
definition SignatureSize :: nat where "SignatureSize = 64"

definition isUniqueViolation :: "srv_err \<Rightarrow> bool" where
  "isUniqueViolation err = (case err of PqError code \<Rightarrow> code = ''23505'' | _ \<Rightarrow> False)"

text \<open>The idiom \<^verbatim>\<open>skew := a.Sub(b); if skew < 0 { skew = -skew }\<close> of the three validators:
  \<open>Sub\<close> saturates, and unary minus maps the least duration to itself.\<close>

definition absSkew :: "gotime \<Rightarrow> gotime \<Rightarrow> duration" where
  "absSkew a b = (let skew = time_sub a b in if skew < 0 then dur_neg skew else skew)"

lemma absSkew_near:
  assumes "b < a + 2 ^ 63" "d < dur_max"
  shows "absSkew a b \<le> d \<longleftrightarrow> \<bar>a - b\<bar> \<le> d"
proof (cases "a - b \<le> dur_max")
  case True
  then have "time_sub a b = a - b" using assms(1) by (intro time_sub_exact) (auto simp: dur_min_def)
  then show ?thesis
    using True assms(1) dur_neg_exact [of "a - b"] by (auto simp: absSkew_def Let_def dur_min_def abs_if)
next
  case False
  then have "time_sub a b = dur_max" by (simp add: time_sub_def dur_min_def dur_max_def)
  then show ?thesis using False assms(2) by (simp add: absSkew_def dur_max_def)
qed

lemma absSkew_far: "a + 2 ^ 63 \<le> b \<Longrightarrow> absSkew a b = dur_min"
proof -
  assume "a + 2 ^ 63 \<le> b"
  then have "time_sub a b = dur_min" by (auto simp: time_sub_def dur_min_def dur_max_def)
  then show ?thesis by (simp add: absSkew_def dur_neg_min) 
qed

text \<open>The condition the code tests, in terms of the real distance of the two times.\<close>

definition skew_accepted :: "gotime \<Rightarrow> gotime \<Rightarrow> bool" where
  "skew_accepted a b \<longleftrightarrow> \<bar>a - b\<bar> \<le> 5 * Minute \<or> a + 2 ^ 63 \<le> b"

lemma absSkew_iff: "absSkew a b \<le> 5 * Minute \<longleftrightarrow> skew_accepted a b"
proof (cases "a + 2 ^ 63 \<le> b")
  case True
  then show ?thesis by (simp add: absSkew_far skew_accepted_def dur_min_def duration_units)
next
  case False
  then show ?thesis using absSkew_near [of b a "5 * Minute"]
    by (simp add: skew_accepted_def dur_max_def duration_units)
qed

end
