(* ===== verification/Scoring.thy ===== *)
theory Scoring
  imports Protocol "HOL-Library.Multiset"
begin

text \<open>
  \<^verbatim>\<open>server/network_score.go\<close> and \<^verbatim>\<open>server/compute_score.go\<close>: the two authoritative scores,
  in IEEE double arithmetic in the evaluation order of the source. A Go constant expression is the
  float64 nearest to it (\<open>fl\<close>). The lemmas give bounds and monotonicity of every component
  score; they rest on the interpretation \<open>ieee\<close> of the locale \<open>rounding\<close>.
\<close>

section \<open>network\_score.go\<close>

definition clamp :: "f64 \<Rightarrow> f64 \<Rightarrow> f64 \<Rightarrow> f64" where
  "clamp value minimum maximum =
     (if f_lt value minimum then minimum else if f_lt maximum value then maximum else value)"

definition clamp01 :: "f64 \<Rightarrow> f64" where
  "clamp01 value = clamp value (Fin 0) (Fin 1)"

definition decreasingLinearScore :: "f64 \<Rightarrow> f64 \<Rightarrow> f64 \<Rightarrow> f64 \<Rightarrow> f64" where
  "decreasingLinearScore value best worst points =
     (if f_le value best then points
      else if f_le worst value then Fin 0
      else f_mul points (f_div (f_sub worst value) (f_sub worst best)))"

definition CalculateNetworkScore ::
    "bool \<Rightarrow> bool \<Rightarrow> f64 \<Rightarrow> f64 \<Rightarrow> f64 \<Rightarrow> f64 \<Rightarrow> f64 \<Rightarrow> int" where
  "CalculateNetworkScore ipv4Available ipv6Available downloadMbps uploadMbps latencyMs jitterMs packetLossPercent =
     (if \<not> ipv4Available \<and> \<not> ipv6Available then 0
      else
        let score0 = Fin 0;
            score1 = (if ipv4Available then f_add score0 (Fin 6) else score0);
            score2 = (if ipv6Available then f_add score1 (Fin 4) else score1);
            score3 = f_add score2 (f_mul (Fin 15) (clamp01 (f_div downloadMbps (Fin 1000))));
            score4 = f_add score3 (f_mul (Fin 15) (clamp01 (f_div uploadMbps (Fin 1000))));
            score5 = f_add score4 (decreasingLinearScore latencyMs (Fin 10) (Fin 200) (Fin 20));
            score6 = f_add score5 (decreasingLinearScore jitterMs (Fin 2) (Fin 50) (Fin 10));
            lossRatio = f_sub (Fin 1) (f_div (clamp packetLossPercent (Fin 0) (Fin 5)) (Fin 5));
            score7 = f_add score6 (f_mul (f_mul (Fin 30) lossRatio) lossRatio);
            score8 = clamp score7 (Fin 0) (Fin 100)
        in f_to_int (f_round score8))"

subsection \<open>Bounds of the parts\<close>

lemma f_le_Fin: "f_le a (Fin y) \<longleftrightarrow> a = NegInf \<or> (\<exists>x. a = Fin x \<and> x \<le> y)"
  by (cases a) (auto simp: f_le_def)

lemma Fin_f_le: "f_le (Fin x) a \<longleftrightarrow> a = PosInf \<or> (\<exists>y. a = Fin y \<and> x \<le> y)"
  by (cases a) (auto simp: f_le_def)

lemma clamp_in:
  assumes "x \<noteq> NaN" "m \<le> n"
  shows "fin_in m n (clamp x (Fin (of_int m)) (Fin (of_int n)))"
  using assms by (cases x) (auto simp: clamp_def fin_in_def)

lemma clamp_mono:
  assumes "x \<noteq> NaN" "x \<le> y" "m \<le> n"
  shows "fin_le (clamp x (Fin m) (Fin n)) (clamp y (Fin m) (Fin n))"
  using assms by (cases x; cases y) (auto simp: clamp_def fin_le_def)

lemma div_pos_not_NaN: "x \<noteq> NaN \<Longrightarrow> 0 < k \<Longrightarrow> f_div x (Fin k) \<noteq> NaN"
  by (cases x) auto

lemma div_pos_mono: "x \<noteq> NaN \<Longrightarrow> x \<le> y \<Longrightarrow> 0 < k \<Longrightarrow> f_div x (Fin k) \<le> f_div y (Fin k)"
  by (cases x; cases y) (auto intro!: fl_mono divide_right_mono)

lemma ratio_in:
  assumes "fl (w - b) = Fin d" "0 < d" "b < v" "v < w"
  obtains r where "f_div (f_sub (Fin w) (Fin v)) (f_sub (Fin w) (Fin b)) = Fin r" "0 \<le> r" "r \<le> 1"
    "r = fround (fround (w - v) / d)" "fround (w - v) \<le> d"
proof -
  have "fl (w - v) \<le> Fin d" using fl_mono [of "w - v" "w - b"] assms by simp
  moreover have "Fin 0 \<le> fl (w - v)" using fl_mono [of 0 "w - v"] assms fl_of_int [of 0] by simp
  ultimately obtain e where e: "fl (w - v) = Fin e" "0 \<le> e" "e \<le> d"
    
    by (cases "fl (w - v)") (auto simp: less_eq_f64_def)
  then have ee: "e = fround (w - v)" by (auto simp: fl_def Let_def split: if_splits)
  have "of_int 0 \<le> e / d" "e / d \<le> of_int 1" using e assms by simp_all
  note q = fl_between [OF this]
  show thesis using that [of "fround (e / d)"] q e assms by (simp add: f_sub_def ee)
qed

lemma decreasing_in:
  assumes "v \<noteq> NaN" "fl (w - b) = Fin d" "0 < d" "0 \<le> p" "p < 2 ^ 53"
  shows "fin_in 0 p (decreasingLinearScore v (Fin b) (Fin w) (Fin (of_int p)))"
proof (cases "f_le v (Fin b) \<or> f_le (Fin w) v")
  case True
  then show ?thesis using assms by (auto simp: decreasingLinearScore_def fin_in_def)
next
  case False
  then obtain x where x: "v = Fin x" "b < x" "x < w"
    using assms(1) by (cases v) (auto simp: f_le_Fin Fin_f_le)
  obtain r where r: "f_div (f_sub (Fin w) (Fin x)) (f_sub (Fin w) (Fin b)) = Fin r" "0 \<le> r" "r \<le> 1"
    using ratio_in [OF assms(2,3) x(2,3)] by blast
  have "fin_in 0 (p * 1) (f_mul (Fin (of_int p)) (Fin r))"
    using assms r by (intro fin_in_mul) (auto simp: fin_in_def)
  then show ?thesis using False x r by (simp add: decreasingLinearScore_def)
qed

lemma decreasing_mono:
  assumes "v \<noteq> NaN" "v \<le> v'" "fl (w - b) = Fin d" "0 < d" "0 \<le> p" "p < 2 ^ 53"
  shows "fin_le (decreasingLinearScore v' (Fin b) (Fin w) (Fin (of_int p)))
                (decreasingLinearScore v (Fin b) (Fin w) (Fin (of_int p)))"
    (is "fin_le ?s' ?s")
proof -
  have nn: "v' \<noteq> NaN" using assms(1,2) by (cases v; cases v') auto
  have in_s: "fin_in 0 p ?s" "fin_in 0 p ?s'"
    using decreasing_in [OF assms(1,3-6)] decreasing_in [OF nn assms(3-6)] by auto
  consider "f_le v (Fin b)" | "\<not> f_le v (Fin b)" "f_le (Fin w) v'"
    | "\<not> f_le v (Fin b)" "\<not> f_le (Fin w) v'" by blast
  then show ?thesis
  proof cases
    case 1
    then have "?s = Fin (of_int p)" by (simp add: decreasingLinearScore_def)
    with in_s show ?thesis by (auto simp: fin_in_iff fin_le_def)
  next
    case 2
    have "\<not> f_le v' (Fin b)" using 2(1) assms(1,2) nn
      by (cases v; cases v') (auto simp: f_le_Fin)
    then have "?s' = Fin 0" using 2(2) by (simp add: decreasingLinearScore_def)
    with in_s show ?thesis by (auto simp: fin_in_iff fin_le_def)
  next
    case 3
    obtain x y where xy: "v = Fin x" "v' = Fin y" "b < x" "x \<le> y" "y < w"
      using 3 assms(1,2) nn by (cases v; cases v') (auto simp: f_le_Fin Fin_f_le)
    obtain r where r: "f_div (f_sub (Fin w) (Fin x)) (f_sub (Fin w) (Fin b)) = Fin r" "0 \<le> r" "r \<le> 1"
        "r = fround (fround (w - x) / d)"
      using ratio_in [OF assms(3,4) xy(3), of thesis] xy by auto
    obtain q where q: "f_div (f_sub (Fin w) (Fin y)) (f_sub (Fin w) (Fin b)) = Fin q" "0 \<le> q" "q \<le> 1"
        "q = fround (fround (w - y) / d)"
      using ratio_in [OF assms(3,4) _ xy(5), of thesis] xy by auto
    have "fround (w - y) / d \<le> fround (w - x) / d"
      using xy assms(4) by (intro divide_right_mono ieee.rnd_mono) auto
    then have "q \<le> r" unfolding r q by (rule ieee.rnd_mono)
    then have "fin_le (f_mul (Fin (of_int p)) (Fin q)) (f_mul (Fin (of_int p)) (Fin r))"
      using assms r q by (intro fin_le_mul [where n = p and n' = 1]) (auto simp: fin_le_def fin_in_def)
    then show ?thesis using 3 xy r q by (simp add: decreasingLinearScore_def f_le_Fin Fin_f_le)
  qed
qed

subsection \<open>The parts of the network score\<close>

text \<open>Squared loss ratio: between 0 and 1, antitone in the loss.\<close>

definition loss_ratio :: "f64 \<Rightarrow> f64" where
  "loss_ratio p = f_sub (Fin 1) (f_div (clamp p (Fin 0) (Fin 5)) (Fin 5))"

lemma loss_ratio_le:
  assumes "p \<noteq> NaN" "p \<le> q"
  shows "fin_le (loss_ratio q) (loss_ratio p)" "fin_in 0 1 (loss_ratio p)" "fin_in 0 1 (loss_ratio q)"
proof -
  have q: "q \<noteq> NaN" using assms by auto
  obtain x y where xy: "clamp p (Fin 0) (Fin 5) = Fin x" "clamp q (Fin 0) (Fin 5) = Fin y" "x \<le> y"
      "0 \<le> x" "x \<le> 5" "0 \<le> y" "y \<le> 5"
    using clamp_mono [OF assms, of 0 5] clamp_in [OF assms(1), of 0 5] clamp_in [OF q, of 0 5]
    by (auto simp: fin_le_iff fin_in_iff)
  have d: "fl (z / 5) = Fin (fround (z / 5)) \<and> 0 \<le> fround (z / 5) \<and> fround (z / 5) \<le> 1"
    if "0 \<le> z" "z \<le> 5" for z :: real
    using fl_between [of 0 "z / 5" 1] that by simp
  have e: "fl (1 - u) = Fin (fround (1 - u)) \<and> 0 \<le> fround (1 - u) \<and> fround (1 - u) \<le> 1"
    if "0 \<le> u" "u \<le> 1" for u :: real
    using fl_between [of 0 "1 - u" 1] that by simp
  have "fround (x / 5) \<le> fround (y / 5)" using xy by (intro ieee.rnd_mono) simp
  then have m: "fround (1 - fround (y / 5)) \<le> fround (1 - fround (x / 5))" by (intro ieee.rnd_mono) simp
  have px: "loss_ratio p = Fin (fround (1 - fround (x / 5)))"
    and qy: "loss_ratio q = Fin (fround (1 - fround (y / 5)))"
    using d [OF xy(4,5)] d [OF xy(6,7)] e xy by (simp_all add: loss_ratio_def f_sub_def)
  show "fin_le (loss_ratio q) (loss_ratio p)" using m px qy by (simp add: fin_le_def)
  show "fin_in 0 1 (loss_ratio p)" "fin_in 0 1 (loss_ratio q)"
    using d [OF xy(4,5)] d [OF xy(6,7)] e px qy by (simp_all add: fin_in_def)
qed

definition loss_points :: "f64 \<Rightarrow> f64" where
  "loss_points p = f_mul (f_mul (Fin 30) (loss_ratio p)) (loss_ratio p)"

lemma loss_points_le:
  assumes "p \<noteq> NaN" "p \<le> q"
  shows "fin_le (loss_points q) (loss_points p)" "fin_in 0 30 (loss_points p)" "fin_in 0 30 (loss_points q)"
proof -
  note r = loss_ratio_le [OF assms]
  have c: "fin_in 0 30 (Fin 30)" "fin_le (Fin 30) (Fin 30)" by (simp_all add: fin_in_def fin_le_def)
  have m: "fin_in 0 30 (f_mul (Fin 30) (loss_ratio p))" "fin_in 0 30 (f_mul (Fin 30) (loss_ratio q))"
    using fin_in_mul [OF c(1) r(2)] fin_in_mul [OF c(1) r(3)] by simp_all
  then show "fin_in 0 30 (loss_points p)" "fin_in 0 30 (loss_points q)"
    using fin_in_mul [OF m(1) r(2)] fin_in_mul [OF m(2) r(3)] by (simp_all add: loss_points_def)
  have "fin_le (f_mul (Fin 30) (loss_ratio q)) (f_mul (Fin 30) (loss_ratio p))"
    using c r by (intro fin_le_mul [where n = 30 and n' = 1]) auto
  then show "fin_le (loss_points q) (loss_points p)"
    unfolding loss_points_def using m r
    by (intro fin_le_mul [where n = 30 and n' = 1 and a = "f_mul (Fin 30) (loss_ratio q)"]) auto
qed

definition bandwidth_points :: "f64 \<Rightarrow> f64" where
  "bandwidth_points d = f_mul (Fin 15) (clamp01 (f_div d (Fin 1000)))"

lemma bandwidth_points_le:
  assumes "d \<noteq> NaN" "d \<le> e"
  shows "fin_le (bandwidth_points d) (bandwidth_points e)"
    "fin_in 0 15 (bandwidth_points d)" "fin_in 0 15 (bandwidth_points e)"
proof -
  have e: "e \<noteq> NaN" using assms by auto
  let ?d = "clamp01 (f_div d (Fin 1000))" and ?e = "clamp01 (f_div e (Fin 1000))"
  have c: "fin_in 0 15 (Fin 15)" "fin_le (Fin 15) (Fin 15)" by (simp_all add: fin_in_def fin_le_def)
  have r: "fin_in 0 1 ?d" "fin_in 0 1 ?e"
    using clamp_in [of "f_div d (Fin 1000)" 0 1] clamp_in [of "f_div e (Fin 1000)" 0 1]
      div_pos_not_NaN assms e by (simp_all add: clamp01_def)
  have le: "fin_le ?d ?e"
    using assms by (simp add: clamp01_def clamp_mono div_pos_mono div_pos_not_NaN)
  show "fin_le (bandwidth_points d) (bandwidth_points e)"
    unfolding bandwidth_points_def using c r le by (intro fin_le_mul [where n = 15 and n' = 1]) auto
  show "fin_in 0 15 (bandwidth_points d)" "fin_in 0 15 (bandwidth_points e)"
    using fin_in_mul [OF c(1) r(1)] fin_in_mul [OF c(1) r(2)] by (simp_all add: bandwidth_points_def)
qed

definition address_points :: "bool \<Rightarrow> bool \<Rightarrow> f64" where
  "address_points v4 v6 =
     (let s1 = (if v4 then f_add (Fin 0) (Fin 6) else Fin 0) in if v6 then f_add s1 (Fin 4) else s1)"

lemma address_points_eq:
  "address_points v4 v6 = Fin ((if v4 then 6 else 0) + (if v6 then 4 else 0))"
  using fl_of_int [of 6] fl_of_int [of 4] fl_of_int [of 10] by (simp add: address_points_def)

lemma fl_constants: "fl 190 = Fin 190" "fl 48 = Fin 48" "fl 4900 = Fin 4900"
  using fl_of_int [of 190] fl_of_int [of 48] fl_of_int [of 4900] by simp_all

text \<open>The sum of the parts before the final clamp and rounding.\<close>

definition network_total :: "bool \<Rightarrow> bool \<Rightarrow> f64 \<Rightarrow> f64 \<Rightarrow> f64 \<Rightarrow> f64 \<Rightarrow> f64 \<Rightarrow> f64" where
  "network_total v4 v6 d u l j p =
     f_add (f_add (f_add (f_add (f_add (address_points v4 v6) (bandwidth_points d)) (bandwidth_points u))
       (decreasingLinearScore l (Fin 10) (Fin 200) (Fin 20)))
       (decreasingLinearScore j (Fin 2) (Fin 50) (Fin 10))) (loss_points p)"

lemma CalculateNetworkScore_total:
  "CalculateNetworkScore v4 v6 d u l j p =
     (if v4 \<or> v6 then f_to_int (f_round (clamp (network_total v4 v6 d u l j p) (Fin 0) (Fin 100))) else 0)"
  by (simp add: CalculateNetworkScore_def network_total_def address_points_def bandwidth_points_def
      loss_points_def loss_ratio_def Let_def)

lemma network_total_le:
  assumes "d \<noteq> NaN" "d \<le> d'" "u \<noteq> NaN" "u \<le> u'" "l' \<noteq> NaN" "l' \<le> l" "j' \<noteq> NaN" "j' \<le> j"
    "p' \<noteq> NaN" "p' \<le> p" "v4 \<longrightarrow> v4'" "v6 \<longrightarrow> v6'"
  shows "fin_le (network_total v4 v6 d u l j p) (network_total v4' v6' d' u' l' j' p')
    \<and> fin_in 0 100 (network_total v4 v6 d u l j p) \<and> fin_in 0 100 (network_total v4' v6' d' u' l' j' p')"
proof -
  note parts = bandwidth_points_le [OF assms(1,2)] bandwidth_points_le [OF assms(3,4)]
    loss_points_le [OF assms(9,10)]
  have lj: "l \<noteq> NaN" "j \<noteq> NaN" using assms by auto
  have lat: "fin_le (decreasingLinearScore l (Fin 10) (Fin 200) (Fin 20)) (decreasingLinearScore l' (Fin 10) (Fin 200) (Fin 20))"
    "fin_in 0 20 (decreasingLinearScore l (Fin 10) (Fin 200) (Fin 20))"
    "fin_in 0 20 (decreasingLinearScore l' (Fin 10) (Fin 200) (Fin 20))"
    using decreasing_mono [OF assms(5,6), of 200 10 190 20] decreasing_in [OF lj(1), of 200 10 190 20]
      decreasing_in [OF assms(5), of 200 10 190 20] fl_constants by simp_all
  have jit: "fin_le (decreasingLinearScore j (Fin 2) (Fin 50) (Fin 10)) (decreasingLinearScore j' (Fin 2) (Fin 50) (Fin 10))"
    "fin_in 0 10 (decreasingLinearScore j (Fin 2) (Fin 50) (Fin 10))"
    "fin_in 0 10 (decreasingLinearScore j' (Fin 2) (Fin 50) (Fin 10))"
    using decreasing_mono [OF assms(7,8), of 50 2 48 10] decreasing_in [OF lj(2), of 50 2 48 10]
      decreasing_in [OF assms(7), of 50 2 48 10] fl_constants by simp_all
  have add: "fin_le (f_add a b) (f_add a' b') \<and> fin_in 0 (m + n) (f_add a b) \<and> fin_in 0 (m + n) (f_add a' b')"
    if "fin_le a a' \<and> fin_in 0 m a \<and> fin_in 0 m a'" "fin_le b b'" "fin_in 0 n b" "fin_in 0 n b'" "\<bar>m + n\<bar> < 2 ^ 53"
    for a a' b b' m n
    using that fin_le_add [of a a' b b' 0 m 0 n] fin_in_add [of 0 m a 0 n b] fin_in_add [of 0 m a' 0 n b'] by simp
  have s0: "fin_le (address_points v4 v6) (address_points v4' v6') \<and> fin_in 0 10 (address_points v4 v6)
      \<and> fin_in 0 10 (address_points v4' v6')"
    using assms(11,12) by (auto simp: address_points_eq fin_le_def fin_in_def)
  note s1 = add [OF s0 parts(1-3), simplified]
  note s2 = add [OF s1 parts(4-6), simplified]
  note s3 = add [OF s2 lat, simplified]
  note s4 = add [OF s3 jit, simplified]
  show ?thesis using add [OF s4 parts(7,9,8)] by (simp add: network_total_def)
qed

lemma round_int_bounds:
  assumes "fin_in 0 n a" "0 \<le> n" "n < 2 ^ 53"
  shows "0 \<le> f_to_int (f_round a) \<and> f_to_int (f_round a) \<le> n"
proof -
  obtain x where x: "a = Fin x" "0 \<le> x" "x \<le> of_int n" using assms by (auto simp: fin_in_iff)
  then have "\<lfloor>x + 1 / 2\<rfloor> \<le> n" "0 \<le> \<lfloor>x + 1 / 2\<rfloor>" by linarith+
  then show ?thesis using x assms(2,3) by (simp add: trunc_real_def)
qed

lemma round_int_mono:
  assumes "fin_le a b" "fin_in 0 n a" "fin_in 0 n b" "0 \<le> n" "n < 2 ^ 53"
  shows "f_to_int (f_round a) \<le> f_to_int (f_round b)"
proof -
  obtain x y where x: "a = Fin x" "0 \<le> x" "x \<le> of_int n" "b = Fin y" "x \<le> y" "y \<le> of_int n"
    using assms by (auto simp: fin_in_iff fin_le_iff)
  then have "\<lfloor>x + 1 / 2\<rfloor> \<le> n" "0 \<le> \<lfloor>x + 1 / 2\<rfloor>" "\<lfloor>y + 1 / 2\<rfloor> \<le> n" "\<lfloor>x + 1 / 2\<rfloor> \<le> \<lfloor>y + 1 / 2\<rfloor>"
    by linarith+
  then show ?thesis using x assms(4,5) by (simp add: trunc_real_def)
qed

text \<open>C18: the network score is at most 100 and at least 0 whatever the measurements, as long as
  none is NaN (JSON cannot carry one), and it is 0 without IPv4 and IPv6.\<close>

theorem network_score_range:
  assumes "d \<noteq> NaN" "u \<noteq> NaN" "l \<noteq> NaN" "j \<noteq> NaN" "p \<noteq> NaN"
  shows "0 \<le> CalculateNetworkScore v4 v6 d u l j p \<and> CalculateNetworkScore v4 v6 d u l j p \<le> 100
    \<and> CalculateNetworkScore False False d u l j p = 0"
proof -
  have "fin_in 0 100 (network_total v4 v6 d u l j p)"
    using network_total_le [of d d u u l l j j p p v4 v4 v6 v6] assms by simp
  then have "fin_in 0 100 (clamp (network_total v4 v6 d u l j p) (Fin 0) (Fin 100))"
    by (auto simp: fin_in_iff clamp_def)
  then show ?thesis
    using round_int_bounds by (simp add: CalculateNetworkScore_total)
qed

theorem network_score_range_witness:
  "0 \<le> CalculateNetworkScore True True (Fin 500) (Fin 50) (Fin 25) (Fin 3) PosInf
   \<and> CalculateNetworkScore True True (Fin 500) (Fin 50) (Fin 25) (Fin 3) PosInf \<le> 100"
  using network_score_range [of "Fin 500" "Fin 50" "Fin 25" "Fin 3" PosInf True True] by simp

text \<open>C19: the network score is monotone in every measurement, rounding errors included: more
  bandwidth, less latency, jitter or loss and more address families never lower it.\<close>

theorem network_score_monotone:
  assumes "d \<noteq> NaN" "d \<le> d'" "u \<noteq> NaN" "u \<le> u'" "l' \<noteq> NaN" "l' \<le> l" "j' \<noteq> NaN" "j' \<le> j"
    "p' \<noteq> NaN" "p' \<le> p" "v4 \<longrightarrow> v4'" "v6 \<longrightarrow> v6'"
  shows "CalculateNetworkScore v4 v6 d u l j p \<le> CalculateNetworkScore v4' v6' d' u' l' j' p'"
proof (cases "v4 \<or> v6")
  case True
  note t = network_total_le [OF assms]
  let ?c = "\<lambda>t. clamp t (Fin 0) (Fin 100)"
  have c: "fin_in 0 100 (?c t)" "fin_in 0 100 t \<Longrightarrow> ?c t = t" if "fin_in 0 100 t" for t
    using that by (auto simp: fin_in_iff clamp_def)
  show ?thesis
    using True assms(11,12) t c round_int_mono [of "network_total v4 v6 d u l j p" _ 100]
    by (auto simp: CalculateNetworkScore_total)
next
  case False
  have "d' \<noteq> NaN" "u' \<noteq> NaN" using assms by auto
  then have "fin_in 0 100 (network_total v4' v6' d' u' l' j' p')"
    using network_total_le [of d' d' u' u' l' l' j' j' p' p' v4' v4' v6' v6'] assms by simp
  then have "fin_in 0 100 (clamp (network_total v4' v6' d' u' l' j' p') (Fin 0) (Fin 100))"
    by (auto simp: fin_in_iff clamp_def)
  then show ?thesis using False round_int_bounds by (simp add: CalculateNetworkScore_total)
qed

theorem network_score_monotone_witness:
  "CalculateNetworkScore True False (Fin 100) (Fin 20) (Fin 80) (Fin 9) (Fin 2)
   \<le> CalculateNetworkScore True True (Fin 200) (Fin 20) (Fin 40) (Fin 3) (Fin 0)"
  using network_score_monotone [of "Fin 100" "Fin 200" "Fin 20" "Fin 20" "Fin 40" "Fin 80" "Fin 3" "Fin 9"
    "Fin 0" "Fin 2" True True False True] by simp

section \<open>compute\_score.go\<close>

record ComputeScoreBreakdown =
  sb_Score :: int
  sb_SuccessfulRuns :: int
  sb_TotalRuns :: int
  sb_MedianPromptTokensPerSecond :: f64
  sb_MedianGenerationTokensPerSecond :: f64
  sb_MedianTimeToFirstTokenMs :: f64
  sb_PromptPoints :: f64
  sb_GenerationPoints :: f64
  sb_TTFTPoints :: f64
  sb_StabilityPoints :: f64
  sb_SuccessPoints :: f64
  sb_VariationCoefficient :: f64
  sb_ThrottlingObserved :: bool

definition empty_breakdown :: "nat \<Rightarrow> ComputeScoreBreakdown" where
  "empty_breakdown n =
     \<lparr>sb_Score = 0, sb_SuccessfulRuns = 0, sb_TotalRuns = int n,
      sb_MedianPromptTokensPerSecond = Fin 0, sb_MedianGenerationTokensPerSecond = Fin 0,
      sb_MedianTimeToFirstTokenMs = Fin 0, sb_PromptPoints = Fin 0, sb_GenerationPoints = Fin 0,
      sb_TTFTPoints = Fin 0, sb_StabilityPoints = Fin 0, sb_SuccessPoints = Fin 0,
      sb_VariationCoefficient = Fin 0, sb_ThrottlingObserved = False\<rparr>"

definition medianFloat64 :: "f64 list \<Rightarrow> f64" where
  "medianFloat64 values =
     (if length values = 0 then Fin 0
      else let sorted = sort values; middle = length sorted div 2
           in if length sorted mod 2 = 1 then sorted ! middle
              else f_div (f_add (sorted ! (middle - 1)) (sorted ! middle)) (Fin 2))"

definition sum64 :: "f64 list \<Rightarrow> f64" where
  "sum64 values = foldl (\<lambda>acc value. f_add acc value) (Fin 0) values"

definition coefficientOfVariation :: "f64 list \<Rightarrow> f64" where
  "coefficientOfVariation values =
     (if length values < 2 then Fin 1
      else let mean = f_div (sum64 values) (f_of_int (int (length values)))
           in if f_le mean (Fin 0) then Fin 1
              else let variance0 = foldl (\<lambda>variance value. let delta = f_sub value mean
                                            in f_add variance (f_mul delta delta)) (Fin 0) values;
                       variance = f_div variance0 (f_of_int (int (length values)))
                   in f_div (f_sqrt variance) mean)"

definition computeBenchmarkVariationCoefficient :: "f64 list \<Rightarrow> f64 list \<Rightarrow> f64 list \<Rightarrow> f64" where
  "computeBenchmarkVariationCoefficient promptRates generationRates ttfts =
     (let values = [coefficientOfVariation promptRates, coefficientOfVariation generationRates,
                    coefficientOfVariation ttfts]
      in f_div (sum64 values) (f_of_int (int (length values))))"

text \<open>One turn of the loop over the samples: the breakdown and the three lists of rates.\<close>

definition scoreSample ::
    "ComputeScoreBreakdown \<times> f64 list \<times> f64 list \<times> f64 list \<Rightarrow> ComputeBenchmarkSample
     \<Rightarrow> ComputeScoreBreakdown \<times> f64 list \<times> f64 list \<times> f64 list" where
  "scoreSample acc sample =
     (let (result0, promptRates, generationRates, ttfts) = acc;
          result = (if cs_Throttled sample = Some True then result0\<lparr>sb_ThrottlingObserved := True\<rparr> else result0)
      in if \<not> cs_Success sample then (result, promptRates, generationRates, ttfts)
         else (result\<lparr>sb_SuccessfulRuns := sb_SuccessfulRuns result + 1\<rparr>,
               promptRates @ [cs_PromptTokensPerSecond sample],
               generationRates @ [cs_GenerationTokensPerSecond sample],
               ttfts @ [cs_TimeToFirstTokenMs sample]))"

text \<open>The component scores of the gathered rates, then the total and the rounded score.\<close>

definition scoreComponents ::
    "ComputeScoreBreakdown \<Rightarrow> f64 list \<Rightarrow> f64 list \<Rightarrow> f64 list \<Rightarrow> ComputeScoreBreakdown" where
  "scoreComponents r0 promptRates generationRates ttfts =
     (let r1 = r0\<lparr>sb_MedianPromptTokensPerSecond := medianFloat64 promptRates,
                   sb_MedianGenerationTokensPerSecond := medianFloat64 generationRates,
                   sb_MedianTimeToFirstTokenMs := medianFloat64 ttfts\<rparr>;
          r2 = r1\<lparr>sb_PromptPoints :=
                     f_mul (Fin 20) (clamp01 (f_div (sb_MedianPromptTokensPerSecond r1) (Fin 1000))),
                   sb_GenerationPoints :=
                     f_mul (Fin 40) (clamp01 (f_div (sb_MedianGenerationTokensPerSecond r1) (Fin 100))),
                   sb_TTFTPoints :=
                     decreasingLinearScore (sb_MedianTimeToFirstTokenMs r1) (Fin 100) (Fin 5000) (Fin 15),
                   sb_SuccessPoints :=
                     f_mul (Fin 10) (f_div (f_of_int (sb_SuccessfulRuns r1)) (f_of_int (sb_TotalRuns r1))),
                   sb_VariationCoefficient :=
                     computeBenchmarkVariationCoefficient promptRates generationRates ttfts\<rparr>
      in if sb_SuccessfulRuns r2 \<ge> 3
         then r2\<lparr>sb_StabilityPoints :=
                   decreasingLinearScore (sb_VariationCoefficient r2) (fl (5 / 100)) (fl (3 / 10)) (Fin 15)\<rparr>
         else r2)"

definition scoreTotal :: "ComputeScoreBreakdown \<Rightarrow> f64" where
  "scoreTotal r =
     (let t = f_add (f_add (f_add (f_add (sb_PromptPoints r) (sb_GenerationPoints r)) (sb_TTFTPoints r))
                    (sb_StabilityPoints r)) (sb_SuccessPoints r)
      in if sb_ThrottlingObserved r then f_mul t (fl (9 / 10)) else t)"

definition CalculateComputeScore :: "ComputeBenchmark \<Rightarrow> ComputeScoreBreakdown" where
  "CalculateComputeScore benchmark =
     (let result = empty_breakdown (length (cb_Samples benchmark))
      in if length (cb_Samples benchmark) = 0 then result
         else let (result1, promptRates, generationRates, ttfts) =
                    foldl scoreSample (result, [], [], []) (cb_Samples benchmark)
              in if sb_SuccessfulRuns result1 = 0 then result1
                 else let result2 = scoreComponents result1 promptRates generationRates ttfts
                      in result2\<lparr>sb_Score := f_to_int (f_round (clamp (scoreTotal result2) (Fin 0) (Fin 100)))\<rparr>)"

subsection \<open>The loop over the samples\<close>

lemma scoreSample_apply:
  "scoreSample (r, ps, gs, ts) x =
     (let r' = r\<lparr>sb_ThrottlingObserved := sb_ThrottlingObserved r \<or> cs_Throttled x = Some True\<rparr>
      in if cs_Success x
         then (r'\<lparr>sb_SuccessfulRuns := sb_SuccessfulRuns r + 1\<rparr>, ps @ [cs_PromptTokensPerSecond x],
               gs @ [cs_GenerationTokensPerSecond x], ts @ [cs_TimeToFirstTokenMs x])
         else (r', ps, gs, ts))"
  by (simp add: scoreSample_def Let_def)

lemma scoreSample_fold:
  "foldl scoreSample (r, ps, gs, ts) xs =
     (r\<lparr>sb_ThrottlingObserved := sb_ThrottlingObserved r \<or> (\<exists>x\<in>set xs. cs_Throttled x = Some True),
        sb_SuccessfulRuns := sb_SuccessfulRuns r + int (length (filter cs_Success xs))\<rparr>,
      ps @ map cs_PromptTokensPerSecond (filter cs_Success xs),
      gs @ map cs_GenerationTokensPerSecond (filter cs_Success xs),
      ts @ map cs_TimeToFirstTokenMs (filter cs_Success xs))"
proof (induction xs arbitrary: r ps gs ts)
  case (Cons x xs)
  show ?case
    by (auto simp: scoreSample_apply Let_def Cons.IH)
qed simp

definition successes :: "ComputeBenchmark \<Rightarrow> ComputeBenchmarkSample list" where
  "successes b = filter cs_Success (cb_Samples b)"

definition loop_result :: "ComputeBenchmark \<Rightarrow> ComputeScoreBreakdown" where
  "loop_result b = (empty_breakdown (length (cb_Samples b)))
     \<lparr>sb_ThrottlingObserved := (\<exists>x\<in>set (cb_Samples b). cs_Throttled x = Some True),
      sb_SuccessfulRuns := int (length (successes b))\<rparr>"

lemma CalculateComputeScore_alt:
  "CalculateComputeScore b =
     (if successes b = [] then loop_result b
      else let r = scoreComponents (loop_result b) (map cs_PromptTokensPerSecond (successes b))
                     (map cs_GenerationTokensPerSecond (successes b)) (map cs_TimeToFirstTokenMs (successes b))
           in r\<lparr>sb_Score := f_to_int (f_round (clamp (scoreTotal r) (Fin 0) (Fin 100)))\<rparr>)"
  by (cases "cb_Samples b = []")
     (auto simp: CalculateComputeScore_def scoreSample_fold successes_def loop_result_def Let_def
       empty_breakdown_def)

subsection \<open>Values that are neither negative nor NaN\<close>

definition nn :: "f64 \<Rightarrow> bool" where
  "nn a \<longleftrightarrow> a = PosInf \<or> (\<exists>x. a = Fin x \<and> 0 \<le> x)"

lemma nn_Fin [simp]: "nn (Fin x) \<longleftrightarrow> 0 \<le> x" and nn_PosInf [simp]: "nn PosInf"
  by (auto simp: nn_def)

lemma nn_not_NaN: "nn a \<Longrightarrow> a \<noteq> NaN"
  by (auto simp: nn_def)

lemma fin_in_nn: "fin_in 0 n a \<Longrightarrow> nn a"
  by (auto simp: fin_in_iff)

lemma nn_fl: "0 \<le> x \<Longrightarrow> nn (fl x)"
  using fl_nonneg [of x] by (auto simp: nn_def)

lemma nn_add: "nn a \<Longrightarrow> nn b \<Longrightarrow> nn (f_add a b)"
  unfolding nn_def [of a] nn_def [of b] by (auto intro!: nn_fl)

lemma nn_div: "nn a \<Longrightarrow> 0 < x \<Longrightarrow> nn (f_div a (Fin x))"
  unfolding nn_def [of a] by (auto intro!: nn_fl)

lemma nn_sqrt: "nn a \<Longrightarrow> nn (f_sqrt a)"
  unfolding nn_def [of a] by (auto intro!: nn_fl)

lemma nn_square: "nn (f_mul (Fin x) (Fin x))"
  by (simp add: nn_fl)

lemma of_int_length: "length vs < 2 ^ 53 \<Longrightarrow> f_of_int (int (length vs)) = Fin (of_nat (length vs))"
proof -
  assume "length vs < 2 ^ 53"
  then have "int (length vs) < 2 ^ 53" by (metis of_nat_less_iff of_nat_numeral of_nat_power)
  then show ?thesis using f_of_int_small [of "int (length vs)"] by simp
qed

lemma sum64_snoc: "sum64 (vs @ [v]) = f_add (sum64 vs) v"
  by (simp add: sum64_def)

lemma sum64_in:
  assumes "list_all (fin_in 0 B) vs" "0 \<le> B" "int (length vs) * B < 2 ^ 53"
  shows "fin_in 0 (int (length vs) * B) (sum64 vs)"
  using assms
proof (induction vs rule: rev_induct)
  case Nil
  then show ?case by (simp add: sum64_def fin_in_def)
next
  case (snoc v vs)
  have "int (length vs) * B \<le> int (length (vs @ [v])) * B" using snoc(3) by (simp add: mult_right_mono)
  then have b: "fin_in 0 (int (length vs) * B) (sum64 vs)" using snoc by simp
  have "fin_in (0 + 0) (int (length vs) * B + B) (f_add (sum64 vs) v)"
    using snoc by (intro fin_in_add b) (auto simp: algebra_simps)
  then show ?case by (simp add: sum64_snoc algebra_simps)
qed

lemma deviation_finite:
  assumes "fin_in 0 B v" "0 \<le> m" "m \<le> of_int N" "B + N < 2 ^ 53" "0 \<le> B" "0 \<le> N"
  obtains y where "f_sub v (Fin m) = Fin y"
proof -
  obtain x where x: "v = Fin x" "0 \<le> x" "x \<le> of_int B" using assms(1) by (auto simp: fin_in_iff)
  have "real_of_int (- N) \<le> x + - m" "x + - m \<le> of_int B" using x assms by simp_all
  then have "fl (x + - m) = Fin (fround (x + - m))" using assms by (intro fl_between(1) [of "- N" _ B]) auto
  then show thesis using that x by (simp add: f_sub_def)
qed

lemma cv_nn:
  assumes "list_all (fin_in 0 B) vs" "0 \<le> B" "int (length vs + 1) * B < 2 ^ 53" "length vs < 2 ^ 53"
  shows "nn (coefficientOfVariation vs)"
proof (cases "length vs < 2")
  case True
  then show ?thesis by (simp add: coefficientOfVariation_def)
next
  case False
  let ?n = "real (length vs)" and ?N = "int (length vs) * B"
  have N: "?N < 2 ^ 53" "0 \<le> ?N" using assms(2,3) by (simp_all add: algebra_simps)
  have n: "1 \<le> ?n" "?n \<noteq> 0" using False by (cases vs; simp)+
  obtain s where s: "sum64 vs = Fin s" "0 \<le> s" "s \<le> of_int ?N"
    using sum64_in [OF assms(1,2) N(1)] by (auto simp: fin_in_iff)
  have "0 < ?n * 1" using n(1) by linarith
  with n(1) s(2) have "s / ?n \<le> s / 1" by (rule divide_left_mono)
  then have "s / ?n \<le> of_int ?N" using s by linarith
  then have m: "fl (s / ?n) = Fin (fround (s / ?n))" "of_int 0 \<le> fround (s / ?n)" "fround (s / ?n) \<le> of_int ?N"
    using fl_between [of 0 "s / ?n" ?N] N s n(1) by simp_all
  define mean where "mean = fround (s / ?n)"
  have mean: "f_div (sum64 vs) (f_of_int (int (length vs))) = Fin mean"
    using of_int_length [OF assms(4)] s m n by (simp add: mean_def f_div.simps(1))
  have step: "nn (f_add a (f_mul (f_sub v (Fin mean)) (f_sub v (Fin mean))))"
    if a: "nn a" and v: "fin_in 0 B v" for a v
  proof -
    obtain y where "f_sub v (Fin mean) = Fin y"
      using deviation_finite [OF v, of mean ?N] m assms N by (auto simp: mean_def algebra_simps)
    then show ?thesis using nn_add [OF a nn_square [of y]] by simp
  qed
  have var: "nn (foldl (\<lambda>variance value. let delta = f_sub value (Fin mean)
      in f_add variance (f_mul delta delta)) (Fin 0) vs)"
  proof -
    have "nn (foldl (\<lambda>variance value. let delta = f_sub value (Fin mean)
        in f_add variance (f_mul delta delta)) a vs)" if "nn a" for a
      using assms(1) that
    proof (induction vs arbitrary: a)
      case (Cons v vs)
      then show ?case using step [of a v] by (simp add: Let_def)
    qed simp
    then show ?thesis by simp
  qed
  show ?thesis
  proof (cases "mean \<le> 0")
    case True
    then show ?thesis using mean by (auto simp: coefficientOfVariation_def f_le_def Let_def)
  next
    case pos: False
    then show ?thesis
      using nn_div [OF nn_sqrt [OF nn_div [OF var, of ?n]], of mean] mean n False of_int_length [OF assms(4)]
      by (simp add: coefficientOfVariation_def f_le_def Let_def)
  qed
qed

lemma sort_nn: "list_all nn vs \<Longrightarrow> i < length vs \<Longrightarrow> nn (sort vs ! i)"
  by (metis length_sort list_all_iff nth_mem set_sort)

lemma median_nn:
  assumes "list_all nn vs"
  shows "nn (medianFloat64 vs)"
proof (cases "vs = []")
  case False
  then have "length vs div 2 < length vs" "length vs div 2 - 1 < length vs"
    by (simp_all add: less_imp_diff_less)
  then show ?thesis
    using sort_nn [OF assms] False by (auto simp: medianFloat64_def Let_def intro!: nn_div nn_add)
qed (simp add: medianFloat64_def)

subsection \<open>Bounds of the parts\<close>

lemma score_constants:
  "fl (5 / 100) = Fin (3602879701896397 / 72057594037927936)"
  "fl (3 / 10) = Fin (5404319552844595 / 18014398509481984)"
  "fl (5404319552844595 / 18014398509481984 - 3602879701896397 / 72057594037927936) = Fin (1 / 4)"
  "fl (9 / 10) = Fin (8106479329266893 / 9007199254740992)"
  by code_simp+

lemma stability_in:
  "v \<noteq> NaN \<Longrightarrow> fin_in 0 15 (decreasingLinearScore v (fl (5 / 100)) (fl (3 / 10)) (Fin 15))"
  using decreasing_in [OF _ score_constants(3), of v 15] score_constants by simp

lemma rate_points_in:
  assumes "nn v" "0 < k" "0 \<le> p" "p < 2 ^ 53"
  shows "fin_in 0 p (f_mul (Fin (of_int p)) (clamp01 (f_div v (Fin k))))"
proof -
  have "fin_in 0 1 (clamp01 (f_div v (Fin k)))"
    using clamp_in [of "f_div v (Fin k)" 0 1] nn_not_NaN [OF nn_div [OF assms(1,2)]] by (simp add: clamp01_def)
  then show ?thesis
    using fin_in_mul [of p "Fin (of_int p)" 1] assms by (simp add: fin_in_def)
qed

lemma success_points_in:
  assumes "s \<le> t" "0 < t" "t < 2 ^ 53"
  shows "fin_in 0 10 (f_mul (Fin 10) (f_div (f_of_int (int s)) (f_of_int (int t))))"
proof -
  have t: "int t < 2 ^ 53" using assms(3) by (metis of_nat_less_iff of_nat_numeral of_nat_power)
  then have e: "f_of_int (int s) = Fin (real s)" "f_of_int (int t) = Fin (real t)"
    using f_of_int_small [of "int s"] f_of_int_small [of "int t"] assms(1) by simp_all
  have "of_int 0 \<le> real s / real t" "real s / real t \<le> of_int 1" using assms by simp_all
  note q = fl_between [OF this]
  have "fin_in 0 (10 * 1) (f_mul (Fin 10) (Fin (fround (real s / real t))))"
    using q by (intro fin_in_mul) (auto simp: fin_in_def)
  then show ?thesis using q e assms by simp
qed

subsection \<open>The score as a whole\<close>

lemma add_in_0: "fin_in 0 m a \<Longrightarrow> fin_in 0 n b \<Longrightarrow> m + n < 2 ^ 53 \<Longrightarrow> 0 \<le> m + n \<Longrightarrow> fin_in 0 (m + n) (f_add a b)"
  using fin_in_add [of 0 m a 0 n b] by simp

definition components :: "ComputeBenchmark \<Rightarrow> ComputeScoreBreakdown" where
  "components b = scoreComponents (loop_result b) (map cs_PromptTokensPerSecond (successes b))
     (map cs_GenerationTokensPerSecond (successes b)) (map cs_TimeToFirstTokenMs (successes b))"

lemma components_fields:
  "sb_PromptPoints (components b) = f_mul (Fin 20) (clamp01 (f_div
     (medianFloat64 (map cs_PromptTokensPerSecond (successes b))) (Fin 1000)))"
  "sb_GenerationPoints (components b) = f_mul (Fin 40) (clamp01 (f_div
     (medianFloat64 (map cs_GenerationTokensPerSecond (successes b))) (Fin 100)))"
  "sb_TTFTPoints (components b) = decreasingLinearScore
     (medianFloat64 (map cs_TimeToFirstTokenMs (successes b))) (Fin 100) (Fin 5000) (Fin 15)"
  "sb_SuccessPoints (components b) = f_mul (Fin 10) (f_div (f_of_int (int (length (successes b))))
     (f_of_int (int (length (cb_Samples b)))))"
  "sb_VariationCoefficient (components b) = computeBenchmarkVariationCoefficient
     (map cs_PromptTokensPerSecond (successes b)) (map cs_GenerationTokensPerSecond (successes b))
     (map cs_TimeToFirstTokenMs (successes b))"
  "sb_StabilityPoints (components b) = (if 3 \<le> length (successes b)
     then decreasingLinearScore (sb_VariationCoefficient (components b)) (fl (5 / 100)) (fl (3 / 10)) (Fin 15)
     else Fin 0)"
  "sb_ThrottlingObserved (components b) \<longleftrightarrow> (\<exists>x\<in>set (cb_Samples b). cs_Throttled x = Some True)"
  by (simp_all add: components_def scoreComponents_def loop_result_def empty_breakdown_def Let_def)

lemma CalculateComputeScore_components:
  "successes b \<noteq> [] \<Longrightarrow>
     sb_Score (CalculateComputeScore b) = f_to_int (f_round (clamp (scoreTotal (components b)) (Fin 0) (Fin 100)))"
  by (simp add: CalculateComputeScore_alt Let_def components_def)

text \<open>The measurements of the successful samples lie between 0 and \<open>B\<close>.\<close>

definition measurements_in :: "int \<Rightarrow> ComputeBenchmark \<Rightarrow> bool" where
  "measurements_in B b \<longleftrightarrow> list_all (\<lambda>s. cs_Success s \<longrightarrow> fin_in 0 B (cs_PromptTokensPerSecond s)
     \<and> fin_in 0 B (cs_GenerationTokensPerSecond s) \<and> fin_in 0 B (cs_TimeToFirstTokenMs s)) (cb_Samples b)"

lemma measurements_rates:
  assumes "measurements_in B b"
  shows "list_all (fin_in 0 B) (map cs_PromptTokensPerSecond (successes b))"
    "list_all (fin_in 0 B) (map cs_GenerationTokensPerSecond (successes b))"
    "list_all (fin_in 0 B) (map cs_TimeToFirstTokenMs (successes b))"
  using assms by (auto simp: measurements_in_def list_all_iff successes_def)

lemma list_nn: "list_all (fin_in 0 B) vs \<Longrightarrow> list_all nn vs"
  by (auto simp: list_all_iff intro: fin_in_nn)

lemma variation_nn:
  assumes "measurements_in B b" "0 \<le> B" "int (length (successes b) + 1) * B < 2 ^ 53" "length (successes b) < 2 ^ 53"
  shows "nn (sb_VariationCoefficient (components b))"
proof -
  note r = measurements_rates [OF assms(1)]
  have "nn (coefficientOfVariation (map cs_PromptTokensPerSecond (successes b)))"
    "nn (coefficientOfVariation (map cs_GenerationTokensPerSecond (successes b)))"
    "nn (coefficientOfVariation (map cs_TimeToFirstTokenMs (successes b)))"
    using cv_nn [OF r(1) assms(2)] cv_nn [OF r(2) assms(2)] cv_nn [OF r(3) assms(2)] assms(3,4) by simp_all
  then show ?thesis
    unfolding components_fields computeBenchmarkVariationCoefficient_def
    by (simp add: Let_def sum64_def f_of_int_small nn_div nn_add)
qed

lemma ttft_points_in:
  "nn v \<Longrightarrow> fin_in 0 15 (decreasingLinearScore v (Fin 100) (Fin 5000) (Fin 15))"
  using decreasing_in [of v 5000 100 4900 15] nn_not_NaN fl_constants by simp

lemma compute_parts_in:
  assumes "measurements_in B b" "0 \<le> B" "int (length (successes b) + 1) * B < 2 ^ 53"
    "length (cb_Samples b) < 2 ^ 53" "cb_Samples b \<noteq> []"
  shows "fin_in 0 20 (sb_PromptPoints (components b))" "fin_in 0 40 (sb_GenerationPoints (components b))"
    "fin_in 0 15 (sb_TTFTPoints (components b))" "fin_in 0 15 (sb_StabilityPoints (components b))"
    "fin_in 0 10 (sb_SuccessPoints (components b))"
proof -
  note r = measurements_rates [OF assms(1), THEN list_nn, THEN median_nn]
  have len: "length (successes b) \<le> length (cb_Samples b)" by (simp add: successes_def)
  then have "length (successes b) < 2 ^ 53" using assms(4) by linarith
  note v = variation_nn [OF assms(1-3) this]
  show "fin_in 0 20 (sb_PromptPoints (components b))" "fin_in 0 40 (sb_GenerationPoints (components b))"
    using rate_points_in [OF r(1), of 1000 20] rate_points_in [OF r(2), of 100 40]
    by (simp_all add: components_fields)
  show "fin_in 0 15 (sb_TTFTPoints (components b))" using ttft_points_in [OF r(3)] by (simp add: components_fields)
  show "fin_in 0 15 (sb_StabilityPoints (components b))"
    using stability_in [OF nn_not_NaN [OF v]] unfolding components_fields(6) by (auto simp: fin_in_def)
  show "fin_in 0 10 (sb_SuccessPoints (components b))"
    using success_points_in [OF len _ assms(4)] assms(5) by (simp add: components_fields)
qed

lemma scoreTotal_in:
  assumes "fin_in 0 20 (sb_PromptPoints r)" "fin_in 0 40 (sb_GenerationPoints r)"
    "fin_in 0 15 (sb_TTFTPoints r)" "fin_in 0 15 (sb_StabilityPoints r)" "fin_in 0 10 (sb_SuccessPoints r)"
  shows "fin_in 0 100 (scoreTotal r)"
proof -
  note s1 = add_in_0 [OF assms(1,2), simplified]
  note s2 = add_in_0 [OF s1 assms(3), simplified]
  note s3 = add_in_0 [OF s2 assms(4), simplified]
  note s4 = add_in_0 [OF s3 assms(5), simplified]
  have "fin_in 0 1 (fl (9 / 10))" unfolding score_constants by (simp add: fin_in_def)
  from fin_in_mul [OF s4 this] s4 show ?thesis by (simp add: scoreTotal_def Let_def)
qed

lemma clamp_100_in: "fin_in 0 100 t \<Longrightarrow> fin_in 0 100 (clamp t (Fin 0) (Fin 100))"
  by (auto simp: fin_in_iff clamp_def)

lemma compute_score_in:
  assumes "measurements_in B b" "0 \<le> B" "int (length (successes b) + 1) * B < 2 ^ 53"
    "length (cb_Samples b) < 2 ^ 53"
  shows "0 \<le> sb_Score (CalculateComputeScore b) \<and> sb_Score (CalculateComputeScore b) \<le> 100"
proof (cases "successes b = []")
  case True
  then show ?thesis by (simp add: CalculateComputeScore_alt loop_result_def empty_breakdown_def)
next
  case False
  then have "cb_Samples b \<noteq> []" by (auto simp: successes_def)
  then have "fin_in 0 100 (scoreTotal (components b))"
    using compute_parts_in [OF assms] by (intro scoreTotal_in)
  from round_int_bounds [OF clamp_100_in [OF this]] False show ?thesis
    by (simp add: CalculateComputeScore_components)
qed

subsection \<open>The median\<close>

lemma sorted_filter_less:
  assumes "sorted xs" "k < length xs"
  shows "length (filter (\<lambda>x. x < xs ! k) xs) \<le> k" "length (filter (\<lambda>x. xs ! k < x) xs) \<le> length xs - Suc k"
proof -
  have d: "x \<ge> xs ! k" if "x \<in> set (drop k xs)" for x
    using that assms by (auto simp: in_set_conv_nth intro!: sorted_nth_mono)
  have t: "x \<le> xs ! k" if "x \<in> set (take (Suc k) xs)" for x
    using that assms by (auto simp: in_set_conv_nth intro!: sorted_nth_mono)
  have "filter (\<lambda>x. x < xs ! k) (take k xs @ drop k xs) = filter (\<lambda>x. x < xs ! k) (take k xs)"
    using d by (auto simp: filter_empty_conv not_less simp del: append_take_drop_id)
  then have "length (filter (\<lambda>x. x < xs ! k) xs) \<le> length (take k xs)"
    by (metis append_take_drop_id length_filter_le)
  then show "length (filter (\<lambda>x. x < xs ! k) xs) \<le> k" using assms(2) by simp
  have "filter (\<lambda>x. xs ! k < x) (take (Suc k) xs @ drop (Suc k) xs) = filter (\<lambda>x. xs ! k < x) (drop (Suc k) xs)"
    using t by (auto simp: filter_empty_conv not_less simp del: append_take_drop_id)
  then have "length (filter (\<lambda>x. xs ! k < x) xs) \<le> length (drop (Suc k) xs)"
    by (metis append_take_drop_id length_filter_le)
  then show "length (filter (\<lambda>x. xs ! k < x) xs) \<le> length xs - Suc k" by simp
qed

lemma filter_sort_length: "length (filter P (sort vs)) = length (filter P vs)"
  by (metis filter_sort length_sort)

text \<open>The median of the measurements does not depend on their order, and for an odd number of
  them it is one of them, with at most half of the values below and at most half above it.\<close>

theorem median_correct:
  "(mset vs = mset ws \<longrightarrow> medianFloat64 vs = medianFloat64 ws)
   \<and> (odd (length vs) \<longrightarrow> medianFloat64 vs \<in> set vs
       \<and> 2 * length (filter (\<lambda>x. x < medianFloat64 vs) vs) < length vs
       \<and> 2 * length (filter (\<lambda>x. medianFloat64 vs < x) vs) < length vs)"
proof (intro conjI impI)
  show "medianFloat64 vs = medianFloat64 ws" if "mset vs = mset ws"
  proof -
    have "sort vs = sort ws" using that by (intro properties_for_sort) simp_all
    moreover have "length vs = length ws" using that by (rule mset_eq_length)
    ultimately show ?thesis by (simp add: medianFloat64_def)
  qed
  assume o: "odd (length vs)"
  define k where "k = length vs div 2"
  have k: "k < length (sort vs)" "length vs = 2 * k + 1" using o by (auto simp: k_def elim: oddE)
  have m: "medianFloat64 vs = sort vs ! k"
    using o by (auto simp: medianFloat64_def Let_def k_def odd_iff_mod_2_eq_one)
  show "medianFloat64 vs \<in> set vs" using k(1) unfolding m by (metis nth_mem set_sort)
  have "length (filter (\<lambda>x. x < sort vs ! k) (sort vs)) \<le> k"
    "length (filter (\<lambda>x. sort vs ! k < x) (sort vs)) \<le> k"
    using sorted_filter_less [OF sorted_sort k(1)] k(2) by simp_all
  then show "2 * length (filter (\<lambda>x. x < medianFloat64 vs) vs) < length vs"
    "2 * length (filter (\<lambda>x. medianFloat64 vs < x) vs) < length vs"
    using k(2) by (simp_all add: m filter_sort_length)
qed

lemma median_example: "medianFloat64 [Fin 30, Fin 10, Fin 20] = Fin 20"
  by code_simp

theorem median_correct_witness:
  "2 * length (filter (\<lambda>x. x < Fin 20) [Fin 30, Fin 10, Fin 20]) < (3::nat)
   \<and> medianFloat64 [Fin 10, Fin 20, Fin 30] = Fin 20"
  using median_correct [of "[Fin 30, Fin 10, Fin 20]" "[Fin 10, Fin 20, Fin 30]"] median_example by simp

subsection \<open>Range and throttling\<close>

text \<open>C20: for up to 50 samples (the server accepts no more) with measurements between 0 and
  \<open>10 ^ 12\<close>, the compute score lies between 0 and 100.\<close>

theorem compute_score_range:
  assumes "measurements_in (10 ^ 12) b" "length (cb_Samples b) \<le> 50"
  shows "0 \<le> sb_Score (CalculateComputeScore b) \<and> sb_Score (CalculateComputeScore b) \<le> 100"
proof -
  have "length (successes b) \<le> 50" using assms(2) by (simp add: successes_def order_trans [OF length_filter_le])
  then show ?thesis using assms by (intro compute_score_in) auto
qed

definition sample_run :: ComputeBenchmarkSample where
  "sample_run = \<lparr>cs_Run = 1, cs_PromptTokens = 64, cs_GeneratedTokens = 32,
     cs_PromptTokensPerSecond = Fin 800, cs_GenerationTokensPerSecond = Fin 60, cs_TimeToFirstTokenMs = Fin 400,
     cs_PeakSystemRAMBytes = 4096, cs_PeakVRAMBytes = None, cs_TemperatureCelsius = None,
     cs_Throttled = Some True, cs_Success = True, cs_Error = []\<rparr>"

definition sample_benchmark :: "ComputeBenchmarkSample list \<Rightarrow> ComputeBenchmark" where
  "sample_benchmark samples = \<lparr>cb_SchemaVersion = ''m9-v1'', cb_CollectedAt = 1000, cb_WorkloadID = ''w'',
     cb_Condition = ''warm'', cb_Runtime = ''llama.cpp'', cb_RuntimeVersion = [], cb_Model = ''m'',
     cb_Quantization = [], cb_ContextSize = 512, cb_Samples = samples\<rparr>"

theorem compute_score_range_witness:
  "0 \<le> sb_Score (CalculateComputeScore (sample_benchmark [sample_run]))
   \<and> sb_Score (CalculateComputeScore (sample_benchmark [sample_run])) \<le> 100"
  using compute_score_range [of "sample_benchmark [sample_run]"]
  by (simp add: sample_benchmark_def sample_run_def measurements_in_def fin_in_def)

definition without_throttling :: "ComputeBenchmark \<Rightarrow> ComputeBenchmark" where
  "without_throttling b = b\<lparr>cb_Samples := map (\<lambda>s. s\<lparr>cs_Throttled := None\<rparr>) (cb_Samples b)\<rparr>"

lemma without_throttling_successes:
  "successes (without_throttling b) = map (\<lambda>s. s\<lparr>cs_Throttled := None\<rparr>) (successes b)"
  by (simp add: successes_def without_throttling_def filter_map o_def)

lemma without_throttling_parts:
  "sb_PromptPoints (components (without_throttling b)) = sb_PromptPoints (components b)"
  "sb_GenerationPoints (components (without_throttling b)) = sb_GenerationPoints (components b)"
  "sb_TTFTPoints (components (without_throttling b)) = sb_TTFTPoints (components b)"
  "sb_StabilityPoints (components (without_throttling b)) = sb_StabilityPoints (components b)"
  "sb_SuccessPoints (components (without_throttling b)) = sb_SuccessPoints (components b)"
  "\<not> sb_ThrottlingObserved (components (without_throttling b))"
  by (simp_all add: components_fields without_throttling_successes o_def)
     (simp_all add: without_throttling_def)

lemma throttled_total_le:
  assumes "fin_in 0 90 a" "fin_in 0 10 b"
  shows "fin_le (f_mul (f_add a b) (fl (9 / 10))) (f_add a b)"
proof -
  obtain x y where xy: "a = Fin x" "b = Fin y" "of_int 0 \<le> x + y" "x + y \<le> of_int 100"
    using assms by (auto simp: fin_in_iff)
  note s = fl_between [OF xy(3,4), simplified]
  let ?t = "fround (x + y)" and ?q = "8106479329266893 / 9007199254740992 :: real"
  have q: "?t * ?q \<le> ?t" "of_int 0 \<le> ?t * ?q" "?t * ?q \<le> of_int 100" using s by simp_all
  have "fround (?t * ?q) \<le> fround ?t" using q(1) by (rule ieee.rnd_mono)
  moreover have "fl (?t * ?q) = Fin (fround (?t * ?q))" using fl_between [OF q(2,3)] by simp
  ultimately show ?thesis using s xy by (simp add: fin_le_def fround_idem score_constants)
qed

text \<open>Observed throttling never raises the compute score: with the flags of the samples
  cleared, everything else equal, the score is at least as high.\<close>

theorem throttling_lowers_score:
  assumes "measurements_in (10 ^ 12) b" "length (cb_Samples b) \<le> 50"
  shows "sb_Score (CalculateComputeScore b) \<le> sb_Score (CalculateComputeScore (without_throttling b))"
proof (cases "successes b = []")
  case True
  then show ?thesis
    by (simp add: CalculateComputeScore_alt loop_result_def empty_breakdown_def without_throttling_successes)
next
  case False
  then have ne: "cb_Samples b \<noteq> []" by (auto simp: successes_def)
  have "length (successes b) \<le> 50" using assms(2) by (simp add: successes_def order_trans [OF length_filter_le])
  then have parts: "fin_in 0 20 (sb_PromptPoints (components b))" "fin_in 0 40 (sb_GenerationPoints (components b))"
    "fin_in 0 15 (sb_TTFTPoints (components b))" "fin_in 0 15 (sb_StabilityPoints (components b))"
    "fin_in 0 10 (sb_SuccessPoints (components b))"
    using compute_parts_in [OF assms(1) _ _ _ ne] assms(2) by simp_all
  note s = add_in_0 [OF add_in_0 [OF add_in_0 [OF parts(1,2), simplified] parts(3), simplified] parts(4), simplified]
  have t: "fin_in 0 100 (scoreTotal (components b))" "fin_in 0 100 (scoreTotal (components (without_throttling b)))"
    using parts by (auto intro!: scoreTotal_in simp: without_throttling_parts)
  have "fin_le (scoreTotal (components b)) (scoreTotal (components (without_throttling b)))"
    using throttled_total_le [OF s parts(5)] fin_le_refl add_in_0 [OF s parts(5)]
    by (simp add: scoreTotal_def Let_def without_throttling_parts)
  moreover have "clamp x (Fin 0) (Fin 100) = x" if "fin_in 0 100 x" for x
    using that by (auto simp: fin_in_iff clamp_def)
  ultimately show ?thesis
    using round_int_mono [OF _ t] t False
    by (simp add: CalculateComputeScore_components without_throttling_successes)
qed

theorem throttling_lowers_score_witness:
  "sb_Score (CalculateComputeScore (sample_benchmark [sample_run]))
   \<le> sb_Score (CalculateComputeScore (without_throttling (sample_benchmark [sample_run])))"
  using throttling_lowers_score [of "sample_benchmark [sample_run]"]
  by (simp add: sample_benchmark_def sample_run_def measurements_in_def fin_in_def)

subsection \<open>Overflow of the mean\<close>

text \<open>Three measurements of \<open>2 ^ 1023\<close> are finite, but their sum overflows: the mean is infinite, the
  coefficient of variation NaN, and the conversion of a NaN score to \<open>int\<close> yields the most negative
  integer.\<close>

definition huge :: f64 where "huge = Fin (2 powi 1023)"

lemma fl_powi: "- 1074 \<le> k \<Longrightarrow> k < 1024 \<Longrightarrow> fl (2 powi k) = Fin (2 powi k)"
proof -
  assume k: "- 1074 \<le> k" "k < 1024"
  have f: "fround (2 powi k) = 2 powi k" using k(1) by (intro fround_exact [of _ 1 k]) auto
  have p: "(0::real) < 2 powi k" by simp
  have "2 powi (ilog2 (2 powi k)) \<le> (2::real) powi k" using ilog2_bounds(1) [OF p] .
  then have "ilog2 (2 powi k) \<le> k" by (simp only: powi2_le)
  then show ?thesis using f k(2) by (simp add: fl_def)
qed

lemma fl_overflow: "fl (2 powi 1023 + 2 powi 1023) = PosInf"
proof -
  have e: "(2::real) powi 1023 + 2 powi 1023 = 2 powi 1024"
    using power_int_add [of "2::real" 1023 1] by simp
  have f: "fround (2 powi 1024) = 2 powi 1024" by (intro fround_exact [of _ 1 1024]) auto
  have p: "(0::real) < 2 powi 1024" by (rule zero_less_power_int) simp
  have "(2::real) powi 1024 < 2 powi (ilog2 (2 powi 1024) + 1)" using ilog2_bounds(2) [OF p] .
  then have "1024 < ilog2 (2 powi 1024) + 1" by (simp only: powi2_less)
  then show ?thesis unfolding e fl_def f Let_def using p by auto
qed

lemma cv_huge: "coefficientOfVariation [huge, huge, huge] = NaN"
proof -
  have "sum64 [huge, huge, huge] = PosInf"
    using fl_powi [of 1023] fl_overflow by (simp add: sum64_def huge_def del: power_int_numeral)
  moreover have "f_of_int 3 = Fin 3" using f_of_int_small [of 3] by simp
  moreover have "f_sub huge PosInf = NegInf" by (simp add: f_sub_def huge_def del: power_int_numeral)
  ultimately show ?thesis by (simp add: coefficientOfVariation_def Let_def f_le_def)
qed

end
