(* ===== verification/SubmissionAuth.thy ===== *)
theory SubmissionAuth
  imports ServerTypes Scoring
begin

text \<open>
  \<^verbatim>\<open>server/inventory_auth.go\<close>, \<^verbatim>\<open>server/network_benchmark_auth.go\<close> and
  \<^verbatim>\<open>server/compute_benchmark_auth.go\<close>: the signature check and the validation of the three kinds
  of submission. Each Go function is one definition with its early returns in order.
\<close>

section \<open>inventory\_auth.go\<close>

definition inventorySignatureMaxSkew :: duration where "inventorySignatureMaxSkew = 5 * Minute"

definition verifyInventorySignature :: "crypto \<Rightarrow> string \<Rightarrow> string \<Rightarrow> string \<Rightarrow> srv_err + unit" where
  "verifyInventorySignature c publicKeyValue signatureValue body =
     (case DecodeString (TrimSpace publicKeyValue) of
        None \<Rightarrow> Inl ErrInventorySignature
      | Some publicKeyBytes \<Rightarrow>
          if length publicKeyBytes \<noteq> PublicKeySize then Inl ErrInventorySignature
          else (case DecodeString (TrimSpace signatureValue) of
                  None \<Rightarrow> Inl ErrInventorySignature
                | Some signatureBytes \<Rightarrow>
                    if length signatureBytes \<noteq> SignatureSize then Inl ErrInventorySignature
                    else if \<not> Ed25519Verify c publicKeyBytes (InventorySigningMessage (Sum256 c) body) signatureBytes
                    then Inl ErrInventorySignature
                    else Inr ()))"

definition validateInventorySubmission :: "InventorySubmission \<Rightarrow> gotime \<Rightarrow> srv_err + unit" where
  "validateInventorySubmission submission now =
     (if isub_Version submission \<noteq> InventorySubmissionVersion
         \<or> \<not> validUUIDv4 (isub_NodeID submission) \<or> \<not> validUUIDv4 (isub_ReportID submission)
      then Inl ErrInvalidInventorySubmission
      else if IsZero (isub_SignedAt submission) then Inl ErrInventoryTimestamp
      else if absSkew now (isub_SignedAt submission) > inventorySignatureMaxSkew then Inl ErrInventoryTimestamp
      else
        let inventory = isub_Inventory submission in
        if absSkew (isub_SignedAt submission) (hi_CollectedAt inventory) > inventorySignatureMaxSkew
        then Inl ErrInventoryTimestamp
        else if hi_SchemaVersion inventory \<noteq> HardwareInventorySchemaVersion
             \<or> IsZero (hi_CollectedAt inventory)
             \<or> TrimSpace (os_Name (hi_OS inventory)) = []
             \<or> TrimSpace (cpu_Model (hi_CPU inventory)) = []
             \<or> cpu_LogicalCores (hi_CPU inventory) \<le> 0
             \<or> mem_TotalBytes (hi_Memory inventory) = 0
        then Inl ErrInvalidInventorySubmission
        else if length (hi_GPUs inventory) > 32 \<or> length (hi_Acceleration inventory) > 64
             \<or> length (hi_AIRuntimes inventory) > 64 \<or> length (hi_Models inventory) > 200
        then Inl ErrInvalidInventorySubmission
        else Inr ())"

section \<open>network\_benchmark\_auth.go\<close>

definition networkBenchmarkSignatureMaxSkew :: duration where
  "networkBenchmarkSignatureMaxSkew = 5 * Minute"

definition verifyNetworkBenchmarkSignature :: "crypto \<Rightarrow> string \<Rightarrow> string \<Rightarrow> string \<Rightarrow> srv_err + unit" where
  "verifyNetworkBenchmarkSignature c publicKeyValue signatureValue body =
     (case DecodeString (TrimSpace publicKeyValue) of
        None \<Rightarrow> Inl ErrNetworkBenchmarkSignature
      | Some publicKeyBytes \<Rightarrow>
          if length publicKeyBytes \<noteq> PublicKeySize then Inl ErrNetworkBenchmarkSignature
          else (case DecodeString (TrimSpace signatureValue) of
                  None \<Rightarrow> Inl ErrNetworkBenchmarkSignature
                | Some signatureBytes \<Rightarrow>
                    if length signatureBytes \<noteq> SignatureSize then Inl ErrNetworkBenchmarkSignature
                    else if \<not> Ed25519Verify c publicKeyBytes
                                (NetworkBenchmarkSigningMessage (Sum256 c) body) signatureBytes
                    then Inl ErrNetworkBenchmarkSignature
                    else Inr ()))"

definition validateNetworkBenchmarkSubmission ::
    "NetworkBenchmarkSubmission \<Rightarrow> gotime \<Rightarrow> srv_err + unit" where
  "validateNetworkBenchmarkSubmission submission now =
     (if nsub_Version submission \<noteq> NetworkBenchmarkSubmissionVersion
         \<or> \<not> validUUIDv4 (nsub_NodeID submission) \<or> \<not> validUUIDv4 (nsub_ReportID submission)
      then Inl ErrInvalidNetworkBenchmarkSubmission
      else if IsZero (nsub_SignedAt submission) then Inl ErrNetworkBenchmarkTimestamp
      else if absSkew now (nsub_SignedAt submission) > networkBenchmarkSignatureMaxSkew
      then Inl ErrNetworkBenchmarkTimestamp
      else
        let benchmark = nsub_Benchmark submission in
        if absSkew (nsub_SignedAt submission) (nb_CollectedAt benchmark) > networkBenchmarkSignatureMaxSkew
        then Inl ErrNetworkBenchmarkTimestamp
        else if nb_SchemaVersion benchmark \<noteq> NetworkBenchmarkSchemaVersion
             \<or> IsZero (nb_CollectedAt benchmark) \<or> TrimSpace (nb_PreferredPath benchmark) = []
        then Inl ErrInvalidNetworkBenchmarkSubmission
        else if f_lt (nb_DownloadMbps benchmark) (Fin 0) \<or> f_lt (nb_UploadMbps benchmark) (Fin 0)
             \<or> f_lt (nb_LatencyMs benchmark) (Fin 0) \<or> f_lt (nb_JitterMs benchmark) (Fin 0)
             \<or> f_lt (nb_PacketLossPercent benchmark) (Fin 0)
             \<or> f_lt (Fin 100) (nb_PacketLossPercent benchmark)
        then Inl ErrInvalidNetworkBenchmarkSubmission
        else Inr ())"

section \<open>compute\_benchmark\_auth.go\<close>

definition computeBenchmarkSignatureMaxSkew :: duration where
  "computeBenchmarkSignatureMaxSkew = 5 * Minute"
definition computeBenchmarkMaxSamples :: nat where "computeBenchmarkMaxSamples = 50"
definition computeBenchmarkMaxContextSize :: int where "computeBenchmarkMaxContextSize = 1048576"

definition verifyComputeBenchmarkSignature :: "crypto \<Rightarrow> string \<Rightarrow> string \<Rightarrow> string \<Rightarrow> srv_err + unit" where
  "verifyComputeBenchmarkSignature c publicKeyValue signatureValue body =
     (case DecodeString (TrimSpace publicKeyValue) of
        None \<Rightarrow> Inl ErrComputeBenchmarkSignature
      | Some publicKeyBytes \<Rightarrow>
          if length publicKeyBytes \<noteq> PublicKeySize then Inl ErrComputeBenchmarkSignature
          else (case DecodeString (TrimSpace signatureValue) of
                  None \<Rightarrow> Inl ErrComputeBenchmarkSignature
                | Some signatureBytes \<Rightarrow>
                    if length signatureBytes \<noteq> SignatureSize then Inl ErrComputeBenchmarkSignature
                    else if \<not> Ed25519Verify c publicKeyBytes
                                (ComputeBenchmarkSigningMessage (Sum256 c) body) signatureBytes
                    then Inl ErrComputeBenchmarkSignature
                    else Inr ()))"

definition validComputeBenchmarkText :: "string \<Rightarrow> nat \<Rightarrow> bool" where
  "validComputeBenchmarkText value0 maxLength =
     (let value = TrimSpace value0 in value \<noteq> [] \<and> length value \<le> maxLength)"

definition finiteComputeBenchmarkNonNegative :: "f64 \<Rightarrow> bool" where
  "finiteComputeBenchmarkNonNegative value \<longleftrightarrow> \<not> IsNaN value \<and> \<not> IsInf value \<and> f_le (Fin 0) value"

text \<open>The body of the loop over the samples, and the loop with its set of runs already seen.\<close>

definition sampleRejected :: "ComputeBenchmarkSample \<Rightarrow> bool" where
  "sampleRejected sample =
     (if cs_PromptTokens sample < 0 \<or> cs_GeneratedTokens sample < 0 then True
      else if \<not> finiteComputeBenchmarkNonNegative (cs_PromptTokensPerSecond sample)
           \<or> \<not> finiteComputeBenchmarkNonNegative (cs_GenerationTokensPerSecond sample)
           \<or> \<not> finiteComputeBenchmarkNonNegative (cs_TimeToFirstTokenMs sample) then True
      else if (case cs_TemperatureCelsius sample of None \<Rightarrow> False
               | Some temperature \<Rightarrow> IsNaN temperature \<or> IsInf temperature
                   \<or> f_lt temperature (Fin (- 100)) \<or> f_lt (Fin 250) temperature) then True
      else let errorText = TrimSpace (cs_Error sample)
           in if cs_Success sample
              then cs_PromptTokens sample \<le> 0 \<or> cs_GeneratedTokens sample \<le> 0
                   \<or> f_le (cs_PromptTokensPerSecond sample) (Fin 0)
                   \<or> f_le (cs_GenerationTokensPerSecond sample) (Fin 0)
                   \<or> cs_PeakSystemRAMBytes sample = 0 \<or> errorText \<noteq> []
              else errorText = [] \<or> length (cs_Error sample) > 1024)"

fun validateSamples :: "int set \<Rightarrow> ComputeBenchmarkSample list \<Rightarrow> srv_err + unit" where
  "validateSamples seenRuns [] = Inr ()"
| "validateSamples seenRuns (sample # samples) =
     (if cs_Run sample \<le> 0 then Inl ErrInvalidComputeBenchmarkSubmission
      else if cs_Run sample \<in> seenRuns then Inl ErrInvalidComputeBenchmarkSubmission
      else if sampleRejected sample then Inl ErrInvalidComputeBenchmarkSubmission
      else validateSamples (insert (cs_Run sample) seenRuns) samples)"

definition validateComputeBenchmarkSubmission ::
    "ComputeBenchmarkSubmission \<Rightarrow> gotime \<Rightarrow> srv_err + unit" where
  "validateComputeBenchmarkSubmission submission now =
     (if csub_Version submission \<noteq> ComputeBenchmarkSubmissionVersion
         \<or> \<not> validUUIDv4 (csub_NodeID submission) \<or> \<not> validUUIDv4 (csub_ReportID submission)
      then Inl ErrInvalidComputeBenchmarkSubmission
      else if IsZero (csub_SignedAt submission) then Inl ErrComputeBenchmarkTimestamp
      else if absSkew now (csub_SignedAt submission) > computeBenchmarkSignatureMaxSkew
      then Inl ErrComputeBenchmarkTimestamp
      else
        let benchmark = csub_Benchmark submission in
        if IsZero (cb_CollectedAt benchmark) then Inl ErrComputeBenchmarkTimestamp
        else if absSkew (csub_SignedAt submission) (cb_CollectedAt benchmark) > computeBenchmarkSignatureMaxSkew
        then Inl ErrComputeBenchmarkTimestamp
        else if cb_SchemaVersion benchmark \<noteq> ComputeBenchmarkSchemaVersion
        then Inl ErrInvalidComputeBenchmarkSubmission
        else if \<not> validComputeBenchmarkText (cb_WorkloadID benchmark) 128
             \<or> \<not> validComputeBenchmarkText (cb_Condition benchmark) 64
             \<or> \<not> validComputeBenchmarkText (cb_Runtime benchmark) 128
             \<or> \<not> validComputeBenchmarkText (cb_Model benchmark) 512
        then Inl ErrInvalidComputeBenchmarkSubmission
        else if length (cb_RuntimeVersion benchmark) > 128 \<or> length (cb_Quantization benchmark) > 128
        then Inl ErrInvalidComputeBenchmarkSubmission
        else if cb_ContextSize benchmark \<le> 0 \<or> cb_ContextSize benchmark > computeBenchmarkMaxContextSize
        then Inl ErrInvalidComputeBenchmarkSubmission
        else if length (cb_Samples benchmark) = 0 \<or> length (cb_Samples benchmark) > computeBenchmarkMaxSamples
        then Inl ErrInvalidComputeBenchmarkSubmission
        else validateSamples {} (cb_Samples benchmark))"

section \<open>What acceptance means\<close>

definition signature_ok :: "crypto \<Rightarrow> string \<Rightarrow> string \<Rightarrow> string \<Rightarrow> bool" where
  "signature_ok c message pk sig \<longleftrightarrow>
     (\<exists>k s. DecodeString (TrimSpace pk) = Some k \<and> length k = 32
          \<and> DecodeString (TrimSpace sig) = Some s \<and> length s = 64 \<and> Ed25519Verify c k message s)"

lemma verify_iff:
  "verifyInventorySignature c pk sig body = Inr () \<longleftrightarrow> signature_ok c (InventorySigningMessage (Sum256 c) body) pk sig"
  "verifyNetworkBenchmarkSignature c pk sig body = Inr () \<longleftrightarrow>
     signature_ok c (NetworkBenchmarkSigningMessage (Sum256 c) body) pk sig"
  "verifyComputeBenchmarkSignature c pk sig body = Inr () \<longleftrightarrow>
     signature_ok c (ComputeBenchmarkSigningMessage (Sum256 c) body) pk sig"
  by (auto simp: verifyInventorySignature_def verifyNetworkBenchmarkSignature_def
      verifyComputeBenchmarkSignature_def signature_ok_def PublicKeySize_def SignatureSize_def
      split: option.splits if_splits)

lemma messages_differ:
  "InventorySigningMessage h a \<noteq> NetworkBenchmarkSigningMessage h b"
  "InventorySigningMessage h a \<noteq> ComputeBenchmarkSigningMessage h b"
  "NetworkBenchmarkSigningMessage h a \<noteq> ComputeBenchmarkSigningMessage h b"
  by (simp_all add: signing_messages signing_domains)

lemma signature_ok_unique:
  assumes "signature_ok c m pk sig" "signature_ok c m' pk sig" "m \<noteq> m'"
  shows "\<exists>k s m m'. m \<noteq> m' \<and> Ed25519Verify c k m s \<and> Ed25519Verify c k m' s"
proof -
  from assms(1) obtain k s where ks: "DecodeString (TrimSpace pk) = Some k" "DecodeString (TrimSpace sig) = Some s"
    "Ed25519Verify c k m s" by (auto simp: signature_ok_def)
  with assms(2) have "Ed25519Verify c k m' s" by (auto simp: signature_ok_def)
  with ks(3) assms(3) show ?thesis by blast
qed

lemma max_skews: "inventorySignatureMaxSkew = 5 * Minute" "networkBenchmarkSignatureMaxSkew = 5 * Minute"
  "computeBenchmarkSignatureMaxSkew = 5 * Minute"
  by (simp_all add: inventorySignatureMaxSkew_def networkBenchmarkSignatureMaxSkew_def
      computeBenchmarkSignatureMaxSkew_def)

lemma skew_rejected: "5 * Minute < absSkew a b \<longleftrightarrow> \<not> skew_accepted a b"
  using absSkew_iff [of a b] by linarith

lemma inventory_accepted_iff:
  "validateInventorySubmission s now = Inr () \<longleftrightarrow>
     isub_Version s = InventorySubmissionVersion \<and> validUUIDv4 (isub_NodeID s) \<and> validUUIDv4 (isub_ReportID s)
   \<and> isub_SignedAt s \<noteq> 0 \<and> hi_CollectedAt (isub_Inventory s) \<noteq> 0
   \<and> skew_accepted now (isub_SignedAt s) \<and> skew_accepted (isub_SignedAt s) (hi_CollectedAt (isub_Inventory s))
   \<and> hi_SchemaVersion (isub_Inventory s) = HardwareInventorySchemaVersion
   \<and> TrimSpace (os_Name (hi_OS (isub_Inventory s))) \<noteq> [] \<and> TrimSpace (cpu_Model (hi_CPU (isub_Inventory s))) \<noteq> []
   \<and> 0 < cpu_LogicalCores (hi_CPU (isub_Inventory s)) \<and> mem_TotalBytes (hi_Memory (isub_Inventory s)) \<noteq> 0
   \<and> length (hi_GPUs (isub_Inventory s)) \<le> 32 \<and> length (hi_Acceleration (isub_Inventory s)) \<le> 64
   \<and> length (hi_AIRuntimes (isub_Inventory s)) \<le> 64 \<and> length (hi_Models (isub_Inventory s)) \<le> 200"
  unfolding validateInventorySubmission_def Let_def max_skews skew_rejected by (auto simp: IsZero_def)

definition nonneg :: "f64 \<Rightarrow> bool" where
  "nonneg x \<longleftrightarrow> \<not> f_lt x (Fin 0)"

lemma network_accepted_iff:
  "validateNetworkBenchmarkSubmission s now = Inr () \<longleftrightarrow>
     nsub_Version s = NetworkBenchmarkSubmissionVersion \<and> validUUIDv4 (nsub_NodeID s) \<and> validUUIDv4 (nsub_ReportID s)
   \<and> nsub_SignedAt s \<noteq> 0 \<and> nb_CollectedAt (nsub_Benchmark s) \<noteq> 0
   \<and> skew_accepted now (nsub_SignedAt s) \<and> skew_accepted (nsub_SignedAt s) (nb_CollectedAt (nsub_Benchmark s))
   \<and> nb_SchemaVersion (nsub_Benchmark s) = NetworkBenchmarkSchemaVersion
   \<and> TrimSpace (nb_PreferredPath (nsub_Benchmark s)) \<noteq> []
   \<and> nonneg (nb_DownloadMbps (nsub_Benchmark s)) \<and> nonneg (nb_UploadMbps (nsub_Benchmark s))
   \<and> nonneg (nb_LatencyMs (nsub_Benchmark s)) \<and> nonneg (nb_JitterMs (nsub_Benchmark s))
   \<and> nonneg (nb_PacketLossPercent (nsub_Benchmark s)) \<and> \<not> f_lt (Fin 100) (nb_PacketLossPercent (nsub_Benchmark s))"
  unfolding validateNetworkBenchmarkSubmission_def Let_def max_skews skew_rejected nonneg_def
  by (auto simp: IsZero_def)

text \<open>A well-formed sample: what the server guarantees of every sample it stores.\<close>

definition measured :: "f64 \<Rightarrow> bool" where
  "measured x \<longleftrightarrow> (\<exists>r. x = Fin r \<and> 0 \<le> r)"

definition wf_sample :: "ComputeBenchmarkSample \<Rightarrow> bool" where
  "wf_sample s \<longleftrightarrow> 0 \<le> cs_PromptTokens s \<and> 0 \<le> cs_GeneratedTokens s
     \<and> measured (cs_PromptTokensPerSecond s) \<and> measured (cs_GenerationTokensPerSecond s)
     \<and> measured (cs_TimeToFirstTokenMs s)
     \<and> (\<forall>t. cs_TemperatureCelsius s = Some t \<longrightarrow> (\<exists>r. t = Fin r \<and> - 100 \<le> r \<and> r \<le> 250))
     \<and> (if cs_Success s
        then 0 < cs_PromptTokens s \<and> 0 < cs_GeneratedTokens s
           \<and> cs_PromptTokensPerSecond s \<noteq> Fin 0 \<and> cs_GenerationTokensPerSecond s \<noteq> Fin 0
           \<and> cs_PeakSystemRAMBytes s \<noteq> 0 \<and> TrimSpace (cs_Error s) = []
        else TrimSpace (cs_Error s) \<noteq> [] \<and> length (cs_Error s) \<le> 1024)"

lemma finite_nonneg_iff: "finiteComputeBenchmarkNonNegative x \<longleftrightarrow> measured x"
  by (cases x) (auto simp: finiteComputeBenchmarkNonNegative_def IsNaN_def IsInf_def measured_def f_le_def)

lemma temperature_iff:
  "(IsNaN t \<or> IsInf t \<or> f_lt t (Fin (- 100)) \<or> f_lt (Fin 250) t) \<longleftrightarrow> \<not> (\<exists>r. t = Fin r \<and> - 100 \<le> r \<and> r \<le> 250)"
  by (cases t) (auto simp: IsNaN_def IsInf_def)

lemma measured_pos: "measured x \<Longrightarrow> f_le x (Fin 0) \<longleftrightarrow> x = Fin 0"
  by (auto simp: measured_def f_le_def)

lemma sampleRejected_iff: "sampleRejected s \<longleftrightarrow> \<not> wf_sample s"
proof (cases "measured (cs_PromptTokensPerSecond s) \<and> measured (cs_GenerationTokensPerSecond s)
    \<and> measured (cs_TimeToFirstTokenMs s)")
  case True
  then show ?thesis
    unfolding sampleRejected_def wf_sample_def finite_nonneg_iff temperature_iff Let_def
    by (auto simp: measured_pos split: option.splits)
next
  case False
  then show ?thesis
    unfolding sampleRejected_def wf_sample_def finite_nonneg_iff by auto
qed

lemma validateSamples_iff:
  "validateSamples seen xs = Inr () \<longleftrightarrow>
     distinct (map cs_Run xs) \<and> cs_Run ` set xs \<inter> seen = {}
   \<and> list_all (\<lambda>s. 0 < cs_Run s \<and> wf_sample s) xs"
  by (induction seen xs rule: validateSamples.induct) (auto simp: sampleRejected_iff image_iff)

definition wf_compute_benchmark :: "ComputeBenchmark \<Rightarrow> bool" where
  "wf_compute_benchmark b \<longleftrightarrow>
     cb_CollectedAt b \<noteq> 0 \<and> cb_SchemaVersion b = ComputeBenchmarkSchemaVersion
   \<and> validComputeBenchmarkText (cb_WorkloadID b) 128 \<and> validComputeBenchmarkText (cb_Condition b) 64
   \<and> validComputeBenchmarkText (cb_Runtime b) 128 \<and> validComputeBenchmarkText (cb_Model b) 512
   \<and> length (cb_RuntimeVersion b) \<le> 128 \<and> length (cb_Quantization b) \<le> 128
   \<and> 0 < cb_ContextSize b \<and> cb_ContextSize b \<le> 1048576
   \<and> cb_Samples b \<noteq> [] \<and> length (cb_Samples b) \<le> 50
   \<and> distinct (map cs_Run (cb_Samples b)) \<and> list_all (\<lambda>s. 0 < cs_Run s \<and> wf_sample s) (cb_Samples b)"

lemma compute_accepted_iff:
  "validateComputeBenchmarkSubmission s now = Inr () \<longleftrightarrow>
     csub_Version s = ComputeBenchmarkSubmissionVersion \<and> validUUIDv4 (csub_NodeID s) \<and> validUUIDv4 (csub_ReportID s)
   \<and> csub_SignedAt s \<noteq> 0 \<and> skew_accepted now (csub_SignedAt s)
   \<and> skew_accepted (csub_SignedAt s) (cb_CollectedAt (csub_Benchmark s))
   \<and> wf_compute_benchmark (csub_Benchmark s)"
  unfolding validateComputeBenchmarkSubmission_def Let_def max_skews skew_rejected wf_compute_benchmark_def
  by (auto simp: IsZero_def validateSamples_iff computeBenchmarkMaxContextSize_def
      computeBenchmarkMaxSamples_def)

section \<open>Properties\<close>

definition sample_crypto :: crypto where
  "sample_crypto = \<lparr>Sum256 = (\<lambda>body. replicate 32 0), Ed25519Verify = (\<lambda>pk m s. True)\<rparr>"

definition sample_key :: string where "sample_key = EncodeToString (replicate 32 7)"
definition sample_signature :: string where "sample_signature = EncodeToString (replicate 64 9)"

lemma sample_signature_ok: "signature_ok sample_crypto m sample_key sample_signature"
proof -
  have "TrimSpace sample_key = sample_key" "TrimSpace sample_signature = sample_signature" by code_simp+
  then show ?thesis
    by (simp add: signature_ok_def sample_key_def sample_signature_def Decode_EncodeToString sample_crypto_def)
qed



text \<open>C5: a compute benchmark passes the server's validation exactly when its version, identifiers
  and times are acceptable and it is well formed: bounded texts, context size and number of
  samples, pairwise distinct positive runs, and every sample well formed (finite non-negative
  rates, plausible temperature, positive measurements and no error text if it succeeded, a
  non-empty error of at most 1024 bytes if it failed).\<close>

theorem compute_validation_complete:
  "validateComputeBenchmarkSubmission s now =
     (if csub_Version s = ComputeBenchmarkSubmissionVersion \<and> validUUIDv4 (csub_NodeID s) \<and> validUUIDv4 (csub_ReportID s)
      then if csub_SignedAt s \<noteq> 0 \<and> skew_accepted now (csub_SignedAt s) \<and> cb_CollectedAt (csub_Benchmark s) \<noteq> 0
              \<and> skew_accepted (csub_SignedAt s) (cb_CollectedAt (csub_Benchmark s))
           then if wf_compute_benchmark (csub_Benchmark s) then Inr () else Inl ErrInvalidComputeBenchmarkSubmission
           else Inl ErrComputeBenchmarkTimestamp
      else Inl ErrInvalidComputeBenchmarkSubmission)"
proof -
  have only: "validateSamples seen xs = Inr () \<or> validateSamples seen xs = Inl ErrInvalidComputeBenchmarkSubmission" for seen xs
    by (induction seen xs rule: validateSamples.induct) auto
  show ?thesis
    using only [of "{}" "cb_Samples (csub_Benchmark s)"] compute_accepted_iff [of s now]
    unfolding validateComputeBenchmarkSubmission_def Let_def max_skews skew_rejected IsZero_def
    by (auto split: if_splits)
qed

definition sample_node :: string where "sample_node = ''3f2504e0-4f89-41d3-9a0c-0305e82c3301''"
definition sample_report :: string where "sample_report = ''7d444840-9dc0-41d1-b245-5ffdce74fad2''"

lemma sample_uuids: "validUUIDv4 sample_node" "validUUIDv4 sample_report"
  by code_simp+

definition sample_network :: "gotime \<Rightarrow> NetworkBenchmark" where
  "sample_network t = \<lparr>nb_SchemaVersion = ''m8-v1'', nb_CollectedAt = t, nb_IPv4Available = True,
     nb_IPv6Available = False, nb_DownloadMbps = Fin 100, nb_UploadMbps = Fin 20, nb_LatencyMs = Fin 15,
     nb_JitterMs = Fin 1, nb_PacketLossPercent = Fin 0, nb_PreferredPath = ''wan''\<rparr>"

definition sample_network_submission :: "gotime \<Rightarrow> NetworkBenchmarkSubmission" where
  "sample_network_submission t = \<lparr>nsub_Version = ''m8-v1'', nsub_NodeID = sample_node,
     nsub_ReportID = sample_report, nsub_SignedAt = t, nsub_Benchmark = sample_network t\<rparr>"

definition sample_compute_submission :: "gotime \<Rightarrow> ComputeBenchmarkSample list \<Rightarrow> ComputeBenchmarkSubmission" where
  "sample_compute_submission t samples = \<lparr>csub_Version = ''m9-v1'', csub_NodeID = sample_node,
     csub_ReportID = sample_report, csub_SignedAt = t,
     csub_Benchmark = (sample_benchmark samples)\<lparr>cb_CollectedAt := t\<rparr>\<rparr>"

definition sample_inventory :: "gotime \<Rightarrow> HardwareInventory" where
  "sample_inventory t = \<lparr>hi_SchemaVersion = ''m7-v1'', hi_CollectedAt = t,
     hi_OS = \<lparr>os_Name = ''linux'', os_Version = [], os_Architecture = [], os_Kernel = []\<rparr>,
     hi_CPU = \<lparr>cpu_Model = ''cpu'', cpu_PhysicalCores = 4, cpu_LogicalCores = 8\<rparr>,
     hi_Memory = \<lparr>mem_TotalBytes = 1024\<rparr>, hi_GPUs = [], hi_Acceleration = [], hi_AIRuntimes = [],
     hi_Models = []\<rparr>"

definition sample_inventory_submission :: "gotime \<Rightarrow> InventorySubmission" where
  "sample_inventory_submission t = \<lparr>isub_Version = ''m7-v1'', isub_NodeID = sample_node,
     isub_ReportID = sample_report, isub_SignedAt = t, isub_Inventory = sample_inventory t\<rparr>"

lemma samples_accepted:
  assumes "skew_accepted now t" "t \<noteq> 0"
  shows "validateInventorySubmission (sample_inventory_submission t) now = Inr ()"
    "validateNetworkBenchmarkSubmission (sample_network_submission t) now = Inr ()"
    "validateComputeBenchmarkSubmission (sample_compute_submission t [sample_run]) now = Inr ()"
proof -
  have s: "skew_accepted t t" by (auto simp: skew_accepted_def duration_units)
  have x: "TrimSpace ''wan'' \<noteq> []" "TrimSpace ''linux'' \<noteq> []" "TrimSpace ''cpu'' \<noteq> []"
    "validComputeBenchmarkText ''w'' 128" "validComputeBenchmarkText ''warm'' 64"
    "validComputeBenchmarkText ''llama.cpp'' 128" "validComputeBenchmarkText ''m'' 512"
    by code_simp+
  note d = sample_uuids NetworkBenchmarkSubmissionVersion_def NetworkBenchmarkSchemaVersion_def
    ComputeBenchmarkSubmissionVersion_def ComputeBenchmarkSchemaVersion_def
    InventorySubmissionVersion_def HardwareInventorySchemaVersion_def
  show "validateInventorySubmission (sample_inventory_submission t) now = Inr ()"
    unfolding inventory_accepted_iff using assms s x
    by (simp add: sample_inventory_submission_def sample_inventory_def d)
  show "validateNetworkBenchmarkSubmission (sample_network_submission t) now = Inr ()"
    unfolding network_accepted_iff using assms s x
    by (simp add: sample_network_submission_def sample_network_def nonneg_def d)
  show "validateComputeBenchmarkSubmission (sample_compute_submission t [sample_run]) now = Inr ()"
    unfolding compute_accepted_iff using assms s x
    by (simp add: sample_compute_submission_def sample_benchmark_def sample_run_def wf_compute_benchmark_def
        wf_sample_def measured_def d)
qed



text \<open>The proviso of the previous property is needed. Go's \<open>Sub\<close> saturates at the least
  duration, whose negation wraps around to itself: a report with a timestamp 292 years or more
  ahead of the server's clock passes the freshness check of all three endpoints.\<close>

theorem far_future_accepted:
  assumes "0 < now" "now + 2 ^ 63 \<le> t"
  shows "validateInventorySubmission (sample_inventory_submission t) now = Inr ()
    \<and> validateNetworkBenchmarkSubmission (sample_network_submission t) now = Inr ()
    \<and> validateComputeBenchmarkSubmission (sample_compute_submission t [sample_run]) now = Inr ()"
proof -
  have "skew_accepted now t" "t \<noteq> 0" using assms by (auto simp: skew_accepted_def)
  then show ?thesis by (simp add: samples_accepted)
qed

theorem far_future_accepted_witness:
  "validateNetworkBenchmarkSubmission (sample_network_submission 315537897600000000000) 63900000000000000000
     = Inr ()"
  using far_future_accepted [of 63900000000000000000 315537897600000000000] by simp

text \<open>Three successful runs whose time to first token is \<open>2 ^ 1023\<close> ms: finite, so accepted.\<close>

definition huge_run :: "int \<Rightarrow> ComputeBenchmarkSample" where
  "huge_run k = sample_run\<lparr>cs_Run := k, cs_TimeToFirstTokenMs := huge, cs_Throttled := None\<rparr>"

lemma huge_measured: "measured huge"
  by (simp add: measured_def huge_def del: power_int_numeral)

lemma huge_accepted:
  "validateComputeBenchmarkSubmission (sample_compute_submission 1 (map huge_run [1, 2, 3])) 1 = Inr ()"
proof -
  have x: "validComputeBenchmarkText ''w'' 128" "validComputeBenchmarkText ''warm'' 64"
    "validComputeBenchmarkText ''llama.cpp'' 128" "validComputeBenchmarkText ''m'' 512"
    by code_simp+
  have m: "measured (Fin 800)" "measured (Fin 60)" by (simp_all add: measured_def)
  have "skew_accepted 1 1" by (simp add: skew_accepted_def duration_units)
  with x m huge_measured show ?thesis
    unfolding compute_accepted_iff
    by (simp add: sample_compute_submission_def sample_benchmark_def huge_run_def sample_run_def
        wf_compute_benchmark_def wf_sample_def sample_uuids ComputeBenchmarkSubmissionVersion_def
        ComputeBenchmarkSchemaVersion_def)
qed

lemma NaN_absorbs: "f_add a NaN = NaN" "f_add NaN a = NaN" "f_mul a NaN = NaN" "f_div NaN a = NaN"
  "f_div a NaN = NaN" "decreasingLinearScore NaN (Fin b) (Fin w) (Fin p) = NaN"
  by (cases a; simp add: decreasingLinearScore_def f_le_def f_sub_def)+

text \<open>A compute benchmark that passes validation can get the score \<open>- 2 ^ 63\<close>: when the sum of the
  measurements overflows, the coefficient of variation is NaN, \<open>clamp\<close> lets NaN through, and the
  conversion of NaN to \<open>int\<close> is the most negative integer. The bound of the range property on the
  measurements is what excludes this.\<close>

theorem validated_score_out_of_range:
  "\<exists>s. validateComputeBenchmarkSubmission s 1 = Inr ()
     \<and> sb_Score (CalculateComputeScore (csub_Benchmark s)) = - (2 ^ 63)"
proof (intro exI conjI)
  let ?s = "sample_compute_submission 1 (map huge_run [1, 2, 3])"
  show "validateComputeBenchmarkSubmission ?s 1 = Inr ()" by (rule huge_accepted)
  define b where "b = csub_Benchmark ?s"
  have su: "successes b = [huge_run 1, huge_run 2, huge_run 3]"
    by (simp add: b_def successes_def sample_compute_submission_def sample_benchmark_def huge_run_def sample_run_def)
  have t: "map cs_TimeToFirstTokenMs (successes b) = [huge, huge, huge]"
    unfolding su by (simp add: huge_run_def)
  have "sb_VariationCoefficient (components b) = NaN"
    unfolding components_fields(5) t by (simp add: computeBenchmarkVariationCoefficient_def cv_huge
        sum64_def NaN_absorbs)
  then have "sb_StabilityPoints (components b) = NaN"
    unfolding components_fields(6) score_constants by (simp add: su NaN_absorbs)
  then have "scoreTotal (components b) = NaN"
    by (simp add: scoreTotal_def Let_def NaN_absorbs)
  then have "sb_Score (CalculateComputeScore b) = - (2 ^ 63)"
    by (simp add: CalculateComputeScore_components su clamp_def)
  then show "sb_Score (CalculateComputeScore (csub_Benchmark ?s)) = - (2 ^ 63)" by (simp only: b_def)
qed

end
