(* ===== verification/Store.thy ===== *)
theory Store
  imports ServerTypes "HOL-Library.Product_Lexorder" "HOL-Library.List_Lexorder"
begin

text \<open>
  \<^verbatim>\<open>server/postgres.go\<close>, \<^verbatim>\<open>server/enrollment.go\<close>, \<^verbatim>\<open>server/auth.go\<close>,
  \<^verbatim>\<open>server/*_postgres.go\<close>: the operations of \<open>PostgresStore\<close> on the tables of
  \<^verbatim>\<open>database/migrations\<close>. A table is the list of its rows in insertion order. The SQL
  text of every statement is translated to list operations; the constraints a statement can
  violate (unique keys, foreign keys, the \<open>CHECK\<close> on session hashes) are tested where the
  statement runs, with their SQLSTATE codes.

  PostgreSQL itself is a parameter \<open>pg\<close> (the cast to \<open>uuid\<close> and \<open>jsonb\<close>, \<open>lower\<close>, \<open>crypt\<close>,
  \<open>date_trunc\<close>), and \<open>env\<close> holds what one call meets: the database clock \<open>now()\<close>, the id
  \<open>gen_random_uuid()\<close> would return, and the failures of its statements, numbered in order
  (a lost connection, a timeout of the context).
\<close>

section \<open>Rows and tables\<close>

record user_row =
  u_id :: string
  u_email :: string
  u_password_hash :: "string option"

record node_row =
  n_id :: string
  n_user :: string
  n_key :: string
  n_version :: string
  n_pubkey :: "string option"

record status_row =
  st_node :: string
  st_status :: string
  st_mode :: string
  st_observed :: gotime
  st_heartbeat :: "gotime option"

record token_row =
  tk_id :: string
  tk_user :: string
  tk_hash :: string
  tk_expires :: gotime
  tk_consumed :: "gotime option"
  tk_node :: "string option"

record session_row =
  ss_user :: string
  ss_hash :: string
  ss_expires :: gotime

record report_row =
  rp_id :: string
  rp_node :: string
  rp_payload :: string
  rp_score :: "int option"
  rp_observed :: gotime

record wallet_row =
  w_id :: string
  w_user :: string
  w_job :: "string option"
  w_type :: string
  w_amount :: int
  w_created :: gotime

record job_row =
  j_id :: string
  j_consumer :: string
  j_provider :: "string option"
  j_status :: string
  j_created :: gotime

record rate_row =
  pr_rate :: int
  pr_effective :: gotime

record db =
  users :: "user_row list"
  nodes :: "node_row list"
  statuses :: "status_row list"
  tokens :: "token_row list"
  sessions :: "session_row list"
  inventories :: "report_row list"
  networks :: "report_row list"
  computes :: "report_row list"
  wallets :: "wallet_row list"
  jobs :: "job_row list"
  rates :: "rate_row list"

record pg =
  pg_uuid :: "string \<Rightarrow> string option"
  pg_jsonb :: "string \<Rightarrow> string option"
  pg_lower :: "string \<Rightarrow> string"
  pg_crypt :: "string \<Rightarrow> string \<Rightarrow> string"
  pg_day :: "gotime \<Rightarrow> gotime"

record env =
  e_now :: gotime
  e_id :: string
  e_fault :: "nat \<Rightarrow> string option"

text \<open>One statement: it fails if the environment says so, otherwise it has its result.\<close>

definition stmt :: "env \<Rightarrow> nat \<Rightarrow> srv_err + 'a \<Rightarrow> srv_err + 'a" where
  "stmt e i r = (case e_fault e i of Some text \<Rightarrow> Inl (OtherError text) | None \<Rightarrow> r)"

definition row :: "'a option \<Rightarrow> srv_err + 'a" where
  "row r = (case r of None \<Rightarrow> Inl ErrNoRows | Some x \<Rightarrow> Inr x)"

definition to_uuid :: "pg \<Rightarrow> string \<Rightarrow> srv_err + string" where
  "to_uuid p s = (case pg_uuid p s of None \<Rightarrow> Inl (PqError ''22P02'') | Some u \<Rightarrow> Inr u)"

text \<open>A transaction: its body runs on a copy; an error, and a failing commit, leave the tables as
  they were (\<^verbatim>\<open>defer tx.Rollback()\<close>).\<close>

definition transaction :: "env \<Rightarrow> nat \<Rightarrow> db \<Rightarrow> (db \<Rightarrow> srv_err + 'a \<times> db) \<Rightarrow> (srv_err + 'a) \<times> db" where
  "transaction e k d body =
     (case bindE (stmt e 0 (Inr ())) (\<lambda>_. bindE (body d) (\<lambda>r. stmt e k (Inr r))) of
        Inl err \<Rightarrow> (Inl err, d) | Inr (x, d') \<Rightarrow> (Inr x, d'))"

text \<open>A single statement outside a transaction.\<close>

definition exec :: "db \<Rightarrow> srv_err + 'a \<times> db \<Rightarrow> (srv_err + 'a) \<times> db" where
  "exec d r = (case r of Inl err \<Rightarrow> (Inl err, d) | Inr (x, d') \<Rightarrow> (Inr x, d'))"

section \<open>Statements with constraints\<close>

definition has_node :: "db \<Rightarrow> string \<Rightarrow> bool" where
  "has_node d nid \<longleftrightarrow> nid \<in> n_id ` set (nodes d)"

definition insert_node :: "db \<Rightarrow> node_row \<Rightarrow> srv_err + db" where
  "insert_node d r =
     (if n_id r \<in> n_id ` set (nodes d) \<or> n_key r \<in> n_key ` set (nodes d)
         \<or> (n_pubkey r \<noteq> None \<and> n_pubkey r \<in> n_pubkey ` set (nodes d)) then Inl (PqError ''23505'')
      else if n_user r \<notin> u_id ` set (users d) then Inl (PqError ''23503'')
      else Inr (d\<lparr>nodes := nodes d @ [r]\<rparr>))"

text \<open>\<open>INSERT INTO node_status ... ON CONFLICT(node_id) DO NOTHING\<close>.\<close>

definition insert_status :: "env \<Rightarrow> db \<Rightarrow> string \<Rightarrow> srv_err + db" where
  "insert_status e d nid =
     (if nid \<in> st_node ` set (statuses d) then Inr d
      else if \<not> has_node d nid then Inl (PqError ''23503'')
      else Inr (d\<lparr>statuses := statuses d @ [\<lparr>st_node = nid, st_status = ''enrolled'', st_mode = ''available'',
                 st_observed = e_now e, st_heartbeat = None\<rparr>]\<rparr>))"

definition update_node :: "string \<Rightarrow> (node_row \<Rightarrow> node_row) \<Rightarrow> db \<Rightarrow> db" where
  "update_node nid f d = d\<lparr>nodes := map (\<lambda>r. if n_id r = nid then f r else r) (nodes d)\<rparr>"

definition find_node :: "db \<Rightarrow> string \<Rightarrow> node_row option" where
  "find_node d key = find (\<lambda>r. n_key r = key) (nodes d)"

section \<open>Enrollment tokens\<close>

definition active_token :: "env \<Rightarrow> token_row \<Rightarrow> bool" where
  "active_token e t \<longleftrightarrow> tk_consumed t = None \<and> tk_expires t > e_now e"

definition maxActiveEnrollmentCodes :: nat where "maxActiveEnrollmentCodes = 5"

text \<open>The count and the insertion are two statements without a transaction around them.\<close>

definition countActiveTokens :: "pg \<Rightarrow> env \<Rightarrow> string \<Rightarrow> db \<Rightarrow> srv_err + nat" where
  "countActiveTokens p e userID d =
     stmt e 0 (bindE (to_uuid p userID) (\<lambda>u.
       Inr (length (filter (\<lambda>t. tk_user t = u \<and> active_token e t) (tokens d)))))"

definition insertToken :: "pg \<Rightarrow> env \<Rightarrow> string \<Rightarrow> string \<Rightarrow> gotime \<Rightarrow> db \<Rightarrow> srv_err + unit \<times> db" where
  "insertToken p e userID tokenHash expiresAt d =
     stmt e 1 (bindE (to_uuid p userID) (\<lambda>u.
       if e_id e \<in> tk_id ` set (tokens d) \<or> tokenHash \<in> tk_hash ` set (tokens d) then Inl (PqError ''23505'')
       else if u \<notin> u_id ` set (users d) then Inl (PqError ''23503'')
       else Inr ((), d\<lparr>tokens := tokens d @ [\<lparr>tk_id = e_id e, tk_user = u, tk_hash = tokenHash,
              tk_expires = expiresAt, tk_consumed = None, tk_node = None\<rparr>]\<rparr>)))"

definition CreateEnrollmentToken ::
    "pg \<Rightarrow> env \<Rightarrow> string \<Rightarrow> string \<Rightarrow> gotime \<Rightarrow> db \<Rightarrow> (srv_err + unit) \<times> db" where
  "CreateEnrollmentToken p e userID tokenHash expiresAt d =
     (case countActiveTokens p e userID d of
        Inl err \<Rightarrow> (Inl err, d)
      | Inr active \<Rightarrow>
          if active \<ge> maxActiveEnrollmentCodes then (Inl ErrTooManyActiveEnrollmentCodes, d)
          else exec d (insertToken p e userID tokenHash expiresAt d))"

text \<open>\<open>RedeemEnrollmentToken\<close>: the node of the redeemed token is created, or updated when it
  exists; \<open>redeemNode\<close> is that middle part and returns the node's database id.\<close>

definition redeemNode ::
    "pg \<Rightarrow> env \<Rightarrow> string \<Rightarrow> string \<Rightarrow> string \<Rightarrow> string \<Rightarrow> db \<Rightarrow> srv_err + string \<times> db" where
  "redeemNode p e userID nodeID publicKey agentVersion d =
     (case stmt e 2 (row (find_node d nodeID)) of
        Inl err \<Rightarrow>
          if err = ErrNoRows
          then (case stmt e 3 (bindE (to_uuid p userID) (\<lambda>u. insert_node d \<lparr>n_id = e_id e, n_user = u,
                        n_key = nodeID, n_version = agentVersion, n_pubkey = Some publicKey\<rparr>)) of
                  Inl err \<Rightarrow> Inl (if isUniqueViolation err then ErrNodeIdentityConflict else err)
                | Inr d' \<Rightarrow> Inr (e_id e, d'))
          else Inl err
      | Inr node \<Rightarrow>
          if n_user node \<noteq> userID then Inl ErrNodeOwnership
          else if (case n_pubkey node of None \<Rightarrow> False | Some k \<Rightarrow> k \<noteq> [] \<and> k \<noteq> publicKey)
          then Inl ErrNodeIdentityConflict
          else (case stmt e 3 (bindE (to_uuid p (n_id node)) (\<lambda>nid.
                   if (\<exists>r \<in> set (nodes d). n_id r = nid \<and> n_pubkey r = None)
                      \<and> Some publicKey \<in> n_pubkey ` {r \<in> set (nodes d). n_id r \<noteq> nid}
                   then Inl (PqError ''23505'')
                   else Inr (update_node nid (\<lambda>r. r\<lparr>n_version := agentVersion,
                          n_pubkey := (case n_pubkey r of None \<Rightarrow> Some publicKey | Some k \<Rightarrow> Some k)\<rparr>) d))) of
                  Inl err \<Rightarrow> Inl (if isUniqueViolation err then ErrNodeIdentityConflict else err)
                | Inr d' \<Rightarrow> Inr (n_id node, d')))"

text \<open>The statement that consumes the token, with the number of rows it changed.\<close>

definition consumeToken :: "pg \<Rightarrow> env \<Rightarrow> string \<Rightarrow> string \<Rightarrow> db \<Rightarrow> srv_err + nat \<times> db" where
  "consumeToken p e tokenID nodeDatabaseID d =
     bindE (to_uuid p tokenID) (\<lambda>tid. bindE (to_uuid p nodeDatabaseID) (\<lambda>nid.
       let hit = (\<lambda>t. tk_id t = tid \<and> tk_consumed t = None)
       in if \<not> has_node d nid \<and> filter hit (tokens d) \<noteq> [] then Inl (PqError ''23503'')
          else Inr (length (filter hit (tokens d)),
                    d\<lparr>tokens := map (\<lambda>t. if hit t then t\<lparr>tk_consumed := Some (e_now e), tk_node := Some nid\<rparr>
                                        else t) (tokens d)\<rparr>)))"

definition RedeemEnrollmentToken ::
    "pg \<Rightarrow> env \<Rightarrow> string \<Rightarrow> string \<Rightarrow> string \<Rightarrow> string \<Rightarrow> db \<Rightarrow> (srv_err + unit) \<times> db" where
  "RedeemEnrollmentToken p e tokenHash nodeID publicKey agentVersion d0 =
     transaction e 7 d0 (\<lambda>d.
       case stmt e 1 (row (find (\<lambda>t. tk_hash t = tokenHash \<and> active_token e t) (tokens d))) of
         Inl err \<Rightarrow> Inl (if err = ErrNoRows then ErrInvalidEnrollmentCode else err)
       | Inr token \<Rightarrow>
           bindE (redeemNode p e (tk_user token) nodeID publicKey agentVersion d) (\<lambda>(nodeDatabaseID, d1).
           bindE (stmt e 4 (bindE (to_uuid p nodeDatabaseID) (insert_status e d1))) (\<lambda>d2.
           bindE (stmt e 5 (consumeToken p e (tk_id token) nodeDatabaseID d2)) (\<lambda>(affected, d3).
           bindE (stmt e 6 (Inr ())) (\<lambda>_.
             if affected \<noteq> 1 then Inl ErrInvalidEnrollmentCode else Inr ((), d3))))))"

section \<open>Nodes of the configured owner: postgres.go\<close>

text \<open>\<open>INSERT INTO nodes ... ON CONFLICT(node_key) DO NOTHING\<close>.\<close>

definition insert_node_if_new :: "db \<Rightarrow> node_row \<Rightarrow> srv_err + db" where
  "insert_node_if_new d r = (if n_key r \<in> n_key ` set (nodes d) then Inr d else insert_node d r)"

definition Enroll :: "pg \<Rightarrow> env \<Rightarrow> string \<Rightarrow> string \<Rightarrow> string \<Rightarrow> db \<Rightarrow> (srv_err + unit) \<times> db" where
  "Enroll p e owner nodeID version d0 =
     transaction e 6 d0 (\<lambda>d.
       bindE (stmt e 1 (bindE (to_uuid p owner) (\<lambda>u. insert_node_if_new d \<lparr>n_id = e_id e, n_user = u,
                 n_key = nodeID, n_version = version, n_pubkey = None\<rparr>))) (\<lambda>d1.
       bindE (stmt e 2 (row (find_node d1 nodeID))) (\<lambda>node.
       bindE (stmt e 3 (bindE (to_uuid p (n_user node)) (\<lambda>a. bindE (to_uuid p owner) (\<lambda>b. Inr (a = b))))) (\<lambda>owned.
         if \<not> owned then Inl ErrNodeOwnership
         else
           bindE (stmt e 4 (bindE (to_uuid p (n_id node)) (\<lambda>nid.
                    Inr (update_node nid (\<lambda>r. r\<lparr>n_version := version\<rparr>) d1)))) (\<lambda>d2.
           bindE (stmt e 5 (bindE (to_uuid p (n_id node)) (insert_status e d2))) (\<lambda>d3.
             Inr ((), d3)))))))"

definition Heartbeat :: "pg \<Rightarrow> env \<Rightarrow> string \<Rightarrow> string \<Rightarrow> string \<Rightarrow> db \<Rightarrow> (srv_err + unit) \<times> db" where
  "Heartbeat p e owner nodeID mode d =
     (case exec d (stmt e 0 (bindE (to_uuid p owner) (\<lambda>u.
         let hit = (\<lambda>s. \<exists>n \<in> set (nodes d). st_node s = n_id n \<and> n_key n = nodeID \<and> n_user n = u)
         in Inr (length (filter hit (statuses d)),
                 d\<lparr>statuses := map (\<lambda>s. if hit s then s\<lparr>st_status := ''online'', st_mode := mode,
                      st_observed := e_now e, st_heartbeat := Some (e_now e)\<rparr> else s) (statuses d)\<rparr>)))) of
        (Inl err, d') \<Rightarrow> (Inl err, d')
      | (Inr count, d') \<Rightarrow>
          (case stmt e 1 (Inr ()) of
             Inl err \<Rightarrow> (Inl err, d')
           | Inr _ \<Rightarrow> if count = 0 then (Inl ErrNoRows, d') else (Inr (), d')))"

text \<open>The join of nodes and their status rows as \<open>Node\<close>s; a null heartbeat leaves Go's zero time.\<close>

definition joined :: "node_row \<Rightarrow> status_row \<Rightarrow> Node" where
  "joined n s = \<lparr>nd_NodeID = n_key n, nd_AgentVersion = n_version n, nd_Status = st_status s,
     nd_Mode = st_mode s, nd_LastHeartbeat = (case st_heartbeat s of None \<Rightarrow> 0 | Some t \<Rightarrow> t)\<rparr>"

definition user_join :: "db \<Rightarrow> string \<Rightarrow> Node list" where
  "user_join d u = concat (map (\<lambda>n. map (joined n) (filter (\<lambda>s. st_node s = n_id n) (statuses d)))
                               (filter (\<lambda>n. n_user n = u) (nodes d)))"

definition NodesForUser :: "pg \<Rightarrow> env \<Rightarrow> string \<Rightarrow> db \<Rightarrow> srv_err + Node list" where
  "NodesForUser p e userID d =
     stmt e 0 (bindE (to_uuid p userID) (\<lambda>u. Inr (sort_key nd_NodeID (user_join d u))))"

definition Nodes :: "pg \<Rightarrow> env \<Rightarrow> string \<Rightarrow> db \<Rightarrow> srv_err + Node list" where
  "Nodes p e owner d = NodesForUser p e owner d"

definition NodeForUser :: "pg \<Rightarrow> env \<Rightarrow> string \<Rightarrow> string \<Rightarrow> db \<Rightarrow> srv_err + Node" where
  "NodeForUser p e userID nodeID d =
     stmt e 0 (bindE (to_uuid p userID) (\<lambda>u. row (find (\<lambda>n. nd_NodeID n = nodeID) (user_join d u))))"

section \<open>Users and sessions: auth.go\<close>

definition Authenticate :: "pg \<Rightarrow> env \<Rightarrow> string \<Rightarrow> string \<Rightarrow> db \<Rightarrow> srv_err + User" where
  "Authenticate p e email password d =
     (case stmt e 0 (row (find (\<lambda>u. pg_lower p (u_email u) = pg_lower p email
              \<and> (case u_password_hash u of None \<Rightarrow> False | Some h \<Rightarrow> h = pg_crypt p password h)) (users d))) of
        Inl err \<Rightarrow> Inl (if err = ErrNoRows then ErrInvalidCredentials else err)
      | Inr u \<Rightarrow> Inr \<lparr>usr_ID = u_id u, usr_Email = u_email u\<rparr>)"

definition lower_hex64 :: "string \<Rightarrow> bool" where
  "lower_hex64 s \<longleftrightarrow> length s = 64 \<and> list_all (\<lambda>c. c \<in> set hex_digits) s"

definition CreateSession :: "pg \<Rightarrow> env \<Rightarrow> string \<Rightarrow> string \<Rightarrow> gotime \<Rightarrow> db \<Rightarrow> (srv_err + unit) \<times> db" where
  "CreateSession p e userID tokenHash expiresAt d =
     exec d (stmt e 0 (bindE (to_uuid p userID) (\<lambda>u.
       if \<not> lower_hex64 tokenHash then Inl (PqError ''23514'')
       else if tokenHash \<in> ss_hash ` set (sessions d) then Inl (PqError ''23505'')
       else if u \<notin> u_id ` set (users d) then Inl (PqError ''23503'')
       else Inr ((), d\<lparr>sessions := sessions d @ [\<lparr>ss_user = u, ss_hash = tokenHash, ss_expires = expiresAt\<rparr>]\<rparr>))))"

definition SessionUser :: "env \<Rightarrow> string \<Rightarrow> db \<Rightarrow> srv_err + User" where
  "SessionUser e tokenHash d =
     stmt e 0 (row (case find (\<lambda>s. ss_hash s = tokenHash \<and> ss_expires s > e_now e) (sessions d) of
         None \<Rightarrow> None
       | Some s \<Rightarrow> map_option (\<lambda>u. \<lparr>usr_ID = u_id u, usr_Email = u_email u\<rparr>)
                    (find (\<lambda>u. u_id u = ss_user s) (users d))))"

definition DeleteSession :: "env \<Rightarrow> string \<Rightarrow> db \<Rightarrow> (srv_err + unit) \<times> db" where
  "DeleteSession e tokenHash d =
     exec d (stmt e 0 (Inr ((), d\<lparr>sessions := filter (\<lambda>s. ss_hash s \<noteq> tokenHash) (sessions d)\<rparr>)))"

section \<open>Reports: inventory, network and compute benchmarks\<close>

definition InventoryPublicKey :: "env \<Rightarrow> string \<Rightarrow> db \<Rightarrow> srv_err + string" where
  "InventoryPublicKey e nodeID d =
     stmt e 0 (row (case find (\<lambda>n. n_key n = nodeID \<and> n_pubkey n \<noteq> None \<and> n_pubkey n \<noteq> Some []) (nodes d) of
         None \<Rightarrow> None | Some n \<Rightarrow> n_pubkey n))"

text \<open>The insertion all three statements make: one row for each node with the key (none or one),
  refused when the report id is taken.\<close>

definition insert_reports ::
    "pg \<Rightarrow> db \<Rightarrow> report_row list \<Rightarrow> string \<Rightarrow> string \<Rightarrow> string \<Rightarrow> int option \<Rightarrow> gotime
     \<Rightarrow> srv_err + nat \<times> report_row list" where
  "insert_reports p d table reportID nodeID payload score receivedAt =
     bindE (to_uuid p reportID) (\<lambda>rid.
     case pg_jsonb p payload of None \<Rightarrow> Inl (PqError ''22P02'') | Some json \<Rightarrow>
       let new = map (\<lambda>n. \<lparr>rp_id = rid, rp_node = n_id n, rp_payload = json, rp_score = score,
                          rp_observed = receivedAt\<rparr>) (filter (\<lambda>n. n_key n = nodeID) (nodes d))
       in if new \<noteq> [] \<and> rid \<in> rp_id ` set table then Inl (PqError ''23505'')
          else Inr (length new, table @ new))"

definition inserted :: "env \<Rightarrow> srv_err \<Rightarrow> db \<Rightarrow> srv_err + nat \<times> db \<Rightarrow> (srv_err + unit) \<times> db" where
  "inserted e replay d r =
     (case exec d r of
        (Inl err, d') \<Rightarrow> (Inl (if isUniqueViolation err then replay else err), d')
      | (Inr count, d') \<Rightarrow> if count \<noteq> 1 then (Inl ErrNoRows, d') else (Inr (), d'))"

definition InsertInventory ::
    "pg \<Rightarrow> env \<Rightarrow> string \<Rightarrow> string \<Rightarrow> string \<Rightarrow> gotime \<Rightarrow> db \<Rightarrow> (srv_err + unit) \<times> db" where
  "InsertInventory p e reportID nodeID payload receivedAt d =
     inserted e ErrInventoryReplay d (stmt e 1 (bindE
       (insert_reports p d (inventories d) reportID nodeID payload None receivedAt)
       (\<lambda>(count, table). Inr (count, d\<lparr>inventories := table\<rparr>))))"

definition InsertNetworkBenchmark ::
    "pg \<Rightarrow> env \<Rightarrow> string \<Rightarrow> string \<Rightarrow> string \<Rightarrow> int \<Rightarrow> gotime \<Rightarrow> db \<Rightarrow> (srv_err + unit) \<times> db" where
  "InsertNetworkBenchmark p e reportID nodeID payload score receivedAt d =
     inserted e ErrNetworkBenchmarkReplay d (stmt e 1 (bindE
       (insert_reports p d (networks d) reportID nodeID payload (Some score) receivedAt)
       (\<lambda>(count, table). Inr (count, d\<lparr>networks := table\<rparr>))))"

definition InsertComputeBenchmark ::
    "pg \<Rightarrow> env \<Rightarrow> string \<Rightarrow> string \<Rightarrow> string \<Rightarrow> int \<Rightarrow> gotime \<Rightarrow> db \<Rightarrow> (srv_err + unit) \<times> db" where
  "InsertComputeBenchmark p e reportID nodeID payload score receivedAt d =
     inserted e ErrComputeBenchmarkReplay d (stmt e 1 (bindE
       (insert_reports p d (computes d) reportID nodeID payload (Some score) receivedAt)
       (\<lambda>(count, table). Inr (count, d\<lparr>computes := table\<rparr>))))"

text \<open>The newest report of a node of the user; \<open>dec\<close> decodes the stored payload.\<close>

definition latest :: "report_row list \<Rightarrow> report_row option" where
  "latest rs = (case rev (sort_key (\<lambda>r. (rp_observed r, rp_id r)) rs) of [] \<Rightarrow> None | r # _ \<Rightarrow> Some r)"

definition LatestInventoryForUser ::
    "pg \<Rightarrow> env \<Rightarrow> (string \<Rightarrow> HardwareInventory option) \<Rightarrow> string \<Rightarrow> string \<Rightarrow> db \<Rightarrow> srv_err + InventoryReport" where
  "LatestInventoryForUser p e dec userID nodeID d =
     bindE (stmt e 0 (bindE (to_uuid p userID) (\<lambda>u.
       row (latest (filter (\<lambda>h. \<exists>n \<in> set (nodes d). n_id n = rp_node h \<and> n_key n = nodeID \<and> n_user n = u)
                    (inventories d)))))) (\<lambda>h.
       case dec (rp_payload h) of
         None \<Rightarrow> Inl (OtherError ''decode hardware inventory'')
       | Some inventory \<Rightarrow> Inr \<lparr>ir_ReportID = rp_id h, ir_NodeID = nodeID, ir_ReceivedAt = rp_observed h,
                              ir_Inventory = inventory\<rparr>)"

end
