(* ===== verification/StoreInvariants.thy ===== *)
theory StoreInvariants
  imports Store
begin

text \<open>
  What every operation of the store guarantees, as the locale \<open>store_operation\<close>: it keeps the
  constraints of the schema (\<open>db_inv\<close>) and only ever lets the tables grow (\<open>grows\<close>: the
  identity of a node, a consumed token and the reports never change). The locale is interpreted
  on every state-changing operation of \<open>Store\<close>.
\<close>

section \<open>The schema\<close>

definition pubkeys :: "node_row list \<Rightarrow> string option list" where
  "pubkeys ns = filter (\<lambda>k. k \<noteq> None) (map n_pubkey ns)"

definition nodes_ok :: "db \<Rightarrow> bool" where
  "nodes_ok d \<longleftrightarrow> distinct (map n_id (nodes d)) \<and> distinct (map n_key (nodes d)) \<and> distinct (pubkeys (nodes d))
     \<and> n_user ` set (nodes d) \<subseteq> u_id ` set (users d)"

definition statuses_ok :: "db \<Rightarrow> bool" where
  "statuses_ok d \<longleftrightarrow> distinct (map st_node (statuses d)) \<and> st_node ` set (statuses d) \<subseteq> n_id ` set (nodes d)"

definition token_ok :: "db \<Rightarrow> token_row \<Rightarrow> bool" where
  "token_ok d t \<longleftrightarrow> (tk_consumed t = None \<longleftrightarrow> tk_node t = None)
     \<and> (case tk_node t of None \<Rightarrow> True | Some n \<Rightarrow> has_node d n) \<and> tk_user t \<in> u_id ` set (users d)"

definition tokens_ok :: "db \<Rightarrow> bool" where
  "tokens_ok d \<longleftrightarrow> distinct (map tk_id (tokens d)) \<and> distinct (map tk_hash (tokens d)) \<and> list_all (token_ok d) (tokens d)"

definition sessions_ok :: "db \<Rightarrow> bool" where
  "sessions_ok d \<longleftrightarrow> distinct (map ss_hash (sessions d)) \<and> list_all (\<lambda>s. lower_hex64 (ss_hash s)) (sessions d)"

definition table_ok :: "db \<Rightarrow> report_row list \<Rightarrow> bool" where
  "table_ok d rs \<longleftrightarrow> distinct (map rp_id rs) \<and> rp_node ` set rs \<subseteq> n_id ` set (nodes d)"

definition db_inv :: "db \<Rightarrow> bool" where
  "db_inv d \<longleftrightarrow> nodes_ok d \<and> statuses_ok d \<and> tokens_ok d \<and> sessions_ok d
     \<and> table_ok d (inventories d) \<and> table_ok d (networks d) \<and> table_ok d (computes d)"

section \<open>Growth\<close>

definition same_identity :: "node_row \<Rightarrow> node_row \<Rightarrow> bool" where
  "same_identity r r' \<longleftrightarrow> n_id r' = n_id r \<and> n_user r' = n_user r \<and> n_key r' = n_key r
     \<and> (\<forall>k. n_pubkey r = Some k \<longrightarrow> n_pubkey r' = Some k)"

definition same_token :: "token_row \<Rightarrow> token_row \<Rightarrow> bool" where
  "same_token t t' \<longleftrightarrow> tk_id t' = tk_id t \<and> tk_user t' = tk_user t \<and> tk_hash t' = tk_hash t
     \<and> tk_expires t' = tk_expires t \<and> (tk_consumed t \<noteq> None \<longrightarrow> t' = t)"

definition grows :: "db \<Rightarrow> db \<Rightarrow> bool" where
  "grows d d' \<longleftrightarrow> (\<forall>r \<in> set (nodes d). \<exists>r' \<in> set (nodes d'). same_identity r r')
     \<and> (\<forall>t \<in> set (tokens d). \<exists>t' \<in> set (tokens d'). same_token t t')
     \<and> prefix (inventories d) (inventories d') \<and> prefix (networks d) (networks d')
     \<and> prefix (computes d) (computes d') \<and> users d' = users d"

lemma same_identity_refl [simp]: "same_identity r r" and same_token_refl [simp]: "same_token t t"
  by (simp_all add: same_identity_def same_token_def)

lemma same_identity_trans: "same_identity r s \<Longrightarrow> same_identity s t \<Longrightarrow> same_identity r t"
  by (auto simp: same_identity_def)

lemma same_token_trans: "same_token r s \<Longrightarrow> same_token s t \<Longrightarrow> same_token r t"
  by (auto simp: same_token_def)

lemma grows_refl [simp]: "grows d d"
  by (auto simp: grows_def intro: same_identity_refl same_token_refl)

lemma grows_trans: "grows d d' \<Longrightarrow> grows d' d'' \<Longrightarrow> grows d d''"
proof -
  assume a: "grows d d'" "grows d' d''"
  have "\<exists>t \<in> set (nodes d''). same_identity r t" if "r \<in> set (nodes d)" for r
    using a that same_identity_trans unfolding grows_def by blast
  moreover have "\<exists>t \<in> set (tokens d''). same_token r t" if "r \<in> set (tokens d)" for r
    using a that same_token_trans unfolding grows_def by blast
  ultimately show ?thesis using a unfolding grows_def by (auto intro: prefix_order.trans)
qed

lemma grows_ids: "grows d d' \<Longrightarrow> n_id ` set (nodes d) \<subseteq> n_id ` set (nodes d')"
  unfolding grows_def same_identity_def by (metis image_eqI image_subsetI)

section \<open>The interface of a store operation\<close>

locale store_operation =
  fixes step :: "db \<Rightarrow> db"
  assumes keeps_inv: "db_inv d \<Longrightarrow> db_inv (step d)"
    and only_grows: "db_inv d \<Longrightarrow> grows d (step d)"
begin

lemma iterated: "db_inv d \<Longrightarrow> db_inv ((step ^^ n) d) \<and> grows d ((step ^^ n) d)"
proof (induction n)
  case (Suc n)
  then show ?case using keeps_inv only_grows grows_trans by auto
qed simp

lemma identity_survives:
  assumes "db_inv d" "r \<in> set (nodes d)"
  shows "\<exists>r' \<in> set (nodes (step d)). same_identity r r'"
  using only_grows [OF assms(1)] assms(2) by (simp add: grows_def)

lemma reports_survive:
  assumes "db_inv d" "r \<in> set (inventories d)"
  shows "r \<in> set (inventories (step d))"
  using only_grows [OF assms(1)] assms(2) by (auto simp: grows_def dest: set_mono_prefix)

end

section \<open>Statements\<close>

lemma stmt_Inr [simp]: "stmt e i r = Inr x \<longleftrightarrow> e_fault e i = None \<and> r = Inr x"
  by (auto simp: stmt_def split: option.splits)

lemma row_Inr [simp]: "row r = Inr x \<longleftrightarrow> r = Some x"
  by (auto simp: row_def split: option.splits)

lemma to_uuid_Inr [simp]: "to_uuid p s = Inr u \<longleftrightarrow> pg_uuid p s = Some u"
  by (auto simp: to_uuid_def split: option.splits)

lemma transaction_Inr:
  "transaction e k d body = (Inr x, d') \<longleftrightarrow> body d = Inr (x, d') \<and> e_fault e 0 = None \<and> e_fault e k = None"
  by (auto simp: transaction_def bindE_def stmt_def split: sum.splits prod.splits option.splits)

lemma transaction_Inl: "transaction e k d body = (Inl err, d') \<Longrightarrow> d' = d"
  by (auto simp: transaction_def split: sum.splits prod.splits)

lemma exec_Inr [simp]: "exec d r = (Inr x, d') \<longleftrightarrow> r = Inr (x, d')"
  by (auto simp: exec_def split: sum.splits prod.splits)

lemma exec_Inl: "exec d r = (Inl err, d') \<longleftrightarrow> r = Inl err \<and> d' = d"
  by (auto simp: exec_def split: sum.splits prod.splits)

section \<open>Single changes of the tables\<close>

text \<open>A change that keeps the constraints and grows.\<close>

definition safe :: "db \<Rightarrow> db \<Rightarrow> bool" where
  "safe d d' \<longleftrightarrow> (db_inv d \<longrightarrow> db_inv d' \<and> grows d d')"

lemma safe_refl [simp]: "safe d d"
  by (simp add: safe_def)

lemma safe_trans: "safe d d' \<Longrightarrow> safe d' d'' \<Longrightarrow> safe d d''"
  unfolding safe_def using grows_trans by blast

lemma safe_interface: "(\<And>d. safe d (step d)) \<Longrightarrow> store_operation step"
  by unfold_locales (auto simp: safe_def)

lemma pubkeys_append: "pubkeys (xs @ ys) = pubkeys xs @ pubkeys ys"
  by (simp add: pubkeys_def)

lemma pubkeys_in: "k \<in> set (pubkeys ns) \<longleftrightarrow> k \<noteq> None \<and> k \<in> n_pubkey ` set ns"
  by (auto simp: pubkeys_def)

lemma safe_insert_node:
  assumes "insert_node d r = Inr d'"
  shows "safe d d'"
proof -
  from assms have r: "n_id r \<notin> n_id ` set (nodes d)" "n_key r \<notin> n_key ` set (nodes d)"
    "n_pubkey r \<noteq> None \<longrightarrow> n_pubkey r \<notin> n_pubkey ` set (nodes d)" "n_user r \<in> u_id ` set (users d)"
    and d': "d' = d\<lparr>nodes := nodes d @ [r]\<rparr>"
    by (auto simp: insert_node_def split: if_splits)
  have g: "grows d d'" by (auto simp: grows_def d' intro: same_identity_refl same_token_refl)
  have "db_inv d'" if i: "db_inv d"
  proof -
    have "nodes_ok d'" using i r by (auto simp: db_inv_def nodes_ok_def d' pubkeys_append pubkeys_def)
    moreover have "statuses_ok d'" using i by (auto simp: db_inv_def statuses_ok_def d')
    moreover have "tokens_ok d'" using i
      by (auto simp: db_inv_def tokens_ok_def token_ok_def has_node_def d' list_all_iff split: option.splits)
    moreover have "sessions_ok d'" "table_ok d' (inventories d')" "table_ok d' (networks d')" "table_ok d' (computes d')"
      using i by (auto simp: db_inv_def sessions_ok_def table_ok_def d')
    ultimately show ?thesis by (simp add: db_inv_def)
  qed
  with g show ?thesis by (simp add: safe_def)
qed

lemma safe_insert_status:
  assumes "insert_status e d n = Inr d'"
  shows "safe d d'"
proof (cases "n \<in> st_node ` set (statuses d)")
  case True
  then show ?thesis using assms by (simp add: insert_status_def)
next
  case False
  with assms have n: "has_node d n" and d': "d' = d\<lparr>statuses := statuses d @ [\<lparr>st_node = n, st_status = ''enrolled'',
      st_mode = ''available'', st_observed = e_now e, st_heartbeat = None\<rparr>]\<rparr>"
    by (auto simp: insert_status_def split: if_splits)
  have "grows d d'" by (auto simp: grows_def d' intro: same_identity_refl same_token_refl)
  moreover have "db_inv d'" if "db_inv d"
    using that n False
    by (auto simp: db_inv_def nodes_ok_def statuses_ok_def tokens_ok_def sessions_ok_def table_ok_def
        has_node_def d' token_ok_def list_all_iff split: option.splits)
  ultimately show ?thesis by (simp add: safe_def)
qed

lemma update_row_absent: "nid \<notin> n_id ` set ns \<Longrightarrow> map (\<lambda>r. if n_id r = nid then f r else r) ns = ns"
  by (induction ns) auto

lemma pubkeys_update:
  assumes "distinct (pubkeys ns)" "distinct (map n_id ns)"
    "\<And>r. r \<in> set ns \<Longrightarrow> n_id r = nid \<Longrightarrow> n_pubkey r = None \<Longrightarrow>
       Some k \<notin> n_pubkey ` {r \<in> set ns. n_id r \<noteq> nid}"
    "\<And>r. n_pubkey (f r) = (case n_pubkey r of None \<Rightarrow> Some k | Some x \<Rightarrow> Some x)"
  shows "distinct (pubkeys (map (\<lambda>r. if n_id r = nid then f r else r) ns))"
  using assms(1-3)
proof (induction ns)
  case (Cons a ns)
  let ?g = "\<lambda>r. if n_id r = nid then f r else r"
  show ?case
  proof (cases "n_id a = nid")
    case True
    then have "map ?g ns = ns" using Cons.prems(2) by (intro update_row_absent) auto
    moreover have "Some k \<notin> n_pubkey ` set ns" if "n_pubkey a = None"
    proof -
      have "{r \<in> set (a # ns). n_id r \<noteq> nid} = set ns" using Cons.prems(2) True by (auto simp: image_iff)
      with Cons.prems(3) [of a] True that show ?thesis by simp
    qed
    ultimately show ?thesis using Cons.prems(1) True assms(4) [of a]
      by (auto simp: pubkeys_def split: option.splits)
  next
    case False
    have ih: "distinct (pubkeys (map ?g ns))"
    proof (rule Cons.IH)
      show "Some k \<notin> n_pubkey ` {r \<in> set ns. n_id r \<noteq> nid}"
        if "r \<in> set ns" "n_id r = nid" "n_pubkey r = None" for r
        using Cons.prems(3) [of r] that by auto
    qed (use Cons.prems in \<open>auto simp: pubkeys_def split: if_splits\<close>)
    have "n_pubkey a \<notin> set (pubkeys (map ?g ns))"
    proof
      assume "n_pubkey a \<in> set (pubkeys (map ?g ns))"
      then have "n_pubkey a \<in> (\<lambda>r. n_pubkey (?g r)) ` set ns" "n_pubkey a \<noteq> None"
        unfolding pubkeys_in by (auto simp only: set_map image_image)
      then obtain r where r: "r \<in> set ns" "n_pubkey a = n_pubkey (?g r)" "n_pubkey a \<noteq> None"
        by blast
      show False
      proof (cases "n_id r = nid \<and> n_pubkey r = None")
        case True
        then have "n_pubkey a = Some k" using r(2) assms(4) [of r] by simp
        then show False using Cons.prems(3) [of r] True r(1) False by force
      next
        case no: False
        then have "n_pubkey a = n_pubkey r" using r(2) assms(4) [of r] by (auto split: option.splits if_splits)
        then show False using Cons.prems(1) r(1,3) by (auto simp: pubkeys_def)
      qed
    qed
    then show ?thesis using ih False by (auto simp: pubkeys_def)
  qed
qed (simp add: pubkeys_def)

lemma safe_update_node:
  assumes "\<And>r. same_identity r (f r)"
    "db_inv d \<Longrightarrow> distinct (pubkeys (map (\<lambda>r. if n_id r = nid then f r else r) (nodes d)))"
  shows "safe d (update_node nid f d)"
proof -
  let ?g = "\<lambda>r. if n_id r = nid then f r else r"
  have same: "n_id (?g r) = n_id r" "n_key (?g r) = n_key r" "n_user (?g r) = n_user r" for r
    using assms(1) [of r] by (auto simp: same_identity_def)
  have maps: "map n_id (map ?g ns) = map n_id ns" "map n_key (map ?g ns) = map n_key ns"
    "map n_user (map ?g ns) = map n_user ns" for ns using same by auto
  then have ids: "n_id ` set (map ?g ns) = n_id ` set ns" "n_user ` set (map ?g ns) = n_user ` set ns" for ns
    by (metis list.set_map)+
  have nd: "nodes (update_node nid f d) = map ?g (nodes d)" by (simp add: update_node_def)
  have g: "grows d (update_node nid f d)"
  proof -
    have "\<exists>r' \<in> set (map ?g (nodes d)). same_identity r r'" if "r \<in> set (nodes d)" for r
      using that assms(1) [of r] by (intro bexI [of _ "?g r"]) auto
    moreover have "\<exists>t' \<in> set (tokens d). same_token t t'" if "t \<in> set (tokens d)" for t
      using that by (intro bexI [of _ t]) auto
    ultimately show ?thesis by (simp add: grows_def update_node_def)
  qed
  have "db_inv (update_node nid f d)" if i: "db_inv d"
  proof -
    have h: "has_node (update_node nid f d) = has_node d" unfolding has_node_def nd ids by (rule refl)
    have "nodes_ok (update_node nid f d)"
      using i assms(2) unfolding nodes_ok_def nd maps ids by (simp add: db_inv_def nodes_ok_def update_node_def)
    moreover have "statuses_ok (update_node nid f d)" using i unfolding statuses_ok_def nd ids
      by (simp add: db_inv_def statuses_ok_def update_node_def)
    moreover have "token_ok (update_node nid f d) t = token_ok d t" for t
      unfolding token_ok_def h by (simp add: update_node_def)
    then have "tokens_ok (update_node nid f d)" using i
      by (simp add: db_inv_def tokens_ok_def update_node_def list_all_iff)
    moreover have "sessions_ok (update_node nid f d)" using i by (simp add: db_inv_def sessions_ok_def update_node_def)
    moreover have "table_ok (update_node nid f d) t = table_ok d t" for t unfolding table_ok_def nd ids by simp
    ultimately show ?thesis using i by (simp add: db_inv_def update_node_def)
  qed
  with g show ?thesis by (simp add: safe_def)
qed

lemma safe_redeemNode:
  assumes "redeemNode p e u k pk v d = Inr (n, d')"
  shows "safe d d'"
proof (cases "stmt e 2 (row (find_node d k))")
  case (Inl err)
  then obtain uu where "insert_node d \<lparr>n_id = e_id e, n_user = uu, n_key = k, n_version = v, n_pubkey = Some pk\<rparr> = Inr d'"
    using assms by (auto simp: redeemNode_def bindE_Inr_iff split: if_splits sum.splits)
  then show ?thesis by (rule safe_insert_node)
next
  case (Inr node)
  let ?f = "\<lambda>r. r\<lparr>n_version := v, n_pubkey := (case n_pubkey r of None \<Rightarrow> Some pk | Some k \<Rightarrow> Some k)\<rparr>"
  obtain nid where u: "\<not> ((\<exists>r \<in> set (nodes d). n_id r = nid \<and> n_pubkey r = None)
      \<and> Some pk \<in> n_pubkey ` {r \<in> set (nodes d). n_id r \<noteq> nid})" and d': "d' = update_node nid ?f d"
    using assms Inr
    by (simp add: redeemNode_def split: if_splits sum.splits option.splits) (auto simp: bindE_Inr_iff split: if_splits)
  show ?thesis unfolding d'
  proof (rule safe_update_node)
    show "same_identity r (?f r)" for r by (auto simp: same_identity_def)
    show "distinct (pubkeys (map (\<lambda>r. if n_id r = nid then ?f r else r) (nodes d)))" if "db_inv d"
      using that u by (intro pubkeys_update) (auto simp: db_inv_def nodes_ok_def)
  qed
qed

text \<open>Changes of the tables no other table refers to.\<close>

lemma safe_tokens:
  assumes "tokens_ok d \<Longrightarrow> tokens_ok (d\<lparr>tokens := ts\<rparr>)" "\<forall>t \<in> set (tokens d). \<exists>t' \<in> set ts. same_token t t'"
  shows "safe d (d\<lparr>tokens := ts\<rparr>)"
proof -
  have n: "\<exists>r' \<in> set (nodes d). same_identity r r'" if "r \<in> set (nodes d)" for r
    using that by (intro bexI [of _ r]) auto
  then show ?thesis using assms
    by (simp add: safe_def db_inv_def nodes_ok_def statuses_ok_def sessions_ok_def table_ok_def grows_def)
qed

lemma tokens_id: "\<forall>t \<in> set ts. \<exists>t' \<in> set ts. same_token t t'" "\<forall>r \<in> set ns. \<exists>r' \<in> set ns. same_identity r r'"
  using same_token_refl same_identity_refl by blast+

lemma safe_sessions:
  assumes "sessions_ok d \<Longrightarrow> sessions_ok (d\<lparr>sessions := ss\<rparr>)"
  shows "safe d (d\<lparr>sessions := ss\<rparr>)"
  using assms tokens_id
  by (simp add: safe_def db_inv_def nodes_ok_def statuses_ok_def tokens_ok_def token_ok_def has_node_def
      table_ok_def grows_def list_all_iff cong: option.case_cong)

lemma safe_statuses:
  assumes "map st_node ss = map st_node (statuses d)"
  shows "safe d (d\<lparr>statuses := ss\<rparr>)"
proof -
  have "st_node ` set ss = st_node ` set (statuses d)" using assms by (metis list.set_map)
  then show ?thesis using assms tokens_id
    by (simp add: safe_def db_inv_def nodes_ok_def statuses_ok_def tokens_ok_def token_ok_def has_node_def
      table_ok_def sessions_ok_def grows_def list_all_iff cong: option.case_cong)
qed

lemma safe_insertToken:
  assumes "insertToken p e u h x d = Inr (r, d')"
  shows "safe d d'"
proof -
  let ?t = "\<lambda>uu. \<lparr>tk_id = e_id e, tk_user = uu, tk_hash = h, tk_expires = x, tk_consumed = None, tk_node = None\<rparr>"
  obtain uu where u: "e_id e \<notin> tk_id ` set (tokens d)" "h \<notin> tk_hash ` set (tokens d)"
    "uu \<in> u_id ` set (users d)" and d': "d' = d\<lparr>tokens := tokens d @ [?t uu]\<rparr>"
    using assms by (auto simp: insertToken_def bindE_Inr_iff split: if_splits)
  show ?thesis unfolding d'
  proof (rule safe_tokens)
    show "tokens_ok (d\<lparr>tokens := tokens d @ [?t uu]\<rparr>)" if "tokens_ok d"
      using that u by (auto simp: tokens_ok_def token_ok_def has_node_def list_all_iff)
  qed (use tokens_id(1) in auto)
qed

lemma safe_consumeToken:
  assumes "consumeToken p e tid nid d = Inr (c, d')"
  shows "safe d d'"
proof -
  obtain t n where n: "has_node d n \<or> filter (\<lambda>x. tk_id x = t \<and> tk_consumed x = None) (tokens d) = []"
    and d': "d' = d\<lparr>tokens := map (\<lambda>x. if tk_id x = t \<and> tk_consumed x = None
        then x\<lparr>tk_consumed := Some (e_now e), tk_node := Some n\<rparr> else x) (tokens d)\<rparr>"
    using assms by (auto simp: consumeToken_def bindE_Inr_iff Let_def split: if_splits)
  let ?g = "\<lambda>x. if tk_id x = t \<and> tk_consumed x = None
        then x\<lparr>tk_consumed := Some (e_now e), tk_node := Some n\<rparr> else x"
  have m: "map tk_id (map ?g ts) = map tk_id ts" "map tk_hash (map ?g ts) = map tk_hash ts" for ts by auto
  show ?thesis unfolding d'
  proof (rule safe_tokens)
    assume t: "tokens_ok d"
    have "token_ok (d\<lparr>tokens := map ?g (tokens d)\<rparr>) (?g x)" if "x \<in> set (tokens d)" for x
    proof -
      have "token_ok d x" using t that by (auto simp: tokens_ok_def list_all_iff)
      moreover have "has_node d n" if "tk_id x = t" "tk_consumed x = None"
        using n that \<open>x \<in> set (tokens d)\<close> by (auto simp: filter_empty_conv)
      ultimately show ?thesis by (auto simp: token_ok_def has_node_def)
    qed
    then have "list_all (token_ok (d\<lparr>tokens := map ?g (tokens d)\<rparr>)) (map ?g (tokens d))"
      unfolding list_all_iff set_map by blast
    moreover have "distinct (map tk_id (map ?g (tokens d)))" "distinct (map tk_hash (map ?g (tokens d)))"
      using t unfolding m tokens_ok_def by auto
    moreover have "tokens (d\<lparr>tokens := map ?g (tokens d)\<rparr>) = map ?g (tokens d)" by simp
    ultimately show "tokens_ok (d\<lparr>tokens := map ?g (tokens d)\<rparr>)" unfolding tokens_ok_def by metis
  next
    show "\<forall>x \<in> set (tokens d). \<exists>x' \<in> set (map ?g (tokens d)). same_token x x'"
    proof
      fix x assume "x \<in> set (tokens d)"
      then show "\<exists>x' \<in> set (map ?g (tokens d)). same_token x x'"
        by (intro bexI [of _ "?g x"]) (auto simp: same_token_def)
    qed
  qed
qed

lemma map_const: "\<forall>x \<in> set xs. f x = k \<Longrightarrow> map f xs = replicate (length xs) k"
  by (induction xs) auto

lemma replicate_distinct: "distinct (replicate n x) \<Longrightarrow> n \<le> 1"
  by (cases n; cases "n - 1") auto

lemma insert_reports_ok:
  assumes "insert_reports p d table rid k payload sc t = Inr (c, table')" "nodes_ok d" "table_ok d table"
  shows "table_ok d table'" "prefix table table'" "c \<le> 1" "length table' = length table + c"
proof -
  let ?ns = "filter (\<lambda>n. n_key n = k) (nodes d)"
  obtain u j where u: "pg_uuid p rid = Some u" "pg_jsonb p payload = Some j"
    and t: "table' = table @ map (\<lambda>n. \<lparr>rp_id = u, rp_node = n_id n, rp_payload = j, rp_score = sc, rp_observed = t\<rparr>) ?ns"
    and c: "c = length ?ns" and f: "?ns = [] \<or> u \<notin> rp_id ` set table"
    using assms(1) by (auto simp: insert_reports_def bindE_Inr_iff Let_def split: option.splits if_splits)
  have "distinct (map n_key ?ns)" using assms(2) by (simp add: nodes_ok_def distinct_map_filter)
  moreover have "map n_key ?ns = replicate (length ?ns) k"
    by (rule map_const) auto
  ultimately show l: "c \<le> 1" unfolding c by (metis replicate_distinct)
  show "prefix table table'" "length table' = length table + c" by (simp_all add: t c)
  from l have "?ns = [] \<or> (\<exists>n. ?ns = [n])" unfolding c by (cases ?ns; cases "tl ?ns") auto
  then show "table_ok d table'"
  proof
    assume "\<exists>n. ?ns = [n]"
    then obtain n where n: "?ns = [n]" by blast
    then have "n \<in> set ?ns" by simp
    then have "n \<in> set (nodes d)" by simp
    then show ?thesis using assms(3) f n by (auto simp: t table_ok_def)
  qed (use assms(3) in \<open>simp add: t\<close>)
qed

section \<open>The operations\<close>

lemma safe_exec: "(\<And>x d'. r = Inr (x, d') \<Longrightarrow> safe d d') \<Longrightarrow> safe d (snd (exec d r))"
  by (auto simp: exec_def split: sum.splits prod.splits)

lemma safe_transaction:
  assumes "\<And>x d'. body d = Inr (x, d') \<Longrightarrow> safe d d'"
  shows "safe d (snd (transaction e k d body))"
proof (cases "transaction e k d body")
  case (Pair r d')
  show ?thesis
  proof (cases r)
    case (Inl err)
    then show ?thesis using Pair transaction_Inl [of e k d body err d'] by simp
  next
    case (Inr x)
    then have "body d = Inr (x, d')" using Pair by (simp add: transaction_Inr)
    then show ?thesis using assms Pair by simp
  qed
qed

lemma safe_CreateEnrollmentToken: "safe d (snd (CreateEnrollmentToken p e u h x d))"
  by (auto simp: CreateEnrollmentToken_def split: sum.splits intro!: safe_exec intro: safe_insertToken)

lemma redeem_commit:
  assumes "RedeemEnrollmentToken p e h k pk v d = (Inr r, d')"
  obtains t n d1 d2 nid where
    "find (\<lambda>t. tk_hash t = h \<and> active_token e t) (tokens d) = Some t"
    "redeemNode p e (tk_user t) k pk v d = Inr (n, d1)" "pg_uuid p n = Some nid"
    "insert_status e d1 nid = Inr d2" "consumeToken p e (tk_id t) n d2 = Inr (1, d')"
proof -
  from assms obtain t where t: "find (\<lambda>t. tk_hash t = h \<and> active_token e t) (tokens d) = Some t"
    and b: "bindE (redeemNode p e (tk_user t) k pk v d) (\<lambda>(nodeDatabaseID, d1).
           bindE (stmt e 4 (bindE (to_uuid p nodeDatabaseID) (insert_status e d1))) (\<lambda>d2.
           bindE (stmt e 5 (consumeToken p e (tk_id t) nodeDatabaseID d2)) (\<lambda>(affected, d3).
           bindE (stmt e 6 (Inr ())) (\<lambda>_.
             if affected \<noteq> 1 then Inl ErrInvalidEnrollmentCode else Inr ((), d3))))) = Inr (r, d')"
    unfolding RedeemEnrollmentToken_def transaction_Inr by (auto split: sum.splits)
  from b obtain n d1 where n: "redeemNode p e (tk_user t) k pk v d = Inr (n, d1)"
    and c: "bindE (stmt e 4 (bindE (to_uuid p n) (insert_status e d1))) (\<lambda>d2.
           bindE (stmt e 5 (consumeToken p e (tk_id t) n d2)) (\<lambda>(affected, d3).
           bindE (stmt e 6 (Inr ())) (\<lambda>_.
             if affected \<noteq> 1 then Inl ErrInvalidEnrollmentCode else Inr ((), d3)))) = Inr (r, d')"
    by (auto simp: bindE_Inr_iff)
  from c obtain nid d2 where "pg_uuid p n = Some nid" "insert_status e d1 nid = Inr d2"
    "consumeToken p e (tk_id t) n d2 = Inr (1, d')"
    by (auto simp: bindE_Inr_iff split: if_splits)
  with t n show thesis by (rule that)
qed

lemma redeem_rollback: "RedeemEnrollmentToken p e h k pk v d = (Inl err, d') \<Longrightarrow> d' = d"
  unfolding RedeemEnrollmentToken_def by (rule transaction_Inl)

lemma safe_Redeem: "safe d (snd (RedeemEnrollmentToken p e h k pk v d))"
proof (cases "RedeemEnrollmentToken p e h k pk v d")
  case (Pair r d')
  show ?thesis
  proof (cases r)
    case (Inl err)
    then show ?thesis using Pair redeem_rollback [of p e h k pk v d err d'] by simp
  next
    case (Inr u)
    obtain t n d1 d2 nid where "find (\<lambda>t. tk_hash t = h \<and> active_token e t) (tokens d) = Some t"
      "redeemNode p e (tk_user t) k pk v d = Inr (n, d1)" "pg_uuid p n = Some nid"
      "insert_status e d1 nid = Inr d2" "consumeToken p e (tk_id t) n d2 = Inr (1, d')"
      by (rule redeem_commit [OF Pair [unfolded Inr]])
    then have "safe d d1" "safe d1 d2" "safe d2 d'"
      by (auto intro: safe_redeemNode safe_insert_status safe_consumeToken)
    then have "safe d d'" using safe_trans by blast
    then show ?thesis using Pair by simp
  qed
qed

lemma safe_version: "safe d (update_node nid (\<lambda>r. r\<lparr>n_version := v\<rparr>) d)"
proof (rule safe_update_node)
  assume "db_inv d"
  have "map n_pubkey (map (\<lambda>r. if n_id r = nid then r\<lparr>n_version := v\<rparr> else r) (nodes d)) = map n_pubkey (nodes d)"
    by auto
  then have "pubkeys (map (\<lambda>r. if n_id r = nid then r\<lparr>n_version := v\<rparr> else r) (nodes d)) = pubkeys (nodes d)"
    unfolding pubkeys_def by (rule arg_cong)
  with \<open>db_inv d\<close> show "distinct (pubkeys (map (\<lambda>r. if n_id r = nid then r\<lparr>n_version := v\<rparr> else r) (nodes d)))"
    by (simp only: db_inv_def nodes_ok_def)
qed (simp add: same_identity_def)

lemma safe_insert_node_if_new: "insert_node_if_new d r = Inr d' \<Longrightarrow> safe d d'"
  by (auto simp: insert_node_if_new_def split: if_splits intro: safe_insert_node)

lemma safe_Enroll: "safe d (snd (Enroll p e ow k v d))"
  unfolding Enroll_def
proof (rule safe_transaction)
  fix x d'
  assume "(bindE (stmt e 1 (bindE (to_uuid p ow) (\<lambda>u. insert_node_if_new d \<lparr>n_id = e_id e, n_user = u,
                 n_key = k, n_version = v, n_pubkey = None\<rparr>))) (\<lambda>d1.
       bindE (stmt e 2 (row (find_node d1 k))) (\<lambda>node.
       bindE (stmt e 3 (bindE (to_uuid p (n_user node)) (\<lambda>a. bindE (to_uuid p ow) (\<lambda>b. Inr (a = b))))) (\<lambda>owned.
         if \<not> owned then Inl ErrNodeOwnership
         else
           bindE (stmt e 4 (bindE (to_uuid p (n_id node)) (\<lambda>nid.
                    Inr (update_node nid (\<lambda>r. r\<lparr>n_version := v\<rparr>) d1)))) (\<lambda>d2.
           bindE (stmt e 5 (bindE (to_uuid p (n_id node)) (insert_status e d2))) (\<lambda>d3.
             Inr ((), d3))))))) = Inr (x, d')"
  then obtain u d1 nid d2 nid' where
    "insert_node_if_new d \<lparr>n_id = e_id e, n_user = u, n_key = k, n_version = v, n_pubkey = None\<rparr> = Inr d1"
    "d2 = update_node nid (\<lambda>r. r\<lparr>n_version := v\<rparr>) d1" "insert_status e d2 nid' = Inr d'"
    by (auto simp: bindE_Inr_iff split: if_splits)
  then have "safe d d1" "safe d1 d2" "safe d2 d'"
    by (auto intro: safe_insert_node_if_new safe_version safe_insert_status)
  then show "safe d d'" using safe_trans by blast
qed

lemma safe_Heartbeat: "safe d (snd (Heartbeat p e ow k m d))"
proof -
  let ?hit = "\<lambda>u s. \<exists>n \<in> set (nodes d). st_node s = n_id n \<and> n_key n = k \<and> n_user n = u"
  let ?ss = "\<lambda>u. map (\<lambda>s. if ?hit u s then s\<lparr>st_status := ''online'', st_mode := m,
     st_observed := e_now e, st_heartbeat := Some (e_now e)\<rparr> else s) (statuses d)"
  have "safe d (d\<lparr>statuses := ?ss u\<rparr>)" for u by (rule safe_statuses) auto
  then show ?thesis
    by (auto simp: Heartbeat_def exec_def stmt_def bindE_def Let_def split: sum.splits option.splits prod.splits)
qed


lemma safe_CreateSession: "safe d (snd (CreateSession p e u h x d))"
  unfolding CreateSession_def
  by (rule safe_exec) (auto simp: bindE_Inr_iff sessions_ok_def split: if_splits intro!: safe_sessions)

lemma safe_DeleteSession: "safe d (snd (DeleteSession e h d))"
  unfolding DeleteSession_def
  by (rule safe_exec) (auto simp: sessions_ok_def list_all_iff distinct_map_filter intro!: safe_sessions)

lemma snd_inserted: "snd (inserted e replay d r) = snd (exec d r)"
  by (auto simp: inserted_def split: sum.splits prod.splits)

lemma safe_reports:
  assumes "nodes d' = nodes d" "users d' = users d" "statuses d' = statuses d" "tokens d' = tokens d"
    "sessions d' = sessions d"
    "nodes_ok d \<Longrightarrow> table_ok d (inventories d) \<Longrightarrow> table_ok d (inventories d') \<and> prefix (inventories d) (inventories d')"
    "nodes_ok d \<Longrightarrow> table_ok d (networks d) \<Longrightarrow> table_ok d (networks d') \<and> prefix (networks d) (networks d')"
    "nodes_ok d \<Longrightarrow> table_ok d (computes d) \<Longrightarrow> table_ok d (computes d') \<and> prefix (computes d) (computes d')"
  shows "safe d d'"
proof -
  have "token_ok d' = token_ok d" by (rule ext) (simp add: token_ok_def has_node_def assms(1,2) cong: option.case_cong)
  then have "tokens_ok d' = tokens_ok d" by (simp add: tokens_ok_def assms(4))
  moreover have "nodes_ok d' = nodes_ok d" "statuses_ok d' = statuses_ok d" "sessions_ok d' = sessions_ok d"
    "table_ok d' = table_ok d"
    using assms(1-5) by (simp_all add: nodes_ok_def statuses_ok_def sessions_ok_def table_ok_def fun_eq_iff)
  ultimately show ?thesis using assms tokens_id by (simp add: safe_def db_inv_def grows_def)
qed

lemma safe_InsertInventory: "safe d (snd (InsertInventory p e a b c t d))"
  unfolding InsertInventory_def snd_inserted
  by (rule safe_exec) (auto simp: bindE_Inr_iff intro!: safe_reports dest: insert_reports_ok)

lemma safe_InsertNetworkBenchmark: "safe d (snd (InsertNetworkBenchmark p e a b c sc t d))"
  unfolding InsertNetworkBenchmark_def snd_inserted
  by (rule safe_exec) (auto simp: bindE_Inr_iff intro!: safe_reports dest: insert_reports_ok)

lemma safe_InsertComputeBenchmark: "safe d (snd (InsertComputeBenchmark p e a b c sc t d))"
  unfolding InsertComputeBenchmark_def snd_inserted
  by (rule safe_exec) (auto simp: bindE_Inr_iff intro!: safe_reports dest: insert_reports_ok)

lemmas safe_operations = safe_CreateEnrollmentToken safe_Redeem safe_Enroll safe_Heartbeat safe_CreateSession
  safe_DeleteSession safe_InsertInventory safe_InsertNetworkBenchmark safe_InsertComputeBenchmark

interpretation create_token: store_operation "\<lambda>d. snd (CreateEnrollmentToken p e u h x d)" for p e u h x
  by (rule safe_interface) (rule safe_operations)

interpretation redeem: store_operation "\<lambda>d. snd (RedeemEnrollmentToken p e h k pk v d)" for p e h k pk v
  by (rule safe_interface) (rule safe_operations)

interpretation enroll: store_operation "\<lambda>d. snd (Enroll p e ow k v d)" for p e ow k v
  by (rule safe_interface) (rule safe_operations)

interpretation heartbeat: store_operation "\<lambda>d. snd (Heartbeat p e ow k m d)" for p e ow k m
  by (rule safe_interface) (rule safe_operations)

interpretation create_session: store_operation "\<lambda>d. snd (CreateSession p e u h x d)" for p e u h x
  by (rule safe_interface) (rule safe_operations)

interpretation delete_session: store_operation "\<lambda>d. snd (DeleteSession e h d)" for e h
  by (rule safe_interface) (rule safe_operations)

interpretation insert_inventory: store_operation "\<lambda>d. snd (InsertInventory p e a b c t d)" for p e a b c t
  by (rule safe_interface) (rule safe_operations)

interpretation insert_network: store_operation "\<lambda>d. snd (InsertNetworkBenchmark p e a b c sc t d)" for p e a b c sc t
  by (rule safe_interface) (rule safe_operations)

interpretation insert_compute: store_operation "\<lambda>d. snd (InsertComputeBenchmark p e a b c sc t d)" for p e a b c sc t
  by (rule safe_interface) (rule safe_operations)

section \<open>Runs of the store\<close>

text \<open>The statements of concurrent requests as one sequence of store operations, each with its own
  environment.\<close>

inductive store_step :: "pg \<Rightarrow> db \<Rightarrow> db \<Rightarrow> bool" for p where
  step_create_token: "store_step p d (snd (CreateEnrollmentToken p e u h x d))"
| step_redeem: "store_step p d (snd (RedeemEnrollmentToken p e h k pk v d))"
| step_enroll: "store_step p d (snd (Enroll p e ow k v d))"
| step_heartbeat: "store_step p d (snd (Heartbeat p e ow k m d))"
| step_create_session: "store_step p d (snd (CreateSession p e u h x d))"
| step_delete_session: "store_step p d (snd (DeleteSession e h d))"
| step_inventory: "store_step p d (snd (InsertInventory p e a b c t d))"
| step_network: "store_step p d (snd (InsertNetworkBenchmark p e a b c sc t d))"
| step_compute: "store_step p d (snd (InsertComputeBenchmark p e a b c sc t d))"

inductive store_run :: "pg \<Rightarrow> db \<Rightarrow> db \<Rightarrow> bool" for p where
  run_done: "store_run p d d"
| run_step: "store_run p d d' \<Longrightarrow> store_step p d' d'' \<Longrightarrow> store_run p d d''"

inductive_cases store_stepE: "store_step p d d'"

lemma step_keeps: "store_step p d d' \<Longrightarrow> db_inv d \<Longrightarrow> db_inv d' \<and> grows d d'"
  by (induction rule: store_step.induct)
     (simp_all add: create_token.keeps_inv create_token.only_grows redeem.keeps_inv redeem.only_grows
       enroll.keeps_inv enroll.only_grows heartbeat.keeps_inv heartbeat.only_grows
       create_session.keeps_inv create_session.only_grows delete_session.keeps_inv delete_session.only_grows
       insert_inventory.keeps_inv insert_inventory.only_grows insert_network.keeps_inv insert_network.only_grows
       insert_compute.keeps_inv insert_compute.only_grows)

lemma run_keeps: "store_run p d d' \<Longrightarrow> db_inv d \<Longrightarrow> db_inv d' \<and> grows d d'"
proof (induction rule: store_run.induct)
  case (run_step d d' d'')
  then show ?case using step_keeps grows_trans by blast
qed simp

end
