(* ===== verification/StoreProperties.thy ===== *)
theory StoreProperties
  imports StoreInvariants
begin

text \<open>
  What the store promises its callers: the schema as an invariant of every interleaving of
  operations, single use of enrollment codes, the effect of a redemption, the bound on active
  codes and the race that breaks it. The proofs rest on the interpretations of
  \<open>store_operation\<close>.
\<close>

section \<open>A concrete store\<close>

definition empty_db :: db where
  "empty_db = \<lparr>users = [], nodes = [], statuses = [], tokens = [], sessions = [], inventories = [],
     networks = [], computes = [], wallets = [], jobs = [], rates = []\<rparr>"

definition sample_pg :: pg where
  "sample_pg = \<lparr>pg_uuid = Some, pg_jsonb = Some, pg_lower = ToLower, pg_crypt = (\<lambda>pw h. pw), pg_day = (\<lambda>t. t)\<rparr>"

definition sample_env :: "gotime \<Rightarrow> string \<Rightarrow> env" where
  "sample_env now i = \<lparr>e_now = now, e_id = i, e_fault = (\<lambda>_. None)\<rparr>"

definition sample_token :: "string \<Rightarrow> string \<Rightarrow> token_row" where
  "sample_token i h = \<lparr>tk_id = i, tk_user = ''u1'', tk_hash = h, tk_expires = 100, tk_consumed = None, tk_node = None\<rparr>"

definition sample_db :: "token_row list \<Rightarrow> db" where
  "sample_db ts = empty_db\<lparr>users := [\<lparr>u_id = ''u1'', u_email = ''a'', u_password_hash = None\<rparr>], tokens := ts\<rparr>"

lemma sample_db_inv: "db_inv (sample_db [sample_token ''t1'' ''h1''])"
  by (simp add: sample_db_def empty_db_def sample_token_def db_inv_def nodes_ok_def statuses_ok_def
      tokens_ok_def token_ok_def sessions_ok_def table_ok_def pubkeys_def)

section \<open>Invariants of every run\<close>

text \<open>C14: whatever operations run, in whatever order and with whatever failures, the constraints of
  the schema hold and the store only grows: a node keeps its id, owner, key and public key, a
  consumed enrollment token never changes again, and accepted reports stay in the order they
  were accepted.\<close>

theorem store_invariant:
  assumes "db_inv d" "store_run p d d'"
  shows "db_inv d' \<and> grows d d'"
  using run_keeps assms by blast

theorem store_invariant_witness:
  "db_inv (snd (Enroll sample_pg (sample_env 5 ''n1'') ''u1'' ''node'' ''v'' (sample_db [sample_token ''t1'' ''h1''])))"
  using store_invariant [OF sample_db_inv run_step [OF run_done step_enroll]] by blast

section \<open>Redeeming a code\<close>

lemma find_SomeD: "find P xs = Some x \<Longrightarrow> x \<in> set xs \<and> P x"
  by (auto simp: find_Some_iff)

lemma find_hash_unique:
  assumes "tokens_ok d" "t \<in> set (tokens d)" "tk_hash t = h"
  shows "find (\<lambda>t. tk_hash t = h \<and> active_token e t) (tokens d) = (if active_token e t then Some t else None)"
proof -
  have u: "x = t" if "x \<in> set (tokens d)" "tk_hash x = h" for x
    using assms that by (auto simp: tokens_ok_def distinct_map inj_on_def)
  show ?thesis
  proof (cases "find (\<lambda>t. tk_hash t = h \<and> active_token e t) (tokens d)")
    case None
    then show ?thesis using assms(2,3) by (auto simp: find_None_iff)
  next
    case (Some x)
    then have "x \<in> set (tokens d)" "tk_hash x = h" "active_token e x"
      by (auto dest: find_SomeD) 
    then show ?thesis using u Some by auto
  qed
qed

lemma redeemNode_tokens:
  assumes "redeemNode p e u k pk v d = Inr (n, d')"
  shows "tokens d' = tokens d \<and> users d' = users d"
  using assms
  by (auto simp: redeemNode_def bindE_Inr_iff insert_node_def update_node_def
      split: sum.splits if_splits option.splits)

lemma insert_status_tokens: "insert_status e d n = Inr d' \<Longrightarrow> tokens d' = tokens d \<and> nodes d' = nodes d"
  by (auto simp: insert_status_def split: if_splits)

lemma consumed_after:
  assumes "consumeToken p e tid n d = Inr (1, d')"
  shows "\<exists>t nid. pg_uuid p tid = Some t \<and> pg_uuid p n = Some nid
    \<and> (\<forall>x \<in> set (tokens d'). tk_id x = t \<longrightarrow> tk_consumed x \<noteq> None)
    \<and> (\<exists>x \<in> set (tokens d). tk_id x = t \<and> tk_consumed x = None
         \<and> x\<lparr>tk_consumed := Some (e_now e), tk_node := Some nid\<rparr> \<in> set (tokens d'))"
proof -
  obtain t nid where t: "pg_uuid p tid = Some t" "pg_uuid p n = Some nid"
    "length (filter (\<lambda>x. tk_id x = t \<and> tk_consumed x = None) (tokens d)) = 1"
    "d' = d\<lparr>tokens := map (\<lambda>x. if tk_id x = t \<and> tk_consumed x = None
        then x\<lparr>tk_consumed := Some (e_now e), tk_node := Some nid\<rparr> else x) (tokens d)\<rparr>"
    using assms by (auto simp: consumeToken_def bindE_Inr_iff Let_def split: if_splits)
  then have "filter (\<lambda>x. tk_id x = t \<and> tk_consumed x = None) (tokens d) \<noteq> []" by auto
  then obtain x where x: "x \<in> set (tokens d)" "tk_id x = t" "tk_consumed x = None"
    by (auto simp: filter_empty_conv)
  let ?g = "\<lambda>x. if tk_id x = t \<and> tk_consumed x = None
        then x\<lparr>tk_consumed := Some (e_now e), tk_node := Some nid\<rparr> else x"
  have tk: "tokens d' = map ?g (tokens d)" using t(4) by simp
  have "?g x \<in> ?g ` set (tokens d)" using x(1) by (rule imageI)
  then have "?g x \<in> set (tokens d')" unfolding tk set_map .
  moreover have "?g x = x\<lparr>tk_consumed := Some (e_now e), tk_node := Some nid\<rparr>" using x by simp
  ultimately have "x\<lparr>tk_consumed := Some (e_now e), tk_node := Some nid\<rparr> \<in> set (tokens d')" by (simp only:)
  moreover have "tk_consumed (?g y) \<noteq> None" if "tk_id (?g y) = t" for y
    using that by (cases "tk_id y = t \<and> tk_consumed y = None") auto
  then have "\<forall>x \<in> set (tokens d'). tk_id x = t \<longrightarrow> tk_consumed x \<noteq> None"
    unfolding tk set_map ball_simps(9) by (intro ballI impI)
  ultimately have "(\<forall>x \<in> set (tokens d'). tk_id x = t \<longrightarrow> tk_consumed x \<noteq> None)
    \<and> (\<exists>x \<in> set (tokens d). tk_id x = t \<and> tk_consumed x = None
         \<and> x\<lparr>tk_consumed := Some (e_now e), tk_node := Some nid\<rparr> \<in> set (tokens d'))"
    using x by (intro conjI bexI [of _ x]) simp_all
  with t(1,2) show ?thesis by (intro exI [of _ t] exI [of _ nid]) simp
qed

text \<open>After a successful redemption the token with this hash is consumed.\<close>

lemma redeemed_token:
  assumes "db_inv d" "RedeemEnrollmentToken p e h k pk v d = (Inr r, d')"
    "\<forall>t \<in> set (tokens d). pg_uuid p (tk_id t) = Some (tk_id t)"
  obtains t nid where "t \<in> set (tokens d)" "tk_hash t = h" "active_token e t"
    "t\<lparr>tk_consumed := Some (e_now e), tk_node := Some nid\<rparr> \<in> set (tokens d')"
proof -
  obtain t n d1 d2 nid where t: "find (\<lambda>t. tk_hash t = h \<and> active_token e t) (tokens d) = Some t"
    and n: "redeemNode p e (tk_user t) k pk v d = Inr (n, d1)" "pg_uuid p n = Some nid"
    "insert_status e d1 nid = Inr d2" and c: "consumeToken p e (tk_id t) n d2 = Inr (1, d')"
    by (rule redeem_commit [OF assms(2)])
  have tt: "t \<in> set (tokens d)" "tk_hash t = h" "active_token e t" using find_SomeD [OF t] by auto
  have d2: "tokens d2 = tokens d" using redeemNode_tokens [OF n(1)] insert_status_tokens [OF n(3)] by simp
  obtain x m where x: "x \<in> set (tokens d)" "tk_id x = tk_id t"
      "x\<lparr>tk_consumed := Some (e_now e), tk_node := Some m\<rparr> \<in> set (tokens d')"
    using consumed_after [OF c] assms(3) tt d2 by auto
  then have "x = t" using assms(1) tt by (auto simp: db_inv_def tokens_ok_def distinct_map inj_on_def)
  with x tt show thesis using that by blast
qed

text \<open>C12: an enrollment code works once. After a successful redemption, no later redemption of the
  same code succeeds, whatever operations ran in between. The hypothesis on \<open>pg_uuid\<close> says that
  casting the text of a stored token id gives that id.\<close>

theorem redeem_single_use:
  assumes "db_inv d" "\<forall>t \<in> set (tokens d). pg_uuid p (tk_id t) = Some (tk_id t)"
    "fst (RedeemEnrollmentToken p e h k pk v d) = Inr ()"
    "store_run p (snd (RedeemEnrollmentToken p e h k pk v d)) d''"
  shows "fst (RedeemEnrollmentToken p e' h k' pk' v' d'') \<noteq> Inr ()"
proof
  assume again: "fst (RedeemEnrollmentToken p e' h k' pk' v' d'') = Inr ()"
  let ?d' = "snd (RedeemEnrollmentToken p e h k pk v d)"
  have r: "RedeemEnrollmentToken p e h k pk v d = (Inr (), ?d')" using assms(3) by (cases "RedeemEnrollmentToken p e h k pk v d") auto
  obtain t nid where t: "tk_hash t = h" "t\<lparr>tk_consumed := Some (e_now e), tk_node := Some nid\<rparr> \<in> set (tokens ?d')"
    by (rule redeemed_token [OF assms(1) r assms(2)]) blast
  have "db_inv ?d'" using redeem.keeps_inv [OF assms(1)] .
  then have i: "db_inv d''" "grows ?d' d''" using run_keeps [OF assms(4)] by auto
  then obtain x where x: "x \<in> set (tokens d'')" "tk_hash x = h" "tk_consumed x \<noteq> None"
    using t unfolding grows_def same_token_def by fastforce
  then have "find (\<lambda>t. tk_hash t = h \<and> active_token e' t) (tokens d'') = None"
    using find_hash_unique [of d'' x h e'] i(1) by (simp add: db_inv_def active_token_def)
  moreover obtain d3 where "RedeemEnrollmentToken p e' h k' pk' v' d'' = (Inr (), d3)"
    using again by (cases "RedeemEnrollmentToken p e' h k' pk' v' d''") auto
  ultimately show False by (auto elim: redeem_commit)
qed

definition sample_store :: db where "sample_store = sample_db [sample_token ''t1'' ''h1'']"

lemma sample_redeemed:
  "fst (RedeemEnrollmentToken sample_pg (sample_env 5 ''n1'') ''h1'' ''node'' ''key'' ''v'' sample_store) = Inr ()"
  by code_simp

theorem redeem_single_use_witness:
  "fst (RedeemEnrollmentToken sample_pg (sample_env 6 ''n2'') ''h1'' ''node2'' ''key2'' ''v''
     (snd (RedeemEnrollmentToken sample_pg (sample_env 5 ''n1'') ''h1'' ''node'' ''key'' ''v'' sample_store))) \<noteq> Inr ()"
proof (rule redeem_single_use [OF _ _ sample_redeemed run_done])
  show "db_inv sample_store" by (simp add: sample_store_def sample_db_inv)
  show "\<forall>t \<in> set (tokens sample_store). pg_uuid sample_pg (tk_id t) = Some (tk_id t)"
    by (simp add: sample_pg_def)
qed

section \<open>What a redemption does to the node\<close>

definition canonical_ids :: "pg \<Rightarrow> env \<Rightarrow> db \<Rightarrow> bool" where
  "canonical_ids p e d \<longleftrightarrow> (\<forall>i \<in> insert (e_id e) (n_id ` set (nodes d)). pg_uuid p i = Some i)
     \<and> (\<forall>t \<in> set (tokens d). pg_uuid p (tk_id t) = Some (tk_id t) \<and> pg_uuid p (tk_user t) = Some (tk_user t))"

lemma redeemNode_effect:
  assumes "redeemNode p e u k pk v d = Inr (n, d')" "db_inv d" "canonical_ids p e d" "pg_uuid p u = Some u"
  shows "\<exists>r \<in> set (nodes d'). n_id r = n \<and> n_key r = k \<and> n_user r = u \<and> n_version r = v
    \<and> n_pubkey r \<in> {Some pk, Some []}"
proof (cases "find_node d k")
  case None
  then have "insert_node d \<lparr>n_id = e_id e, n_user = u, n_key = k, n_version = v, n_pubkey = Some pk\<rparr> = Inr d'" "n = e_id e"
    using assms(1,4) by (auto simp: redeemNode_def row_def stmt_def bindE_Inr_iff split: sum.splits if_splits option.splits)
  then show ?thesis by (auto simp: insert_node_def split: if_splits)
next
  case (Some r)
  then have r: "r \<in> set (nodes d)" "n_key r = k" unfolding find_node_def using find_SomeD by fastforce+
  then have i: "pg_uuid p (n_id r) = Some (n_id r)" using assms(3) by (simp add: canonical_ids_def)
  let ?f = "\<lambda>r. r\<lparr>n_version := v, n_pubkey := (case n_pubkey r of None \<Rightarrow> Some pk | Some k \<Rightarrow> Some k)\<rparr>"
  have c: "n_user r = u" "\<not> (case n_pubkey r of None \<Rightarrow> False | Some k \<Rightarrow> k \<noteq> [] \<and> k \<noteq> pk)" "n = n_id r"
    "d' = update_node (n_id r) ?f d"
    using assms(1) Some i
    by (auto simp: redeemNode_def row_def stmt_def bindE_def to_uuid_def split: sum.splits if_splits option.splits)
  have "?f r \<in> set (nodes d')" using r(1) unfolding c(4) by (auto simp: update_node_def image_iff intro!: bexI [of _ r])
  moreover have "n_pubkey (?f r) \<in> {Some pk, Some []}" using c(2) by (auto split: option.splits)
  ultimately show ?thesis using r(2) c by (intro bexI [of _ "?f r"]) auto
qed

lemma redeem_outcome:
  assumes "db_inv d" "canonical_ids p e d" and r: "RedeemEnrollmentToken p e h k pk v d = (Inr (), d')"
  obtains t r where "t \<in> set (tokens d)" "tk_hash t = h" "active_token e t"
    "r \<in> set (nodes d')" "n_key r = k" "n_user r = tk_user t" "n_version r = v" "n_pubkey r \<in> {Some pk, Some []}"
    "n_id r \<in> st_node ` set (statuses d')"
proof -
  obtain t n d1 d2 nid where t: "find (\<lambda>t. tk_hash t = h \<and> active_token e t) (tokens d) = Some t"
    and n: "redeemNode p e (tk_user t) k pk v d = Inr (n, d1)" and nid: "pg_uuid p n = Some nid"
    and s: "insert_status e d1 nid = Inr d2" and c: "consumeToken p e (tk_id t) n d2 = Inr (1, d')"
    by (rule redeem_commit [OF r])
  have tt: "t \<in> set (tokens d)" "tk_hash t = h" "active_token e t" using find_SomeD [OF t] by auto
  obtain x where x: "x \<in> set (nodes d1)" "n_id x = n" "n_key x = k" "n_user x = tk_user t" "n_version x = v"
      "n_pubkey x \<in> {Some pk, Some []}"
    using redeemNode_effect [OF n assms(1,2)] assms(2) tt(1) by (auto simp: canonical_ids_def)
  have "n = e_id e \<or> n \<in> n_id ` set (nodes d)"
    using n by (auto simp: redeemNode_def find_node_def dest!: find_SomeD split: sum.splits if_splits option.splits)
  then have "nid = n" using nid assms(2) by (auto simp: canonical_ids_def)
  then have "n \<in> st_node ` set (statuses d2)" using s by (auto simp: insert_status_def split: if_splits)
  moreover have "nodes d2 = nodes d1" using insert_status_tokens [OF s] by simp
  moreover have "nodes d' = nodes d2" "statuses d' = statuses d2"
    using c by (auto simp: consumeToken_def bindE_Inr_iff Let_def split: if_splits)
  ultimately have "x \<in> set (nodes d')" "n_id x \<in> st_node ` set (statuses d')" using x by auto
  with x tt show ?thesis by (intro that)
qed



section \<open>The bound on active codes\<close>

definition active_codes :: "env \<Rightarrow> string \<Rightarrow> db \<Rightarrow> nat" where
  "active_codes e u d = length (filter (\<lambda>t. tk_user t = u \<and> active_token e t) (tokens d))"

text \<open>One request at a time, a user never gets a code that would be the sixth active one: the
  sixth is refused with \<open>ErrTooManyActiveEnrollmentCodes\<close> and changes nothing, and a success
  leaves at most five.\<close>

theorem active_codes_bounded:
  assumes "pg_uuid p u = Some u" "e_fault e 0 = None"
  shows "(if 5 \<le> active_codes e u d
          then CreateEnrollmentToken p e u h x d = (Inl ErrTooManyActiveEnrollmentCodes, d)
          else active_codes e u (snd (CreateEnrollmentToken p e u h x d)) \<le> 5)"
  using assms
  by (auto simp: CreateEnrollmentToken_def countActiveTokens_def insertToken_def stmt_def to_uuid_def
      bindE_def active_codes_def maxActiveEnrollmentCodes_def exec_def split: option.splits)

theorem active_codes_bounded_witness:
  "active_codes (sample_env 5 ''t2'') ''u1''
     (snd (CreateEnrollmentToken sample_pg (sample_env 5 ''t2'') ''u1'' ''h2'' 100 sample_store)) \<le> 5"
proof -
  have "\<not> 5 \<le> active_codes (sample_env 5 ''t2'') ''u1'' sample_store" by code_simp
  then show ?thesis
    using active_codes_bounded [of sample_pg "''u1''" "sample_env 5 ''t2''" sample_store "''h2''" 100]
    by (simp add: sample_pg_def sample_env_def)
qed

text \<open>The bound does not survive two requests at once. The count and the insertion are separate
  statements without a transaction: two requests that both count before either inserts both
  pass the test, and the user ends up with six active codes.\<close>

theorem active_codes_race:
  "\<exists>p e1 e2 u d d1 d2. db_inv d
     \<and> countActiveTokens p e1 u d = Inr 4 \<and> countActiveTokens p e2 u d = Inr 4
     \<and> insertToken p e1 u ''h5'' 100 d = Inr ((), d1) \<and> insertToken p e2 u ''h6'' 100 d1 = Inr ((), d2)
     \<and> active_codes e2 u d2 = 6"
proof -
  let ?ts = "[sample_token ''t1'' ''h1'', sample_token ''t2'' ''h2'', sample_token ''t3'' ''h3'', sample_token ''t4'' ''h4'']"
  let ?d = "sample_db ?ts" and ?e1 = "sample_env 5 ''t5''" and ?e2 = "sample_env 5 ''t6''"
  let ?t = "\<lambda>i h. \<lparr>tk_id = i, tk_user = ''u1'', tk_hash = h, tk_expires = 100, tk_consumed = None, tk_node = None\<rparr>"
  let ?d1 = "?d\<lparr>tokens := ?ts @ [?t ''t5'' ''h5'']\<rparr>"
  let ?d2 = "?d\<lparr>tokens := ?ts @ [?t ''t5'' ''h5'', ?t ''t6'' ''h6'']\<rparr>"
  have "db_inv ?d"
    by (simp add: sample_db_def empty_db_def sample_token_def db_inv_def nodes_ok_def statuses_ok_def
      tokens_ok_def token_ok_def sessions_ok_def table_ok_def pubkeys_def)
  moreover have "countActiveTokens sample_pg ?e1 ''u1'' ?d = Inr 4" "countActiveTokens sample_pg ?e2 ''u1'' ?d = Inr 4"
    by code_simp+
  moreover have "insertToken sample_pg ?e1 ''u1'' ''h5'' 100 ?d = Inr ((), ?d1)"
    "insertToken sample_pg ?e2 ''u1'' ''h6'' 100 ?d1 = Inr ((), ?d2)"
    by (simp_all add: insertToken_def sample_env_def sample_pg_def to_uuid_def sample_token_def sample_db_def
        empty_db_def stmt_def)
  moreover have "active_codes ?e2 ''u1'' ?d2 = 6" by code_simp
  ultimately show ?thesis by blast
qed

end
