(* ===== verification/Server.thy ===== *)
theory Server
  imports StoreProperties SubmissionAuth "HOL-Library.AList"
begin

text \<open>
  \<^verbatim>\<open>server/service.go\<close>, \<^verbatim>\<open>server/auth.go\<close>, \<^verbatim>\<open>server/enrollment.go\<close>: the state of
  the service, requests and responses, and the handlers of health, enrollment, heartbeat, sessions
  and enrollment codes. A handler maps the call context, the request and the state to a response
  and the next state. The context carries what a call reads from outside: the wall clock, random
  bytes, the environment of each store operation it makes, the JSON codecs and the cryptographic
  functions (parameters of the model). Logging is left out.
\<close>

section \<open>Requests, responses, state\<close>

record request =
  rq_method :: string
  rq_path :: string
  rq_origin :: string
  rq_authorization :: string
  rq_forwarded :: string
  rq_signature :: string
  rq_cookie :: "string option"
  rq_tls :: bool
  rq_body :: string
  rq_read_error :: bool

datatype reply =
    NoBody
  | ErrorBody string
  | HealthBody string string string
  | EnrollBody EnrollResponse
  | CodeBody EnrollmentCodeResponse
  | NodesBody "Node list"
  | NodeBody Node
  | UserBody User
  | SubmissionBody SubmissionResponse
  | ReportBody InventoryReport
  | DashboardBody DashboardResponse
  | WalletBody WalletResponse
  | JobsBody "JobSummary list"

record cookie =
  ck_value :: string
  ck_expires :: "gotime option"
  ck_max_age :: int
  ck_http_only :: bool
  ck_secure :: bool

record response =
  rs_status :: int
  rs_headers :: "(string \<times> string) list"
  rs_cookie :: "cookie option"
  rs_body :: reply

record codecs =
  dec_enroll :: "string \<Rightarrow> EnrollRequest option"
  dec_heartbeat :: "string \<Rightarrow> HeartbeatRequest option"
  dec_login :: "string \<Rightarrow> LoginRequest option"
  dec_secure :: "string \<Rightarrow> SecureEnrollRequest option"
  dec_inventory :: "string \<Rightarrow> (InventorySubmission \<times> string) option"
  dec_network :: "string \<Rightarrow> (NetworkBenchmarkSubmission \<times> string) option"
  dec_compute :: "string \<Rightarrow> (ComputeBenchmarkSubmission \<times> string) option"
  enc_inventory :: "HardwareInventory \<Rightarrow> string option"
  enc_network :: "NetworkBenchmark \<Rightarrow> string option"
  enc_compute :: "ComputeBenchmark \<Rightarrow> string option"
  load_inventory :: "string \<Rightarrow> HardwareInventory option"

record call =
  c_now :: gotime
  c_random :: "u8 list option"
  c_env :: "nat \<Rightarrow> env"
  c_pg :: pg
  c_crypto :: crypto
  c_json :: codecs
  c_order :: "Node list \<Rightarrow> Node list"

text \<open>\<open>sv_owner\<close> is the \<open>owner\<close> of the \<open>PostgresStore\<close>, \<open>None\<close> when the service runs in memory;
  \<open>sv_window\<close> and \<open>sv_attempts\<close> are the variable \<open>secureEnrollmentRate\<close>.\<close>

record server =
  sv_owner :: "string option"
  sv_token :: string
  sv_nodes :: "(string \<times> Node) list"
  sv_db :: db
  sv_window :: gotime
  sv_attempts :: int

type_synonym handler = "call \<Rightarrow> request \<Rightarrow> server \<Rightarrow> response \<times> server"

definition writeJSON :: "int \<Rightarrow> reply \<Rightarrow> response" where
  "writeJSON status value = \<lparr>rs_status = status, rs_headers = [], rs_cookie = None, rs_body = value\<rparr>"

definition writeError :: "int \<Rightarrow> string \<Rightarrow> response" where
  "writeError status message = writeJSON status (ErrorBody message)"

definition databaseError :: "srv_err \<Rightarrow> response" where
  "databaseError err =
     (if err = ErrNoRows then writeError 404 ''record not found''
      else if err = ErrNodeOwnership \<or> err = ErrNodeIdentityConflict then writeError 409 ''node identity conflict''
      else if err = ErrTooManyActiveEnrollmentCodes
      then writeError 429 ''too many active enrollment codes; use or let an existing code expire''
      else writeError 503 ''database unavailable'')"

section \<open>service.go\<close>

definition authenticated :: "handler \<Rightarrow> handler" where
  "authenticated next c r s =
     (if sv_owner s \<noteq> None \<and> (sv_token s = [] \<or> rq_authorization r \<noteq> ''Bearer '' @ sv_token s)
      then (writeError 401 ''authentication required'', s)
      else next c r s)"

definition health :: handler where
  "health c r s =
     (case (if sv_owner s \<noteq> None then stmt (c_env c 0) 0 (Inr ()) else Inr ()) of
        Inl err \<Rightarrow> (databaseError err, s)
      | Inr _ \<Rightarrow> (writeJSON 200 (HealthBody ''meshalot-control'' ''ok'' Version), s))"

definition enroll :: handler where
  "enroll c r s =
     (case dec_enroll (c_json c) (rq_body r) of
        None \<Rightarrow> (writeError 400 ''invalid enrollment request'', s)
      | Some req \<Rightarrow>
          if TrimSpace (er_NodeID req) = [] then (writeError 400 ''invalid enrollment request'', s)
          else if sv_token s = [] \<or> er_EnrollmentToken req \<noteq> sv_token s
          then (writeError 401 ''invalid enrollment token'', s)
          else (case sv_owner s of
                  Some owner \<Rightarrow>
                    (case Enroll (c_pg c) (c_env c 0) owner (er_NodeID req) (er_AgentVersion req) (sv_db s) of
                       (Inl err, d) \<Rightarrow> (databaseError err, s\<lparr>sv_db := d\<rparr>)
                     | (Inr _, d) \<Rightarrow>
                         (writeJSON 201 (EnrollBody \<lparr>ersp_NodeID = er_NodeID req, ersp_Accepted = True\<rparr>),
                          s\<lparr>sv_db := d\<rparr>))
                | None \<Rightarrow>
                    let node = \<lparr>nd_NodeID = er_NodeID req, nd_AgentVersion = er_AgentVersion req,
                                nd_Status = ''enrolled'', nd_Mode = ''available'', nd_LastHeartbeat = 0\<rparr>
                    in (writeJSON 201 (EnrollBody \<lparr>ersp_NodeID = nd_NodeID node, ersp_Accepted = True\<rparr>),
                        s\<lparr>sv_nodes := AList.update (nd_NodeID node) node (sv_nodes s)\<rparr>)))"

definition heartbeat :: handler where
  "heartbeat c r s =
     (case dec_heartbeat (c_json c) (rq_body r) of
        None \<Rightarrow> (writeError 400 ''invalid heartbeat'', s)
      | Some req \<Rightarrow>
          if TrimSpace (hb_NodeID req) = [] then (writeError 400 ''invalid heartbeat'', s)
          else (case sv_owner s of
                  Some owner \<Rightarrow>
                    (case Heartbeat (c_pg c) (c_env c 0) owner (hb_NodeID req) (hb_Mode req) (sv_db s) of
                       (Inl err, d) \<Rightarrow> (databaseError err, s\<lparr>sv_db := d\<rparr>)
                     | (Inr _, d) \<Rightarrow> (writeJSON 204 NoBody, s\<lparr>sv_db := d\<rparr>))
                | None \<Rightarrow>
                    (case map_of (sv_nodes s) (hb_NodeID req) of
                       None \<Rightarrow> (writeError 404 ''node is not enrolled'', s)
                     | Some node0 \<Rightarrow>
                         let node = node0\<lparr>nd_Status := ''online'', nd_Mode := hb_Mode req,
                                          nd_LastHeartbeat := hb_ObservedAt req\<rparr>
                         in (writeJSON 204 NoBody,
                             s\<lparr>sv_nodes := AList.update (hb_NodeID req) node (sv_nodes s)\<rparr>))))"

text \<open>Go ranges over a map in an unspecified order: \<open>c_order\<close>, a permutation.\<close>

definition listNodes :: handler where
  "listNodes c r s =
     (case sv_owner s of
        Some owner \<Rightarrow> (case Nodes (c_pg c) (c_env c 0) owner (sv_db s) of
                         Inl err \<Rightarrow> (databaseError err, s)
                       | Inr ns \<Rightarrow> (writeJSON 200 (NodesBody ns), s))
      | None \<Rightarrow> (writeJSON 200 (NodesBody (c_order c (map snd (sv_nodes s)))), s))"

definition middleware :: "handler \<Rightarrow> handler" where
  "middleware next c r s =
     (let origin = rq_origin r;
          headers = [(''Content-Type'', ''application/json'')]
            @ (if origin = ''http://localhost:5173'' \<or> origin = ''http://127.0.0.1:5173''
               then [(''Access-Control-Allow-Origin'', origin), (''Access-Control-Allow-Credentials'', ''true''),
                     (''Vary'', ''Origin'')] else [])
      in if rq_method r = ''OPTIONS''
         then (\<lparr>rs_status = 204,
                rs_headers = headers @ [(''Access-Control-Allow-Headers'', ''Content-Type, Authorization''),
                               (''Access-Control-Allow-Methods'', ''GET, POST, OPTIONS'')],
                rs_cookie = None, rs_body = NoBody\<rparr>, s)
         else (let (resp, s') = next c r s in (resp\<lparr>rs_headers := headers @ rs_headers resp\<rparr>, s')))"

section \<open>auth.go\<close>

definition sessionLifetime :: duration where "sessionLifetime = 12 * Hour"

definition hashSessionToken :: "crypto \<Rightarrow> string \<Rightarrow> string" where
  "hashSessionToken k token = hex_encode (Sum256 k token)"

definition newSessionToken :: "call \<Rightarrow> (string \<times> string) option" where
  "newSessionToken c =
     (case c_random c of
        None \<Rightarrow> None
      | Some raw \<Rightarrow> let token = b64_encode url_alphabet raw
                    in Some (token, hex_encode (Sum256 (c_crypto c) token)))"

definition isHTTPS :: "request \<Rightarrow> bool" where
  "isHTTPS r = (if rq_tls r then True
                else EqualFold (TrimSpace (hd (Split (CHR '','') (rq_forwarded r)))) ''https'')"

definition with_cookie :: "cookie \<Rightarrow> response \<Rightarrow> response" where
  "with_cookie k resp = resp\<lparr>rs_cookie := Some k\<rparr>"

definition login :: handler where
  "login c r s =
     (if sv_owner s = None then (writeError 503 ''login unavailable'', s)
      else (case dec_login (c_json c) (take 16384 (rq_body r)) of
        None \<Rightarrow> (writeError 400 ''invalid login request'', s)
      | Some req0 \<Rightarrow>
          let req = req0\<lparr>lr_Email := TrimSpace (lr_Email req0)\<rparr>
          in if lr_Email req = [] \<or> length (lr_Email req) > 320 \<or> lr_Password req = []
                \<or> length (lr_Password req) > 1024
             then (writeError 400 ''email and password are required'', s)
             else (case Authenticate (c_pg c) (c_env c 0) (lr_Email req) (lr_Password req) (sv_db s) of
                     Inl err \<Rightarrow> if err = ErrInvalidCredentials
                                then (writeError 401 ''invalid email or password'', s)
                                else (databaseError err, s)
                   | Inr user \<Rightarrow>
                       (case newSessionToken c of
                          None \<Rightarrow> (writeError 500 ''login failed'', s)
                        | Some (token, tokenHash) \<Rightarrow>
                            let expires = c_now c + sessionLifetime
                            in (case CreateSession (c_pg c) (c_env c 1) (usr_ID user) tokenHash expires (sv_db s) of
                                  (Inl err, d) \<Rightarrow> (databaseError err, s\<lparr>sv_db := d\<rparr>)
                                | (Inr _, d) \<Rightarrow>
                                    (with_cookie \<lparr>ck_value = token, ck_expires = Some expires,
                                        ck_max_age = sessionLifetime div Second, ck_http_only = True,
                                        ck_secure = isHTTPS r\<rparr>
                                       (writeJSON 200 (UserBody user)), s\<lparr>sv_db := d\<rparr>))))))"

definition logout :: handler where
  "logout c r s =
     (let (result, s') = (case rq_cookie r of
            Some value \<Rightarrow> if sv_owner s \<noteq> None
                          then (case DeleteSession (c_env c 0) (hashSessionToken (c_crypto c) value) (sv_db s) of
                                  (res, d) \<Rightarrow> (res, s\<lparr>sv_db := d\<rparr>))
                          else (Inr (), s)
          | None \<Rightarrow> (Inr (), s))
      in case result of
           Inl err \<Rightarrow> (databaseError err, s')
         | Inr _ \<Rightarrow> (with_cookie \<lparr>ck_value = [], ck_expires = None, ck_max_age = - 1, ck_http_only = True,
                                  ck_secure = isHTTPS r\<rparr> (writeJSON 204 NoBody), s'))"

text \<open>A handler behind \<open>requireSession\<close> takes the user the session belongs to (\<open>currentUser\<close>).\<close>

definition requireSession :: "(User \<Rightarrow> handler) \<Rightarrow> handler" where
  "requireSession next c r s =
     (if sv_owner s = None then (writeError 503 ''login unavailable'', s)
      else (case rq_cookie r of
              None \<Rightarrow> (writeError 401 ''sign in required'', s)
            | Some value \<Rightarrow>
                if value = [] then (writeError 401 ''sign in required'', s)
                else (case SessionUser (c_env c 0) (hashSessionToken (c_crypto c) value) (sv_db s) of
                        Inl err \<Rightarrow> if err = ErrNoRows then (writeError 401 ''session expired; sign in again'', s)
                                   else (databaseError err, s)
                      | Inr user \<Rightarrow> next user c r s)))"

definition me :: "User \<Rightarrow> handler" where
  "me user c r s = (writeJSON 200 (UserBody user), s)"

section \<open>enrollment.go\<close>

definition enrollmentCodeLifetime :: duration where "enrollmentCodeLifetime = 10 * Minute"
definition secureEnrollmentAttemptsPerMinute :: int where "secureEnrollmentAttemptsPerMinute = 120"

definition hashEnrollmentCode :: "crypto \<Rightarrow> string \<Rightarrow> string" where
  "hashEnrollmentCode k code = hex_encode (Sum256 k code)"

definition newEnrollmentCode :: "call \<Rightarrow> (string \<times> string) option" where
  "newEnrollmentCode c =
     (case c_random c of
        None \<Rightarrow> None
      | Some raw \<Rightarrow> let code = ''mesh_'' @ b64_encode url_alphabet raw
                    in Some (code, hashEnrollmentCode (c_crypto c) code))"

definition validEd25519PublicKey :: "string \<Rightarrow> bool" where
  "validEd25519PublicKey value =
     (case DecodeString value of None \<Rightarrow> False | Some decoded \<Rightarrow> length decoded = PublicKeySize)"

definition allowSecureEnrollment :: "gotime \<Rightarrow> server \<Rightarrow> bool \<times> server" where
  "allowSecureEnrollment now s0 =
     (let s = (if IsZero (sv_window s0) \<or> time_sub now (sv_window s0) \<ge> Minute \<or> now < sv_window s0
               then s0\<lparr>sv_window := now, sv_attempts := 0\<rparr> else s0)
      in if sv_attempts s \<ge> secureEnrollmentAttemptsPerMinute then (False, s)
         else (True, s\<lparr>sv_attempts := sv_attempts s + 1\<rparr>))"

definition no_store :: "response \<Rightarrow> response" where
  "no_store resp = resp\<lparr>rs_headers := rs_headers resp @ [(''Cache-Control'', ''no-store'')]\<rparr>"

definition issueEnrollmentCode :: "User \<Rightarrow> handler" where
  "issueEnrollmentCode user c r s =
     (if sv_owner s = None then (writeError 503 ''enrollment unavailable'', s)
      else (case newEnrollmentCode c of
              None \<Rightarrow> (writeError 500 ''unable to create enrollment code'', s)
            | Some (code, tokenHash) \<Rightarrow>
                let expiresAt = c_now c + enrollmentCodeLifetime
                in (case CreateEnrollmentToken (c_pg c) (c_env c 1) (usr_ID user) tokenHash expiresAt (sv_db s) of
                      (Inl err, d) \<Rightarrow> (databaseError err, s\<lparr>sv_db := d\<rparr>)
                    | (Inr _, d) \<Rightarrow>
                        (no_store (writeJSON 201 (CodeBody \<lparr>ecr_EnrollmentCode = code, ecr_ExpiresAt = expiresAt\<rparr>)),
                         s\<lparr>sv_db := d\<rparr>))))"

definition secureEnroll :: handler where
  "secureEnroll c r s0 =
     (if sv_owner s0 = None then (writeError 503 ''enrollment unavailable'', s0)
      else let (allowed, s) = allowSecureEnrollment (c_now c) s0
      in if \<not> allowed then (writeError 429 ''enrollment temporarily rate limited'', s)
         else (case dec_secure (c_json c) (take 16384 (rq_body r)) of
                 None \<Rightarrow> (writeError 400 ''invalid enrollment request'', s)
               | Some req0 \<Rightarrow>
                   let req = req0\<lparr>ser_NodeID := TrimSpace (ser_NodeID req0),
                                  ser_EnrollmentCode := TrimSpace (ser_EnrollmentCode req0),
                                  ser_AgentVersion := TrimSpace (ser_AgentVersion req0),
                                  ser_PublicKey := TrimSpace (ser_PublicKey req0)\<rparr>
                   in if \<not> validUUIDv4 (ser_NodeID req) \<or> ser_EnrollmentCode req = []
                         \<or> length (ser_EnrollmentCode req) > 128 \<or> ser_AgentVersion req = []
                         \<or> length (ser_AgentVersion req) > 128 \<or> \<not> validEd25519PublicKey (ser_PublicKey req)
                      then (writeError 400 ''invalid enrollment request'', s)
                      else (case RedeemEnrollmentToken (c_pg c) (c_env c 0)
                                   (hashEnrollmentCode (c_crypto c) (ser_EnrollmentCode req)) (ser_NodeID req)
                                   (ser_PublicKey req) (ser_AgentVersion req) (sv_db s) of
                              (Inl err, d) \<Rightarrow>
                                if err = ErrInvalidEnrollmentCode
                                then (writeError 401 ''invalid or expired enrollment code'', s\<lparr>sv_db := d\<rparr>)
                                else (databaseError err, s\<lparr>sv_db := d\<rparr>)
                            | (Inr _, d) \<Rightarrow>
                                (no_store (writeJSON 201 (EnrollBody
                                   \<lparr>ersp_NodeID = ser_NodeID req, ersp_Accepted = True\<rparr>)), s\<lparr>sv_db := d\<rparr>))))"

end
