(* ===== verification/Submissions.thy ===== *)
theory Submissions
  imports Server
begin

text \<open>
  \<^verbatim>\<open>server/inventory.go\<close>, \<^verbatim>\<open>server/network_benchmark.go\<close>,
  \<^verbatim>\<open>server/compute_benchmark.go\<close>: the three submission handlers, each with its early
  returns in order. What they have in common is the locale \<open>submission_pipeline\<close>: a handler that
  answers 201 decoded the body, validated it, checked its signature under the key of the node it
  names and inserted one row; any other answer leaves the state as it was. The locale is
  interpreted on the three handlers.
\<close>

section \<open>Reading and decoding the body\<close>

text \<open>\<open>io.ReadAll\<close> over \<open>http.MaxBytesReader\<close>: the status and message of the two failures.\<close>

definition maxSubmissionBodyBytes :: int where "maxSubmissionBodyBytes = 1024 * 1024"

datatype read_result = ReadTooLarge | ReadFailed | ReadAll string

definition readBody :: "request \<Rightarrow> read_result" where
  "readBody r =
     (if int (length (rq_body r)) > maxSubmissionBodyBytes then ReadTooLarge
      else if rq_read_error r then ReadFailed else ReadAll (rq_body r))"

text \<open>\<^verbatim>\<open>decoder.Decode(&struct{}{})\<close> returns \<open>io.EOF\<close> when only JSON white space is left.\<close>

definition json_space :: "char \<Rightarrow> bool" where
  "json_space c \<longleftrightarrow> c = CHR '' '' \<or> c = CHR 0x09 \<or> c = CHR 0x0A \<or> c = CHR 0x0D"

definition at_eof :: "string \<Rightarrow> bool" where
  "at_eof rest \<longleftrightarrow> list_all json_space rest"

definition decodeInventorySubmissionBody :: "codecs \<Rightarrow> string \<Rightarrow> srv_err + InventorySubmission" where
  "decodeInventorySubmissionBody j body =
     (case dec_inventory j body of
        None \<Rightarrow> Inl ErrInvalidInventorySubmission
      | Some (submission, rest) \<Rightarrow>
          if \<not> at_eof rest then Inl ErrInvalidInventorySubmission else Inr submission)"

definition decodeNetworkBenchmarkSubmissionBody :: "codecs \<Rightarrow> string \<Rightarrow> srv_err + NetworkBenchmarkSubmission" where
  "decodeNetworkBenchmarkSubmissionBody j body =
     (case dec_network j body of
        None \<Rightarrow> Inl ErrInvalidNetworkBenchmarkSubmission
      | Some (submission, rest) \<Rightarrow>
          if \<not> at_eof rest then Inl ErrInvalidNetworkBenchmarkSubmission else Inr submission)"

definition decodeComputeBenchmarkSubmissionBody :: "codecs \<Rightarrow> string \<Rightarrow> srv_err + ComputeBenchmarkSubmission" where
  "decodeComputeBenchmarkSubmissionBody j body =
     (case dec_compute j body of
        None \<Rightarrow> Inl ErrInvalidComputeBenchmarkSubmission
      | Some (submission, rest) \<Rightarrow>
          if \<not> at_eof rest then Inl ErrInvalidComputeBenchmarkSubmission else Inr submission)"

definition accepted_response :: "string \<Rightarrow> response" where
  "accepted_response reportID = writeJSON 201 (SubmissionBody \<lparr>sr_ReportID = reportID, sr_Accepted = True\<rparr>)"

section \<open>inventory.go\<close>

definition inventorySubmission :: handler where
  "inventorySubmission c r s =
     (if sv_owner s = None then (writeError 503 ''database unavailable'', s)
      else case readBody r of
        ReadTooLarge \<Rightarrow> (writeError 413 ''inventory submission too large'', s)
      | ReadFailed \<Rightarrow> (writeError 400 ''invalid inventory submission'', s)
      | ReadAll body \<Rightarrow>
      (case decodeInventorySubmissionBody (c_json c) body of
        Inl err \<Rightarrow> (writeError 400 ''invalid inventory submission'', s)
      | Inr submission \<Rightarrow>
      (case validateInventorySubmission submission (c_now c) of
        Inl err \<Rightarrow> (writeError 400 ''invalid inventory submission'', s)
      | Inr _ \<Rightarrow>
      (case InventoryPublicKey (c_env c 0) (isub_NodeID submission) (sv_db s) of
        Inl err \<Rightarrow> if err = ErrNoRows then (writeError 401 ''inventory authentication failed'', s)
                   else (databaseError err, s)
      | Inr publicKey \<Rightarrow>
      (case verifyInventorySignature (c_crypto c) publicKey (rq_signature r) body of
        Inl err \<Rightarrow> (writeError 401 ''inventory authentication failed'', s)
      | Inr _ \<Rightarrow>
      (case enc_inventory (c_json c) (isub_Inventory submission) of
        None \<Rightarrow> (writeError 400 ''invalid inventory submission'', s)
      | Some payload \<Rightarrow>
      (case InsertInventory (c_pg c) (c_env c 1) (isub_ReportID submission) (isub_NodeID submission) payload
              (c_now c) (sv_db s) of
        (Inl err, d) \<Rightarrow>
          if err = ErrInventoryReplay then (writeError 409 ''inventory report already accepted'', s\<lparr>sv_db := d\<rparr>)
          else if err = ErrNoRows then (writeError 401 ''inventory authentication failed'', s\<lparr>sv_db := d\<rparr>)
          else (databaseError err, s\<lparr>sv_db := d\<rparr>)
      | (Inr _, d) \<Rightarrow> (accepted_response (isub_ReportID submission), s\<lparr>sv_db := d\<rparr>))))))))"

definition accountNodeInventory :: "User \<Rightarrow> string \<Rightarrow> handler" where
  "accountNodeInventory user nodeID c r s =
     (case LatestInventoryForUser (c_pg c) (c_env c 1) (load_inventory (c_json c)) (usr_ID user) nodeID (sv_db s) of
        Inl err \<Rightarrow> if err = ErrNoRows then (writeError 404 ''inventory not found'', s) else (databaseError err, s)
      | Inr report \<Rightarrow> (writeJSON 200 (ReportBody report), s))"

section \<open>network\_benchmark.go\<close>

definition networkScoreOf :: "NetworkBenchmark \<Rightarrow> int" where
  "networkScoreOf benchmark =
     CalculateNetworkScore (nb_IPv4Available benchmark) (nb_IPv6Available benchmark) (nb_DownloadMbps benchmark)
       (nb_UploadMbps benchmark) (nb_LatencyMs benchmark) (nb_JitterMs benchmark) (nb_PacketLossPercent benchmark)"

definition networkBenchmarkSubmission :: handler where
  "networkBenchmarkSubmission c r s =
     (if sv_owner s = None then (writeError 503 ''database unavailable'', s)
      else case readBody r of
        ReadTooLarge \<Rightarrow> (writeError 413 ''network benchmark submission too large'', s)
      | ReadFailed \<Rightarrow> (writeError 400 ''invalid network benchmark submission'', s)
      | ReadAll body \<Rightarrow>
      (case decodeNetworkBenchmarkSubmissionBody (c_json c) body of
        Inl err \<Rightarrow> (writeError 400 ''invalid network benchmark submission'', s)
      | Inr submission \<Rightarrow>
      (case validateNetworkBenchmarkSubmission submission (c_now c) of
        Inl err \<Rightarrow> (writeError 400 ''invalid network benchmark submission'', s)
      | Inr _ \<Rightarrow>
      (case InventoryPublicKey (c_env c 0) (nsub_NodeID submission) (sv_db s) of
        Inl err \<Rightarrow> if err = ErrNoRows then (writeError 401 ''network benchmark authentication failed'', s)
                   else (databaseError err, s)
      | Inr publicKey \<Rightarrow>
      (case verifyNetworkBenchmarkSignature (c_crypto c) publicKey (rq_signature r) body of
        Inl err \<Rightarrow> (writeError 401 ''network benchmark authentication failed'', s)
      | Inr _ \<Rightarrow>
      (let benchmark = nsub_Benchmark submission; score = networkScoreOf benchmark
       in case enc_network (c_json c) benchmark of
        None \<Rightarrow> (writeError 400 ''invalid network benchmark submission'', s)
      | Some payload \<Rightarrow>
      (case InsertNetworkBenchmark (c_pg c) (c_env c 1) (nsub_ReportID submission) (nsub_NodeID submission) payload
              score (c_now c) (sv_db s) of
        (Inl err, d) \<Rightarrow>
          if err = ErrNetworkBenchmarkReplay
          then (writeError 409 ''network benchmark report already accepted'', s\<lparr>sv_db := d\<rparr>)
          else if err = ErrNoRows then (writeError 401 ''network benchmark authentication failed'', s\<lparr>sv_db := d\<rparr>)
          else (databaseError err, s\<lparr>sv_db := d\<rparr>)
      | (Inr _, d) \<Rightarrow> (accepted_response (nsub_ReportID submission), s\<lparr>sv_db := d\<rparr>))))))))"

section \<open>compute\_benchmark.go\<close>

definition computeBenchmarkSubmission :: handler where
  "computeBenchmarkSubmission c r s =
     (if sv_owner s = None then (writeError 503 ''database unavailable'', s)
      else case readBody r of
        ReadTooLarge \<Rightarrow> (writeError 413 ''compute benchmark submission too large'', s)
      | ReadFailed \<Rightarrow> (writeError 400 ''invalid compute benchmark submission'', s)
      | ReadAll body \<Rightarrow>
      (case decodeComputeBenchmarkSubmissionBody (c_json c) body of
        Inl err \<Rightarrow> (writeError 400 ''invalid compute benchmark submission'', s)
      | Inr submission \<Rightarrow>
      (case validateComputeBenchmarkSubmission submission (c_now c) of
        Inl err \<Rightarrow> (writeError 400 ''invalid compute benchmark submission'', s)
      | Inr _ \<Rightarrow>
      (case InventoryPublicKey (c_env c 0) (csub_NodeID submission) (sv_db s) of
        Inl err \<Rightarrow> if err = ErrNoRows then (writeError 401 ''compute benchmark authentication failed'', s)
                   else (databaseError err, s)
      | Inr publicKey \<Rightarrow>
      (case verifyComputeBenchmarkSignature (c_crypto c) publicKey (rq_signature r) body of
        Inl err \<Rightarrow> (writeError 401 ''compute benchmark authentication failed'', s)
      | Inr _ \<Rightarrow>
      (let benchmark = csub_Benchmark submission; score = CalculateComputeScore benchmark
       in case enc_compute (c_json c) benchmark of
        None \<Rightarrow> (writeError 400 ''invalid compute benchmark submission'', s)
      | Some payload \<Rightarrow>
      (case InsertComputeBenchmark (c_pg c) (c_env c 1) (csub_ReportID submission) (csub_NodeID submission) payload
              (sb_Score score) (c_now c) (sv_db s) of
        (Inl err, d) \<Rightarrow>
          if err = ErrComputeBenchmarkReplay
          then (writeError 409 ''compute benchmark report already accepted'', s\<lparr>sv_db := d\<rparr>)
          else if err = ErrNoRows then (writeError 401 ''compute benchmark authentication failed'', s\<lparr>sv_db := d\<rparr>)
          else (databaseError err, s\<lparr>sv_db := d\<rparr>)
      | (Inr _, d) \<Rightarrow> (accepted_response (csub_ReportID submission), s\<lparr>sv_db := d\<rparr>))))))))"

section \<open>The interface of a submission endpoint\<close>

text \<open>The row an accepted submission adds.\<close>

definition new_row ::
    "pg \<Rightarrow> db \<Rightarrow> report_row list \<Rightarrow> string \<Rightarrow> string \<Rightarrow> int option \<Rightarrow> gotime \<Rightarrow> report_row \<Rightarrow> bool" where
  "new_row p d table reportID nodeID score t x \<longleftrightarrow>
     pg_uuid p reportID = Some (rp_id x) \<and> rp_id x \<notin> rp_id ` set table
   \<and> (\<exists>n \<in> set (nodes d). n_key n = nodeID \<and> rp_node x = n_id n) \<and> rp_score x = score \<and> rp_observed x = t"

locale submission_pipeline =
  fixes handler :: handler
    and decode :: "codecs \<Rightarrow> string \<Rightarrow> srv_err + 'sub"
    and validate :: "'sub \<Rightarrow> gotime \<Rightarrow> srv_err + unit"
    and node_of :: "'sub \<Rightarrow> string"
    and report_of :: "'sub \<Rightarrow> string"
    and message :: "crypto \<Rightarrow> string \<Rightarrow> string"
    and table :: "db \<Rightarrow> report_row list"
    and score :: "'sub \<Rightarrow> int option"
  assumes accepts: "handler c r s = (resp, s') \<Longrightarrow> rs_status resp = 201 \<Longrightarrow> db_inv (sv_db s) \<Longrightarrow>
      \<exists>sub pk x. decode (c_json c) (rq_body r) = Inr sub \<and> validate sub (c_now c) = Inr ()
        \<and> InventoryPublicKey (c_env c 0) (node_of sub) (sv_db s) = Inr pk
        \<and> signature_ok (c_crypto c) (message (c_crypto c) (rq_body r)) pk (rq_signature r)
        \<and> new_row (c_pg c) (sv_db s) (table (sv_db s)) (report_of sub) (node_of sub) (score sub) (c_now c) x
        \<and> table (sv_db s') = table (sv_db s) @ [x]"
    and rejects: "handler c r s = (resp, s') \<Longrightarrow> rs_status resp \<noteq> 201 \<Longrightarrow> db_inv (sv_db s) \<Longrightarrow> s' = s"
    and keeps: "db_inv (sv_db s) \<Longrightarrow> safe (sv_db s) (sv_db (snd (handler c r s)))"
    and table_grows: "grows d d' \<Longrightarrow> prefix (table d) (table d')"
begin

lemma key_of_node:
  assumes "InventoryPublicKey e k d = Inr pk"
  shows "\<exists>n \<in> set (nodes d). n_key n = k \<and> n_pubkey n = Some pk \<and> pk \<noteq> []"
  using assms by (auto simp: InventoryPublicKey_def dest!: find_SomeD split: option.splits)

lemma authentic:
  assumes "handler c r s = (resp, s')" "rs_status resp = 201" "db_inv (sv_db s)"
  shows "\<exists>sub n pk x. decode (c_json c) (rq_body r) = Inr sub \<and> validate sub (c_now c) = Inr ()
    \<and> n \<in> set (nodes (sv_db s)) \<and> n_key n = node_of sub \<and> n_pubkey n = Some pk
    \<and> signature_ok (c_crypto c) (message (c_crypto c) (rq_body r)) pk (rq_signature r)
    \<and> table (sv_db s') = table (sv_db s) @ [x] \<and> rp_node x = n_id n \<and> rp_score x = score sub"
proof -
  obtain sub pk x where a: "decode (c_json c) (rq_body r) = Inr sub" "validate sub (c_now c) = Inr ()"
    "InventoryPublicKey (c_env c 0) (node_of sub) (sv_db s) = Inr pk"
    "signature_ok (c_crypto c) (message (c_crypto c) (rq_body r)) pk (rq_signature r)"
    "new_row (c_pg c) (sv_db s) (table (sv_db s)) (report_of sub) (node_of sub) (score sub) (c_now c) x"
    "table (sv_db s') = table (sv_db s) @ [x]"
    using accepts [OF assms] by blast
  obtain n where n: "n \<in> set (nodes (sv_db s))" "n_key n = node_of sub" "n_pubkey n = Some pk"
    using key_of_node [OF a(3)] by blast
  obtain m where m: "m \<in> set (nodes (sv_db s))" "n_key m = node_of sub" "rp_node x = n_id m" "rp_score x = score sub"
    using a(5) by (auto simp: new_row_def)
  have "m = n" using m n assms(3) by (auto simp: db_inv_def nodes_ok_def distinct_map inj_on_def)
  with a n m show ?thesis by blast
qed

text \<open>No report is accepted twice, whatever the store did in between.\<close>

lemma no_replay:
  assumes "handler c r s = (resp, s')" "rs_status resp = 201" "db_inv (sv_db s)"
    "store_run (c_pg c) (sv_db s') (sv_db t)"
    "c_pg c' = c_pg c" "c_json c' = c_json c" "rq_body r' = rq_body r"
  shows "rs_status (fst (handler c' r' t)) \<noteq> 201"
proof
  assume again: "rs_status (fst (handler c' r' t)) = 201"
  obtain sub x where a: "decode (c_json c) (rq_body r) = Inr sub"
    "new_row (c_pg c) (sv_db s) (table (sv_db s)) (report_of sub) (node_of sub) (score sub) (c_now c) x"
    "table (sv_db s') = table (sv_db s) @ [x]"
    using accepts [OF assms(1-3)] by blast
  have "db_inv (sv_db s')" using keeps [OF assms(3), of c r] assms(1,3) by (simp add: safe_def)
  then have t: "db_inv (sv_db t)" "grows (sv_db s') (sv_db t)" using run_keeps [OF assms(4)] by auto
  obtain sub' y where b: "decode (c_json c') (rq_body r') = Inr sub'"
    "new_row (c_pg c') (sv_db t) (table (sv_db t)) (report_of sub') (node_of sub') (score sub') (c_now c') y"
    using accepts [of c' r' t "fst (handler c' r' t)" "snd (handler c' r' t)"] again t(1) by auto
  have "sub' = sub" using a(1) b(1) assms(6,7) by simp
  then have "rp_id y = rp_id x" using a(2) b(2) assms(5) by (simp add: new_row_def)
  moreover have "x \<in> set (table (sv_db t))"
    using table_grows [OF t(2)] a(3) by (auto dest: set_mono_prefix)
  ultimately show False using b(2) by (auto simp: new_row_def)
qed

end

subsection \<open>The three endpoints provide it\<close>

lemma insert_reports_Inr:
  "insert_reports p d table rid k payload sc t = Inr (c, table') \<longleftrightarrow>
     (\<exists>u j. pg_uuid p rid = Some u \<and> pg_jsonb p payload = Some j
        \<and> (filter (\<lambda>n. n_key n = k) (nodes d) = [] \<or> u \<notin> rp_id ` set table)
        \<and> c = length (filter (\<lambda>n. n_key n = k) (nodes d))
        \<and> table' = table @ map (\<lambda>n. \<lparr>rp_id = u, rp_node = n_id n, rp_payload = j, rp_score = sc, rp_observed = t\<rparr>)
                    (filter (\<lambda>n. n_key n = k) (nodes d)))"
proof (cases "pg_uuid p rid")
  case (Some u)
  then show ?thesis
    by (cases "pg_jsonb p payload") (auto simp: insert_reports_def to_uuid_def Let_def)
qed (simp add: insert_reports_def to_uuid_def)

lemma inserted_accepted:
  assumes "inserted e replay d (stmt e 1 (bindE (insert_reports p d table rid k payload sc t)
      (\<lambda>(count, table'). Inr (count, f table')))) = (Inr (), d')"
  shows "\<exists>x. new_row p d table rid k sc t x \<and> d' = f (table @ [x])"
proof -
  from assms obtain table' where i: "insert_reports p d table rid k payload sc t = Inr (1, table')" "d' = f table'"
    by (auto simp: inserted_def exec_def bindE_Inr_iff split: sum.splits prod.splits if_splits)
  let ?ns = "filter (\<lambda>n. n_key n = k) (nodes d)"
  from i(1) obtain u j where u: "pg_uuid p rid = Some u" "1 = length ?ns" "?ns = [] \<or> u \<notin> rp_id ` set table"
    "table' = table @ map (\<lambda>n. \<lparr>rp_id = u, rp_node = n_id n, rp_payload = j, rp_score = sc, rp_observed = t\<rparr>) ?ns"
    unfolding insert_reports_Inr by (elim exE conjE)
  from u(2) obtain n where n: "?ns = [n]" by (cases ?ns; cases "tl ?ns") auto
  then have "n \<in> set ?ns" by simp
  then have "n \<in> set (nodes d)" "n_key n = k" by simp_all
  then show ?thesis using u i(2) n
    by (intro exI [of _ "\<lparr>rp_id = u, rp_node = n_id n, rp_payload = j, rp_score = sc, rp_observed = t\<rparr>"])
       (auto simp: new_row_def)
qed

lemma inserted_refused:
  assumes "inserted e replay d (stmt e 1 (bindE (insert_reports p d table rid k payload sc t)
      (\<lambda>(count, table'). Inr (count, f table')))) = (Inl err, d')" "f table = d" "nodes_ok d" "table_ok d table"
  shows "d' = d"
proof (cases "insert_reports p d table rid k payload sc t")
  case (Inr r)
  obtain c table' where r: "r = (c, table')" by (cases r)
  note ok = insert_reports_ok [OF Inr [unfolded r] assms(3,4)]
  show ?thesis
  proof (cases "c = 1")
    case False
    then have "c = 0" using ok(3) by simp
    then have "table' = table" using ok(2,4) by (auto simp: prefix_def)
    then show ?thesis using assms(1,2) Inr r
      by (auto simp: inserted_def exec_def stmt_def split: option.splits sum.splits prod.splits if_splits)
  next
    case True
    then show ?thesis using assms(1) Inr r
      by (auto simp: inserted_def exec_def stmt_def split: option.splits sum.splits prod.splits if_splits)
  qed
next
  case (Inl err')
  then show ?thesis using assms(1)
    by (auto simp: inserted_def exec_def stmt_def split: option.splits sum.splits prod.splits if_splits)
qed

lemma status_simps [simp]:
  "rs_status (writeError n m) = n" "rs_status (writeJSON n b) = n" "rs_status (accepted_response i) = 201"
  by (simp_all add: writeError_def writeJSON_def accepted_response_def)

lemma databaseError_status [simp]: "rs_status (databaseError err) \<noteq> 201"
  by (simp add: databaseError_def)

lemma same_db [simp]: "s\<lparr>sv_db := sv_db s\<rparr> = s"
  by simp

lemma readBody_All: "readBody r = ReadAll body \<Longrightarrow> body = rq_body r"
  by (auto simp: readBody_def split: if_splits)

lemma InsertInventory_cases:
  assumes "InsertInventory p e rid k payload t d = (res, d')" "db_inv d"
  shows "(res = Inr () \<longrightarrow> (\<exists>x. new_row p d (inventories d) rid k None t x \<and> inventories d' = inventories d @ [x]))
    \<and> (is_ok res \<or> d' = d)"
  using assms inserted_accepted [of e ErrInventoryReplay d p "inventories d" rid k payload None t
      "\<lambda>x. d\<lparr>inventories := x\<rparr>" d']
    inserted_refused [of e ErrInventoryReplay d p "inventories d" rid k payload None t
      "\<lambda>x. d\<lparr>inventories := x\<rparr>" _ d']
  by (cases res) (auto simp: InsertInventory_def db_inv_def)

lemma InsertNetworkBenchmark_cases:
  assumes "InsertNetworkBenchmark p e rid k payload sc t d = (res, d')" "db_inv d"
  shows "(res = Inr () \<longrightarrow> (\<exists>x. new_row p d (networks d) rid k (Some sc) t x \<and> networks d' = networks d @ [x]))
    \<and> (is_ok res \<or> d' = d)"
  using assms inserted_accepted [of e ErrNetworkBenchmarkReplay d p "networks d" rid k payload "Some sc" t
      "\<lambda>x. d\<lparr>networks := x\<rparr>" d']
    inserted_refused [of e ErrNetworkBenchmarkReplay d p "networks d" rid k payload "Some sc" t
      "\<lambda>x. d\<lparr>networks := x\<rparr>" _ d']
  by (cases res) (auto simp: InsertNetworkBenchmark_def db_inv_def)

lemma InsertComputeBenchmark_cases:
  assumes "InsertComputeBenchmark p e rid k payload sc t d = (res, d')" "db_inv d"
  shows "(res = Inr () \<longrightarrow> (\<exists>x. new_row p d (computes d) rid k (Some sc) t x \<and> computes d' = computes d @ [x]))
    \<and> (is_ok res \<or> d' = d)"
  using assms inserted_accepted [of e ErrComputeBenchmarkReplay d p "computes d" rid k payload "Some sc" t
      "\<lambda>x. d\<lparr>computes := x\<rparr>" d']
    inserted_refused [of e ErrComputeBenchmarkReplay d p "computes d" rid k payload "Some sc" t
      "\<lambda>x. d\<lparr>computes := x\<rparr>" _ d']
  by (cases res) (auto simp: InsertComputeBenchmark_def db_inv_def)

lemma inventory_outcome:
  assumes "inventorySubmission c r s = (resp, s')"
  shows "(rs_status resp \<noteq> 201 \<and> s' = s)
    \<or> (\<exists>sub pk payload res. decodeInventorySubmissionBody (c_json c) (rq_body r) = Inr sub
        \<and> validateInventorySubmission sub (c_now c) = Inr ()
        \<and> InventoryPublicKey (c_env c 0) (isub_NodeID sub) (sv_db s) = Inr pk
        \<and> verifyInventorySignature (c_crypto c) pk (rq_signature r) (rq_body r) = Inr ()
        \<and> InsertInventory (c_pg c) (c_env c 1) (isub_ReportID sub) (isub_NodeID sub) payload (c_now c) (sv_db s) = (res, sv_db s')
        \<and> s' = s\<lparr>sv_db := sv_db s'\<rparr> \<and> (rs_status resp = 201 \<longleftrightarrow> is_ok res))"
proof (cases "readBody r")
  case (ReadAll body)
  then have "body = rq_body r" by (rule readBody_All)
  with ReadAll assms show ?thesis
    unfolding inventorySubmission_def
    by (force split: if_splits sum.splits option.splits prod.splits)
qed (use assms in \<open>auto simp: inventorySubmission_def split: if_splits\<close>)

lemma network_outcome:
  assumes "networkBenchmarkSubmission c r s = (resp, s')"
  shows "(rs_status resp \<noteq> 201 \<and> s' = s)
    \<or> (\<exists>sub pk payload res. decodeNetworkBenchmarkSubmissionBody (c_json c) (rq_body r) = Inr sub
        \<and> validateNetworkBenchmarkSubmission sub (c_now c) = Inr ()
        \<and> InventoryPublicKey (c_env c 0) (nsub_NodeID sub) (sv_db s) = Inr pk
        \<and> verifyNetworkBenchmarkSignature (c_crypto c) pk (rq_signature r) (rq_body r) = Inr ()
        \<and> InsertNetworkBenchmark (c_pg c) (c_env c 1) (nsub_ReportID sub) (nsub_NodeID sub) payload
             (networkScoreOf (nsub_Benchmark sub)) (c_now c) (sv_db s) = (res, sv_db s')
        \<and> s' = s\<lparr>sv_db := sv_db s'\<rparr> \<and> (rs_status resp = 201 \<longleftrightarrow> is_ok res))"
proof (cases "readBody r")
  case (ReadAll body)
  then have "body = rq_body r" by (rule readBody_All)
  with ReadAll assms show ?thesis
    unfolding networkBenchmarkSubmission_def Let_def
    by (force split: if_splits sum.splits option.splits prod.splits)
qed (use assms in \<open>auto simp: networkBenchmarkSubmission_def split: if_splits\<close>)

lemma compute_outcome:
  assumes "computeBenchmarkSubmission c r s = (resp, s')"
  shows "(rs_status resp \<noteq> 201 \<and> s' = s)
    \<or> (\<exists>sub pk payload res. decodeComputeBenchmarkSubmissionBody (c_json c) (rq_body r) = Inr sub
        \<and> validateComputeBenchmarkSubmission sub (c_now c) = Inr ()
        \<and> InventoryPublicKey (c_env c 0) (csub_NodeID sub) (sv_db s) = Inr pk
        \<and> verifyComputeBenchmarkSignature (c_crypto c) pk (rq_signature r) (rq_body r) = Inr ()
        \<and> InsertComputeBenchmark (c_pg c) (c_env c 1) (csub_ReportID sub) (csub_NodeID sub) payload
             (sb_Score (CalculateComputeScore (csub_Benchmark sub))) (c_now c) (sv_db s) = (res, sv_db s')
        \<and> s' = s\<lparr>sv_db := sv_db s'\<rparr> \<and> (rs_status resp = 201 \<longleftrightarrow> is_ok res))"
proof (cases "readBody r")
  case (ReadAll body)
  then have "body = rq_body r" by (rule readBody_All)
  with ReadAll assms show ?thesis
    unfolding computeBenchmarkSubmission_def Let_def
    by (force split: if_splits sum.splits option.splits prod.splits)
qed (use assms in \<open>auto simp: computeBenchmarkSubmission_def split: if_splits\<close>)

lemma grows_tables:
  "grows d d' \<Longrightarrow> prefix (inventories d) (inventories d')" "grows d d' \<Longrightarrow> prefix (networks d) (networks d')"
  "grows d d' \<Longrightarrow> prefix (computes d) (computes d')"
  by (simp_all add: grows_def)

lemma safe_outcome:
  assumes "s' = s \<or> (\<exists>res. op = (res, sv_db s'))" "safe (sv_db s) (snd op)"
  shows "safe (sv_db s) (sv_db s')"
  using assms by auto

lemma safe_insert: "op = (res, d') \<Longrightarrow> safe d (snd op) \<Longrightarrow> safe d d'"
  by simp

interpretation inventory_pipeline: submission_pipeline inventorySubmission decodeInventorySubmissionBody
  validateInventorySubmission isub_NodeID isub_ReportID "\<lambda>k. InventorySigningMessage (Sum256 k)" inventories "\<lambda>_. None"
proof
  fix c r s resp s'
  assume h: "inventorySubmission c r s = (resp, s')" and i: "db_inv (sv_db s)"
  note o = inventory_outcome [OF h]
  show "\<exists>sub pk x. decodeInventorySubmissionBody (c_json c) (rq_body r) = Inr sub
        \<and> validateInventorySubmission sub (c_now c) = Inr ()
        \<and> InventoryPublicKey (c_env c 0) (isub_NodeID sub) (sv_db s) = Inr pk
        \<and> signature_ok (c_crypto c) (InventorySigningMessage (Sum256 (c_crypto c)) (rq_body r)) pk (rq_signature r)
        \<and> new_row (c_pg c) (sv_db s) (inventories (sv_db s)) (isub_ReportID sub) (isub_NodeID sub) None (c_now c) x
        \<and> inventories (sv_db s') = inventories (sv_db s) @ [x]" if "rs_status resp = 201"
    using o that InsertInventory_cases [OF _ i] by (fastforce simp: verify_iff is_ok_iff)
  show "s' = s" if "rs_status resp \<noteq> 201"
    using o that InsertInventory_cases [OF _ i] by fastforce
next
  show "safe (sv_db s) (sv_db (snd (inventorySubmission c r s)))" for c r s
    using inventory_outcome [of c r s "fst (inventorySubmission c r s)" "snd (inventorySubmission c r s)"]
    by (auto intro: safe_insert safe_operations)
qed (rule grows_tables)

interpretation network_pipeline: submission_pipeline networkBenchmarkSubmission decodeNetworkBenchmarkSubmissionBody
  validateNetworkBenchmarkSubmission nsub_NodeID nsub_ReportID "\<lambda>k. NetworkBenchmarkSigningMessage (Sum256 k)"
  networks "\<lambda>sub. Some (networkScoreOf (nsub_Benchmark sub))"
proof
  fix c r s resp s'
  assume h: "networkBenchmarkSubmission c r s = (resp, s')" and i: "db_inv (sv_db s)"
  note o = network_outcome [OF h]
  show "\<exists>sub pk x. decodeNetworkBenchmarkSubmissionBody (c_json c) (rq_body r) = Inr sub
        \<and> validateNetworkBenchmarkSubmission sub (c_now c) = Inr ()
        \<and> InventoryPublicKey (c_env c 0) (nsub_NodeID sub) (sv_db s) = Inr pk
        \<and> signature_ok (c_crypto c) (NetworkBenchmarkSigningMessage (Sum256 (c_crypto c)) (rq_body r)) pk (rq_signature r)
        \<and> new_row (c_pg c) (sv_db s) (networks (sv_db s)) (nsub_ReportID sub) (nsub_NodeID sub)
            (Some (networkScoreOf (nsub_Benchmark sub))) (c_now c) x
        \<and> networks (sv_db s') = networks (sv_db s) @ [x]" if "rs_status resp = 201"
    using o that InsertNetworkBenchmark_cases [OF _ i] by (fastforce simp: verify_iff is_ok_iff)
  show "s' = s" if "rs_status resp \<noteq> 201"
    using o that InsertNetworkBenchmark_cases [OF _ i] by fastforce
next
  show "safe (sv_db s) (sv_db (snd (networkBenchmarkSubmission c r s)))" for c r s
    using network_outcome [of c r s "fst (networkBenchmarkSubmission c r s)" "snd (networkBenchmarkSubmission c r s)"]
    by (auto intro: safe_insert safe_operations)
qed (rule grows_tables)

interpretation compute_pipeline: submission_pipeline computeBenchmarkSubmission decodeComputeBenchmarkSubmissionBody
  validateComputeBenchmarkSubmission csub_NodeID csub_ReportID "\<lambda>k. ComputeBenchmarkSigningMessage (Sum256 k)"
  computes "\<lambda>sub. Some (sb_Score (CalculateComputeScore (csub_Benchmark sub)))"
proof
  fix c r s resp s'
  assume h: "computeBenchmarkSubmission c r s = (resp, s')" and i: "db_inv (sv_db s)"
  note o = compute_outcome [OF h]
  show "\<exists>sub pk x. decodeComputeBenchmarkSubmissionBody (c_json c) (rq_body r) = Inr sub
        \<and> validateComputeBenchmarkSubmission sub (c_now c) = Inr ()
        \<and> InventoryPublicKey (c_env c 0) (csub_NodeID sub) (sv_db s) = Inr pk
        \<and> signature_ok (c_crypto c) (ComputeBenchmarkSigningMessage (Sum256 (c_crypto c)) (rq_body r)) pk (rq_signature r)
        \<and> new_row (c_pg c) (sv_db s) (computes (sv_db s)) (csub_ReportID sub) (csub_NodeID sub)
            (Some (sb_Score (CalculateComputeScore (csub_Benchmark sub)))) (c_now c) x
        \<and> computes (sv_db s') = computes (sv_db s) @ [x]" if "rs_status resp = 201"
    using o that InsertComputeBenchmark_cases [OF _ i] by (fastforce simp: verify_iff is_ok_iff)
  show "s' = s" if "rs_status resp \<noteq> 201"
    using o that InsertComputeBenchmark_cases [OF _ i] by fastforce
next
  show "safe (sv_db s) (sv_db (snd (computeBenchmarkSubmission c r s)))" for c r s
    using compute_outcome [of c r s "fst (computeBenchmarkSubmission c r s)" "snd (computeBenchmarkSubmission c r s)"]
    by (auto intro: safe_insert safe_operations)
qed (rule grows_tables)

section \<open>Properties\<close>

text \<open>A server with one enrolled node, and a request that submits a signed network benchmark.\<close>

definition sample_codecs :: codecs where
  "sample_codecs = \<lparr>dec_enroll = (\<lambda>_. None), dec_heartbeat = (\<lambda>_. None), dec_login = (\<lambda>_. None),
     dec_secure = (\<lambda>_. Some \<lparr>ser_NodeID = sample_node, ser_EnrollmentCode = ''code'', ser_AgentVersion = ''1'',
        ser_PublicKey = sample_key\<rparr>),
     dec_inventory = (\<lambda>_. Some (sample_inventory_submission 1000, [])),
     dec_network = (\<lambda>_. Some (sample_network_submission 1000, [])),
     dec_compute = (\<lambda>_. Some (sample_compute_submission 1000 [sample_run], [])),
     enc_inventory = (\<lambda>_. Some ''{}''), enc_network = (\<lambda>_. Some ''{}''), enc_compute = (\<lambda>_. Some ''{}''),
     load_inventory = (\<lambda>_. None)\<rparr>"

definition sample_call :: call where
  "sample_call = \<lparr>c_now = 1000, c_random = Some (replicate 32 1), c_env = (\<lambda>_. sample_env 1000 ''id''),
     c_pg = sample_pg, c_crypto = sample_crypto, c_json = sample_codecs, c_order = (\<lambda>xs. xs)\<rparr>"

definition sample_request :: request where
  "sample_request = \<lparr>rq_method = ''POST'', rq_path = [], rq_origin = [], rq_authorization = [], rq_forwarded = [],
     rq_signature = sample_signature, rq_cookie = None, rq_tls = True, rq_body = ''body'', rq_read_error = False\<rparr>"

definition sample_server :: server where
  "sample_server = \<lparr>sv_owner = Some ''u1'', sv_token = ''t'', sv_nodes = [],
     sv_db = (sample_db [])\<lparr>nodes := [\<lparr>n_id = ''n1'', n_user = ''u1'', n_key = sample_node, n_version = ''1'',
        n_pubkey = Some sample_key\<rparr>]\<rparr>, sv_window = 0, sv_attempts = 0\<rparr>"

lemma sample_server_inv: "db_inv (sv_db sample_server)"
  by (simp add: sample_server_def sample_db_def empty_db_def db_inv_def nodes_ok_def statuses_ok_def
      tokens_ok_def sessions_ok_def table_ok_def pubkeys_def)

lemma sample_steps:
  "readBody sample_request = ReadAll ''body''"
  "InventoryPublicKey (sample_env 1000 ''id'') sample_node (sv_db sample_server) = Inr sample_key"
  "sv_owner sample_server = Some ''u1''" "at_eof []"
  by code_simp+

lemma sample_insert_network:
  "fst (InsertNetworkBenchmark sample_pg (sample_env 1000 ''id'') sample_report sample_node ''{}'' sc 1000
     (sv_db sample_server)) = Inr ()"
  by (simp add: InsertNetworkBenchmark_def insert_reports_def inserted_def exec_def sample_pg_def sample_env_def
      to_uuid_def sample_server_def sample_db_def empty_db_def stmt_def)

lemma sample_network_accepted:
  "rs_status (fst (networkBenchmarkSubmission sample_call sample_request sample_server)) = 201"
proof -
  have v: "verifyNetworkBenchmarkSignature sample_crypto sample_key sample_signature ''body'' = Inr ()"
    by (simp add: verify_iff sample_signature_ok)
  have "validateNetworkBenchmarkSubmission (sample_network_submission 1000) 1000 = Inr ()"
    by (rule samples_accepted) (simp_all add: skew_accepted_def duration_units)
  moreover obtain d where "InsertNetworkBenchmark sample_pg (sample_env 1000 ''id'') sample_report sample_node ''{}''
      (networkScoreOf (nsub_Benchmark (sample_network_submission 1000))) 1000 (sv_db sample_server) = (Inr (), d)"
    using sample_insert_network by (metis prod.collapse)
  ultimately show ?thesis
    using sample_steps v
    by (simp add: networkBenchmarkSubmission_def Let_def sample_call_def decodeNetworkBenchmarkSubmissionBody_def
        sample_codecs_def sample_request_def sample_network_submission_def)
qed

lemma sample_insert_compute:
  "fst (InsertComputeBenchmark sample_pg (sample_env 1000 ''id'') sample_report sample_node ''{}'' sc 1000
     (sv_db sample_server)) = Inr ()"
  by (simp add: InsertComputeBenchmark_def insert_reports_def inserted_def exec_def sample_pg_def sample_env_def
      to_uuid_def sample_server_def sample_db_def empty_db_def stmt_def)

lemma sample_compute_accepted:
  "rs_status (fst (computeBenchmarkSubmission sample_call sample_request sample_server)) = 201"
proof -
  have v: "verifyComputeBenchmarkSignature sample_crypto sample_key sample_signature ''body'' = Inr ()"
    by (simp add: verify_iff sample_signature_ok)
  have "validateComputeBenchmarkSubmission (sample_compute_submission 1000 [sample_run]) 1000 = Inr ()"
    by (rule samples_accepted) (simp_all add: skew_accepted_def duration_units)
  moreover obtain d where "InsertComputeBenchmark sample_pg (sample_env 1000 ''id'') sample_report sample_node ''{}''
      (sb_Score (CalculateComputeScore (csub_Benchmark (sample_compute_submission 1000 [sample_run])))) 1000
      (sv_db sample_server) = (Inr (), d)"
    using sample_insert_compute by (metis prod.collapse)
  ultimately show ?thesis
    using sample_steps v
    by (simp add: computeBenchmarkSubmission_def Let_def sample_call_def decodeComputeBenchmarkSubmissionBody_def
        sample_codecs_def sample_request_def sample_compute_submission_def)
qed

text \<open>C1: a compute benchmark answered with 201 came in a body that decodes and validates, was signed
  under the key stored for the node it names, and added exactly one row, for that node, with the
  score the server computed itself.\<close>

theorem compute_submission_authentic:
  assumes "rs_status (fst (computeBenchmarkSubmission c r s)) = 201" "db_inv (sv_db s)"
  shows "\<exists>sub n pk x. decodeComputeBenchmarkSubmissionBody (c_json c) (rq_body r) = Inr sub
    \<and> validateComputeBenchmarkSubmission sub (c_now c) = Inr ()
    \<and> n \<in> set (nodes (sv_db s)) \<and> n_key n = csub_NodeID sub \<and> n_pubkey n = Some pk
    \<and> signature_ok (c_crypto c) (ComputeBenchmarkSigningMessage (Sum256 (c_crypto c)) (rq_body r)) pk (rq_signature r)
    \<and> computes (sv_db (snd (computeBenchmarkSubmission c r s))) = computes (sv_db s) @ [x]
    \<and> rp_node x = n_id n \<and> rp_score x = Some (sb_Score (CalculateComputeScore (csub_Benchmark sub)))"
proof -
  have "computeBenchmarkSubmission c r s = (fst (computeBenchmarkSubmission c r s), snd (computeBenchmarkSubmission c r s))"
    by simp
  from compute_pipeline.authentic [OF this assms] show ?thesis .
qed

theorem compute_submission_authentic_witness:
  "\<exists>x. computes (sv_db (snd (computeBenchmarkSubmission sample_call sample_request sample_server)))
     = computes (sv_db sample_server) @ [x]"
  using compute_submission_authentic [OF sample_compute_accepted sample_server_inv] by blast

text \<open>C2: no replay. Once one of the three endpoints has accepted a body, that endpoint never
  accepts the same body again, whatever the store does in between and whoever signs it.\<close>

theorem submission_never_replayed:
  assumes "h = inventorySubmission \<or> h = networkBenchmarkSubmission \<or> h = computeBenchmarkSubmission"
    "rs_status (fst (h c r s)) = 201" "db_inv (sv_db s)"
    "store_run (c_pg c) (sv_db (snd (h c r s))) (sv_db t)"
    "c_pg c' = c_pg c" "c_json c' = c_json c" "rq_body r' = rq_body r"
  shows "rs_status (fst (h c' r' t)) \<noteq> 201"
proof -
  have p: "h c r s = (fst (h c r s), snd (h c r s))" by simp
  from assms(1) show ?thesis
  proof (elim disjE)
    assume h: "h = inventorySubmission"
    show ?thesis using inventory_pipeline.no_replay [OF p [unfolded h] assms(2-7) [unfolded h]] unfolding h .
  next
    assume h: "h = networkBenchmarkSubmission"
    show ?thesis using network_pipeline.no_replay [OF p [unfolded h] assms(2-7) [unfolded h]] unfolding h .
  next
    assume h: "h = computeBenchmarkSubmission"
    show ?thesis using compute_pipeline.no_replay [OF p [unfolded h] assms(2-7) [unfolded h]] unfolding h .
  qed
qed

theorem submission_never_replayed_witness:
  "rs_status (fst (networkBenchmarkSubmission sample_call sample_request
     (snd (networkBenchmarkSubmission sample_call sample_request sample_server)))) \<noteq> 201"
  by (rule submission_never_replayed [of networkBenchmarkSubmission, OF _ sample_network_accepted sample_server_inv run_done])
     simp_all


lemma sample_refused:
  "rs_status (fst (networkBenchmarkSubmission sample_call (sample_request\<lparr>rq_signature := ''x''\<rparr>) sample_server)) = 401"
  by code_simp


end
