(* ===== verification/Accounts.thy ===== *)
theory Accounts
  imports Submissions
begin

text \<open>
  \<^verbatim>\<open>server/account_postgres.go\<close> and \<^verbatim>\<open>server/account.go\<close>: the account summaries
  (dashboard, wallet, jobs), their handlers, and \<open>Handler\<close>, the routing table of
  \<^verbatim>\<open>server/service.go\<close>. Rows the SQL leaves unordered among equals come newest insertion first.
\<close>

section \<open>account\_postgres.go\<close>

text \<open>\<open>sum(bigint)\<close> is a \<open>numeric\<close>; scanning it into an \<open>int64\<close> fails when it does not fit.\<close>

definition to_int64 :: "int \<Rightarrow> srv_err + int" where
  "to_int64 i = (if - (2 ^ 63) \<le> i \<and> i < 2 ^ 63 then Inr i else Inl (OtherError ''value out of range''))"

definition user_wallet :: "db \<Rightarrow> string \<Rightarrow> wallet_row list" where
  "user_wallet d u = filter (\<lambda>w. w_user w = u) (wallets d)"

text \<open>The newest scored report among the nodes of a user.\<close>

definition latest_score :: "db \<Rightarrow> string \<Rightarrow> report_row list \<Rightarrow> f64 option" where
  "latest_score d u table =
     (case rev (sort_key rp_observed (filter (\<lambda>r. (\<exists>n \<in> set (nodes d). n_id n = rp_node r \<and> n_user n = u)
                  \<and> rp_score r \<noteq> None) table)) of
        [] \<Rightarrow> None | r # _ \<Rightarrow> map_option f_of_int (rp_score r))"

definition Dashboard :: "pg \<Rightarrow> env \<Rightarrow> string \<Rightarrow> db \<Rightarrow> srv_err + DashboardResponse" where
  "Dashboard p e userID d =
     bindE (stmt e 0 (bindE (to_uuid p userID) (\<lambda>u.
       bindE (to_int64 (sum_list (map w_amount (user_wallet d u)))) (\<lambda>balance.
       bindE (to_int64 (sum_list (map w_amount (filter (\<lambda>w. w_amount w > 0 \<and> w_created w \<ge> pg_day p (e_now e))
                                               (user_wallet d u))))) (\<lambda>today.
         Inr (u, balance, int (length (filter (\<lambda>n. nd_Status n = ''online'') (user_join d u))), today))))))
     (\<lambda>(u, balance, online, today).
     bindE (stmt e 1 (Inr (latest_score d u (computes d)))) (\<lambda>computeScore.
     bindE (stmt e 2 (Inr (latest_score d u (networks d)))) (\<lambda>networkScore.
     bindE (stmt e 3 (Inr (case rev (sort_key pr_effective (rates d)) of [] \<Rightarrow> None | r # _ \<Rightarrow> Some (pr_rate r)))) (\<lambda>rate.
       Inr \<lparr>db_BalanceMicrounits = balance, db_OnlineNodes = online, db_ComputeScore = computeScore,
            db_NetworkScore = networkScore,
            db_CurrentStatus = (if online = 0 then ''No nodes online'' else ''Ready''),
            db_CurrentRateMicrounits = rate, db_TodayEarningsMicrounits = today\<rparr>))))"

definition wallet_item :: "wallet_row \<Rightarrow> WalletTransaction" where
  "wallet_item w = \<lparr>wt_ID = w_id w, wt_JobID = (case w_job w of None \<Rightarrow> [] | Some j \<Rightarrow> j),
     wt_TransactionType = w_type w, wt_AmountMicrounits = w_amount w, wt_CreatedAt = w_created w\<rparr>"

definition Wallet :: "pg \<Rightarrow> env \<Rightarrow> string \<Rightarrow> db \<Rightarrow> srv_err + WalletResponse" where
  "Wallet p e userID d =
     bindE (stmt e 0 (bindE (to_uuid p userID) (\<lambda>u. bindE (to_int64 (sum_list (map w_amount (user_wallet d u))))
       (\<lambda>balance. Inr (u, balance))))) (\<lambda>(u, balance).
     bindE (stmt e 1 (Inr (take 100 (rev (sort_key (\<lambda>w. (w_created w, w_id w)) (user_wallet d u)))))) (\<lambda>ws.
       Inr \<lparr>wr_BalanceMicrounits = balance, wr_Transactions = map wallet_item ws\<rparr>))"

definition job_item :: "db \<Rightarrow> job_row \<Rightarrow> JobSummary" where
  "job_item d j = \<lparr>js_ID = j_id j,
     js_ProviderNodeID = (case find (\<lambda>n. j_provider j = Some (n_id n)) (nodes d) of None \<Rightarrow> [] | Some n \<Rightarrow> n_key n),
     js_Status = j_status j, js_CreatedAt = j_created j\<rparr>"

definition visible_job :: "db \<Rightarrow> string \<Rightarrow> job_row \<Rightarrow> bool" where
  "visible_job d u j \<longleftrightarrow> j_consumer j = u \<or> (\<exists>n \<in> set (nodes d). j_provider j = Some (n_id n) \<and> n_user n = u)"

definition Jobs :: "pg \<Rightarrow> env \<Rightarrow> string \<Rightarrow> db \<Rightarrow> srv_err + JobSummary list" where
  "Jobs p e userID d =
     stmt e 0 (bindE (to_uuid p userID) (\<lambda>u.
       Inr (map (job_item d) (take 100 (rev (sort_key (\<lambda>j. (j_created j, j_id j))
              (filter (visible_job d u) (jobs d)))))))) "

section \<open>account.go\<close>

definition dashboard :: "User \<Rightarrow> handler" where
  "dashboard user c r s =
     (case Dashboard (c_pg c) (c_env c 1) (usr_ID user) (sv_db s) of
        Inl err \<Rightarrow> (databaseError err, s) | Inr result \<Rightarrow> (writeJSON 200 (DashboardBody result), s))"

definition accountNodes :: "User \<Rightarrow> handler" where
  "accountNodes user c r s =
     (case NodesForUser (c_pg c) (c_env c 1) (usr_ID user) (sv_db s) of
        Inl err \<Rightarrow> (databaseError err, s) | Inr ns \<Rightarrow> (writeJSON 200 (NodesBody ns), s))"

definition accountNode :: "User \<Rightarrow> string \<Rightarrow> handler" where
  "accountNode user nodeID c r s =
     (case NodeForUser (c_pg c) (c_env c 1) (usr_ID user) nodeID (sv_db s) of
        Inl err \<Rightarrow> if err = ErrNoRows then (writeError 404 ''node not found'', s) else (databaseError err, s)
      | Inr node \<Rightarrow> (writeJSON 200 (NodeBody node), s))"

definition wallet :: "User \<Rightarrow> handler" where
  "wallet user c r s =
     (case Wallet (c_pg c) (c_env c 1) (usr_ID user) (sv_db s) of
        Inl err \<Rightarrow> (databaseError err, s) | Inr result \<Rightarrow> (writeJSON 200 (WalletBody result), s))"

definition jobs_handler :: "User \<Rightarrow> handler" where
  "jobs_handler user c r s =
     (case Jobs (c_pg c) (c_env c 1) (usr_ID user) (sv_db s) of
        Inl err \<Rightarrow> (databaseError err, s) | Inr result \<Rightarrow> (writeJSON 200 (JobsBody result), s))"

section \<open>The routing table\<close>

definition notFound :: handler where
  "notFound c r s = (writeError 404 ''404 page not found'', s)"

definition methodNotAllowed :: handler where
  "methodNotAllowed c r s = (writeError 405 ''Method Not Allowed'', s)"

text \<open>The patterns of \<open>http.ServeMux\<close>: a \<open>GET\<close> pattern also matches \<open>HEAD\<close>; a path of the table with
  another method is answered 405. Paths are the cleaned, unescaped ones.\<close>

definition get :: "string \<Rightarrow> handler \<Rightarrow> handler" where
  "get m h = (if m = ''GET'' \<or> m = ''HEAD'' then h else methodNotAllowed)"

definition post :: "string \<Rightarrow> handler \<Rightarrow> handler" where
  "post m h = (if m = ''POST'' then h else methodNotAllowed)"

definition route :: "string \<Rightarrow> string \<Rightarrow> handler" where
  "route m path =
     (if path = ''/v1/health'' then get m health
      else if path = ''/v1/enroll'' then post m enroll
      else if path = ''/v1/heartbeat'' then post m (authenticated heartbeat)
      else if path = ''/v1/nodes'' then get m (authenticated listNodes)
      else if path = ''/v1/auth/login'' then post m login
      else if path = ''/v1/auth/logout'' then post m logout
      else if path = ''/v1/auth/me'' then get m (requireSession me)
      else if path = ''/v1/dashboard'' then get m (requireSession dashboard)
      else if path = ''/v1/account/nodes'' then get m (requireSession accountNodes)
      else if path = ''/v1/account/wallet'' then get m (requireSession wallet)
      else if path = ''/v1/account/jobs'' then get m (requireSession jobs_handler)
      else if path = ''/v1/account/enrollment-codes'' then post m (requireSession issueEnrollmentCode)
      else if path = ''/v1/agent/enroll'' then post m secureEnroll
      else if path = InventorySubmissionPath then post m inventorySubmission
      else if path = NetworkBenchmarkSubmissionPath then post m networkBenchmarkSubmission
      else if path = ComputeBenchmarkSubmissionPath then post m computeBenchmarkSubmission
      else (case Split (CHR ''/'') path of
              [a, b, c, d, node] \<Rightarrow>
                if [a, b, c, d] = [[], ''v1'', ''account'', ''nodes''] \<and> node \<noteq> []
                then get m (requireSession (\<lambda>user. accountNode user node)) else notFound
            | [a, b, c, d, node, x] \<Rightarrow>
                if [a, b, c, d] = [[], ''v1'', ''account'', ''nodes''] \<and> node \<noteq> [] \<and> x = ''inventory''
                then get m (requireSession (\<lambda>user. accountNodeInventory user node)) else notFound
            | _ \<Rightarrow> notFound))"

definition Handler :: handler where
  "Handler = middleware (\<lambda>c r s. route (rq_method r) (rq_path r) c r s)"

section \<open>What a user sees\<close>

text \<open>Everything the account endpoints read about nodes is filtered by the user.\<close>

lemma user_join_owned:
  "x \<in> set (user_join d u) \<longleftrightarrow> (\<exists>n \<in> set (nodes d). \<exists>s \<in> set (statuses d). n_user n = u \<and> st_node s = n_id n \<and> x = joined n s)"
  by (auto simp: user_join_def)

lemma user_join_key: "x \<in> set (user_join d u) \<Longrightarrow> \<exists>n \<in> set (nodes d). n_user n = u \<and> n_key n = nd_NodeID x"
  by (auto simp: user_join_def joined_def)

lemma NodesForUser_owned:
  assumes "NodesForUser p e u d = Inr ns" "x \<in> set ns"
  shows "\<exists>n \<in> set (nodes d). pg_uuid p u = Some (n_user n) \<and> n_key n = nd_NodeID x"
proof -
  obtain uu where "to_uuid p u = Inr uu" "x \<in> set (user_join d uu)"
    using assms by (auto simp: NodesForUser_def bindE_Inr_iff)
  with user_join_key [of x d uu] show ?thesis by auto
qed

lemma NodeForUser_owned:
  assumes "NodeForUser p e u k d = Inr x"
  shows "\<exists>n \<in> set (nodes d). pg_uuid p u = Some (n_user n) \<and> n_key n = k \<and> nd_NodeID x = k"
proof -
  obtain uu where uu: "to_uuid p u = Inr uu" "find (\<lambda>n. nd_NodeID n = k) (user_join d uu) = Some x"
    using assms by (auto simp: NodeForUser_def bindE_Inr_iff )
  then have "x \<in> set (user_join d uu)" "nd_NodeID x = k" by (auto simp: find_Some_iff)
  with user_join_key [of x d uu] uu(1) show ?thesis by auto
qed

lemma latest_in: "latest rs = Some h \<Longrightarrow> h \<in> set rs"
proof -
  assume "latest rs = Some h"
  then obtain tl where "rev (sort_key (\<lambda>r. (rp_observed r, rp_id r)) rs) = h # tl"
    by (auto simp: latest_def split: list.splits)
  then have "h \<in> set (rev (sort_key (\<lambda>r. (rp_observed r, rp_id r)) rs))" by simp
  then show ?thesis by simp
qed

lemma LatestInventory_owned:
  assumes "LatestInventoryForUser p e dec u k d = Inr x"
  shows "\<exists>n \<in> set (nodes d). pg_uuid p u = Some (n_user n) \<and> n_key n = k \<and> ir_NodeID x = k
           \<and> (\<exists>h \<in> set (inventories d). rp_node h = n_id n \<and> ir_ReportID x = rp_id h)"
proof -
  obtain uu h where h: "to_uuid p u = Inr uu" "latest (filter (\<lambda>h. \<exists>n \<in> set (nodes d). n_id n = rp_node h
      \<and> n_key n = k \<and> n_user n = uu) (inventories d)) = Some h" and x: "ir_NodeID x = k" "ir_ReportID x = rp_id h"
    using assms by (auto simp: LatestInventoryForUser_def bindE_Inr_iff   split: option.splits)
  have "h \<in> set (inventories d)" "\<exists>n \<in> set (nodes d). n_id n = rp_node h \<and> n_key n = k \<and> n_user n = uu"
    using latest_in [OF h(2)] by auto
  then obtain n where "n \<in> set (nodes d)" "rp_node h = n_id n" "n_key n = k" "n_user n = uu"
    by (metis (no_types))
  then show ?thesis using h(1) x \<open>h \<in> set (inventories d)\<close> by (intro bexI [of _ n]) auto
qed

lemma Jobs_visible:
  assumes "Jobs p e u d = Inr js" "x \<in> set js"
  shows "\<exists>uu. pg_uuid p u = Some uu \<and> (\<exists>j \<in> set (jobs d). visible_job d uu j \<and> x = job_item d j)"
proof -
  obtain uu where uu: "to_uuid p u = Inr uu" "x \<in> job_item d ` set (take 100 (rev (sort_key (\<lambda>j. (j_created j, j_id j))
              (filter (visible_job d uu) (jobs d)))))"
    using assms by (auto simp: Jobs_def bindE_Inr_iff )
  then obtain j where "j \<in> set (take 100 (rev (sort_key (\<lambda>j. (j_created j, j_id j))
              (filter (visible_job d uu) (jobs d)))))" "x = job_item d j" by blast
  then have "j \<in> set (filter (visible_job d uu) (jobs d))" "x = job_item d j" 
    using set_take_subset by fastforce+
  then show ?thesis using uu(1) by auto
qed

lemma Jobs_bounded: "Jobs p e u d = Inr js \<Longrightarrow> length js \<le> 100"
  by (auto simp: Jobs_def bindE_Inr_iff )

lemma user_wallet_owned: "w \<in> set (user_wallet d u) \<Longrightarrow> w \<in> set (wallets d) \<and> w_user w = u"
  by (simp add: user_wallet_def)

end
