(* ===== verification/ServerProperties.thy ===== *)
theory ServerProperties
  imports Accounts
begin

text \<open>
  Properties of the whole service, over \<open>Handler\<close>: which requests can change the tables and on
  whose authority, what the account endpoints show and to whom, the life of a session from login
  to logout, and the limit on enrollment attempts.
\<close>

section \<open>Authority\<close>

text \<open>What a request can show: the shared agent token, a password, a session, a live enrollment
  code, or a signature under the key of an enrolled node.\<close>

definition shows_token :: "call \<Rightarrow> request \<Rightarrow> server \<Rightarrow> bool" where
  "shows_token c r s \<longleftrightarrow> sv_token s \<noteq> [] \<and> (rq_authorization r = ''Bearer '' @ sv_token s
     \<or> (\<exists>req. dec_enroll (c_json c) (rq_body r) = Some req \<and> er_EnrollmentToken req = sv_token s))"

definition shows_password :: "call \<Rightarrow> request \<Rightarrow> server \<Rightarrow> bool" where
  "shows_password c r s \<longleftrightarrow> (\<exists>req user. dec_login (c_json c) (take 16384 (rq_body r)) = Some req
     \<and> Authenticate (c_pg c) (c_env c 0) (TrimSpace (lr_Email req)) (lr_Password req) (sv_db s) = Inr user)"

definition shows_session :: "call \<Rightarrow> request \<Rightarrow> server \<Rightarrow> bool" where
  "shows_session c r s \<longleftrightarrow> (\<exists>value. rq_cookie r = Some value
     \<and> hashSessionToken (c_crypto c) value \<in> ss_hash ` set (sessions (sv_db s)))"

definition shows_code :: "call \<Rightarrow> request \<Rightarrow> server \<Rightarrow> bool" where
  "shows_code c r s \<longleftrightarrow> (\<exists>req. \<exists>t \<in> set (tokens (sv_db s)). dec_secure (c_json c) (take 16384 (rq_body r)) = Some req
     \<and> tk_hash t = hashEnrollmentCode (c_crypto c) (TrimSpace (ser_EnrollmentCode req)) \<and> active_token (c_env c 0) t)"

definition shows_signature :: "call \<Rightarrow> request \<Rightarrow> server \<Rightarrow> bool" where
  "shows_signature c r s \<longleftrightarrow> (\<exists>n \<in> set (nodes (sv_db s)). \<exists>pk. \<exists>m \<in> {InventorySigningMessage,
        NetworkBenchmarkSigningMessage, ComputeBenchmarkSigningMessage}.
     n_pubkey n = Some pk \<and> signature_ok (c_crypto c) (m (Sum256 (c_crypto c)) (rq_body r)) pk (rq_signature r))"

definition authority :: "call \<Rightarrow> request \<Rightarrow> server \<Rightarrow> bool" where
  "authority c r s \<longleftrightarrow> shows_token c r s \<or> shows_password c r s \<or> shows_session c r s \<or> shows_code c r s
     \<or> shows_signature c r s"

text \<open>A handler that changes the tables only on some authority.\<close>

definition guarded :: "handler \<Rightarrow> bool" where
  "guarded h \<longleftrightarrow> (\<forall>c r s. db_inv (sv_db s) \<longrightarrow> sv_db (snd (h c r s)) \<noteq> sv_db s \<longrightarrow> authority c r s)"

named_theorems guarded_intros \<open>handlers that change the tables only on authority\<close>

lemma guardedI: "(\<And>c r s. db_inv (sv_db s) \<Longrightarrow> \<not> authority c r s \<Longrightarrow> sv_db (snd (h c r s)) = sv_db s) \<Longrightarrow> guarded h"
  unfolding guarded_def by blast

lemma guarded_readers [guarded_intros]:
  "guarded health" "guarded listNodes" "guarded (me u)" "guarded (dashboard u)" "guarded (accountNodes u)"
  "guarded (accountNode u k)" "guarded (wallet u)" "guarded (jobs_handler u)" "guarded (accountNodeInventory u k)"
  "guarded notFound" "guarded methodNotAllowed"
  by (auto simp: guarded_def health_def listNodes_def me_def dashboard_def accountNodes_def accountNode_def
      wallet_def jobs_handler_def accountNodeInventory_def notFound_def methodNotAllowed_def
      split: sum.splits option.splits)

lemma guarded_enroll [guarded_intros]: "guarded enroll"
proof (rule guardedI)
  fix c r s assume "\<not> authority c r s"
  then have "\<not> shows_token c r s" by (simp add: authority_def)
  then show "sv_db (snd (enroll c r s)) = sv_db s"
    by (auto simp: enroll_def shows_token_def Let_def split: option.splits sum.splits prod.splits)
qed

lemma guarded_authenticated:
  assumes "\<And>c r s. sv_owner s = None \<Longrightarrow> sv_db (snd (h c r s)) = sv_db s"
  shows "guarded (authenticated h)"
proof (rule guardedI)
  fix c r s assume "\<not> authority c r s"
  then have "\<not> shows_token c r s" by (simp add: authority_def)
  then show "sv_db (snd (authenticated h c r s)) = sv_db s"
    using assms by (cases "sv_owner s") (auto simp: authenticated_def shows_token_def)
qed

lemma guarded_agent [guarded_intros]: "guarded (authenticated heartbeat)" "guarded (authenticated listNodes)"
  by (rule guarded_authenticated, simp add: heartbeat_def listNodes_def Let_def split: option.split)+

lemma guarded_login [guarded_intros]: "guarded login"
proof (rule guardedI)
  fix c r s assume "\<not> authority c r s"
  then have no: "dec_login (c_json c) (take 16384 (rq_body r)) = Some req \<Longrightarrow>
      Authenticate (c_pg c) (c_env c 0) (TrimSpace (lr_Email req)) (lr_Password req) (sv_db s) \<noteq> Inr user" for req user
    by (auto simp: authority_def shows_password_def)
  show "sv_db (snd (login c r s)) = sv_db s"
  proof (cases "dec_login (c_json c) (take 16384 (rq_body r))")
    case (Some req)
    obtain err where "Authenticate (c_pg c) (c_env c 0) (TrimSpace (lr_Email req)) (lr_Password req) (sv_db s) = Inl err"
      using no [OF Some] by (cases "Authenticate (c_pg c) (c_env c 0) (TrimSpace (lr_Email req)) (lr_Password req) (sv_db s)") auto
    then show ?thesis by (simp add: login_def Some Let_def)
  qed (simp add: login_def)
qed

lemma guarded_logout [guarded_intros]: "guarded logout"
proof (rule guardedI)
  fix c r s assume "\<not> authority c r s"
  then have no: "rq_cookie r = Some v \<Longrightarrow> filter (\<lambda>x. ss_hash x \<noteq> hashSessionToken (c_crypto c) v) (sessions (sv_db s))
      = sessions (sv_db s)" for v
    by (auto simp: authority_def shows_session_def filter_id_conv image_iff)
  show "sv_db (snd (logout c r s)) = sv_db s"
    by (auto simp: logout_def DeleteSession_def exec_def stmt_def no Let_def split: option.splits sum.splits prod.splits)
qed

lemma SessionUser_row:
  "SessionUser e h d = Inr u \<Longrightarrow> \<exists>x \<in> set (sessions d). ss_hash x = h \<and> ss_expires x > e_now e \<and> ss_user x = usr_ID u"
  by (auto simp: SessionUser_def split: option.splits dest!: find_SomeD)

lemma guarded_requireSession [guarded_intros]: "guarded (requireSession h)"
proof (rule guardedI)
  fix c r s assume "\<not> authority c r s"
  then have no: "rq_cookie r = Some v \<Longrightarrow> SessionUser (c_env c 0) (hashSessionToken (c_crypto c) v) (sv_db s) \<noteq> Inr u" for u v
    by (auto simp: authority_def shows_session_def image_iff dest!: SessionUser_row)
  show "sv_db (snd (requireSession h c r s)) = sv_db s"
    by (auto simp: requireSession_def split: option.splits sum.splits dest!: no)
qed

lemma allowSecureEnrollment_db: "allowSecureEnrollment now s = (b, s') \<Longrightarrow> sv_db s' = sv_db s"
  by (auto simp: allowSecureEnrollment_def Let_def split: if_splits)

lemma redeem_needs_code:
  assumes "\<not> (\<exists>t \<in> set (tokens d). tk_hash t = h \<and> active_token e t)"
  shows "snd (RedeemEnrollmentToken p e h k pk v d) = d"
proof (cases "RedeemEnrollmentToken p e h k pk v d")
  case (Pair res d')
  show ?thesis
  proof (cases res)
    case (Inr u)
    obtain t where "find (\<lambda>t. tk_hash t = h \<and> active_token e t) (tokens d) = Some t"
      by (rule redeem_commit [OF Pair [unfolded Inr]])
    then have "t \<in> set (tokens d) \<and> tk_hash t = h \<and> active_token e t" by (rule find_SomeD)
    then show ?thesis using assms by blast
  next
    case (Inl err)
    then show ?thesis using transaction_Inl [OF Pair [unfolded RedeemEnrollmentToken_def Inl]] Pair by simp
  qed
qed

lemma guarded_secureEnroll [guarded_intros]: "guarded secureEnroll"
proof (rule guardedI)
  fix c r s assume "\<not> authority c r s"
  then have no: "dec_secure (c_json c) (take 16384 (rq_body r)) = Some req \<Longrightarrow>
     snd (RedeemEnrollmentToken (c_pg c) (c_env c 0) (hashEnrollmentCode (c_crypto c) (TrimSpace (ser_EnrollmentCode req)))
       k pk v (sv_db s)) = sv_db s" for req k pk v
    by (intro redeem_needs_code) (auto simp: authority_def shows_code_def)
  obtain b s' where a: "allowSecureEnrollment (c_now c) s = (b, s')" by fastforce
  then have d: "sv_db s' = sv_db s" by (rule allowSecureEnrollment_db)
  show "sv_db (snd (secureEnroll c r s)) = sv_db s"
  proof (cases "dec_secure (c_json c) (take 16384 (rq_body r))")
    case (Some req)
    obtain res d' where x: "RedeemEnrollmentToken (c_pg c) (c_env c 0)
        (hashEnrollmentCode (c_crypto c) (TrimSpace (ser_EnrollmentCode req))) (TrimSpace (ser_NodeID req))
        (TrimSpace (ser_PublicKey req)) (TrimSpace (ser_AgentVersion req)) (sv_db s) = (res, d')" by fastforce
    then have "d' = sv_db s" using no [OF Some] by (metis snd_conv)
    with x a d Some show ?thesis by (cases res) (simp_all add: secureEnroll_def Let_def)
  qed (simp add: secureEnroll_def a d)
qed

lemma signature_shown:
  assumes "InventoryPublicKey e k (sv_db s) = Inr pk" "m \<in> {InventorySigningMessage, NetworkBenchmarkSigningMessage,
      ComputeBenchmarkSigningMessage}" "signature_ok (c_crypto c) (m (Sum256 (c_crypto c)) (rq_body r)) pk (rq_signature r)"
  shows "authority c r s"
  using inventory_pipeline.key_of_node [OF assms(1)] assms(2,3) unfolding authority_def shows_signature_def by blast

lemma guarded_submissions [guarded_intros]:
  "guarded inventorySubmission" "guarded networkBenchmarkSubmission" "guarded computeBenchmarkSubmission"
proof -
  show "guarded inventorySubmission"
  proof (rule guardedI)
    fix c r s assume "\<not> authority c r s"
    then show "sv_db (snd (inventorySubmission c r s)) = sv_db s"
      using inventory_outcome [of c r s "fst (inventorySubmission c r s)" "snd (inventorySubmission c r s)"] signature_shown
      by (fastforce simp: verify_iff)
  qed
  show "guarded networkBenchmarkSubmission"
  proof (rule guardedI)
    fix c r s assume "\<not> authority c r s"
    then show "sv_db (snd (networkBenchmarkSubmission c r s)) = sv_db s"
      using network_outcome [of c r s "fst (networkBenchmarkSubmission c r s)" "snd (networkBenchmarkSubmission c r s)"] signature_shown
      by (fastforce simp: verify_iff)
  qed
  show "guarded computeBenchmarkSubmission"
  proof (rule guardedI)
    fix c r s assume "\<not> authority c r s"
    then show "sv_db (snd (computeBenchmarkSubmission c r s)) = sv_db s"
      using compute_outcome [of c r s "fst (computeBenchmarkSubmission c r s)" "snd (computeBenchmarkSubmission c r s)"] signature_shown
      by (fastforce simp: verify_iff)
  qed
qed

lemma guarded_method [guarded_intros]: "guarded h \<Longrightarrow> guarded (get m h)" "guarded h \<Longrightarrow> guarded (post m h)"
  by (simp_all add: get_def post_def guarded_readers)

lemma guarded_route: "guarded (route m path)"
  unfolding route_def by (simp add: guarded_intros split: list.split)

lemma middleware_db: "sv_db (snd (middleware h c r s)) = sv_db s \<or> sv_db (snd (middleware h c r s)) = sv_db (snd (h c r s))"
  by (simp add: middleware_def Let_def split: prod.split)

text \<open>C3: no request changes the tables without authority. Whatever the path and the method, if the
  tables differ after the request, the request showed the agent token, a valid password, a stored
  session, a live enrollment code, or a signature of its body under the key of an enrolled node.\<close>

theorem changes_need_authority:
  assumes "db_inv (sv_db s)" "sv_db (snd (Handler c r s)) \<noteq> sv_db s"
  shows "shows_token c r s \<or> shows_password c r s \<or> shows_session c r s \<or> shows_code c r s \<or> shows_signature c r s"
proof -
  have "sv_db (snd (route (rq_method r) (rq_path r) c r s)) \<noteq> sv_db s"
    using middleware_db [of "\<lambda>c r s. route (rq_method r) (rq_path r) c r s" c r s] assms(2) by (auto simp: Handler_def)
  then show ?thesis using guarded_route assms(1) unfolding guarded_def authority_def by blast
qed
definition sample_enroll_call :: call where
  "sample_enroll_call = sample_call\<lparr>c_json := sample_codecs\<lparr>dec_enroll := (\<lambda>_. Some \<lparr>er_NodeID = ''n'',
     er_EnrollmentToken = ''t'', er_AgentVersion = ''1''\<rparr>)\<rparr>\<rparr>"

definition sample_enroll_request :: request where
  "sample_enroll_request = sample_request\<lparr>rq_path := ''/v1/enroll''\<rparr>"

lemma sample_enroll_changes:
  "length (nodes (sv_db (snd (Handler sample_enroll_call sample_enroll_request sample_server)))) = 2"
proof -
  have "length (nodes (sv_db (snd (enroll sample_enroll_call sample_enroll_request sample_server)))) = 2"
    by code_simp
  moreover have "rq_path sample_enroll_request = ''/v1/enroll''" "rq_method sample_enroll_request = ''POST''"
    by (simp_all add: sample_enroll_request_def sample_request_def)
  ultimately show ?thesis
    by (simp add: Handler_def middleware_def Let_def route_def post_def case_prod_beta)
qed

theorem changes_need_authority_witness:
  "shows_token sample_enroll_call sample_enroll_request sample_server
   \<or> shows_password sample_enroll_call sample_enroll_request sample_server
   \<or> shows_session sample_enroll_call sample_enroll_request sample_server
   \<or> shows_code sample_enroll_call sample_enroll_request sample_server
   \<or> shows_signature sample_enroll_call sample_enroll_request sample_server"
proof (rule changes_need_authority [OF sample_server_inv])
  have "length (nodes (sv_db sample_server)) = 1" by (simp add: sample_server_def)
  then show "sv_db (snd (Handler sample_enroll_call sample_enroll_request sample_server)) \<noteq> sv_db sample_server"
    using sample_enroll_changes by auto
qed

section \<open>What the account endpoints show\<close>

definition owned_by :: "pg \<Rightarrow> db \<Rightarrow> string \<Rightarrow> string \<Rightarrow> bool" where
  "owned_by p d u key \<longleftrightarrow> (\<exists>n \<in> set (nodes d). pg_uuid p u = Some (n_user n) \<and> n_key n = key)"

definition shown_to :: "pg \<Rightarrow> db \<Rightarrow> string \<Rightarrow> reply \<Rightarrow> bool" where
  "shown_to p d u body =
     (case body of
        UserBody x \<Rightarrow> usr_ID x = u
      | NodesBody xs \<Rightarrow> (\<forall>x \<in> set xs. owned_by p d u (nd_NodeID x))
      | NodeBody x \<Rightarrow> owned_by p d u (nd_NodeID x)
      | ReportBody x \<Rightarrow> owned_by p d u (ir_NodeID x)
      | DashboardBody x \<Rightarrow> (\<exists>uu. pg_uuid p u = Some uu \<and> db_BalanceMicrounits x = sum_list (map w_amount (user_wallet d uu)))
      | WalletBody x \<Rightarrow> (\<exists>uu. pg_uuid p u = Some uu \<and> wr_BalanceMicrounits x = sum_list (map w_amount (user_wallet d uu))
           \<and> length (wr_Transactions x) \<le> 100 \<and> (\<forall>t \<in> set (wr_Transactions x). t \<in> wallet_item ` set (user_wallet d uu)))
      | JobsBody xs \<Rightarrow> length xs \<le> 100
           \<and> (\<forall>x \<in> set xs. \<exists>uu. pg_uuid p u = Some uu \<and> (\<exists>j \<in> set (jobs d). visible_job d uu j \<and> x = job_item d j))
      | _ \<Rightarrow> False)"

text \<open>A handler run for a user shows that user's data and changes nothing.\<close>

definition page :: "(User \<Rightarrow> handler) \<Rightarrow> bool" where
  "page h \<longleftrightarrow> (\<forall>user c r s resp s'. h user c r s = (resp, s') \<longrightarrow> rs_status resp = 200
      \<longrightarrow> s' = s \<and> shown_to (c_pg c) (sv_db s) (usr_ID user) (rs_body resp))"

lemma to_int64_Inr [simp]: "to_int64 i = Inr j \<longleftrightarrow> j = i \<and> - (2 ^ 63) \<le> i \<and> i < 2 ^ 63"
  by (auto simp: to_int64_def)

lemma databaseError_not_200 [simp]: "rs_status (databaseError err) \<noteq> 200"
  by (simp add: databaseError_def)

lemma body_simps [simp]: "rs_body (writeJSON n b) = b"
  by (simp add: writeJSON_def)

lemma Wallet_shows:
  assumes "Wallet p e u d = Inr x"
  shows "shown_to p d u (WalletBody x)"
proof -
  obtain uu where "pg_uuid p u = Some uu" and b: "wr_BalanceMicrounits x = sum_list (map w_amount (user_wallet d uu))"
    "wr_Transactions x = map wallet_item (take 100 (rev (sort_key (\<lambda>w. (w_created w, w_id w)) (user_wallet d uu))))"
    using assms by (auto simp: Wallet_def bindE_Inr_iff)
  moreover have "set (take 100 (rev (sort_key (\<lambda>w. (w_created w, w_id w)) (user_wallet d uu)))) \<subseteq> set (user_wallet d uu)"
    using set_take_subset by fastforce
  ultimately show ?thesis by (auto simp: shown_to_def)
qed

lemma Dashboard_shows:
  assumes "Dashboard p e u d = Inr x"
  shows "shown_to p d u (DashboardBody x)"
  using assms by (auto simp: Dashboard_def bindE_Inr_iff shown_to_def)

lemma page_me: "page me"
  by (simp add: page_def me_def shown_to_def)

lemma page_dashboard: "page dashboard"
  using Dashboard_shows by (auto simp: page_def dashboard_def split: sum.splits)

lemma page_wallet: "page wallet"
  using Wallet_shows by (auto simp: page_def wallet_def split: sum.splits)

lemma page_jobs: "page jobs_handler"
proof -
  have "shown_to p d u (JobsBody x)" if "Jobs p e u d = Inr x" for p d u x e
    using Jobs_bounded [OF that] Jobs_visible [OF that] by (simp add: shown_to_def)
  then show ?thesis by (auto simp: page_def jobs_handler_def split: sum.splits)
qed

lemma page_nodes: "page accountNodes"
proof -
  have "shown_to p d u (NodesBody x)" if "NodesForUser p e u d = Inr x" for p d u x e
    using NodesForUser_owned [OF that] by (simp add: shown_to_def owned_by_def)
  then show ?thesis by (auto simp: page_def accountNodes_def split: sum.splits)
qed

lemma page_node: "page (\<lambda>user. accountNode user k)"
proof -
  have "shown_to p d u (NodeBody x)" if "NodeForUser p e u k d = Inr x" for p d u x e
    using NodeForUser_owned [OF that] by (auto simp: shown_to_def owned_by_def)
  then show ?thesis by (auto simp: page_def accountNode_def split: sum.splits if_splits)
qed

lemma page_inventory: "page (\<lambda>user. accountNodeInventory user k)"
proof -
  have "shown_to p d u (ReportBody x)" if "LatestInventoryForUser p e dec u k d = Inr x" for p d u x e dec
    using LatestInventory_owned [OF that] by (auto simp: shown_to_def owned_by_def)
  then show ?thesis by (auto simp: page_def accountNodeInventory_def split: sum.splits if_splits)
qed

lemma page_issue: "page issueEnrollmentCode"
  by (auto simp: page_def issueEnrollmentCode_def no_store_def Let_def writeError_def writeJSON_def databaseError_def
      split: sum.splits if_splits option.splits prod.splits)

lemmas pages = page_me page_dashboard page_wallet page_jobs page_nodes page_node page_inventory page_issue

text \<open>A request whose cookie is the token of a session of this user, not yet expired.\<close>

definition session_of :: "call \<Rightarrow> request \<Rightarrow> db \<Rightarrow> string \<Rightarrow> bool" where
  "session_of c r d u \<longleftrightarrow> (\<exists>value. \<exists>x \<in> set (sessions d). rq_cookie r = Some value \<and> ss_user x = u
     \<and> ss_hash x = hashSessionToken (c_crypto c) value \<and> e_now (c_env c 0) < ss_expires x)"

definition private_ok :: "handler \<Rightarrow> bool" where
  "private_ok h \<longleftrightarrow> (\<forall>c r s resp s'. h c r s = (resp, s') \<longrightarrow> rs_status resp = 200
     \<longrightarrow> s' = s \<and> (\<exists>u. session_of c r (sv_db s) u \<and> shown_to (c_pg c) (sv_db s) u (rs_body resp)))"

lemma private_session:
  assumes "page h"
  shows "private_ok (requireSession h)"
  unfolding private_ok_def
proof (intro allI impI)
  fix c r s resp s' assume a: "requireSession h c r s = (resp, s')" "rs_status resp = 200"
  then obtain v0 user where v: "rq_cookie r = Some v0"
    "SessionUser (c_env c 0) (hashSessionToken (c_crypto c) v0) (sv_db s) = Inr user" "h user c r s = (resp, s')"
    by (auto simp: requireSession_def split: if_splits option.splits sum.splits)
  from SessionUser_row [OF v(2)] v(1) have "session_of c r (sv_db s) (usr_ID user)" by (auto simp: session_of_def)
  with assms v(3) a(2) show "s' = s \<and> (\<exists>u. session_of c r (sv_db s) u \<and> shown_to (c_pg c) (sv_db s) u (rs_body resp))"
    unfolding page_def by blast
qed

lemma private_simple: "private_ok notFound" "private_ok methodNotAllowed"
  by (auto simp: private_ok_def notFound_def methodNotAllowed_def)

lemma private_method: "private_ok h \<Longrightarrow> private_ok (get m h)" "private_ok h \<Longrightarrow> private_ok (post m h)"
  by (simp_all add: get_def post_def private_simple)

definition private_path :: "string \<Rightarrow> bool" where
  "private_path path \<longleftrightarrow> path \<in> {''/v1/dashboard'', ''/v1/auth/me''} \<or> HasPrefix path ''/v1/account/''"

lemma not_private: "private_path ''/v1/health'' = False" "private_path ''/v1/enroll'' = False"
  "private_path ''/v1/heartbeat'' = False" "private_path ''/v1/nodes'' = False" "private_path ''/v1/auth/login'' = False"
  "private_path ''/v1/auth/logout'' = False" "private_path ''/v1/agent/enroll'' = False"
  "private_path InventorySubmissionPath = False" "private_path NetworkBenchmarkSubmissionPath = False"
  "private_path ComputeBenchmarkSubmissionPath = False"
  by code_simp+

lemma private_if: "(b \<Longrightarrow> private_ok h) \<Longrightarrow> (\<not> b \<Longrightarrow> private_ok k) \<Longrightarrow> private_ok (if b then h else k)"
  by simp

lemma private_literal: "path = q \<Longrightarrow> private_path path \<Longrightarrow> private_path q = False \<Longrightarrow> private_ok h"
  by simp

lemma private_route:
  assumes "private_path path"
  shows "private_ok (route m path)"
  unfolding route_def
  apply (intro private_if)
  apply (erule private_literal [OF _ assms], rule not_private
         | rule private_method private_session pages private_simple)+
  apply (intro private_simple private_if private_method private_session pages allI impI conjI | split list.split)+
  done


definition sample_session_request :: "string \<Rightarrow> request" where
  "sample_session_request path = sample_request\<lparr>rq_method := ''GET'', rq_path := path, rq_cookie := Some ''cookie''\<rparr>"

definition sample_session_server :: server where
  "sample_session_server = sample_server\<lparr>sv_db := (sv_db sample_server)\<lparr>sessions := [\<lparr>ss_user = ''u1'',
     ss_hash = hashSessionToken sample_crypto ''cookie'', ss_expires = 2000\<rparr>]\<rparr>\<rparr>"

lemma sample_page: "private_path ''/v1/auth/me''"
  "rs_status (fst (Handler sample_call (sample_session_request ''/v1/auth/me'') sample_session_server)) = 200"
proof -
  show "private_path ''/v1/auth/me''" by (simp add: private_path_def)
  have "rs_status (fst (requireSession me sample_call (sample_session_request ''/v1/auth/me'') sample_session_server)) = 200"
    by code_simp
  moreover have "rq_path (sample_session_request p) = p" "rq_method (sample_session_request p) = ''GET''" for p
    by (simp_all add: sample_session_request_def)
  ultimately show "rs_status (fst (Handler sample_call (sample_session_request ''/v1/auth/me'') sample_session_server)) = 200"
    by (simp add: Handler_def middleware_def Let_def route_def get_def case_prod_beta)
qed

section \<open>The life of a session\<close>

text \<open>What a successful login leaves behind.\<close>

lemma login_effect:
  assumes "login c r s = (resp, s')" "rs_status resp = 200"
    "distinct (map u_id (users (sv_db s)))" "\<forall>u \<in> set (users (sv_db s)). pg_uuid (c_pg c) (u_id u) = Some (u_id u)"
  obtains raw user where "c_random c = Some raw" "rs_body resp = UserBody user"
    "rs_cookie resp = Some \<lparr>ck_value = b64_encode url_alphabet raw, ck_expires = Some (c_now c + sessionLifetime),
       ck_max_age = 43200, ck_http_only = True, ck_secure = isHTTPS r\<rparr>"
    "find (\<lambda>u. u_id u = usr_ID user) (users (sv_db s)) \<noteq> None"
    "\<And>u. u \<in> set (users (sv_db s)) \<Longrightarrow> u_id u = usr_ID user \<Longrightarrow> usr_Email user = u_email u"
    "sv_db s' = (sv_db s)\<lparr>sessions := sessions (sv_db s) @ [\<lparr>ss_user = usr_ID user,
       ss_hash = hashSessionToken (c_crypto c) (b64_encode url_alphabet raw), ss_expires = c_now c + sessionLifetime\<rparr>]\<rparr>"
    "sv_owner s \<noteq> None" "s' = s\<lparr>sv_db := sv_db s'\<rparr>"
proof -
  obtain req where req: "dec_login (c_json c) (take 16384 (rq_body r)) = Some req" and own: "sv_owner s \<noteq> None"
    using assms(1,2) by (auto simp: login_def split: if_splits option.splits)
  obtain user where user: "Authenticate (c_pg c) (c_env c 0) (TrimSpace (lr_Email req)) (lr_Password req) (sv_db s) = Inr user"
    using assms(1,2) req by (auto simp: login_def Let_def split: if_splits option.splits sum.splits)
  obtain raw where raw: "c_random c = Some raw"
    using assms(1,2) req user by (auto simp: login_def Let_def newSessionToken_def split: if_splits option.splits)
  let ?token = "b64_encode url_alphabet raw"
  obtain d where d: "CreateSession (c_pg c) (c_env c 1) (usr_ID user) (hashSessionToken (c_crypto c) ?token)
      (c_now c + sessionLifetime) (sv_db s) = (Inr (), d)"
    using assms(1,2) req user raw
    by (auto simp: login_def Let_def newSessionToken_def hashSessionToken_def split: if_splits sum.splits prod.splits)
  have r: "resp = with_cookie \<lparr>ck_value = ?token, ck_expires = Some (c_now c + sessionLifetime),
      ck_max_age = sessionLifetime div Second, ck_http_only = True, ck_secure = isHTTPS r\<rparr> (writeJSON 200 (UserBody user))"
    and s': "s' = s\<lparr>sv_db := d\<rparr>"
    using assms(1,2) req user raw d
    by (auto simp: login_def Let_def newSessionToken_def hashSessionToken_def split: if_splits)
  obtain u where u: "u \<in> set (users (sv_db s))" "user = \<lparr>usr_ID = u_id u, usr_Email = u_email u\<rparr>"
    using user by (auto simp: Authenticate_def split: sum.splits dest!: find_SomeD)
  have "pg_uuid (c_pg c) (usr_ID user) = Some (usr_ID user)" using u assms(4) by simp
  then have db: "d = (sv_db s)\<lparr>sessions := sessions (sv_db s) @ [\<lparr>ss_user = usr_ID user,
       ss_hash = hashSessionToken (c_crypto c) ?token, ss_expires = c_now c + sessionLifetime\<rparr>]\<rparr>"
    using d by (auto simp: CreateSession_def bindE_Inr_iff split: if_splits)
  have mail: "usr_Email user = u_email x" if "x \<in> set (users (sv_db s))" "u_id x = usr_ID user" for x
    using that u assms(3) by (auto simp: distinct_map inj_on_def)
  have "find (\<lambda>u. u_id u = usr_ID user) (users (sv_db s)) \<noteq> None" using u by (auto simp: find_None_iff)
  moreover have "sessionLifetime div Second = 43200" by (simp add: sessionLifetime_def duration_units)
  ultimately show thesis
    using that [OF raw, of user] r s' db own mail by (simp add: with_cookie_def writeJSON_def)
qed

lemma SessionUser_found:
  assumes "db_inv d" "x \<in> set (sessions d)" "e_now e < ss_expires x" "e_fault e 0 = None"
    "find (\<lambda>u. u_id u = ss_user x) (users d) = Some u"
  shows "SessionUser e (ss_hash x) d = Inr \<lparr>usr_ID = u_id u, usr_Email = u_email u\<rparr>"
proof -
  obtain y where y: "find (\<lambda>s. ss_hash s = ss_hash x \<and> ss_expires s > e_now e) (sessions d) = Some y"
    using assms(2,3) by (cases "find (\<lambda>s. ss_hash s = ss_hash x \<and> ss_expires s > e_now e) (sessions d)")
      (auto simp: find_None_iff)
  then have "y \<in> set (sessions d)" "ss_hash y = ss_hash x" using find_SomeD by fastforce+
  then have "y = x" using assms(1,2) by (auto simp: db_inv_def sessions_ok_def distinct_map inj_on_def)
  with y assms(4,5) show ?thesis by (simp add: SessionUser_def)
qed

text \<open>C16: the life of a session. A successful login sets an HTTP-only cookie for twelve hours. As long
  as the session is stored and the database clock has not reached its expiry, every protected
  handler runs, on any later state of the store, for the user who logged in. After the logout that
  presents the cookie, every protected handler answers 401 without running.\<close>

theorem session_life:
  assumes "login c r s = (resp, s')" "rs_status resp = 200"
    "distinct (map u_id (users (sv_db s)))" "\<forall>u \<in> set (users (sv_db s)). pg_uuid (c_pg c) (u_id u) = Some (u_id u)"
    "db_inv (sv_db t)" "set (sessions (sv_db s')) \<subseteq> set (sessions (sv_db t))" "users (sv_db t) = users (sv_db s)"
    "sv_owner t \<noteq> None"
    "c_crypto c' = c_crypto c" "e_fault (c_env c' 0) 0 = None" "e_now (c_env c' 0) < c_now c + 12 * Hour"
    "rs_cookie resp = Some k" "rq_cookie r' = Some (ck_value k)" "c_random c \<noteq> Some []"
  shows "\<exists>user. rs_body resp = UserBody user \<and> ck_http_only k \<and> ck_max_age k = 12 * 60 * 60
      \<and> requireSession next c' r' t = next user c' r' t
      \<and> requireSession next c' r' (snd (logout c' r' t))
        = (writeError 401 ''session expired; sign in again'', snd (logout c' r' t))"
proof -
  obtain raw user where raw: "c_random c = Some raw" and e: "rs_body resp = UserBody user"
    "rs_cookie resp = Some \<lparr>ck_value = b64_encode url_alphabet raw, ck_expires = Some (c_now c + sessionLifetime),
       ck_max_age = 43200, ck_http_only = True, ck_secure = isHTTPS r\<rparr>"
    "find (\<lambda>u. u_id u = usr_ID user) (users (sv_db s)) \<noteq> None"
    "\<And>u. u \<in> set (users (sv_db s)) \<Longrightarrow> u_id u = usr_ID user \<Longrightarrow> usr_Email user = u_email u"
    "sv_db s' = (sv_db s)\<lparr>sessions := sessions (sv_db s) @ [\<lparr>ss_user = usr_ID user,
       ss_hash = hashSessionToken (c_crypto c) (b64_encode url_alphabet raw), ss_expires = c_now c + sessionLifetime\<rparr>]\<rparr>"
    by (rule login_effect [OF assms(1-4)]) blast
  let ?x = "\<lparr>ss_user = usr_ID user, ss_hash = hashSessionToken (c_crypto c) (b64_encode url_alphabet raw),
      ss_expires = c_now c + sessionLifetime\<rparr>"
  have k: "ck_value k = b64_encode url_alphabet raw" "ck_http_only k" "ck_max_age k = 43200"
    using e(2) assms(12) by auto
  have nonempty: "b64_encode url_alphabet raw \<noteq> []"
    using raw assms(14) by (cases "(url_alphabet, raw)" rule: b64_encode.cases) (auto simp: Let_def)
  have x: "?x \<in> set (sessions (sv_db t))" using e(5) assms(6) by auto
  obtain u where u: "find (\<lambda>u. u_id u = usr_ID user) (users (sv_db s)) = Some u" using e(3) by auto
  then have "u_id u = usr_ID user" "u \<in> set (users (sv_db s))" using find_SomeD by fastforce+
  then have user: "user = \<lparr>usr_ID = u_id u, usr_Email = u_email u\<rparr>" using e(4) [of u] by simp
  have "SessionUser (c_env c' 0) (ss_hash ?x) (sv_db t) = Inr \<lparr>usr_ID = u_id u, usr_Email = u_email u\<rparr>"
    by (rule SessionUser_found [OF assms(5) x]) (use assms(7,10,11) u in \<open>auto simp: sessionLifetime_def\<close>)
  then have su: "SessionUser (c_env c' 0) (hashSessionToken (c_crypto c') (ck_value k)) (sv_db t) = Inr user"
    using user k(1) assms(9) by simp
  then have first: "requireSession next c' r' t = next user c' r' t"
    using assms(8,13) e(1) k nonempty by (auto simp: requireSession_def)
  let ?h = "hashSessionToken (c_crypto c') (ck_value k)"
  have out: "snd (logout c' r' t) = t\<lparr>sv_db := (sv_db t)\<lparr>sessions := filter (\<lambda>s. ss_hash s \<noteq> ?h) (sessions (sv_db t))\<rparr>\<rparr>"
    using assms(8,10,13) by (auto simp: logout_def DeleteSession_def exec_def stmt_def Let_def)
  have none: "find (\<lambda>s. ss_hash s = ?h \<and> P s) (filter (\<lambda>s. ss_hash s \<noteq> ?h) xs) = None" for P xs
    by (auto simp: find_None_iff)
  have "SessionUser (c_env c' 0) ?h (sv_db (snd (logout c' r' t))) = Inl ErrNoRows"
    using assms(10) unfolding out by (simp add: SessionUser_def none stmt_def row_def)
  then have "requireSession next c' r' (snd (logout c' r' t))
      = (writeError 401 ''session expired; sign in again'', snd (logout c' r' t))"
    using assms(8,13) k nonempty out by (auto simp: requireSession_def)
  with first e(1) k show ?thesis by simp
qed

definition sample_login_call :: call where
  "sample_login_call = sample_call\<lparr>c_json := sample_codecs\<lparr>dec_login :=
     (\<lambda>_. Some \<lparr>lr_Email = ''a'', lr_Password = ''pw''\<rparr>)\<rparr>\<rparr>"

definition sample_login_server :: server where
  "sample_login_server = sample_server\<lparr>sv_db := (sv_db sample_server)\<lparr>users :=
     [\<lparr>u_id = ''u1'', u_email = ''A'', u_password_hash = Some ''pw''\<rparr>]\<rparr>\<rparr>"

definition sample_login_cookie :: cookie where
  "sample_login_cookie = \<lparr>ck_value = b64_encode url_alphabet (replicate 32 1), ck_expires = Some (1000 + sessionLifetime),
     ck_max_age = 43200, ck_http_only = True, ck_secure = isHTTPS sample_request\<rparr>"

lemma lower_hex64_session: "length (Sum256 k t) = 32 \<Longrightarrow> lower_hex64 (hashSessionToken k t)"
  using set_hex_encode [of "Sum256 k t"]
  by (auto simp: lower_hex64_def hashSessionToken_def length_hex_encode list_all_iff)

lemma sample_login:
  "rs_status (fst (login sample_login_call sample_request sample_login_server)) = 200"
proof -
  have a: "Authenticate sample_pg (sample_env 1000 ''id'') ''a'' ''pw'' (sv_db sample_login_server)
      = Inr \<lparr>usr_ID = ''u1'', usr_Email = ''A''\<rparr>" by code_simp
  have t: "TrimSpace ''a'' = ''a''" by code_simp
  have "lower_hex64 (hashSessionToken sample_crypto x)" for x by (rule lower_hex64_session) (simp add: sample_crypto_def)
  then show ?thesis using a t
    by (simp add: login_def sample_login_call_def sample_call_def sample_codecs_def newSessionToken_def hashSessionToken_def
        CreateSession_def sample_login_server_def sample_server_def sample_db_def empty_db_def sample_pg_def sample_env_def
        stmt_def to_uuid_def exec_def with_cookie_def Let_def writeJSON_def)
qed

lemma sample_login_db:
  "sv_db (snd (login sample_login_call sample_request sample_login_server)) = (sv_db sample_login_server)\<lparr>sessions :=
     [\<lparr>ss_user = ''u1'', ss_hash = hashSessionToken sample_crypto (b64_encode url_alphabet (replicate 32 1)),
       ss_expires = 1000 + sessionLifetime\<rparr>]\<rparr>
   \<and> rs_cookie (fst (login sample_login_call sample_request sample_login_server)) = Some sample_login_cookie
   \<and> sv_owner (snd (login sample_login_call sample_request sample_login_server)) \<noteq> None"
proof -
  obtain resp s' where e: "login sample_login_call sample_request sample_login_server = (resp, s')" by fastforce
  have u: "distinct (map u_id (users (sv_db sample_login_server)))"
    "\<forall>u \<in> set (users (sv_db sample_login_server)). pg_uuid (c_pg sample_login_call) (u_id u) = Some (u_id u)"
    by (simp_all add: sample_login_server_def sample_login_call_def sample_call_def sample_pg_def)
  have ok: "rs_status resp = 200" using sample_login e by simp
  obtain raw and user :: User where r: "c_random sample_login_call = Some raw"
    "rs_cookie resp = Some \<lparr>ck_value = b64_encode url_alphabet raw, ck_expires = Some (c_now sample_login_call + sessionLifetime),
       ck_max_age = 43200, ck_http_only = True, ck_secure = isHTTPS sample_request\<rparr>"
    "find (\<lambda>u. u_id u = usr_ID user) (users (sv_db sample_login_server)) \<noteq> None"
    "sv_db s' = (sv_db sample_login_server)\<lparr>sessions := sessions (sv_db sample_login_server) @ [\<lparr>ss_user = usr_ID user,
       ss_hash = hashSessionToken (c_crypto sample_login_call) (b64_encode url_alphabet raw),
       ss_expires = c_now sample_login_call + sessionLifetime\<rparr>]\<rparr>"
    "sv_owner sample_login_server \<noteq> None" "s' = sample_login_server\<lparr>sv_db := sv_db s'\<rparr>"
    by (rule login_effect [OF e ok u], rule that)
  have "sv_owner (sample_login_server\<lparr>sv_db := d\<rparr>) \<noteq> None" for d using r(5) by simp
  then have own: "sv_owner s' \<noteq> None" using r(6) by metis
  have "usr_ID user = ''u1''" using r(3) by (simp add: sample_login_server_def split: if_splits)
  then have "sv_db s' = (sv_db sample_login_server)\<lparr>sessions :=
     [\<lparr>ss_user = ''u1'', ss_hash = hashSessionToken sample_crypto (b64_encode url_alphabet (replicate 32 1)),
       ss_expires = 1000 + sessionLifetime\<rparr>]\<rparr>" "rs_cookie resp = Some sample_login_cookie"
    using r(1,2,4)
    by (simp_all add: sample_login_call_def sample_call_def sample_login_server_def sample_server_def sample_db_def
        empty_db_def sample_login_cookie_def)
  with own e show ?thesis by simp
qed

lemma sample_login_inv: "db_inv (sv_db (snd (login sample_login_call sample_request sample_login_server)))"
proof -
  have "lower_hex64 (hashSessionToken sample_crypto t)" for t by (rule lower_hex64_session) (simp add: sample_crypto_def)
  then show ?thesis
    unfolding sample_login_db [THEN conjunct1]
    by (simp add: sample_login_server_def sample_server_def sample_db_def empty_db_def db_inv_def nodes_ok_def
        statuses_ok_def tokens_ok_def sessions_ok_def table_ok_def pubkeys_def)
qed

theorem session_life_witness:
  "\<exists>user. requireSession me sample_login_call (sample_request\<lparr>rq_cookie := Some (ck_value sample_login_cookie)\<rparr>)
      (snd (login sample_login_call sample_request sample_login_server))
    = (writeJSON 200 (UserBody user), snd (login sample_login_call sample_request sample_login_server))"
proof -
  have l: "login sample_login_call sample_request sample_login_server
      = (fst (login sample_login_call sample_request sample_login_server), snd (login sample_login_call sample_request sample_login_server))"
    by simp
  have u: "distinct (map u_id (users (sv_db sample_login_server)))"
    "\<forall>u \<in> set (users (sv_db sample_login_server)). pg_uuid (c_pg sample_login_call) (u_id u) = Some (u_id u)"
    by (simp_all add: sample_login_server_def sample_login_call_def sample_call_def sample_pg_def)
  have o: "users (sv_db (snd (login sample_login_call sample_request sample_login_server))) = users (sv_db sample_login_server)"
    "sv_owner (snd (login sample_login_call sample_request sample_login_server)) \<noteq> None"
    "e_fault (c_env sample_login_call 0) 0 = None" "e_now (c_env sample_login_call 0) = 1000" "c_now sample_login_call = 1000"
    "c_random sample_login_call = Some (replicate 32 1)"
    using sample_login_db by (simp_all add: sample_login_call_def sample_call_def sample_env_def)
  show ?thesis
    using session_life [OF l sample_login u sample_login_inv subset_refl o(1,2) refl o(3) _ sample_login_db [THEN conjunct2, THEN conjunct1],
        of "sample_request\<lparr>rq_cookie := Some (ck_value sample_login_cookie)\<rparr>" me] o(4-6)
    by (auto simp: me_def duration_units)
qed

section \<open>The limit on enrollment attempts\<close>

text \<open>How many requests of a sequence \<open>secureEnroll\<close> lets past its rate limit.\<close>

fun let_through :: "(call \<times> request) list \<Rightarrow> server \<Rightarrow> int" where
  "let_through [] s = 0"
| "let_through ((c, r) # xs) s =
     (case secureEnroll c r s of (resp, s') \<Rightarrow>
        (if resp = writeError 429 ''enrollment temporarily rate limited'' then 0 else 1) + let_through xs s')"

lemma secureEnroll_limiter:
  assumes "secureEnroll c r s = (resp, s')" "sv_owner s \<noteq> None" "allowSecureEnrollment (c_now c) s = (b, t)"
  shows "sv_window s' = sv_window t \<and> sv_attempts s' = sv_attempts t \<and> sv_owner s' = sv_owner t
    \<and> (\<not> b \<longrightarrow> resp = writeError 429 ''enrollment temporarily rate limited'')"
  using assms by (auto simp: secureEnroll_def Let_def split: if_splits option.splits prod.splits sum.splits)

lemma allow_cases:
  assumes "allowSecureEnrollment now s = (b, t)" "0 < now"
  defines "fresh \<equiv> IsZero (sv_window s) \<or> time_sub now (sv_window s) \<ge> Minute \<or> now < sv_window s"
  shows "sv_owner t = sv_owner s \<and> sv_window t = (if fresh then now else sv_window s)
    \<and> (if fresh then b \<and> sv_attempts t = 1
       else if sv_attempts s \<ge> 120 then \<not> b \<and> sv_attempts t = sv_attempts s else b \<and> sv_attempts t = sv_attempts s + 1)"
  using assms by (auto simp: allowSecureEnrollment_def Let_def secureEnrollmentAttemptsPerMinute_def split: if_splits)

text \<open>Inside one window of the limiter, and over any span of less than a minute.\<close>

lemma one_window:
  assumes "sv_owner s \<noteq> None" "0 < sv_window s" "0 \<le> sv_attempts s" "sv_attempts s \<le> 120"
    "\<forall>(c, r) \<in> set xs. sv_window s \<le> c_now c \<and> c_now c < sv_window s + Minute"
  shows "let_through xs s \<le> 120 - sv_attempts s"
  using assms
proof (induction xs arbitrary: s)
  case (Cons x xs)
  obtain c r where x: "x = (c, r)" by (cases x)
  obtain resp s' where e: "secureEnroll c r s = (resp, s')" by fastforce
  obtain b t where a: "allowSecureEnrollment (c_now c) s = (b, t)" by fastforce
  have near: "sv_window s \<le> c_now c" "c_now c - sv_window s < Minute" using Cons.prems(5) x by auto
  then have "time_sub (c_now c) (sv_window s) < Minute"
    by (auto simp: time_sub_def dur_min_def dur_max_def duration_units)
  with near Cons.prems(2) have t: "sv_window t = sv_window s" "sv_owner t = sv_owner s"
    "if sv_attempts s \<ge> 120 then \<not> b \<and> sv_attempts t = sv_attempts s else b \<and> sv_attempts t = sv_attempts s + 1"
    using allow_cases [OF a] by (auto simp: IsZero_def)
  note s' = secureEnroll_limiter [OF e Cons.prems(1) a]
  have "let_through xs s' \<le> 120 - sv_attempts s'"
    using Cons.prems t s' by (intro Cons.IH) (auto split: if_splits)
  then show ?case using e s' t(3) x by (auto split: if_splits)
qed simp

lemma short_span:
  assumes "sv_owner s \<noteq> None" "0 \<le> sv_attempts s" "sv_attempts s \<le> 120" "0 < t0" "sorted (map (c_now \<circ> fst) xs)"
    "\<forall>(c, r) \<in> set xs. t0 \<le> c_now c \<and> c_now c < t0 + Minute"
  shows "let_through xs s \<le> 240 - sv_attempts s"
  using assms
proof (induction xs arbitrary: s)
  case (Cons x xs)
  obtain c r where x: "x = (c, r)" by (cases x)
  obtain resp s' where e: "secureEnroll c r s = (resp, s')" by fastforce
  obtain b t where a: "allowSecureEnrollment (c_now c) s = (b, t)" by fastforce
  have now: "0 < c_now c" "t0 \<le> c_now c" using Cons.prems(4,6) x by auto
  note s' = secureEnroll_limiter [OF e Cons.prems(1) a]
  note t = allow_cases [OF a now(1)]
  show ?case
  proof (cases "IsZero (sv_window s) \<or> time_sub (c_now c) (sv_window s) \<ge> Minute \<or> c_now c < sv_window s")
    case True
    then have w: "sv_window s' = c_now c" "sv_attempts s' = 1" "sv_owner s' \<noteq> None" using t s' Cons.prems(1) by auto
    have "let_through xs s' \<le> 120 - sv_attempts s'"
      using w now Cons.prems(5,6) x by (intro one_window) fastforce+
    then show ?thesis using e w Cons.prems(2,3) x by auto
  next
    case False
    then have w: "sv_owner s' \<noteq> None" "if sv_attempts s \<ge> 120 then \<not> b \<and> sv_attempts s' = sv_attempts s
        else b \<and> sv_attempts s' = sv_attempts s + 1" using t s' Cons.prems(1) by auto
    have "let_through xs s' \<le> 240 - sv_attempts s'"
      using w Cons.prems by (intro Cons.IH) (auto split: if_splits)
    then show ?thesis using e s' w(2) x by (auto split: if_splits)
  qed
qed simp



end
