(* ===== verification/ProviderControls.thy ===== *)
theory ProviderControls
  imports GoStrings "HOL-Library.Word"
begin

text \<open>
  \<^verbatim>\<open>agent/provider_controls.go\<close>: the owner's resource controls and the admission of
  marketplace work. \<open>ProviderMode\<close> and \<open>LocalReturnBehavior\<close> are Go string types, so any string
  is a value of them; byte counts are 64-bit words; \<open>q\<close> stands for \<open>strconv.Quote\<close>, which the
  error texts apply to a rejected string.
\<close>

section \<open>Data\<close>

definition ProviderModeNormal :: string where "ProviderModeNormal = ''normal''"
definition ProviderModeAway :: string where "ProviderModeAway = ''away''"
definition ProviderModeMaximumEarnings :: string where "ProviderModeMaximumEarnings = ''maximum-earnings''"

definition LocalReturnStopNewWork :: string where "LocalReturnStopNewWork = ''stop-new-work''"
definition LocalReturnContinue :: string where "LocalReturnContinue = ''continue''"

record ProviderResourceControls =
  MaxGPUPercent :: int
  MaxVRAMBytes :: "64 word"
  MaxRAMBytes :: "64 word"
  MaxCPUPercent :: int
  AllowedStartHour :: int
  AllowedEndHour :: int
  ManualPause :: bool
  ctl_Mode :: string
  ctl_LocalReturnBehavior :: string

record ProviderWorkloadResources =
  GPUPercent :: int
  VRAMBytes :: "64 word"
  RAMBytes :: "64 word"
  CPUPercent :: int

record ProviderResourceDecision =
  Allowed :: bool
  Limitations :: "string list"

section \<open>Validation and limits\<close>

definition ValidateProviderResourceControls :: "(string \<Rightarrow> string) \<Rightarrow> ProviderResourceControls \<Rightarrow> string + unit" where
  "ValidateProviderResourceControls q controls =
     (if MaxGPUPercent controls < 0 \<or> MaxGPUPercent controls > 100
      then Inl ''max GPU percent must be between 0 and 100''
      else if MaxCPUPercent controls < 0 \<or> MaxCPUPercent controls > 100
      then Inl ''max CPU percent must be between 0 and 100''
      else if AllowedStartHour controls < 0 \<or> AllowedStartHour controls > 23
      then Inl ''allowed start hour must be between 0 and 23''
      else if AllowedEndHour controls < 0 \<or> AllowedEndHour controls > 23
      then Inl ''allowed end hour must be between 0 and 23''
      else if ctl_Mode controls \<notin> {ProviderModeNormal, ProviderModeAway, ProviderModeMaximumEarnings}
      then Inl (''unsupported provider mode '' @ q (ctl_Mode controls))
      else if ctl_LocalReturnBehavior controls \<notin> {LocalReturnStopNewWork, LocalReturnContinue}
      then Inl (''unsupported local-return behavior '' @ q (ctl_LocalReturnBehavior controls))
      else Inr ())"

definition EvaluateProviderResourceRequest ::
    "ProviderResourceControls \<Rightarrow> ProviderWorkloadResources \<Rightarrow> ProviderResourceDecision" where
  "EvaluateProviderResourceRequest controls request =
     (let limitations =
            (if GPUPercent request < 0 \<or> GPUPercent request > 100 then [''requested GPU percent is outside 0-100'']
             else if GPUPercent request > MaxGPUPercent controls then [''requested GPU exceeds provider limit''] else [])
          @ (if VRAMBytes request > MaxVRAMBytes controls then [''requested VRAM exceeds provider limit''] else [])
          @ (if RAMBytes request > MaxRAMBytes controls then [''requested RAM exceeds provider limit''] else [])
          @ (if CPUPercent request < 0 \<or> CPUPercent request > 100 then [''requested CPU percent is outside 0-100'']
             else if CPUPercent request > MaxCPUPercent controls then [''requested CPU exceeds provider limit''] else [])
      in \<lparr>Allowed = (length limitations = 0), Limitations = limitations\<rparr>)"

definition refuse :: "string \<Rightarrow> ProviderResourceDecision" where
  "refuse reason = \<lparr>Allowed = False, Limitations = [reason]\<rparr>"

definition EvaluateProviderNewWork ::
    "(string \<Rightarrow> string) \<Rightarrow> ProviderResourceControls \<Rightarrow> ProviderWorkloadResources \<Rightarrow> ProviderResourceDecision" where
  "EvaluateProviderNewWork q controls request =
     (case ValidateProviderResourceControls q controls of
        Inl err \<Rightarrow> refuse (''invalid provider controls: '' @ err)
      | Inr _ \<Rightarrow>
          if ManualPause controls then refuse ''provider sharing is manually paused''
          else EvaluateProviderResourceRequest controls request)"

section \<open>The sharing schedule and local activity\<close>

definition IsProviderHourAllowed :: "ProviderResourceControls \<Rightarrow> int \<Rightarrow> bool" where
  "IsProviderHourAllowed controls localHour =
     (if localHour < 0 \<or> localHour > 23 then False
      else let start = AllowedStartHour controls; until = AllowedEndHour controls
      in if start = until then True
         else if start < until then localHour \<ge> start \<and> localHour < until
         else localHour \<ge> start \<or> localHour < until)"

definition EvaluateProviderNewWorkAtHour ::
    "(string \<Rightarrow> string) \<Rightarrow> ProviderResourceControls \<Rightarrow> ProviderWorkloadResources \<Rightarrow> int \<Rightarrow> ProviderResourceDecision" where
  "EvaluateProviderNewWorkAtHour q controls request localHour =
     (if \<not> IsProviderHourAllowed controls localHour then refuse ''outside provider allowed hours''
      else EvaluateProviderNewWork q controls request)"

definition EvaluateProviderNewWorkWithActivity ::
    "(string \<Rightarrow> string) \<Rightarrow> ProviderResourceControls \<Rightarrow> ProviderWorkloadResources \<Rightarrow> int \<Rightarrow> bool
     \<Rightarrow> ProviderResourceDecision" where
  "EvaluateProviderNewWorkWithActivity q controls request localHour localUserActive =
     (if localUserActive \<and> ctl_LocalReturnBehavior controls = LocalReturnStopNewWork
      then refuse ''local user active; provider configured to stop new work''
      else EvaluateProviderNewWorkAtHour q controls request localHour)"

datatype ActiveProviderWorkAction = ActiveProviderWorkContinue | ActiveProviderWorkTerminate

definition EvaluateActiveProviderWork :: "bool \<Rightarrow> bool \<Rightarrow> ActiveProviderWorkAction" where
  "EvaluateActiveProviderWork safetyTerminationRequired terminationExplicitlyAllowed =
     (if safetyTerminationRequired \<or> terminationExplicitlyAllowed then ActiveProviderWorkTerminate
      else ActiveProviderWorkContinue)"

section \<open>What admission means\<close>

definition valid_controls :: "ProviderResourceControls \<Rightarrow> bool" where
  "valid_controls c \<longleftrightarrow> MaxGPUPercent c \<in> {0..100} \<and> MaxCPUPercent c \<in> {0..100}
     \<and> AllowedStartHour c \<in> {0..23} \<and> AllowedEndHour c \<in> {0..23}
     \<and> ctl_Mode c \<in> {ProviderModeNormal, ProviderModeAway, ProviderModeMaximumEarnings}
     \<and> ctl_LocalReturnBehavior c \<in> {LocalReturnStopNewWork, LocalReturnContinue}"

lemma validate_iff: "ValidateProviderResourceControls q c = Inr () \<longleftrightarrow> valid_controls c"
  unfolding ValidateProviderResourceControls_def valid_controls_def by (auto split: if_splits)

definition within :: "ProviderWorkloadResources \<Rightarrow> ProviderResourceControls \<Rightarrow> bool" where
  "within r c \<longleftrightarrow> 0 \<le> GPUPercent r \<and> GPUPercent r \<le> min 100 (MaxGPUPercent c) \<and> VRAMBytes r \<le> MaxVRAMBytes c
     \<and> RAMBytes r \<le> MaxRAMBytes c \<and> 0 \<le> CPUPercent r \<and> CPUPercent r \<le> min 100 (MaxCPUPercent c)"

lemma request_allowed_iff: "Allowed (EvaluateProviderResourceRequest c r) \<longleftrightarrow> within r c"
  by (auto simp: EvaluateProviderResourceRequest_def within_def Let_def not_le not_less)

lemma new_work_allowed_iff:
  "Allowed (EvaluateProviderNewWork q c r) \<longleftrightarrow> valid_controls c \<and> \<not> ManualPause c \<and> within r c"
  using validate_iff [of q c] request_allowed_iff [of c r]
  by (auto simp: EvaluateProviderNewWork_def refuse_def split: sum.splits)

text \<open>The sharing window on the 24-hour circle: its length, and how far the hour lies past its start.\<close>

definition window_length :: "ProviderResourceControls \<Rightarrow> int" where
  "window_length c = (if AllowedStartHour c = AllowedEndHour c then 24
     else (AllowedEndHour c - AllowedStartHour c) mod 24)"

definition in_window :: "ProviderResourceControls \<Rightarrow> int \<Rightarrow> bool" where
  "in_window c h \<longleftrightarrow> 0 \<le> h \<and> h < 24 \<and> (h - AllowedStartHour c) mod 24 < window_length c"

lemma mod24: "- 24 < (x :: int) \<Longrightarrow> x < 24 \<Longrightarrow> x mod 24 = (if 0 \<le> x then x else x + 24)"
  by presburger

lemma hour_allowed_iff:
  assumes "AllowedStartHour c \<in> {0..23}" "AllowedEndHour c \<in> {0..23}"
  shows "IsProviderHourAllowed c h \<longleftrightarrow> in_window c h"
proof (cases "0 \<le> h \<and> h < 24")
  case True
  then show ?thesis using assms
    by (auto simp: IsProviderHourAllowed_def in_window_def window_length_def Let_def mod24 split: if_splits)
qed (auto simp: IsProviderHourAllowed_def in_window_def)

lemma reasons_request: "Allowed (EvaluateProviderResourceRequest c r) \<longleftrightarrow> Limitations (EvaluateProviderResourceRequest c r) = []"
  by (simp add: EvaluateProviderResourceRequest_def Let_def)

lemma reasons_refuse [simp]: "\<not> Allowed (refuse x)" "Limitations (refuse x) = [x]"
  by (simp_all add: refuse_def)

lemma reasons_new_work: "Allowed (EvaluateProviderNewWork q c r) \<longleftrightarrow> Limitations (EvaluateProviderNewWork q c r) = []"
  by (simp add: EvaluateProviderNewWork_def reasons_request split: sum.split)


end
