(* ===== verification/GoURL.thy ===== *)
theory GoURL
  imports GoStrings GoEncoding
begin

text \<open>
  The parts of Go's \<open>net/url\<close> and \<open>net/netip\<close> the agent uses: \<open>url.Parse\<close>,
  \<open>url.ParseRequestURI\<close>, \<open>Hostname\<close>, \<open>Port\<close>, \<open>net.ParseIP\<close> and \<open>IP.IsLoopback\<close> (Go 1.24, the
  version the module names). \<open>None\<close> is any parse error: the code never looks at which.
\<close>

section \<open>Bytes and cuts\<close>

definition code_of :: "char \<Rightarrow> nat" where "code_of c = of_char c"

definition is_alpha :: "char \<Rightarrow> bool" where
  "is_alpha c \<longleftrightarrow> (65 \<le> code_of c \<and> code_of c \<le> 90) \<or> (97 \<le> code_of c \<and> code_of c \<le> 122)"

text \<open>Cut at the last occurrence of a byte (\<open>strings.LastIndex\<close>).\<close>

fun cut_last :: "char \<Rightarrow> string \<Rightarrow> (string \<times> string) option" where
  "cut_last c [] = None"
| "cut_last c (x # xs) =
     (case cut_last c xs of
        Some (a, b) \<Rightarrow> Some (x # a, b)
      | None \<Rightarrow> if x = c then Some ([], xs) else None)"

text \<open>Cut before the first occurrence of a text (\<open>strings.Index\<close>).\<close>

fun cut_before :: "string \<Rightarrow> string \<Rightarrow> (string \<times> string) option" where
  "cut_before t [] = (if t = [] then Some ([], []) else None)"
| "cut_before t (x # xs) =
     (if prefix t (x # xs) then Some ([], x # xs)
      else map_option (\<lambda>(a, b). (x # a, b)) (cut_before t xs))"

section \<open>Escapes\<close>

datatype encoding = EncodePath | EncodeUser | EncodeHost | EncodeZone | EncodeFragment

text \<open>\<open>shouldEscape\<close> in the two host modes: the ASCII bytes that may stand in a host.\<close>

definition host_byte :: "char \<Rightarrow> bool" where
  "host_byte c \<longleftrightarrow> is_alpha c \<or> is_digit c \<or> c \<in> set ''-_.~!$&()*+,;=:[]<>'' \<or> c = CHR 0x27 \<or> c = CHR 0x22"

definition is_host :: "encoding \<Rightarrow> bool" where
  "is_host mode \<longleftrightarrow> mode = EncodeHost \<or> mode = EncodeZone"

fun unescape :: "encoding \<Rightarrow> string \<Rightarrow> string option" where
  "unescape mode [] = Some []"
| "unescape mode (c # cs) =
     (if c = CHR ''%''
      then (case cs of
              h # l # rest \<Rightarrow>
                (case (hex_val h, hex_val l) of
                   (Some a, Some b) \<Rightarrow>
                     let v = char_of (16 * a + b)
                     in if mode = EncodeHost \<and> a < 8 \<and> \<not> (h = CHR ''2'' \<and> l = CHR ''5'') then None
                        else if mode = EncodeZone \<and> \<not> (h = CHR ''2'' \<and> l = CHR ''5'') \<and> v \<noteq> CHR '' '' \<and> \<not> host_byte v
                        then None
                        else map_option (\<lambda>r. v # r) (unescape mode rest)
                 | _ \<Rightarrow> None)
            | _ \<Rightarrow> None)
      else if is_host mode \<and> ascii_byte c \<and> \<not> host_byte c then None
      else map_option (\<lambda>r. c # r) (unescape mode cs))"

section \<open>URLs\<close>

record url =
  u_Scheme :: string
  u_Opaque :: string
  u_User :: "string option"
  u_Host :: string
  u_Path :: string
  u_ForceQuery :: bool
  u_RawQuery :: string
  u_Fragment :: string

definition empty_url :: url where
  "empty_url = \<lparr>u_Scheme = [], u_Opaque = [], u_User = None, u_Host = [], u_Path = [], u_ForceQuery = False,
     u_RawQuery = [], u_Fragment = []\<rparr>"

text \<open>\<open>getScheme\<close>: \<open>None\<close> when the text starts with a colon; a text without a scheme is all rest.\<close>

definition getScheme :: "string \<Rightarrow> (string \<times> string) option" where
  "getScheme raw =
     (let s = takeWhile (\<lambda>c. is_alpha c \<or> is_digit c \<or> c \<in> set ''+-.'') raw;
          rest = dropWhile (\<lambda>c. is_alpha c \<or> is_digit c \<or> c \<in> set ''+-.'') raw
      in case raw of
           [] \<Rightarrow> Some ([], [])
         | c # _ \<Rightarrow>
             if c = CHR '':'' then None
             else if \<not> is_alpha c then Some ([], raw)
             else (case rest of
                     d # after \<Rightarrow> if d = CHR '':'' then Some (s, after) else Some ([], raw)
                   | [] \<Rightarrow> Some ([], raw)))"

definition validOptionalPort :: "string \<Rightarrow> bool" where
  "validOptionalPort port = (case port of [] \<Rightarrow> True | c # ds \<Rightarrow> c = CHR '':'' \<and> list_all is_digit ds)"

definition bind3 :: "string option \<Rightarrow> string option \<Rightarrow> string option \<Rightarrow> string option" where
  "bind3 a b c = (case (a, b, c) of (Some x, Some y, Some z) \<Rightarrow> Some (x @ y @ z) | _ \<Rightarrow> None)"

definition parseHost :: "string \<Rightarrow> string option" where
  "parseHost host =
     (if HasPrefix host ''[''
      then (case cut_last (CHR '']'') host of
              None \<Rightarrow> None
            | Some (inside, colonPort) \<Rightarrow>
                if \<not> validOptionalPort colonPort then None
                else (case cut_before ''%25'' inside of
                        Some (a, z) \<Rightarrow> bind3 (unescape EncodeHost a) (unescape EncodeZone z)
                                           (unescape EncodeHost (CHR '']'' # colonPort))
                      | None \<Rightarrow> unescape EncodeHost host))
      else (case cut_last (CHR '':'') host of
              Some (_, port) \<Rightarrow> if list_all is_digit port then unescape EncodeHost host else None
            | None \<Rightarrow> unescape EncodeHost host))"

definition validUserinfo :: "string \<Rightarrow> bool" where
  "validUserinfo s \<longleftrightarrow>
     list_all (\<lambda>c. is_alpha c \<or> is_digit c \<or> c \<in> set ''-._:~!$&()*+,;=%@'' \<or> c = CHR 0x27) s"

definition parseAuthority :: "string \<Rightarrow> (string option \<times> string) option" where
  "parseAuthority authority =
     (case cut_last (CHR ''@'') authority of
        None \<Rightarrow> map_option (\<lambda>h. (None, h)) (parseHost authority)
      | Some (userinfo, h) \<Rightarrow>
          (case parseHost h of
             None \<Rightarrow> None
           | Some host \<Rightarrow>
               if \<not> validUserinfo userinfo \<or> unescape EncodeUser userinfo = None then None
               else Some (Some userinfo, host)))"

definition set_path :: "url \<Rightarrow> string \<Rightarrow> url option" where
  "set_path u p = map_option (\<lambda>q. u\<lparr>u_Path := q\<rparr>) (unescape EncodePath p)"

definition control_byte :: "char \<Rightarrow> bool" where
  "control_byte c \<longleftrightarrow> code_of c < 32 \<or> code_of c = 127"

text \<open>\<open>rest\<close> split at its first question mark; a single trailing one is only remembered.\<close>

definition cut_query :: "string \<Rightarrow> string \<times> bool \<times> string" where
  "cut_query rest =
     (case Cut (CHR ''?'') rest of
        None \<Rightarrow> (rest, False, [])
      | Some (a, q) \<Rightarrow> (a, q = [], q))"

definition parse :: "string \<Rightarrow> bool \<Rightarrow> url option" where
  "parse raw viaRequest =
     (if list_ex control_byte raw then None
      else if raw = [] \<and> viaRequest then None
      else if raw = ''*'' then Some (empty_url\<lparr>u_Path := ''*''\<rparr>)
      else (case getScheme raw of
              None \<Rightarrow> None
            | Some (scheme, rest0) \<Rightarrow>
                let (rest, force, query) = cut_query rest0;
                    u = empty_url\<lparr>u_Scheme := map lower_char scheme, u_ForceQuery := force, u_RawQuery := query\<rparr>
                in if \<not> HasPrefix rest ''/'' \<and> scheme \<noteq> [] then Some (u\<lparr>u_Opaque := rest\<rparr>)
                   else if \<not> HasPrefix rest ''/'' \<and> (viaRequest \<or> CHR '':'' \<in> set (hd (Split (CHR ''/'') rest))) then None
                   else if (scheme \<noteq> [] \<or> \<not> viaRequest \<and> \<not> HasPrefix rest ''///'') \<and> HasPrefix rest ''//''
                   then let authority = takeWhile (\<lambda>c. c \<noteq> CHR ''/'') (drop 2 rest);
                            path = dropWhile (\<lambda>c. c \<noteq> CHR ''/'') (drop 2 rest)
                        in (case parseAuthority authority of
                              None \<Rightarrow> None
                            | Some (user, host) \<Rightarrow> set_path (u\<lparr>u_User := user, u_Host := host\<rparr>) path)
                   else set_path u rest))"

definition ParseRequestURI :: "string \<Rightarrow> url option" where
  "ParseRequestURI raw = parse raw True"

definition Parse :: "string \<Rightarrow> url option" where
  "Parse raw =
     (let (u, frag) = (case Cut (CHR ''#'') raw of None \<Rightarrow> (raw, []) | Some (a, f) \<Rightarrow> (a, f))
      in case parse u False of
           None \<Rightarrow> None
         | Some v \<Rightarrow> if frag = [] then Some v
                     else map_option (\<lambda>f. v\<lparr>u_Fragment := f\<rparr>) (unescape EncodeFragment frag))"

definition splitHostPort :: "string \<Rightarrow> string \<times> string" where
  "splitHostPort hostPort =
     (let (host, port) = (case cut_last (CHR '':'') hostPort of
            Some (a, b) \<Rightarrow> if list_all is_digit b then (a, b) else (hostPort, [])
          | None \<Rightarrow> (hostPort, []))
      in if HasPrefix host ''['' \<and> HasSuffix host '']'' then (butlast (tl host), port) else (host, port))"

definition Hostname :: "url \<Rightarrow> string" where "Hostname u = fst (splitHostPort (u_Host u))"
definition Port :: "url \<Rightarrow> string" where "Port u = snd (splitHostPort (u_Host u))"

section \<open>Addresses\<close>

text \<open>One octet of a dotted address: no leading zero, at most 255.\<close>

definition octet :: "string \<Rightarrow> nat option" where
  "octet s = (if s \<noteq> [] \<and> list_all is_digit s \<and> (length s = 1 \<or> hd s \<noteq> CHR ''0'') \<and> digits_val s \<le> 255
              then Some (nat (digits_val s)) else None)"

definition parseIPv4 :: "string \<Rightarrow> nat list option" where
  "parseIPv4 s = (case map octet (Split (CHR ''.'') s) of
      [Some a, Some b, Some c, Some d] \<Rightarrow> Some [a, b, c, d] | _ \<Rightarrow> None)"

text \<open>The leading hexadecimal digits of a text as a group of at most four, with what follows.\<close>

definition hex_group :: "string \<Rightarrow> (nat \<times> string) option" where
  "hex_group s =
     (let ds = takeWhile (\<lambda>c. hex_val c \<noteq> None) s
      in if ds = [] \<or> length ds > 4 then None
         else Some (foldl (\<lambda>n c. 16 * n + the (hex_val c)) 0 ds, drop (length ds) s))"

text \<open>The loop of \<open>parseIPv6\<close>: the remaining text, the bytes so far, and how many of them stood
  before the omission. It returns with the text used up or not at all.\<close>

function ipv6_loop :: "string \<Rightarrow> nat list \<Rightarrow> nat option \<Rightarrow> (nat list \<times> nat option) option" where
  "ipv6_loop s bytes ellipsis =
     (if length bytes \<ge> 16 then None
      else (case hex_group s of
              None \<Rightarrow> None
            | Some (v, rest) \<Rightarrow>
                if HasPrefix rest ''.''
                then if (ellipsis = None \<and> length bytes \<noteq> 12) \<or> length bytes + 4 > 16 then None
                     else map_option (\<lambda>q. (bytes @ q, ellipsis)) (parseIPv4 s)
                else let bytes' = bytes @ [v div 256, v mod 256]
                     in (case rest of
                           [] \<Rightarrow> Some (bytes', ellipsis)
                         | c # t \<Rightarrow>
                             if c \<noteq> CHR '':'' \<or> t = [] then None
                             else if hd t = CHR '':''
                             then if ellipsis \<noteq> None then None
                                  else if tl t = [] then Some (bytes', Some (length bytes'))
                                  else ipv6_loop (tl t) bytes' (Some (length bytes'))
                             else ipv6_loop t bytes' ellipsis)))"
  by pat_completeness auto
termination
proof (relation "measure (\<lambda>(s, bytes, e). 16 - length bytes)")
qed auto

declare ipv6_loop.simps [simp del]

definition expand :: "nat list \<times> nat option \<Rightarrow> nat list option" where
  "expand r =
     (case r of (bytes, ellipsis) \<Rightarrow>
        if length bytes < 16
        then (case ellipsis of None \<Rightarrow> None
              | Some e \<Rightarrow> Some (take e bytes @ replicate (16 - length bytes) 0 @ drop e bytes))
        else if ellipsis \<noteq> None then None else Some bytes)"

text \<open>A text with a zone (a percent sign) is no \<open>net.IP\<close>.\<close>

definition parseIPv6 :: "string \<Rightarrow> nat list option" where
  "parseIPv6 s =
     (if CHR ''%'' \<in> set s then None
      else if HasPrefix s ''::''
      then if s = ''::'' then Some (replicate 16 0)
           else (case ipv6_loop (drop 2 s) [] (Some 0) of None \<Rightarrow> None | Some r \<Rightarrow> expand r)
      else (case ipv6_loop s [] None of None \<Rightarrow> None | Some r \<Rightarrow> expand r))"

text \<open>The 16 bytes of \<open>net.IP\<close>; the first of a dot, a colon and a percent sign decides the form.\<close>

definition ParseIP :: "string \<Rightarrow> nat list option" where
  "ParseIP s =
     (case dropWhile (\<lambda>c. c \<notin> set ''.:%'') s of
        [] \<Rightarrow> None
      | c # _ \<Rightarrow> if c = CHR ''.'' then map_option (\<lambda>q. replicate 10 0 @ [255, 255] @ q) (parseIPv4 s)
                 else if c = CHR '':'' then parseIPv6 s else None)"

definition IsLoopback :: "nat list \<Rightarrow> bool" where
  "IsLoopback ip =
     (if take 12 ip = replicate 10 0 @ [255, 255] then ip ! 12 = 127 else ip = replicate 15 0 @ [1])"
section \<open>The shape of a URL with a scheme and a host\<close>

definition scheme_byte :: "char \<Rightarrow> bool" where
  "scheme_byte c \<longleftrightarrow> is_alpha c \<or> is_digit c \<or> c \<in> set ''+-.''"

definition scheme_ok :: "string \<Rightarrow> bool" where
  "scheme_ok s \<longleftrightarrow> s \<noteq> [] \<and> is_alpha (hd s) \<and> list_all scheme_byte s"

lemma colon_no_scheme: "\<not> scheme_byte (CHR '':'')" "\<not> is_alpha (CHR '':'')"
  by (simp_all add: scheme_byte_def is_alpha_def is_digit_def code_of_def)

lemma getScheme_alt:
  "getScheme raw =
     (case raw of [] \<Rightarrow> Some ([], [])
      | c # _ \<Rightarrow> if c = CHR '':'' then None
                 else if \<not> is_alpha c then Some ([], raw)
                 else (case dropWhile scheme_byte raw of
                         d # after \<Rightarrow> if d = CHR '':'' then Some (takeWhile scheme_byte raw, after) else Some ([], raw)
                       | [] \<Rightarrow> Some ([], raw)))"
proof -
  have "(\<lambda>c. is_alpha c \<or> is_digit c \<or> c \<in> set ''+-.'') = scheme_byte" by (simp add: scheme_byte_def fun_eq_iff)
  then show ?thesis by (simp only: getScheme_def Let_def)
qed

lemma getScheme_compose:
  assumes "scheme_ok s"
  shows "getScheme (s @ CHR '':'' # r) = Some (s, r)"
proof -
  obtain c cs where s: "s = c # cs" using assms by (cases s) (auto simp: scheme_ok_def)
  have a: "is_alpha c" "c \<noteq> CHR '':''" using assms s colon_no_scheme by (auto simp: scheme_ok_def)
  have b: "\<forall>x \<in> set s. scheme_byte x" using assms by (auto simp: scheme_ok_def list_all_iff)
  have "takeWhile scheme_byte (s @ CHR '':'' # r) = s" "dropWhile scheme_byte (s @ CHR '':'' # r) = CHR '':'' # r"
    using b colon_no_scheme by (simp_all add: takeWhile_append2 dropWhile_append2)
  then show ?thesis using a s by (simp add: getScheme_alt)
qed

lemma getScheme_split:
  assumes "getScheme raw = Some (s, r)" "s \<noteq> []"
  shows "scheme_ok s \<and> raw = s @ CHR '':'' # r"
proof -
  obtain c cs where raw: "raw = c # cs" using assms by (cases raw) (auto simp: getScheme_alt)
  then obtain d where al: "is_alpha c" and d: "dropWhile scheme_byte raw = CHR '':'' # r" and s: "s = takeWhile scheme_byte raw"
    using assms by (auto simp: getScheme_alt split: if_splits list.splits)
  have "raw = s @ CHR '':'' # r" using takeWhile_dropWhile_id [of scheme_byte raw] d s by simp
  moreover have "hd s = c" using raw s assms(2) by (simp split: if_splits)
  moreover have "list_all scheme_byte s" using s set_takeWhileD by (fastforce simp: list_all_iff)
  ultimately show ?thesis using al assms(2) by (auto simp: scheme_ok_def)
qed

lemma Cut_None: "Cut c s = None \<longleftrightarrow> c \<notin> set s"
  by (simp add: Cut_def)

lemma until:
  assumes "x \<notin> set a" "b = [] \<or> hd b = x"
  shows "takeWhile (\<lambda>c. c \<noteq> x) (a @ b) = a" "dropWhile (\<lambda>c. c \<noteq> x) (a @ b) = b"
proof -
  have b: "takeWhile (\<lambda>c. c \<noteq> x) b = [] \<and> dropWhile (\<lambda>c. c \<noteq> x) b = b" using assms(2) by (cases b) auto
  have a: "\<And>y. y \<in> set a \<Longrightarrow> y \<noteq> x" using assms(1) by auto
  show "takeWhile (\<lambda>c. c \<noteq> x) (a @ b) = a" using b takeWhile_append2 [of a "\<lambda>c. c \<noteq> x" b] a by simp
  show "dropWhile (\<lambda>c. c \<noteq> x) (a @ b) = b" using b dropWhile_append2 [of a "\<lambda>c. c \<noteq> x" b] a by simp
qed

lemma Cut_app: "c \<notin> set a \<Longrightarrow> Cut c (a @ c # b) = Some (a, b)"
  using until [of c a "c # b"] by (simp add: Cut_def)

definition query_part :: "url \<Rightarrow> string" where
  "query_part u = (if u_ForceQuery u \<or> u_RawQuery u \<noteq> [] then CHR ''?'' # u_RawQuery u else [])"

lemma cut_query_split:
  "cut_query s = (r, f, q) \<Longrightarrow> CHR ''?'' \<notin> set r \<and> s = r @ (if f \<or> q \<noteq> [] then CHR ''?'' # q else []) \<and> (f \<longrightarrow> q = [])"
  using Cut_Some [of "CHR ''?''" s] by (auto simp: cut_query_def Cut_None split: option.splits)

lemma cut_query_compose: "CHR ''?'' \<notin> set r \<Longrightarrow> cut_query r = (r, False, [])"
  by (simp add: cut_query_def Cut_def)

definition base_form :: "string \<Rightarrow> string \<Rightarrow> string \<Rightarrow> bool" where
  "base_form sch auth path \<longleftrightarrow> scheme_ok sch \<and> CHR ''/'' \<notin> set auth \<and> CHR ''?'' \<notin> set auth \<and> CHR ''?'' \<notin> set path
     \<and> (path = [] \<or> hd path = CHR ''/'')"

lemma parse_shape:
  assumes "parse s v = Some u" "u_Host u \<noteq> []" "u_Scheme u \<noteq> []"
  obtains sch auth path where "s = sch @ ''://'' @ auth @ path @ query_part u" "base_form sch auth path"
    "parseAuthority auth = Some (u_User u, u_Host u)" "unescape EncodePath path = Some (u_Path u)"
    "map lower_char sch = u_Scheme u" "\<not> list_ex control_byte s" "u_Fragment u = []"
proof -
  have s: "s \<noteq> ''*''" "\<not> list_ex control_byte s" using assms by (auto simp: parse_def empty_url_def split: if_splits)
  then obtain sch rest0 where g: "getScheme s = Some (sch, rest0)"
    using assms by (auto simp: parse_def split: if_splits option.splits)
  obtain r f q where c: "cut_query rest0 = (r, f, q)" by (cases "cut_query rest0") auto
  have sch: "sch \<noteq> []"
    using assms(1,3) s g c by (auto simp: parse_def empty_url_def set_path_def Let_def split: if_splits option.splits)
  have p: "HasPrefix r ''//''"
    using assms(1,2) s g c sch by (auto simp: parse_def empty_url_def set_path_def Let_def split: if_splits)
  then obtain t where r: "r = ''//'' @ t" by (auto simp: HasPrefix_def prefix_def)
  let ?auth = "takeWhile (\<lambda>c. c \<noteq> CHR ''/'') t" and ?path = "dropWhile (\<lambda>c. c \<noteq> CHR ''/'') t"
  have u: "parseAuthority ?auth = Some (u_User u, u_Host u)" "unescape EncodePath ?path = Some (u_Path u)"
    "u_ForceQuery u = f" "u_RawQuery u = q" "map lower_char sch = u_Scheme u" "u_Fragment u = []"
    using assms(1) s g c sch r
    by (auto simp: parse_def empty_url_def set_path_def Let_def HasPrefix_def prefix_def split: if_splits option.splits)
  have "CHR ''?'' \<notin> set r" "rest0 = r @ query_part u"
    using cut_query_split [OF c] u(3,4) by (auto simp: query_part_def)
  moreover have "set t = set ?auth \<union> set ?path" using takeWhile_dropWhile_id [of "\<lambda>c. c \<noteq> CHR ''/''" t] set_append by metis
  moreover have "?path = [] \<or> hd ?path = CHR ''/''" using hd_dropWhile [of "\<lambda>c. c \<noteq> CHR ''/''" t] by auto
  moreover have "CHR ''/'' \<notin> set ?auth" by (auto dest: set_takeWhileD)
  moreover note getScheme_split [OF g sch]
  ultimately have "s = sch @ ''://'' @ ?auth @ ?path @ query_part u" "base_form sch ?auth ?path"
    using r by (auto simp: base_form_def)
  then show thesis using that u s(2) by blast
qed

lemma parse_compose:
  assumes "base_form sch auth path" "\<not> list_ex control_byte (sch @ ''://'' @ auth @ path)"
    "parseAuthority auth = Some (user, host)" "unescape EncodePath path = Some p"
  shows "parse (sch @ ''://'' @ auth @ path) v =
    Some (empty_url\<lparr>u_Scheme := map lower_char sch, u_User := user, u_Host := host, u_Path := p\<rparr>)"
proof -
  let ?s = "sch @ ''://'' @ auth @ path"
  have g: "getScheme ?s = Some (sch, ''//'' @ auth @ path)"
    using getScheme_compose [of sch "''//'' @ auth @ path"] assms(1) by (simp add: base_form_def)
  have c: "cut_query (''//'' @ auth @ path) = (''//'' @ auth @ path, False, [])"
    using assms(1) by (intro cut_query_compose) (auto simp: base_form_def)
  have "sch \<noteq> []" using assms(1) by (auto simp: base_form_def scheme_ok_def)
  then have n: "?s \<noteq> ''*''" "?s \<noteq> []" by (auto simp: append_eq_Cons_conv)
  have a: "takeWhile (\<lambda>c. c \<noteq> CHR ''/'') (auth @ path) = auth" "dropWhile (\<lambda>c. c \<noteq> CHR ''/'') (auth @ path) = path"
    using until [of "CHR ''/''" auth path] assms(1) by (auto simp: base_form_def)
  have h: "HasPrefix (''//'' @ x) ''//''" "HasPrefix (''//'' @ x) ''/''" for x by (simp_all add: HasPrefix_def)
  show ?thesis
    unfolding parse_def Let_def g c option.case prod.case
    using assms(2-4) n \<open>sch \<noteq> []\<close> h a by (simp add: set_path_def empty_url_def)
qed

lemma Parse_no_fragment: "CHR ''#'' \<notin> set s \<Longrightarrow> Parse s = parse s False"
  by (auto simp: Parse_def Cut_def Let_def split: option.splits)

section \<open>A base URL with a path appended\<close>

lemma unescape_no_hash:
  assumes "unescape mode s = Some t" "is_host mode"
  shows "CHR ''#'' \<notin> set s"
  using assms
proof (induction mode s arbitrary: t rule: unescape.induct)
  case (2 mode c cs)
  have h: "hex_val (CHR ''#'') = None" "\<not> host_byte (CHR ''#'')" "ascii_byte (CHR ''#'')"
    by (simp_all add: hex_val_def host_byte_def is_alpha_def code_of_def is_digit_def ascii_byte_def)
  show ?case
  proof (cases "c = CHR ''%''")
    case True
    then obtain x y rest a b where cs: "cs = x # y # rest" "hex_val x = Some a" "hex_val y = Some b"
      using 2(3) by (auto split: list.splits option.splits)
    moreover obtain r where "unescape mode rest = Some r"
      using 2(3) True cs by (auto simp: Let_def split: if_splits)
    then have "CHR ''#'' \<notin> set rest"
      using 2(1) [OF True cs(1) refl _ cs(2,3)] 2(3,4) cs True by (auto simp: Let_def split: if_splits)
    ultimately show ?thesis using True h by auto
  next
    case False
    then have "c \<noteq> CHR ''#''" using 2(3,4) h by (auto split: if_splits)
    moreover obtain r where "unescape mode cs = Some r" using 2(3) False by (auto split: if_splits)
    ultimately show ?thesis using 2 False h by (auto split: if_splits)
  qed
qed simp

lemma bind3_Some: "bind3 a b c = Some x \<longleftrightarrow> (\<exists>p q r. a = Some p \<and> b = Some q \<and> c = Some r \<and> x = p @ q @ r)"
  by (auto simp: bind3_def split: option.splits)

lemma cut_last_Some: "cut_last c s = Some (a, b) \<Longrightarrow> s = a @ c # b"
  by (induction s arbitrary: a) (auto split: option.splits if_splits prod.splits)

lemma cut_before_Some: "cut_before t s = Some (a, b) \<Longrightarrow> s = a @ b"
  by (induction s arbitrary: a b) (auto split: if_splits)

lemma parseHost_no_hash:
  assumes "parseHost h = Some x"
  shows "CHR ''#'' \<notin> set h"
proof -
  have n: "unescape EncodeHost s = Some t \<Longrightarrow> CHR ''#'' \<notin> set s"
    "unescape EncodeZone s = Some t \<Longrightarrow> CHR ''#'' \<notin> set s" for s t
    using unescape_no_hash [of EncodeHost s t] unescape_no_hash [of EncodeZone s t] by (auto simp: is_host_def)
  show ?thesis
    using assms
    by (auto simp: parseHost_def bind3_Some split: if_splits option.splits dest!: n cut_last_Some cut_before_Some)
qed

lemma TrimRight_app: "TrimRight (s @ replicate n c) c = TrimRight s c"
  by (induction n) (auto simp: TrimRight_def replicate_append_same simp flip: append_assoc)

lemma TrimRight_id: "s = [] \<or> last s \<noteq> c \<Longrightarrow> TrimRight s c = s"
  by (cases s rule: rev_cases) (auto simp: TrimRight_def)

lemma unescape_root:
  assumes "unescape EncodePath p = Some q" "q = [] \<or> q = ''/''" "p = [] \<or> hd p = CHR ''/''"
  shows "p = [] \<or> p = ''/''"
proof (cases p)
  case (Cons c cs)
  then have "c = CHR ''/''" using assms by simp
  then have "unescape EncodePath cs = Some []" using assms Cons by (auto split: if_splits)
  then have "cs = []" by (cases cs) (auto simp: Let_def split: if_splits list.splits option.splits)
  then show ?thesis using Cons \<open>c = CHR ''/''\<close> by simp
qed simp

definition endpoint :: "string \<Rightarrow> bool" where
  "endpoint p \<longleftrightarrow> hd p = CHR ''/'' \<and> p \<noteq> [] \<and> CHR ''?'' \<notin> set p \<and> CHR ''#'' \<notin> set p
     \<and> \<not> list_ex control_byte p \<and> unescape EncodePath p = Some p"

lemma Hostname_Nil: "u_Host u = [] \<Longrightarrow> Hostname u = []"
  by (simp add: Hostname_def splitHostPort_def HasPrefix_def)

lemma base_endpoint:
  assumes u: "parse raw v = Some u" "u_Host u \<noteq> []" "u_Scheme u \<noteq> []" "u_User u = None" "u_RawQuery u = []"
    "u_Path u = [] \<or> u_Path u = ''/''" and q: "\<not> HasSuffix raw ''?''" and e: "endpoint p"
  shows "Parse (TrimRight raw (CHR ''/'') @ p) =
    Some (empty_url\<lparr>u_Scheme := u_Scheme u, u_User := None, u_Host := u_Host u, u_Path := p\<rparr>)"
proof -
  obtain sch auth path where s: "raw = sch @ ''://'' @ auth @ path @ query_part u" "base_form sch auth path"
    "parseAuthority auth = Some (None, u_Host u)" "unescape EncodePath path = Some (u_Path u)"
    "map lower_char sch = u_Scheme u" "\<not> list_ex control_byte raw"
    using parse_shape [OF u(1-3)] u(4) by metis
  have qp: "query_part u = []"
    using q s(1) u(5) by (auto simp: query_part_def HasSuffix_def suffix_def split: if_splits)
  have path: "path = [] \<or> path = ''/''" using unescape_root [OF s(4)] u(6) s(2) by (auto simp: base_form_def)
  have "cut_last (CHR ''@'') auth = None" and host: "parseHost auth = Some (u_Host u)"
    using s(3) by (auto simp: parseAuthority_def split: option.splits if_splits)
  have "auth \<noteq> []" using host u(2) by (auto simp: parseHost_def HasPrefix_def)
  then have auth: "auth \<noteq> [] \<and> last auth \<noteq> CHR ''/''" using s(2) unfolding base_form_def by (metis last_in_set)
  have base: "TrimRight raw (CHR ''/'') = sch @ ''://'' @ auth"
    using path auth TrimRight_id [of "sch @ ''://'' @ auth"] TrimRight_app [of "sch @ ''://'' @ auth" 1]
    by (auto simp: s(1) qp)
  have "CHR ''#'' \<notin> set sch"
    using s(2) by (auto simp: base_form_def scheme_ok_def list_all_iff scheme_byte_def is_alpha_def code_of_def is_digit_def)
  then have h: "CHR ''#'' \<notin> set (sch @ ''://'' @ auth @ p)" using parseHost_no_hash [OF host] e by (auto simp: endpoint_def)
  have "base_form sch auth p" using s(2) e by (auto simp: base_form_def endpoint_def)
  moreover have "\<not> list_ex control_byte (sch @ ''://'' @ auth @ p)" using s(6) s(1) e by (auto simp: endpoint_def)
  ultimately have "parse (sch @ ''://'' @ auth @ p) False =
      Some (empty_url\<lparr>u_Scheme := u_Scheme u, u_User := None, u_Host := u_Host u, u_Path := p\<rparr>)"
    using parse_compose s(3,5) e by (metis endpoint_def)
  then show ?thesis using Parse_no_fragment [OF h] by (simp add: base)
qed

end
