(* ===== verification/AgentIO.thy ===== *)
theory AgentIO
  imports Prelude GoURL
begin

text \<open>
  What the agent's components share at the edge of the process: error values with their texts,
  HTTP requests and responses, reading a body through \<open>io.LimitReader\<close>, running commands whose
  output goes through a bounded buffer. The network, the file system and the processes are
  parameters: functions on a state \<open>'w\<close> of the outside world.
\<close>

section \<open>Errors\<close>

text \<open>\<open>errors.New\<close>, \<open>fmt.Errorf("p: %w", e)\<close> and \<open>errors.Join\<close> of the non-nil errors.\<close>

datatype err = Err string | Wrap string err | Joined "err list"

fun Error :: "err \<Rightarrow> string" where
  "Error (Err s) = s"
| "Error (Wrap p e) = p @ '': '' @ Error e"
| "Error (Joined es) = Join (map Error es) [CHR 0x0A]"

definition wrap :: "string \<Rightarrow> err + 'a \<Rightarrow> err + 'a" where
  "wrap p r = mapErr (Wrap p) r"

text \<open>\<open>if c { return errors.New(text) }\<close>.\<close>

definition fail_if :: "bool \<Rightarrow> string \<Rightarrow> err + 'a \<Rightarrow> err + 'a" where
  "fail_if c text rest = (if c then Inl (Err text) else rest)"

lemma fail_if_Inr [simp]: "fail_if c t r = Inr x \<longleftrightarrow> \<not> c \<and> r = Inr x"
  by (simp add: fail_if_def)

lemma wrap_Inr [simp]: "wrap p r = Inr x \<longleftrightarrow> r = Inr x"
  by (simp add: wrap_def)

section \<open>HTTP\<close>

record http_request =
  hr_method :: string
  hr_url :: string
  hr_headers :: "(string \<times> string) list"
  hr_body :: string

text \<open>\<open>hp_fail\<close>: reading the body ends in an error instead of its end.\<close>

record http_response =
  hp_status :: int
  hp_text :: string
  hp_body :: string
  hp_fail :: bool

type_synonym 'w doer = "http_request \<Rightarrow> 'w \<Rightarrow> (err + http_response) \<times> 'w"

text \<open>\<open>http.NewRequestWithContext\<close> fails exactly when the URL does not parse (the methods are constants).\<close>

definition NewRequest :: "string \<Rightarrow> string \<Rightarrow> (string \<times> string) list \<Rightarrow> string \<Rightarrow> err + http_request" where
  "NewRequest method address headers body =
     (case Parse address of None \<Rightarrow> Inl (Err ''parse request URL'')
      | Some _ \<Rightarrow> Inr \<lparr>hr_method = method, hr_url = address, hr_headers = headers, hr_body = body\<rparr>)"

text \<open>A client that answers from a script and logs the requests.\<close>

definition recording :: "(http_request \<Rightarrow> err + http_response) \<Rightarrow> http_request list doer" where
  "recording f r w = (f r, w @ [r])"

text \<open>The bytes a reader behind \<open>io.LimitReader(body, n)\<close> delivers, and \<open>io.ReadAll\<close> of it.\<close>

definition limited :: "nat \<Rightarrow> http_response \<Rightarrow> string" where
  "limited n resp = take n (hp_body resp)"

definition ReadLimited :: "nat \<Rightarrow> http_response \<Rightarrow> string option" where
  "ReadLimited n resp = (if hp_fail resp \<and> length (hp_body resp) < n then None else Some (limited n resp))"

lemma ReadLimited_bounded: "ReadLimited n resp = Some b \<Longrightarrow> length b \<le> n"
  by (auto simp: ReadLimited_def limited_def split: if_splits)

text \<open>\<open>bufio.Scanner\<close> over lines with its largest token: the lines it delivers, and whether it gave up on
  a line of \<open>max\<close> bytes or more. The rest of a stream that breaks off is delivered as a line too.\<close>

fun scan_lines :: "nat \<Rightarrow> string list \<Rightarrow> string list \<times> bool" where
  "scan_lines m [] = ([], False)"
| "scan_lines m [p] = (if length p \<ge> m then ([], True) else if p = [] then ([], False) else ([TrimSuffix p [CHR 0x0D]], False))"
| "scan_lines m (p # ps) =
     (if length p \<ge> m then ([], True)
      else case scan_lines m ps of (ls, e) \<Rightarrow> (TrimSuffix p [CHR 0x0D] # ls, e))"

section \<open>Bounded output buffers\<close>

text \<open>A buffer is what it holds and how many bytes it still takes. Every platform file of the agent
  has its own \<open>Write\<close>; what they promise is the locale: a write reports the whole chunk written,
  so the command is never stopped by it, and the buffer keeps the first bytes only.\<close>

type_synonym buffer = "string \<times> int"

locale limited_writer =
  fixes wr :: "buffer \<Rightarrow> string \<Rightarrow> (nat \<times> buffer)"
  assumes reports_all: "fst (wr b p) = length p"
    and keeps_prefix: "0 \<le> n \<Longrightarrow> snd (wr (w, n) p) = (w @ take (nat n) p, n - int (length (take (nat n) p)))"
begin

definition feed :: "buffer \<Rightarrow> string list \<Rightarrow> buffer" where
  "feed b chunks = foldl (\<lambda>b p. snd (wr b p)) b chunks"

lemma feed_prefix: "0 \<le> n \<Longrightarrow> fst (feed (w, n) chunks) = w @ take (nat n) (concat chunks)"
proof (induction chunks arbitrary: w n)
  case (Cons p ps)
  let ?t = "take (nat n) p"
  have n: "0 \<le> n - int (length ?t)" using Cons.prems by simp
  have "feed (w, n) (p # ps) = feed (w @ ?t, n - int (length ?t)) ps"
    using keeps_prefix [OF Cons.prems, of w p] by (simp add: feed_def)
  moreover have "nat (n - int (length ?t)) = nat n - length p"
    using Cons.prems by (cases "length p \<le> nat n") auto
  ultimately show ?case using Cons.IH [OF n, of "w @ ?t"] by simp
qed (simp add: feed_def)

lemma bounded: "0 \<le> n \<Longrightarrow> length (fst (feed ([], n) chunks)) \<le> nat n"
  by (simp add: feed_prefix)

end

text \<open>A command: what it wrote to the two streams, and its error. A runner is any implementation of
  the \<open>Run\<close> interfaces, without the contexts.\<close>

record exec_result =
  x_stdout :: "string list"
  x_stderr :: "string list"
  x_err :: "err option"

type_synonym 'w os_exec = "string \<Rightarrow> string list \<Rightarrow> 'w \<Rightarrow> exec_result \<times> 'w"
type_synonym 'w runner = "string \<Rightarrow> string list \<Rightarrow> 'w \<Rightarrow> (string \<times> err option) \<times> 'w"

text \<open>A buffer's contents after a command wrote its chunks.\<close>

definition captured :: "(buffer \<Rightarrow> string \<Rightarrow> nat \<times> buffer) \<Rightarrow> int \<Rightarrow> string list \<Rightarrow> string" where
  "captured wr n chunks = fst (foldl (\<lambda>b p. snd (wr b p)) ([], n) chunks)"

end
