(* ===== verification/RuntimeAdapter.thy ===== *)
theory RuntimeAdapter
  imports AgentIO GoFloat
begin

text \<open>
  \<^verbatim>\<open>agent/runtime_adapter.go\<close> and \<^verbatim>\<open>agent/runtime_llamacpp.go\<close>: the boundary around a
  local llama.cpp server. The JSON codecs are a parameter (\<open>llama_codecs\<close>); contexts and their
  timeouts are not modelled (a request may fail).
\<close>

section \<open>runtime\_adapter.go\<close>

definition RuntimeKindLlamaCpp :: string where "RuntimeKindLlamaCpp = ''llama.cpp''"
definition RuntimeOperationCompletion :: string where "RuntimeOperationCompletion = ''completion''"

datatype RuntimeHealthStatus = RuntimeHealthUnknown | RuntimeHealthHealthy | RuntimeHealthUnhealthy

record RuntimeConfig =
  rc_Kind :: string
  rc_BaseURL :: string

record RuntimeModel =
  rm_ID :: string
  rm_ContextWindowTokens :: int
  rm_Operations :: "string list"

record RuntimeCapabilities =
  cap_Operations :: "string list"
  cap_Models :: "RuntimeModel list"

record CompletionRequest =
  cr_Model :: string
  cr_Prompt :: string
  cr_MaxTokens :: int
  cr_Temperature :: f64

record CompletionResponse =
  cp_Text :: string
  cp_PromptTokens :: int
  cp_CompletionTokens :: int

definition ValidateLoopbackRuntimeURL :: "string \<Rightarrow> err + unit" where
  "ValidateLoopbackRuntimeURL raw =
     (if TrimSpace raw = [] then Inl (Err ''runtime URL is required'')
      else case ParseRequestURI raw of
        None \<Rightarrow> Inl (Err ''parse runtime URL'')
      | Some u \<Rightarrow>
          if u_Scheme u \<noteq> ''http'' then Inl (Err ''runtime URL scheme must be http'')
          else if u_User u \<noteq> None then Inl (Err ''runtime URL must not contain credentials'')
          else if u_RawQuery u \<noteq> [] \<or> u_Fragment u \<noteq> []
          then Inl (Err ''runtime URL must not contain query or fragment'')
          else if u_Path u \<noteq> [] \<and> u_Path u \<noteq> ''/'' then Inl (Err ''runtime URL must not contain a subpath'')
          else if Hostname u = [] then Inl (Err ''runtime URL host is required'')
          else if \<not> EqualFold (Hostname u) ''localhost''
               \<and> (case ParseIP (Hostname u) of None \<Rightarrow> True | Some ip \<Rightarrow> \<not> IsLoopback ip)
          then Inl (Err ''runtime URL host must be loopback'')
          else if Port u = [] then Inl (Err ''runtime URL must include an explicit port'')
          else if (case Atoi (Port u) of None \<Rightarrow> True | Some n \<Rightarrow> n < 1 \<or> n > 65535)
          then Inl (Err ''runtime URL port must be between 1 and 65535'')
          else Inr ())"

definition ValidateRuntimeConfig :: "(string \<Rightarrow> string) \<Rightarrow> RuntimeConfig \<Rightarrow> err + unit" where
  "ValidateRuntimeConfig q config =
     (if rc_Kind config \<noteq> RuntimeKindLlamaCpp then Inl (Err (''unsupported runtime kind '' @ q (rc_Kind config)))
      else wrap ''invalid runtime base URL'' (ValidateLoopbackRuntimeURL (rc_BaseURL config)))"

definition IsPermittedRuntimeOperation :: "string \<Rightarrow> bool" where
  "IsPermittedRuntimeOperation operation \<longleftrightarrow> operation = RuntimeOperationCompletion"

definition ValidateCompletionRequest :: "CompletionRequest \<Rightarrow> err + unit" where
  "ValidateCompletionRequest request =
     (if TrimSpace (cr_Model request) = [] then Inl (Err ''model is required'')
      else if TrimSpace (cr_Prompt request) = [] then Inl (Err ''prompt is required'')
      else if cr_MaxTokens request \<le> 0 then Inl (Err ''max tokens must be greater than zero'')
      else if f_lt (cr_Temperature request) (Fin 0) \<or> f_lt (Fin 2) (cr_Temperature request)
      then Inl (Err ''temperature must be between 0 and 2'')
      else Inr ())"

section \<open>runtime\_llamacpp.go\<close>

text \<open>An adapter is its base URL; \<open>Do\<close> of its HTTP client is the parameter \<open>net\<close> of the operations.\<close>

record LlamaCppAdapter =
  la_baseURL :: string

definition newLlamaCppAdapterWithClient :: "(string \<Rightarrow> string) \<Rightarrow> RuntimeConfig \<Rightarrow> 'c option \<Rightarrow> err + LlamaCppAdapter" where
  "newLlamaCppAdapterWithClient q config client =
     bindE (ValidateRuntimeConfig q config) (\<lambda>_.
       if client = None then Inl (Err ''runtime HTTP client is required'')
       else Inr \<lparr>la_baseURL = TrimRight (rc_BaseURL config) (CHR ''/'')\<rparr>)"

definition NewLlamaCppAdapter :: "(string \<Rightarrow> string) \<Rightarrow> RuntimeConfig \<Rightarrow> err + LlamaCppAdapter" where
  "NewLlamaCppAdapter q config =
     bindE (ValidateRuntimeConfig q config) (\<lambda>_. newLlamaCppAdapterWithClient q config (Some ()))"

text \<open>The wire formats: the \<open>status\<close> of a health answer; id and context window of each listed model
  (\<open>None\<close> without metadata); the texts of the choices and the token counts of a completion; and
  the encoding of a completion request, which fails on a temperature that is not finite.\<close>

record llama_codecs =
  lc_health :: "string \<Rightarrow> string option"
  lc_models :: "string \<Rightarrow> (string \<times> int option) list option"
  lc_request :: "CompletionRequest \<Rightarrow> string option"
  lc_completion :: "string \<Rightarrow> (string list \<times> int \<times> int) option"

definition decodeRuntimeJSON :: "(string \<Rightarrow> 'a option) \<Rightarrow> http_response \<Rightarrow> err + 'a" where
  "decodeRuntimeJSON dec resp =
     (case dec (limited (2 ^ 20) resp) of None \<Rightarrow> Inl (Err ''invalid JSON'') | Some x \<Rightarrow> Inr x)"

definition requireRuntimeStatus :: "(int \<Rightarrow> string) \<Rightarrow> http_response \<Rightarrow> int \<Rightarrow> err + unit" where
  "requireRuntimeStatus status_text resp expected =
     (if hp_status resp = expected then Inr ()
      else let message0 = TrimSpace (limited 4096 resp);
               message = (if message0 = [] then status_text (hp_status resp) else message0)
           in Inl (Err (''llama.cpp returned HTTP '' @ Itoa (hp_status resp) @ '': '' @ message)))"

definition Health :: "llama_codecs \<Rightarrow> 'w doer \<Rightarrow> LlamaCppAdapter \<Rightarrow> 'w
    \<Rightarrow> (RuntimeHealthStatus \<times> err option) \<times> 'w" where
  "Health j net a w =
     (case NewRequest ''GET'' (la_baseURL a @ ''/health'') [] [] of
        Inl e \<Rightarrow> ((RuntimeHealthUnknown, Some e), w)
      | Inr req \<Rightarrow>
          (case net req w of
             (Inl e, w') \<Rightarrow> ((RuntimeHealthUnknown, Some (Wrap ''llama.cpp health request'' e)), w')
           | (Inr resp, w') \<Rightarrow>
               if hp_status resp \<noteq> 200 then ((RuntimeHealthUnhealthy, None), w')
               else (case decodeRuntimeJSON (lc_health j) resp of
                       Inl e \<Rightarrow> ((RuntimeHealthUnknown, Some (Wrap ''decode llama.cpp health response'' e)), w')
                     | Inr status \<Rightarrow> if status \<noteq> ''ok'' then ((RuntimeHealthUnhealthy, None), w')
                                     else ((RuntimeHealthHealthy, None), w'))))"

fun list_models :: "(string \<times> int option) list \<Rightarrow> RuntimeModel list" where
  "list_models [] = []"
| "list_models ((i, meta) # items) =
     (if TrimSpace i = [] then list_models items
      else \<lparr>rm_ID = i, rm_ContextWindowTokens = (case meta of None \<Rightarrow> 0 | Some n \<Rightarrow> n),
            rm_Operations = [RuntimeOperationCompletion]\<rparr> # list_models items)"

definition Models :: "(int \<Rightarrow> string) \<Rightarrow> llama_codecs \<Rightarrow> 'w doer \<Rightarrow> LlamaCppAdapter \<Rightarrow> 'w
    \<Rightarrow> (err + RuntimeModel list) \<times> 'w" where
  "Models st j net a w =
     (case NewRequest ''GET'' (la_baseURL a @ ''/v1/models'') [] [] of
        Inl e \<Rightarrow> (Inl e, w)
      | Inr req \<Rightarrow>
          (case net req w of
             (Inl e, w') \<Rightarrow> (Inl (Wrap ''llama.cpp models request'' e), w')
           | (Inr resp, w') \<Rightarrow>
               (bindE (requireRuntimeStatus st resp 200) (\<lambda>_.
                bindE (wrap ''decode llama.cpp models response'' (decodeRuntimeJSON (lc_models j) resp)) (\<lambda>items.
                Inr (list_models items))), w')))"

definition Capabilities :: "(int \<Rightarrow> string) \<Rightarrow> llama_codecs \<Rightarrow> 'w doer \<Rightarrow> LlamaCppAdapter \<Rightarrow> 'w
    \<Rightarrow> (err + RuntimeCapabilities) \<times> 'w" where
  "Capabilities st j net a w =
     (case Models st j net a w of
        (r, w') \<Rightarrow> (bindE r (\<lambda>ms. Inr \<lparr>cap_Operations = [RuntimeOperationCompletion], cap_Models = ms\<rparr>), w'))"

definition Complete :: "(int \<Rightarrow> string) \<Rightarrow> llama_codecs \<Rightarrow> 'w doer \<Rightarrow> LlamaCppAdapter \<Rightarrow> CompletionRequest \<Rightarrow> 'w
    \<Rightarrow> (err + CompletionResponse) \<times> 'w" where
  "Complete st j net a request w =
     (case ValidateCompletionRequest request of
        Inl e \<Rightarrow> (Inl e, w)
      | Inr _ \<Rightarrow>
      (case lc_request j request of
        None \<Rightarrow> (Inl (Err ''unsupported value''), w)
      | Some body \<Rightarrow>
      (case NewRequest ''POST'' (la_baseURL a @ ''/v1/completions'') [(''Content-Type'', ''application/json'')] body of
        Inl e \<Rightarrow> (Inl e, w)
      | Inr req \<Rightarrow>
          (case net req w of
             (Inl e, w') \<Rightarrow> (Inl (Wrap ''llama.cpp completion request'' e), w')
           | (Inr resp, w') \<Rightarrow>
               (bindE (requireRuntimeStatus st resp 200) (\<lambda>_.
                bindE (wrap ''decode llama.cpp completion response'' (decodeRuntimeJSON (lc_completion j) resp))
                (\<lambda>(choices, p, c).
                  case choices of
                    [] \<Rightarrow> Inl (Err ''llama.cpp completion response contained no choices'')
                  | text # _ \<Rightarrow> Inr \<lparr>cp_Text = text, cp_PromptTokens = p, cp_CompletionTokens = c\<rparr>)), w')))))"
section \<open>Where the requests go\<close>

definition loopback_host :: "string \<Rightarrow> bool" where
  "loopback_host h \<longleftrightarrow> EqualFold h ''localhost'' \<or> (case ParseIP h of None \<Rightarrow> False | Some ip \<Rightarrow> IsLoopback ip)"

text \<open>A request stays on the machine: it has the given path on a loopback host, and nothing else.\<close>

definition local_request :: "string \<Rightarrow> http_request \<Rightarrow> bool" where
  "local_request path r \<longleftrightarrow>
     (case Parse (hr_url r) of None \<Rightarrow> False
      | Some u \<Rightarrow> u_Scheme u = ''http'' \<and> u_User u = None \<and> loopback_host (Hostname u)
                  \<and> u_Path u = path \<and> u_RawQuery u = [] \<and> u_Fragment u = [])"

lemma ValidateLoopback_iff:
  "ValidateLoopbackRuntimeURL raw = Inr () \<longleftrightarrow>
     TrimSpace raw \<noteq> [] \<and> (\<exists>u n. ParseRequestURI raw = Some u \<and> u_Scheme u = ''http'' \<and> u_User u = None
       \<and> u_RawQuery u = [] \<and> u_Fragment u = [] \<and> (u_Path u = [] \<or> u_Path u = ''/'')
       \<and> Hostname u \<noteq> [] \<and> loopback_host (Hostname u) \<and> Port u \<noteq> [] \<and> Atoi (Port u) = Some n \<and> 1 \<le> n \<and> n \<le> 65535)"
  unfolding ValidateLoopbackRuntimeURL_def loopback_host_def
  by (auto split: option.split if_splits)

lemma endpoints: "endpoint ''/health''" "endpoint ''/v1/models''" "endpoint ''/v1/completions''"
  by (code_simp)+

lemma endpoint_url:
  assumes v: "ValidateLoopbackRuntimeURL raw = Inr ()" and q: "\<not> HasSuffix raw ''?''" and e: "endpoint p"
  shows "\<exists>u. Parse (TrimRight raw (CHR ''/'') @ p) = Some u \<and> u_Scheme u = ''http'' \<and> u_User u = None
     \<and> loopback_host (Hostname u) \<and> u_Path u = p \<and> u_RawQuery u = [] \<and> u_Fragment u = []"
proof -
  obtain u where u: "parse raw True = Some u" "u_Scheme u = ''http''" "u_User u = None" "u_RawQuery u = []"
      "u_Path u = [] \<or> u_Path u = ''/''" "Hostname u \<noteq> []" "loopback_host (Hostname u)"
    using v by (auto simp: ValidateLoopback_iff ParseRequestURI_def)
  have "u_Host u \<noteq> []" "u_Scheme u \<noteq> []" using u Hostname_Nil by auto
  with base_endpoint [OF u(1) _ _ u(3-5) q e] u(2,7) show ?thesis by (auto simp: Hostname_def empty_url_def)
qed

lemma adapter_url:
  assumes "NewLlamaCppAdapter q config = Inr a"
  shows "ValidateLoopbackRuntimeURL (rc_BaseURL config) = Inr () \<and> la_baseURL a = TrimRight (rc_BaseURL config) (CHR ''/'')"
  using assms
  by (auto simp: NewLlamaCppAdapter_def newLlamaCppAdapterWithClient_def ValidateRuntimeConfig_def bindE_Inr_iff split: if_splits)

lemma adapter_request:
  assumes "NewLlamaCppAdapter q config = Inr a" "\<not> HasSuffix (rc_BaseURL config) ''?''" "endpoint p"
  obtains r where "NewRequest m (la_baseURL a @ p) hs b = Inr r" "local_request p r"
    "hr_method r = m" "hr_headers r = hs" "hr_body r = b"
proof -
  obtain u where u: "Parse (la_baseURL a @ p) = Some u" and l: "u_Scheme u = ''http''" "u_User u = None"
    "loopback_host (Hostname u)" "u_Path u = p" "u_RawQuery u = []" "u_Fragment u = []"
    using adapter_url [OF assms(1)] endpoint_url [OF _ assms(2,3)] by auto
  show thesis
    using that [of "\<lparr>hr_method = m, hr_url = la_baseURL a @ p, hr_headers = hs, hr_body = b\<rparr>"] u l
    by (auto simp: NewRequest_def local_request_def)
qed

lemma Models_request:
  assumes "NewRequest ''GET'' (la_baseURL a @ ''/v1/models'') [] [] = Inr r"
  shows "snd (Models st j (recording f) a w) = w @ [r]"
  by (cases "f r") (auto simp: Models_def assms recording_def)

lemma Health_local:
  assumes "NewLlamaCppAdapter q config = Inr a" "\<not> HasSuffix (rc_BaseURL config) ''?''"
  obtains r where "local_request ''/health'' r" "hr_method r = ''GET''" "snd (Health j (recording f) a w) = w @ [r]"
proof -
  obtain r where r: "NewRequest ''GET'' (la_baseURL a @ ''/health'') [] [] = Inr r" "local_request ''/health'' r"
      "hr_method r = ''GET''"
    by (rule adapter_request [OF assms endpoints(1)])
  have "snd (Health j (recording f) a w) = w @ [r]"
    by (cases "f r") (auto simp: Health_def r(1) recording_def split: sum.splits)
  with r show ?thesis by (intro that)
qed

lemma Models_local:
  assumes "NewLlamaCppAdapter q config = Inr a" "\<not> HasSuffix (rc_BaseURL config) ''?''"
  obtains r where "local_request ''/v1/models'' r" "hr_method r = ''GET''" "snd (Models st j (recording f) a w) = w @ [r]"
    "snd (Capabilities st j (recording f) a w) = w @ [r]"
proof -
  obtain r where r: "NewRequest ''GET'' (la_baseURL a @ ''/v1/models'') [] [] = Inr r" "local_request ''/v1/models'' r"
      "hr_method r = ''GET''"
    by (rule adapter_request [OF assms endpoints(2)])
  have "snd (Capabilities st j (recording f) a w) = snd (Models st j (recording f) a w)"
    by (simp add: Capabilities_def split: prod.split)
  with r Models_request [OF r(1), of st j f w] show ?thesis by (intro that) simp_all
qed

lemma Complete_refused:
  "\<not> (is_ok (ValidateCompletionRequest request) \<and> lc_request j request \<noteq> None)
    \<Longrightarrow> (\<exists>e. fst (Complete st j net a request w) = Inl e) \<and> snd (Complete st j net a request w) = w"
  by (cases "ValidateCompletionRequest request"; cases "lc_request j request") (auto simp: Complete_def is_ok_def)

lemma Complete_local:
  assumes "NewLlamaCppAdapter q config = Inr a" "\<not> HasSuffix (rc_BaseURL config) ''?''"
    "is_ok (ValidateCompletionRequest request) \<and> lc_request j request \<noteq> None"
  obtains r where "local_request ''/v1/completions'' r" "hr_method r = ''POST''" "lc_request j request = Some (hr_body r)"
    "snd (Complete st j (recording f) a request w) = w @ [r]"
proof -
  obtain b where v: "ValidateCompletionRequest request = Inr ()" "lc_request j request = Some b"
    using assms(3) by (auto simp: is_ok_iff)
  obtain r where r: "NewRequest ''POST'' (la_baseURL a @ ''/v1/completions'') [(''Content-Type'', ''application/json'')] b = Inr r"
      "local_request ''/v1/completions'' r" "hr_method r = ''POST''" "hr_body r = b"
    by (rule adapter_request [OF assms(1,2) endpoints(3)])
  have "snd (Complete st j (recording f) a request w) = w @ [r]"
    by (cases "f r") (auto simp: Complete_def v r(1) recording_def)
  with r v show ?thesis by (intro that) simp_all
qed


definition sample_config :: RuntimeConfig where
  "sample_config = \<lparr>rc_Kind = ''llama.cpp'', rc_BaseURL = ''http://127.0.0.1:8080/''\<rparr>"


text \<open>The check compares \<open>RawQuery\<close> with the empty string, and a lone trailing question mark leaves
  it empty: the path an operation appends then becomes a query, and the request goes to the root.\<close>

lemma question_mark_runtime:
  "\<exists>a u. NewLlamaCppAdapter id \<lparr>rc_Kind = ''llama.cpp'', rc_BaseURL = ''http://127.0.0.1:80?''\<rparr> = Inr a
     \<and> Parse (la_baseURL a @ ''/health'') = Some u \<and> u_Path u = [] \<and> u_RawQuery u = ''/health''"
proof -
  have a: "NewLlamaCppAdapter id \<lparr>rc_Kind = ''llama.cpp'', rc_BaseURL = ''http://127.0.0.1:80?''\<rparr>
      = Inr \<lparr>la_baseURL = ''http://127.0.0.1:80?''\<rparr>" by code_simp
  have u: "map_option (\<lambda>u. (u_Path u, u_RawQuery u)) (Parse ''http://127.0.0.1:80?/health'') = Some ([], ''/health'')"
    by code_simp
  with a show ?thesis by auto
qed

lemma list_models_ok:
  "m \<in> set (list_models items) \<Longrightarrow> TrimSpace (rm_ID m) \<noteq> [] \<and> rm_Operations m = [RuntimeOperationCompletion]"
  by (induction items rule: list_models.induct) (auto split: if_splits)

text \<open>C36: what an adapter reports. Whatever the runtime answers, the capabilities hold permitted
  operations only, overall and per model, and no model without a name; a completion is returned
  only for a valid request.\<close>

theorem capabilities_permitted:
  "(case fst (Capabilities st j net a w) of Inl _ \<Rightarrow> True
    | Inr caps \<Rightarrow> list_all IsPermittedRuntimeOperation (cap_Operations caps)
        \<and> list_all (\<lambda>m. TrimSpace (rm_ID m) \<noteq> [] \<and> list_all IsPermittedRuntimeOperation (rm_Operations m)) (cap_Models caps))
   \<and> (case fst (Complete st j net a request w) of Inl _ \<Rightarrow> True
    | Inr _ \<Rightarrow> TrimSpace (cr_Model request) \<noteq> [] \<and> TrimSpace (cr_Prompt request) \<noteq> [] \<and> 0 < cr_MaxTokens request
        \<and> \<not> f_lt (cr_Temperature request) (Fin 0) \<and> \<not> f_lt (Fin 2) (cr_Temperature request))"
proof (intro conjI)
  obtain r w' where m: "Models st j net a w = (r, w')" by fastforce
  have "\<And>ms. r = Inr ms \<Longrightarrow> \<exists>items. ms = list_models items"
    using m by (auto simp: Models_def bindE_Inr_iff split: sum.splits prod.splits)
  then show "case fst (Capabilities st j net a w) of Inl _ \<Rightarrow> True
    | Inr caps \<Rightarrow> list_all IsPermittedRuntimeOperation (cap_Operations caps)
        \<and> list_all (\<lambda>m. TrimSpace (rm_ID m) \<noteq> [] \<and> list_all IsPermittedRuntimeOperation (rm_Operations m)) (cap_Models caps)"
    using list_models_ok m
    by (cases r) (auto simp: Capabilities_def list_all_iff IsPermittedRuntimeOperation_def)
next
  have "\<And>x. fst (Complete st j net a request w) = Inr x \<Longrightarrow> ValidateCompletionRequest request = Inr ()"
    by (auto simp: Complete_def split: sum.splits)
  then show "case fst (Complete st j net a request w) of Inl _ \<Rightarrow> True
    | Inr _ \<Rightarrow> TrimSpace (cr_Model request) \<noteq> [] \<and> TrimSpace (cr_Prompt request) \<noteq> [] \<and> 0 < cr_MaxTokens request
        \<and> \<not> f_lt (cr_Temperature request) (Fin 0) \<and> \<not> f_lt (Fin 2) (cr_Temperature request)"
    by (auto simp: ValidateCompletionRequest_def split: if_splits sum.split)
qed

end
