(* ===== verification/Identity.thy ===== *)
theory Identity
  imports AgentIO SubmissionAuth
begin

text \<open>
  \<^verbatim>\<open>agent/identity.go\<close>: the node's key pair and identifier in a private file. The file
  system is a map from paths to entries; system calls may fail (\<open>faults\<close>); Ed25519 and the JSON
  codec of the file are parameters, and so is randomness. The model is that of the Unix platforms
  the agent supports (\<open>runtime.GOOS\<close> is not \<open>windows\<close>).
\<close>

section \<open>Paths\<close>

text \<open>\<open>filepath.Clean\<close>: the elements kept so far are in reverse order.\<close>

fun clean_elems :: "bool \<Rightarrow> string list \<Rightarrow> string list \<Rightarrow> string list" where
  "clean_elems rooted out [] = rev out"
| "clean_elems rooted out (e # es) =
     (if e = [] \<or> e = ''.'' then clean_elems rooted out es
      else if e = ''..''
      then (case out of
              x # xs \<Rightarrow> if x \<noteq> ''..'' then clean_elems rooted xs es else clean_elems rooted (e # out) es
            | [] \<Rightarrow> if rooted then clean_elems rooted [] es else clean_elems rooted [e] es)
      else clean_elems rooted (e # out) es)"

definition Clean :: "string \<Rightarrow> string" where
  "Clean path =
     (let rooted = HasPrefix path ''/'';
          out = (if rooted then ''/'' else []) @ Join (clean_elems rooted [] (Split (CHR ''/'') path)) ''/''
      in if out = [] then ''.'' else out)"

definition Dir :: "string \<Rightarrow> string" where
  "Dir path = Clean (rev (dropWhile (\<lambda>c. c \<noteq> CHR ''/'') (rev path)))"

definition JoinPath :: "string list \<Rightarrow> string" where
  "JoinPath elems = (let es = filter (\<lambda>e. e \<noteq> []) elems in if es = [] then [] else Clean (Join es ''/''))"

section \<open>The file system\<close>

datatype entry = RegularFile nat string | DirectoryEntry nat | SymbolicLink string | SpecialFile nat

type_synonym fs = "string \<Rightarrow> entry option"

definition ErrNotExist :: err where "ErrNotExist = Err ''file does not exist''"
definition ErrExist :: err where "ErrExist = Err ''file already exists''"

fun Is :: "err \<Rightarrow> err \<Rightarrow> bool" where
  "Is (Err s) t = (Err s = t)"
| "Is (Wrap p e) t = Is e t"
| "Is (Joined es) t = list_ex (\<lambda>e. Is e t) es"

datatype syscall = SLstat | SReadFile | SStat | SMkdirAll | SOpenFile | SWrite | SSync | SClose | SRemove

type_synonym faults = "syscall \<Rightarrow> err option"

definition fault :: "faults \<Rightarrow> syscall \<Rightarrow> err + 'a \<Rightarrow> err + 'a" where
  "fault f c r = (case f c of Some e \<Rightarrow> Inl e | None \<Rightarrow> r)"

definition Lstat :: "faults \<Rightarrow> fs \<Rightarrow> string \<Rightarrow> err + entry" where
  "Lstat f d path = fault f SLstat (case d path of None \<Rightarrow> Inl (Wrap (''lstat '' @ path) ErrNotExist) | Some e \<Rightarrow> Inr e)"

text \<open>Following symbolic links, at most 40 of them.\<close>

fun follow :: "nat \<Rightarrow> fs \<Rightarrow> string \<Rightarrow> err + entry" where
  "follow 0 d path = Inl (Err ''too many levels of symbolic links'')"
| "follow (Suc n) d path =
     (case d path of None \<Rightarrow> Inl ErrNotExist | Some (SymbolicLink q) \<Rightarrow> follow n d q | Some e \<Rightarrow> Inr e)"

definition Stat :: "faults \<Rightarrow> fs \<Rightarrow> string \<Rightarrow> err + entry" where
  "Stat f d path = fault f SStat (wrap (''stat '' @ path) (follow 40 d path))"

definition ReadFile :: "faults \<Rightarrow> fs \<Rightarrow> string \<Rightarrow> err + string" where
  "ReadFile f d path = fault f SReadFile (bindE (follow 40 d path) (\<lambda>e.
     case e of RegularFile m s \<Rightarrow> Inr s | _ \<Rightarrow> Inl (Err ''not a regular file'')))"

definition is_dir :: "entry option \<Rightarrow> bool" where
  "is_dir e = (case e of Some (DirectoryEntry m) \<Rightarrow> True | _ \<Rightarrow> False)"

text \<open>The directories on the way to a path, the path itself last.\<close>

definition ancestors :: "string \<Rightarrow> string list" where
  "ancestors path =
     map (\<lambda>i. take i path) (filter (\<lambda>i. 0 < i \<and> path ! i = CHR ''/'') [0..<length path]) @ [path]"

definition MkdirAll :: "faults \<Rightarrow> nat \<Rightarrow> string \<Rightarrow> fs \<Rightarrow> (err + unit) \<times> fs" where
  "MkdirAll f mode path d =
     (case f SMkdirAll of Some e \<Rightarrow> (Inl e, d)
      | None \<Rightarrow>
          if list_ex (\<lambda>p. d p \<noteq> None \<and> \<not> (case follow 40 d p of Inr (DirectoryEntry m) \<Rightarrow> True | _ \<Rightarrow> False)) (ancestors path)
          then (Inl (Err ''not a directory''), d)
          else (Inr (), \<lambda>p. if d p = None \<and> p \<in> set (ancestors path) then Some (DirectoryEntry mode) else d p))"

text \<open>\<open>O_CREATE | O_EXCL\<close>: creates the file or fails, also on a dangling link.\<close>

definition OpenExclusive :: "faults \<Rightarrow> nat \<Rightarrow> string \<Rightarrow> fs \<Rightarrow> (err + unit) \<times> fs" where
  "OpenExclusive f mode path d =
     (case f SOpenFile of Some e \<Rightarrow> (Inl e, d)
      | None \<Rightarrow>
          if d path \<noteq> None then (Inl (Wrap (''open '' @ path) ErrExist), d)
          else (Inr (), d(path \<mapsto> RegularFile mode [])))"

section \<open>identity.go\<close>

record agent_crypto = crypto +
  ed_public :: "u8 list \<Rightarrow> u8 list"
  ed_sign :: "u8 list \<Rightarrow> string \<Rightarrow> u8 list"

definition PrivateKeySize :: nat where "PrivateKeySize = 64"

record Identity =
  idn_Version :: int
  idn_NodeID :: string
  idn_PublicKey :: string
  idn_PrivateKey :: string

record identity_codec =
  idc_encode :: "Identity \<Rightarrow> string option"
  idc_decode :: "string \<Rightarrow> Identity option"

definition identityFileVersion :: int where "identityFileVersion = 1"

text \<open>\<open>os.UserConfigDir\<close> is a parameter.\<close>

definition DefaultIdentityPath :: "err + string \<Rightarrow> err + string" where
  "DefaultIdentityPath configDir =
     bindE (wrap ''resolve user config directory'' configDir) (\<lambda>r. Inr (JoinPath [r, ''meshalot'', ''agent-identity.json'']))"

text \<open>\<open>%04o\<close> of a permission word.\<close>

definition octal4 :: "nat \<Rightarrow> string" where
  "octal4 m = map (\<lambda>k. char_of (48 + m div 8 ^ k mod 8)) [3, 2, 1, 0]"

text \<open>\<open>ed25519.PrivateKey(k).Public()\<close> is the second half of the key.\<close>

definition validateIdentity :: "Identity \<Rightarrow> err + unit" where
  "validateIdentity identity =
     (if idn_Version identity \<noteq> identityFileVersion
      then Inl (Err (''unsupported identity file version '' @ Itoa (idn_Version identity)))
      else if \<not> validUUIDv4 (idn_NodeID identity) then Inl (Err ''identity node ID is not a UUIDv4'')
      else case DecodeString (idn_PublicKey identity) of
        None \<Rightarrow> Inl (Err ''identity public key is invalid'')
      | Some publicKey \<Rightarrow>
          if length publicKey \<noteq> PublicKeySize then Inl (Err ''identity public key is invalid'')
          else (case DecodeString (idn_PrivateKey identity) of
            None \<Rightarrow> Inl (Err ''identity private key is invalid'')
          | Some privateKey \<Rightarrow>
              if length privateKey \<noteq> PrivateKeySize then Inl (Err ''identity private key is invalid'')
              else if publicKey \<noteq> drop 32 privateKey
              then Inl (Err ''identity public and private keys do not match'')
              else Inr ()))"

text \<open>\<open>rand.Read\<close> of the node identifier: \<open>None\<close> is a failing random source.\<close>

definition random_uuid :: "u8 list option \<Rightarrow> err + string" where
  "random_uuid r = (case r of None \<Rightarrow> Inl (Wrap ''generate node ID'' (Err ''random source'')) | Some raw \<Rightarrow> Inr (newUUIDv4 raw))"

definition generateIdentity :: "'c agent_crypto_scheme \<Rightarrow> u8 list option \<Rightarrow> u8 list option \<Rightarrow> err + Identity" where
  "generateIdentity c seed raw =
     (case seed of None \<Rightarrow> Inl (Wrap ''generate Ed25519 identity'' (Err ''random source''))
      | Some s \<Rightarrow>
          bindE (random_uuid raw) (\<lambda>nodeID.
            Inr \<lparr>idn_Version = identityFileVersion, idn_NodeID = nodeID, idn_PublicKey = EncodeToString (ed_public c s),
                 idn_PrivateKey = EncodeToString (s @ ed_public c s)\<rparr>))"

definition LoadIdentity :: "faults \<Rightarrow> identity_codec \<Rightarrow> fs \<Rightarrow> string \<Rightarrow> err + Identity" where
  "LoadIdentity f j d path =
     bindE (Lstat f d path) (\<lambda>info.
     case info of
       RegularFile perm s \<Rightarrow>
         if perm mod 64 \<noteq> 0
         then Inl (Err (''identity file permissions are too broad: '' @ octal4 perm @ '' (require 0600 or stricter)''))
         else bindE (wrap ''read identity'' (ReadFile f d path)) (\<lambda>data.
              case idc_decode j data of
                None \<Rightarrow> Inl (Err ''identity file is invalid'')
              | Some identity \<Rightarrow> bindE (validateIdentity identity) (\<lambda>_. Inr identity))
     | _ \<Rightarrow> Inl (Err ''identity file must be a regular file, not a symlink''))"

definition ensurePrivateDirectory :: "faults \<Rightarrow> string \<Rightarrow> fs \<Rightarrow> (err + unit) \<times> fs" where
  "ensurePrivateDirectory f dir d =
     (case Stat f d dir of
        Inl e \<Rightarrow>
          if Is e ErrNotExist
          then (case MkdirAll f 448 dir d of (r, d') \<Rightarrow> (wrap ''create identity directory'' r, d'))
          else (Inl (Wrap ''inspect identity directory'' e), d)
      | Inr info \<Rightarrow>
          (case info of
             DirectoryEntry perm \<Rightarrow>
               if perm mod 64 \<noteq> 0
               then (Inl (Err (''identity directory permissions are too broad: '' @ octal4 perm @ '' (require 0700 or stricter)'')), d)
               else (Inr (), d)
           | _ \<Rightarrow> (Inl (Err ''identity parent path is not a directory''), d)))"

text \<open>The deferred clean-up removes the file unless every step succeeded; \<open>written\<close> is how much of
  the data a failing write left in it.\<close>

definition remove_file :: "faults \<Rightarrow> string \<Rightarrow> fs \<Rightarrow> fs" where
  "remove_file f path d = (if f SRemove = None then d(path := None) else d)"

definition writeIdentity :: "faults \<Rightarrow> nat \<Rightarrow> identity_codec \<Rightarrow> string \<Rightarrow> Identity \<Rightarrow> fs \<Rightarrow> (err + unit) \<times> fs" where
  "writeIdentity f written j path identity d =
     (case ensurePrivateDirectory f (Dir path) d of
        (Inl e, d1) \<Rightarrow> (Inl e, d1)
      | (Inr _, d1) \<Rightarrow>
     (case idc_encode j identity of
        None \<Rightarrow> (Inl (Wrap ''encode identity'' (Err ''unsupported value'')), d1)
      | Some data0 \<Rightarrow>
     (let data = data0 @ [CHR 0x0A] in
      case OpenExclusive f 384 path d1 of
        (Inl e, d2) \<Rightarrow> (Inl e, d2)
      | (Inr _, d2) \<Rightarrow>
     (case f SWrite of
        Some e \<Rightarrow> (Inl (Wrap ''write identity'' e), remove_file f path (d2(path \<mapsto> RegularFile 384 (take written data))))
      | None \<Rightarrow>
     (let d3 = d2(path \<mapsto> RegularFile 384 data) in
      case f SSync of
        Some e \<Rightarrow> (Inl (Wrap ''sync identity'' e), remove_file f path d3)
      | None \<Rightarrow>
     (case f SClose of
        Some e \<Rightarrow> (Inl (Wrap ''close identity'' e), remove_file f path d3)
      | None \<Rightarrow> (Inr (), d3)))))))"

text \<open>\<open>between\<close> is what other processes did to the file system after the first attempt to load; the
  faults of the three stages are separate.\<close>

definition LoadOrCreateIdentity :: "'c agent_crypto_scheme \<Rightarrow> u8 list option \<Rightarrow> u8 list option
    \<Rightarrow> (nat \<Rightarrow> faults) \<Rightarrow> nat \<Rightarrow> identity_codec \<Rightarrow> (fs \<Rightarrow> fs) \<Rightarrow> string \<Rightarrow> fs \<Rightarrow> (err + Identity \<times> bool) \<times> fs" where
  "LoadOrCreateIdentity c seed raw f written j between path d =
     (if TrimSpace path = [] then (Inl (Err ''identity path is required''), d)
      else case LoadIdentity (f 0) j d path of
        Inr identity \<Rightarrow> (Inr (identity, False), d)
      | Inl e \<Rightarrow>
          if \<not> Is e ErrNotExist then (Inl e, d)
          else (case generateIdentity c seed raw of
            Inl e \<Rightarrow> (Inl e, d)
          | Inr identity \<Rightarrow>
              (case writeIdentity (f 1) written j path identity (between d) of
                 (Inr _, d') \<Rightarrow> (Inr (identity, True), d')
               | (Inl e, d') \<Rightarrow>
                   if Is e ErrExist
                   then (bindE (LoadIdentity (f 2) j d' path) (\<lambda>identity. Inr (identity, False)), d')
                   else (Inl e, d'))))"

definition byte_string :: "u8 list \<Rightarrow> string" where
  "byte_string bs = map (\<lambda>b. char_of (unat b)) bs"

definition PublicKeyFingerprint :: "'c crypto_scheme \<Rightarrow> Identity \<Rightarrow> err + string" where
  "PublicKeyFingerprint c identity =
     (case DecodeString (idn_PublicKey identity) of
        None \<Rightarrow> Inl (Err ''identity public key is invalid'')
      | Some publicKey \<Rightarrow>
          if length publicKey \<noteq> PublicKeySize then Inl (Err ''identity public key is invalid'')
          else Inr (hex_encode (take 8 (Sum256 c (byte_string publicKey)))))"

definition NodeIDFingerprint :: "'c crypto_scheme \<Rightarrow> string \<Rightarrow> string" where
  "NodeIDFingerprint c nodeID = hex_encode (take 6 (Sum256 c nodeID))"

section \<open>The life of an identity file\<close>

definition no_faults :: faults where "no_faults = (\<lambda>_. None)"

lemma follow_entry: "d p = Some e \<Longrightarrow> \<forall>q. e \<noteq> SymbolicLink q \<Longrightarrow> follow 40 d p = Inr e"
  by (cases e) (simp_all add: numeral_eq_Suc)

lemma wrap_Inr_eq [simp]: "wrap p (Inr x) = Inr x"
  by (simp add: wrap_def)

lemma ensure_existing:
  assumes "d dir = Some (DirectoryEntry m)" "m mod 64 = 0"
  shows "ensurePrivateDirectory no_faults dir d = (Inr (), d)"
  using assms follow_entry [of d dir "DirectoryEntry m"]
  by (simp add: ensurePrivateDirectory_def Stat_def fault_def no_faults_def)

lemma load_written:
  assumes "d path = Some (RegularFile 384 s)" "idc_decode j s = Some i" "validateIdentity i = Inr ()"
  shows "LoadIdentity no_faults j d path = Inr i"
  using assms follow_entry [of d path "RegularFile 384 s"]
  by (simp add: LoadIdentity_def Lstat_def ReadFile_def fault_def no_faults_def)

definition fresh_identity :: "'c agent_crypto_scheme \<Rightarrow> u8 list \<Rightarrow> u8 list \<Rightarrow> Identity" where
  "fresh_identity c seed raw = \<lparr>idn_Version = 1, idn_NodeID = newUUIDv4 raw, idn_PublicKey = EncodeToString (ed_public c seed),
     idn_PrivateKey = EncodeToString (seed @ ed_public c seed)\<rparr>"

lemma generate_fresh: "generateIdentity c (Some seed) (Some raw) = Inr (fresh_identity c seed raw)"
  by (simp add: generateIdentity_def random_uuid_def fresh_identity_def identityFileVersion_def)

lemma fresh_valid:
  assumes "length seed = 32" "length (ed_public c seed) = 32" "length raw = 16"
  shows "validateIdentity (fresh_identity c seed raw) = Inr ()"
  using assms validUUIDv4_newUUIDv4 [of raw]
  by (simp add: validateIdentity_def fresh_identity_def identityFileVersion_def Decode_EncodeToString
      PublicKeySize_def PrivateKeySize_def)

text \<open>C26: an identity survives. In a private directory without a file, and with a random source and no
  failing call, the agent creates an identity readable by the owner only; loading the file gives
  exactly that identity back, and every later start finds it again and leaves the file system
  alone. The codec has to read what it wrote.\<close>

theorem identity_roundtrip:
  assumes "TrimSpace path \<noteq> []" "d path = None" "d (Dir path) = Some (DirectoryEntry m)" "m mod 64 = 0"
    "length seed = 32" "length (ed_public c seed) = 32" "length raw = 16"
    "idc_encode j (fresh_identity c seed raw) = Some text"
    "idc_decode j (text @ [CHR 0x0A]) = Some (fresh_identity c seed raw)"
  shows "\<exists>d'. LoadOrCreateIdentity c (Some seed) (Some raw) (\<lambda>_. no_faults) k j id path d
        = (Inr (fresh_identity c seed raw, True), d')
     \<and> (\<exists>s. d' = d(path \<mapsto> RegularFile 384 s))
     \<and> LoadIdentity no_faults j d' path = Inr (fresh_identity c seed raw)
     \<and> LoadOrCreateIdentity c seed' raw' (\<lambda>_. no_faults) k j id path d' = (Inr (fresh_identity c seed raw, False), d')"
proof -
  let ?i = "fresh_identity c seed raw" and ?d = "d(path \<mapsto> RegularFile 384 (text @ [CHR 0x0A]))"
  have v: "validateIdentity ?i = Inr ()" by (rule fresh_valid) fact+
  have miss: "LoadIdentity no_faults j d path = Inl (Wrap (''lstat '' @ path) ErrNotExist)"
    using assms(2) by (simp add: LoadIdentity_def Lstat_def fault_def no_faults_def)
  have n: "Is (Wrap p ErrNotExist) ErrNotExist" for p by (simp add: ErrNotExist_def)
  have w: "writeIdentity no_faults k j path ?i d = (Inr (), ?d)"
    using assms(2,8) ensure_existing [of d "Dir path" m] assms(3,4)
    by (simp add: writeIdentity_def OpenExclusive_def no_faults_def Let_def)
  have l: "LoadIdentity no_faults j ?d path = Inr ?i" using assms(9) v by (intro load_written) auto
  show ?thesis
    using assms(1) miss n w l by (auto simp: LoadOrCreateIdentity_def generate_fresh)
qed

definition toy_crypto :: agent_crypto where
  "toy_crypto = \<lparr>Sum256 = (\<lambda>body. replicate 32 0), Ed25519Verify = (\<lambda>k m s. s = replicate 32 1 @ k),
     ed_public = (\<lambda>s. s), ed_sign = (\<lambda>k m. replicate 32 1 @ drop 32 k)\<rparr>"

theorem identity_roundtrip_witness:
  "\<exists>d'. LoadOrCreateIdentity toy_crypto (Some (replicate 32 7)) (Some (replicate 16 5)) (\<lambda>_. no_faults) 0
        \<lparr>idc_encode = (\<lambda>i. Some ''x''), idc_decode = (\<lambda>s. Some (fresh_identity toy_crypto (replicate 32 7) (replicate 16 5)))\<rparr>
        id ''/c/i'' [''/c'' \<mapsto> DirectoryEntry 448] = (Inr (fresh_identity toy_crypto (replicate 32 7) (replicate 16 5), True), d')"
proof -
  have "TrimSpace ''/c/i'' \<noteq> []" "Dir ''/c/i'' = ''/c''" by code_simp+
  then show ?thesis
    using identity_roundtrip [of "''/c/i''" "[''/c'' \<mapsto> DirectoryEntry 448]" 448 "replicate 32 7" toy_crypto "replicate 16 5"
        "\<lparr>idc_encode = (\<lambda>i. Some ''x''), idc_decode = (\<lambda>s. Some (fresh_identity toy_crypto (replicate 32 7) (replicate 16 5)))\<rparr>"
        "''x''" 0 None None]
    by (auto simp: toy_crypto_def)
qed

lemma mkdir_keeps: "d p = Some e \<Longrightarrow> snd (MkdirAll f m dir d) p = Some e"
  by (auto simp: MkdirAll_def split: option.splits)

lemma ensure_keeps: "d p = Some e \<Longrightarrow> snd (ensurePrivateDirectory f dir d) p = Some e"
  using mkdir_keeps [of d p e f 448 dir]
  by (auto simp: ensurePrivateDirectory_def split: sum.splits entry.splits prod.splits)

lemma write_keeps:
  assumes "d path = Some e"
  shows "snd (writeIdentity f k j path i d) path = Some e \<and> fst (writeIdentity f k j path i d) \<noteq> Inr ()"
proof -
  obtain r d1 where e: "ensurePrivateDirectory f (Dir path) d = (r, d1)" by fastforce
  then have "d1 path = Some e" using ensure_keeps [of d path e f "Dir path"] assms by simp
  then show ?thesis using e
    by (auto simp: writeIdentity_def OpenExclusive_def Let_def split: sum.split option.split)
qed

lemma load_valid: "LoadIdentity f j d path = Inr i \<Longrightarrow> validateIdentity i = Inr ()
    \<and> (\<exists>perm s. d path = Some (RegularFile perm s) \<and> perm mod 64 = 0)"
  by (cases "f SLstat"; cases "d path")
    (auto simp: LoadIdentity_def bindE_Inr_iff Lstat_def fault_def split: entry.splits if_splits option.splits)

text \<open>C27: an existing entry at the identity's path, of whatever kind, is never overwritten, truncated or
  removed, whatever calls fail and even when it appears only after the agent looked; and every
  identity the agent starts with is valid, read from a regular file no other user can access or
  just generated.\<close>

theorem identity_never_overwritten:
  assumes "between d path = Some e" "length seed = 32" "length (ed_public c seed) = 32" "length raw = 16"
  shows "snd (LoadOrCreateIdentity c (Some seed) (Some raw) f k j between path d) path \<in> {Some e, d path}
    \<and> (case fst (LoadOrCreateIdentity c (Some seed) (Some raw) f k j between path d) of
         Inl _ \<Rightarrow> True
       | Inr (i, created) \<Rightarrow> \<not> created \<and> validateIdentity i = Inr ()
           \<and> (\<exists>perm s. snd (LoadOrCreateIdentity c (Some seed) (Some raw) f k j between path d) path
                         = Some (RegularFile perm s) \<and> perm mod 64 = 0))"
proof -
  obtain r d' where w: "writeIdentity (f 1) k j path (fresh_identity c seed raw) (between d) = (r, d')" by fastforce
  then have d': "d' path = Some e" "r \<noteq> Inr ()"
    using write_keeps [of "between d" path e "f 1" k j "fresh_identity c seed raw"] assms(1) by auto
  then show ?thesis
    using w load_valid [of "f 0" j d path] load_valid [of "f 2" j d' path]
    by (auto simp: LoadOrCreateIdentity_def generate_fresh bindE_Inr_iff split: sum.splits)
qed

theorem identity_never_overwritten_witness:
  "snd (LoadOrCreateIdentity toy_crypto (Some (replicate 32 7)) (Some (replicate 16 5)) (\<lambda>_. no_faults) 0
        \<lparr>idc_encode = (\<lambda>i. Some ''x''), idc_decode = (\<lambda>s. None)\<rparr>
        id ''/c/i'' [''/c/i'' \<mapsto> SymbolicLink ''/etc/passwd'']) ''/c/i'' = Some (SymbolicLink ''/etc/passwd'')"
  using identity_never_overwritten [of id "[''/c/i'' \<mapsto> SymbolicLink ''/etc/passwd'']" "''/c/i''" "SymbolicLink ''/etc/passwd''"
      "replicate 32 7" toy_crypto "replicate 16 5" "\<lambda>_. no_faults" 0]
  by (auto simp: toy_crypto_def)

end
