(* ===== verification/NetMeasure.thy ===== *)
theory NetMeasure
  imports AgentIO Protocol
begin

text \<open>
  \<^verbatim>\<open>agent/network_benchmark_measurement.go\<close>: the figures of a network benchmark from the
  output of Apple's \<open>networkQuality\<close> and from timed control connections. The JSON decoder is a
  parameter.
\<close>

definition finiteNonNegative :: "f64 \<Rightarrow> bool" where
  "finiteNonNegative value0 \<longleftrightarrow> \<not> IsNaN value0 \<and> \<not> IsInf value0 \<and> f_le (Fin 0) value0"

record networkQualityResult =
  nq_DownloadBitsPerSecond :: f64
  nq_UploadBitsPerSecond :: f64
  nq_InterfaceName :: string

definition parseNetworkQualityResult :: "(string \<Rightarrow> networkQualityResult option) \<Rightarrow> string
    \<Rightarrow> err + (f64 \<times> f64 \<times> string)" where
  "parseNetworkQualityResult decode raw =
     (if TrimSpace raw = [] then Inl (Err ''networkQuality output is empty'')
      else case decode raw of
        None \<Rightarrow> Inl (Err ''invalid networkQuality JSON'')
      | Some result \<Rightarrow>
          if \<not> finiteNonNegative (nq_DownloadBitsPerSecond result) then Inl (Err ''invalid download throughput'')
          else if \<not> finiteNonNegative (nq_UploadBitsPerSecond result) then Inl (Err ''invalid upload throughput'')
          else let interfaceName = TrimSpace (nq_InterfaceName result)
               in if interfaceName = [] then Inl (Err ''networkQuality interface is empty'')
                  else Inr (f_div (nq_DownloadBitsPerSecond result) (Fin 1000000),
                            f_div (nq_UploadBitsPerSecond result) (Fin 1000000), interfaceName))"

record networkProbeSample =
  np_ConnectDuration :: duration
  np_Success :: bool

text \<open>\<open>float64(d) / float64(time.Millisecond)\<close>.\<close>

definition milliseconds :: "duration \<Rightarrow> f64" where
  "milliseconds d = f_div (f_of_int d) (f_of_int Millisecond)"

text \<open>The connection times of the successful probes; \<open>None\<close> when one of them is not positive.\<close>

fun successful_times :: "networkProbeSample list \<Rightarrow> f64 list option" where
  "successful_times [] = Some []"
| "successful_times (sample # samples) =
     (if \<not> np_Success sample then successful_times samples
      else if np_ConnectDuration sample \<le> 0 then None
      else map_option (\<lambda>ts. milliseconds (np_ConnectDuration sample) # ts) (successful_times samples))"

text \<open>The sum over \<open>i\<close> of the absolute changes, added up in the order of the loop.\<close>

fun variation :: "f64 \<Rightarrow> f64 list \<Rightarrow> f64" where
  "variation acc0 (a # b # ts) = variation (f_add acc0 (f_abs (f_sub b a))) (b # ts)"
| "variation acc0 ts = acc0"

definition median_ms :: "f64 list \<Rightarrow> f64" where
  "median_ms successful =
     (let sorted = sort successful; middle = length sorted div 2
      in if length sorted mod 2 = 0 then f_div (f_add (sorted ! (middle - 1)) (sorted ! middle)) (Fin 2)
         else sorted ! middle)"

definition jitter_ms :: "f64 list \<Rightarrow> f64" where
  "jitter_ms successful =
     (if length successful > 1 then f_div (variation (Fin 0) successful) (f_of_int (int (length successful) - 1))
      else Fin 0)"

text \<open>Latency, jitter and packet loss with the error; all samples failing still gives a loss.\<close>

definition summarizeNetworkProbes :: "networkProbeSample list \<Rightarrow> (f64 \<times> f64 \<times> f64) \<times> err option" where
  "summarizeNetworkProbes samples =
     (if samples = [] then ((Fin 0, Fin 0, Fin 0), Some (Err ''no control probes supplied''))
      else case successful_times samples of
        None \<Rightarrow> ((Fin 0, Fin 0, Fin 0), Some (Err ''successful control probe has invalid duration''))
      | Some successful \<Rightarrow>
          let failed = int (length samples) - int (length successful);
              packetLossPercent = f_mul (f_div (f_of_int failed) (f_of_int (int (length samples)))) (Fin 100)
          in if successful = [] then ((Fin 0, Fin 0, packetLossPercent), Some (Err ''no successful control probes''))
             else ((median_ms successful, jitter_ms successful, packetLossPercent), None))"

section \<open>Bounds of the figures\<close>

lemma finite_nonneg: "finiteNonNegative x \<longleftrightarrow> (\<exists>r. x = Fin r \<and> 0 \<le> r)"
  by (cases x) (auto simp: finiteNonNegative_def IsNaN_def IsInf_def f_le_def)

lemma fl_div_int:
  assumes "0 \<le> x" "x \<le> of_int (n * k)" "0 < k" "0 \<le> n" "n < 2 ^ 53"
  shows "\<exists>y. fl (x / of_int k) = Fin y \<and> 0 \<le> y \<and> y \<le> of_int n"
proof -
  have "x / of_int k \<le> of_int n" using assms by (simp add: field_simps)
  moreover have "0 \<le> x / of_int k" using assms by simp
  ultimately show ?thesis using fl_between [of 0 "x / of_int k" n] assms by auto
qed

lemma fl_pow2:
  assumes "0 \<le> x" "x \<le> 2 powi k" "0 \<le> k" "k < 1024"
  shows "\<exists>y. fl x = Fin y \<and> 0 \<le> y \<and> y \<le> 2 powi k"
proof -
  have y: "0 \<le> fround x" "fround x \<le> 2 powi k"
    using assms fround_nonneg [of x] fround_le_powi [of x k] by (cases "x = 0"; simp)+
  have "\<not> 1024 \<le> ilog2 \<bar>fround x\<bar>" if "fround x \<noteq> 0"
  proof
    assume "1024 \<le> ilog2 \<bar>fround x\<bar>"
    then have "(2::real) powi 1024 \<le> 2 powi (ilog2 \<bar>fround x\<bar>)" by (simp only: powi2_le)
    also have "\<dots> \<le> \<bar>fround x\<bar>" using that by (intro ilog2_bounds) simp
    also have "\<dots> \<le> 2 powi k" using y by simp
    finally show False using assms(4) unfolding powi2_le by simp
  qed
  then show ?thesis using y by (auto simp: fl_def Let_def)
qed

lemma milliseconds_range:
  assumes "0 \<le> d" "d < 2 ^ 63"
  shows "fin_in 0 9223372036855 (milliseconds d)"
proof -
  have d: "real_of_int d \<le> 2 powi 63"
  proof -
    have "real_of_int d \<le> of_int (2 ^ 63)" using assms(2) by (simp only: of_int_le_iff)
    then show ?thesis by simp
  qed
  obtain y where y: "f_of_int d = Fin y" "0 \<le> y" "y \<le> 2 powi 63"
    using fl_pow2 [of "of_int d" 63] assms d by (auto simp: f_of_int_def)
  have "y \<le> of_int (9223372036855 * 1000000)" using y(3) by simp
  then obtain z where "fl (y / of_int 1000000) = Fin z" "0 \<le> z" "z \<le> of_int 9223372036855"
    using fl_div_int [of y 9223372036855 1000000] y by auto
  then show ?thesis
    using y f_of_int_small [of 1000000] by (simp add: milliseconds_def Millisecond_def fin_in_iff)
qed

lemma milliseconds_finite: "0 \<le> d \<Longrightarrow> d < 2 ^ 63 \<Longrightarrow> \<exists>r. milliseconds d = Fin r \<and> 0 \<le> r"
  using milliseconds_range [of d] by (auto simp: fin_in_iff)

lemma fin_in_abs_diff:
  assumes "fin_in 0 n a" "fin_in 0 n b" "n < 2 ^ 53"
  shows "fin_in 0 n (f_abs (f_sub a b))"
proof -
  obtain x y where xy: "a = Fin x" "b = Fin y" "0 \<le> x" "x \<le> of_int n" "0 \<le> y" "y \<le> of_int n"
    using assms by (auto simp: fin_in_iff)
  then have "0 \<le> n" by linarith
  then have "fl (x - y) = Fin (fround (x - y))" "of_int (- n) \<le> fround (x - y)" "fround (x - y) \<le> of_int n"
    using fl_between [of "- n" "x - y" n] xy assms(3) by auto
  then show ?thesis using xy by (auto simp: f_sub_def fin_in_iff)
qed

lemma fin_in_div:
  assumes "fin_in 0 (n * k) a" "0 < k" "k < 2 ^ 53" "0 \<le> n" "n < 2 ^ 53"
  shows "fin_in 0 n (f_div a (f_of_int k))"
proof -
  obtain x where x: "a = Fin x" "0 \<le> x" "x \<le> of_int (n * k)" using assms(1) by (auto simp: fin_in_iff)
  then obtain y where "fl (x / of_int k) = Fin y" "0 \<le> y" "y \<le> of_int n"
    using fl_div_int [OF x(2,3) assms(2,4,5)] by blast
  then show ?thesis using x(1) assms(2,3) f_of_int_small [of k] by (simp add: fin_in_def)
qed

lemma variation_range:
  assumes "list_all (fin_in 0 n) ts" "fin_in 0 m acc" "0 \<le> m" "0 \<le> n" "n < 2 ^ 53" "m + n * int (length ts) < 2 ^ 53"
  shows "fin_in 0 (m + n * (int (length ts) - 1)) (variation acc ts) \<or> length ts \<le> 1 \<and> variation acc ts = acc"
  using assms
proof (induction acc ts arbitrary: m rule: variation.induct)
  case (1 acc a b ts)
  have d: "fin_in 0 n (f_abs (f_sub b a))" using 1(2,6) by (intro fin_in_abs_diff) auto
  have mn: "m + n < 2 ^ 53" using 1(4,5,7) by (simp add: algebra_simps) (smt (verit) mult_nonneg_nonneg of_nat_0_le_iff)
  have s: "fin_in 0 (m + n) (f_add acc (f_abs (f_sub b a)))"
    using fin_in_add [OF 1(3) d] 1(4,5) mn by simp
  have "fin_in 0 (m + n + n * (int (length (b # ts)) - 1)) (variation (f_add acc (f_abs (f_sub b a))) (b # ts))
      \<or> length (b # ts) \<le> 1 \<and> variation (f_add acc (f_abs (f_sub b a))) (b # ts) = f_add acc (f_abs (f_sub b a))"
    using 1(2,4,5,6,7) s by (intro 1(1)) (auto simp: algebra_simps)
  then show ?case using s by (auto simp: algebra_simps)
qed auto

lemma successful_times_range:
  assumes "successful_times samples = Some ts" "list_all (\<lambda>p. np_ConnectDuration p < 2 ^ 63) samples"
  shows "list_all (fin_in 0 9223372036855) ts \<and> length ts = length (filter np_Success samples)"
  using assms by (induction samples arbitrary: ts) (auto split: if_splits simp: milliseconds_range)

lemma median_range:
  assumes "list_all (fin_in 0 n) ts" "ts \<noteq> []" "2 * n < 2 ^ 53"
  shows "fin_in 0 n (median_ms ts)"
proof -
  have nth: "i < length ts \<Longrightarrow> fin_in 0 n (sort ts ! i)" for i
    using assms(1) by (metis length_sort list_all_iff nth_mem set_sort)
  have "0 < length ts" using assms(2) by simp
  then have i: "length ts div 2 < length ts" "length ts div 2 - 1 < length ts" by linarith+
  have n: "0 \<le> n"
  proof -
    obtain x where "0 \<le> x" "x \<le> real_of_int n" using nth [OF i(1)] by (auto simp: fin_in_iff)
    then have "0 \<le> real_of_int n" by linarith
    then show ?thesis by simp
  qed
  then have "fin_in 0 (2 * n) (f_add (sort ts ! (length ts div 2 - 1)) (sort ts ! (length ts div 2)))"
    using fin_in_add [OF nth [OF i(2)] nth [OF i(1)]] assms(3) by simp
  with n have "fin_in 0 n (f_div (f_add (sort ts ! (length ts div 2 - 1)) (sort ts ! (length ts div 2))) (f_of_int 2))"
    using assms(3) by (intro fin_in_div) (auto simp: mult.commute)
  then show ?thesis using nth [OF i(1)] by (simp add: median_ms_def Let_def f_of_int_small)
qed

lemma loss_range:
  assumes "0 \<le> f" "f \<le> n" "0 < n" "n < 2 ^ 53"
  shows "fin_in 0 100 (f_mul (f_div (f_of_int f) (f_of_int n)) (Fin 100))"
proof -
  have "fin_in 0 (1 * n) (f_of_int f)" using assms by (simp add: f_of_int_small fin_in_def)
  then have "fin_in 0 1 (f_div (f_of_int f) (f_of_int n))" using assms by (intro fin_in_div) auto
  then show ?thesis using fin_in_mul [of 1 _ 100 "Fin 100"] by (simp add: fin_in_def)
qed

text \<open>The control-path figures. Without an error and for at most 900 probes, whatever their
  times, latency and jitter are finite and non-negative and the loss is a percentage, so the
  server's checks of the three figures hold; and with an error the figures are never used as a
  measurement: no probe at all, an impossible time, or no probe that succeeded.\<close>

lemma probe_summary_bounds:
  assumes "list_all (\<lambda>p. np_ConnectDuration p < 2 ^ 63) samples" "length samples \<le> 900"
  shows "case summarizeNetworkProbes samples of
      ((lat, jit, loss), None) \<Rightarrow> fin_in 0 9223372036855 lat \<and> fin_in 0 9223372036855 jit \<and> fin_in 0 100 loss
        \<and> (\<exists>p \<in> set samples. np_Success p \<and> 0 < np_ConnectDuration p)
    | (_, Some e) \<Rightarrow> samples = [] \<or> (\<exists>p \<in> set samples. np_Success p \<and> np_ConnectDuration p \<le> 0)
        \<or> list_all (\<lambda>p. \<not> np_Success p) samples"
proof (cases "successful_times samples")
  case None
  then have "\<exists>p \<in> set samples. np_Success p \<and> np_ConnectDuration p \<le> 0"
    by (induction samples) (auto split: if_splits)
  with None show ?thesis by (auto simp: summarizeNetworkProbes_def)
next
  case (Some ts)
  note r = successful_times_range [OF Some assms(1)]
  have len: "length ts \<le> length samples" using r by simp
  show ?thesis
  proof (cases "ts = []")
    case True
    then have "list_all (\<lambda>p. \<not> np_Success p) samples" using r by (auto simp: list_all_iff filter_empty_conv)
    with True Some show ?thesis by (auto simp: summarizeNetworkProbes_def Let_def)
  next
    case False
    then have ne: "samples \<noteq> []" using len by auto
    have l: "int (length ts) \<le> 900" "1 \<le> int (length ts)" using False len assms(2) by (cases ts; simp)+
    have lat: "fin_in 0 9223372036855 (median_ms ts)" using r False by (intro median_range) auto
    have jit: "fin_in 0 9223372036855 (jitter_ms ts)"
    proof (cases "length ts > 1")
      case True
      have "fin_in 0 (9223372036855 * (int (length ts) - 1)) (variation (Fin 0) ts)"
        using variation_range [of 9223372036855 ts 0 "Fin 0"] r l True by (auto simp: fin_in_iff)
      then show ?thesis using True l by (auto simp: jitter_ms_def intro!: fin_in_div)
    qed (simp add: jitter_ms_def fin_in_iff)
    have loss: "fin_in 0 100 (f_mul (f_div (f_of_int (int (length samples) - int (length ts)))
        (f_of_int (int (length samples)))) (Fin 100))"
      using len ne assms(2) by (intro loss_range) (auto simp: Suc_le_eq)
    have "filter np_Success samples \<noteq> []" using r False by auto
    moreover have "np_Success p \<Longrightarrow> p \<in> set samples \<Longrightarrow> 0 < np_ConnectDuration p" for p
      using Some by (induction samples arbitrary: ts) (auto split: if_splits)
    ultimately have "\<exists>p \<in> set samples. np_Success p \<and> 0 < np_ConnectDuration p"
      by (auto simp: filter_empty_conv)
    then show ?thesis using lat jit loss ne False Some by (simp add: summarizeNetworkProbes_def Let_def)
  qed
qed

end
