(* ===== verification/BenchRuns.thy ===== *)
theory BenchRuns
  imports NetMeasure SubmissionAuth
begin

text \<open>
  The machine-independent part of the compute benchmark: reading one \<open>llama-bench\<close> result
  (\<^verbatim>\<open>agent/compute_benchmark_llama_bench.go\<close>), combining and assembling five runs
  (\<^verbatim>\<open>..._runs.go\<close>, \<^verbatim>\<open>..._assemble.go\<close>), the final payload with failed runs kept
  (\<^verbatim>\<open>..._finalize.go\<close>) and the loop over the repetitions (\<^verbatim>\<open>..._orchestrate.go\<close>).
  The collectors of the loop act on a state \<open>'w\<close> of the outside world; \<open>ctx.Err()\<close> is an
  observation of that state. The JSON decoder of \<open>llama-bench\<close> output is a parameter.
\<close>

section \<open>compute\_benchmark\_llama\_bench.go\<close>

definition m9StandardWorkloadID :: string where "m9StandardWorkloadID = ''m9-standard-v1''"
definition m9StandardPromptTokens :: int where "m9StandardPromptTokens = 512"
definition m9StandardGeneratedTokens :: int where "m9StandardGeneratedTokens = 128"
definition m9StandardRepetitions :: nat where "m9StandardRepetitions = 5"
definition m9StandardContextSize :: int where "m9StandardContextSize = 4096"
definition m9LlamaBenchInvocationRepetitions :: nat where "m9LlamaBenchInvocationRepetitions = 1"

record llamaBenchJSONResult =
  lb_BuildCommit :: string
  lb_BuildNumber :: int
  lb_Backends :: string
  lb_ModelFilename :: string
  lb_ModelType :: string
  lb_NPrompt :: int
  lb_NGen :: int
  lb_AvgTS :: f64
  lb_SamplesTS :: "f64 list"

record llamaBenchThroughput =
  tp_RuntimeVersion :: string
  tp_ModelFilename :: string
  tp_ModelType :: string
  tp_Backend :: string
  tp_PromptTokens :: int
  tp_GeneratedTokens :: int
  tp_PromptTokensPerSecond :: "f64 list"
  tp_GenerationTokensPerSecond :: "f64 list"

definition no_throughput :: llamaBenchThroughput where
  "no_throughput = \<lparr>tp_RuntimeVersion = [], tp_ModelFilename = [], tp_ModelType = [], tp_Backend = [],
     tp_PromptTokens = 0, tp_GeneratedTokens = 0, tp_PromptTokensPerSecond = [], tp_GenerationTokensPerSecond = []\<rparr>"

definition m9LlamaBenchArgs :: "string \<Rightarrow> err + string list" where
  "m9LlamaBenchArgs modelPath0 =
     (let modelPath = TrimSpace modelPath0
      in if modelPath = [] then Inl (Err ''llama-bench model path is required'')
         else Inr [''-m'', modelPath, ''-p'', Itoa m9StandardPromptTokens, ''-n'', Itoa m9StandardGeneratedTokens,
                   ''-r'', Itoa (int m9LlamaBenchInvocationRepetitions), ''-o'', ''json''])"

text \<open>The loop that picks the prompt row and the generation row.\<close>

fun pick_rows :: "llamaBenchJSONResult option \<Rightarrow> llamaBenchJSONResult option \<Rightarrow> llamaBenchJSONResult list
    \<Rightarrow> err + (llamaBenchJSONResult option \<times> llamaBenchJSONResult option)" where
  "pick_rows promptRow generationRow [] = Inr (promptRow, generationRow)"
| "pick_rows promptRow generationRow (row # rows) =
     (if lb_NPrompt row = m9StandardPromptTokens \<and> lb_NGen row = 0
      then (if promptRow \<noteq> None then Inl (Err ''duplicate M9 prompt result'')
            else pick_rows (Some row) generationRow rows)
      else if lb_NPrompt row = 0 \<and> lb_NGen row = m9StandardGeneratedTokens
      then (if generationRow \<noteq> None then Inl (Err ''duplicate M9 generation result'')
            else pick_rows promptRow (Some row) rows)
      else pick_rows promptRow generationRow rows)"

definition validateLlamaBenchSamples :: "f64 list \<Rightarrow> err + unit" where
  "validateLlamaBenchSamples values =
     (if values = [] then Inl (Err ''llama-bench samples are empty'')
      else if list_ex (\<lambda>v. \<not> finiteNonNegative v \<or> f_le v (Fin 0)) values
      then Inl (Err ''llama-bench sample is invalid'')
      else Inr ())"

definition parseLlamaBenchJSON :: "(string \<Rightarrow> llamaBenchJSONResult list option) \<Rightarrow> string \<Rightarrow> err + llamaBenchThroughput" where
  "parseLlamaBenchJSON decode raw =
     (if TrimSpace raw = [] then Inl (Err ''llama-bench output is empty'')
      else case decode raw of
        None \<Rightarrow> Inl (Err ''invalid llama-bench JSON'')
      | Some rows \<Rightarrow>
        bindE (pick_rows None None rows) (\<lambda>(promptRow, generationRow).
        case promptRow of None \<Rightarrow> Inl (Err ''M9 prompt result is missing'') | Some p \<Rightarrow>
        (case generationRow of None \<Rightarrow> Inl (Err ''M9 generation result is missing'') | Some g \<Rightarrow>
        if lb_ModelFilename p = [] \<or> lb_ModelFilename p \<noteq> lb_ModelFilename g
        then Inl (Err ''llama-bench model mismatch'')
        else if lb_ModelType p = [] \<or> lb_ModelType p \<noteq> lb_ModelType g
        then Inl (Err ''llama-bench model type mismatch'')
        else if lb_BuildCommit p = [] \<or> lb_BuildCommit p \<noteq> lb_BuildCommit g \<or> lb_BuildNumber p \<noteq> lb_BuildNumber g
        then Inl (Err ''llama-bench runtime version mismatch'')
        else if lb_Backends p = [] \<or> lb_Backends p \<noteq> lb_Backends g
        then Inl (Err ''llama-bench backend mismatch'')
        else
        bindE (wrap ''prompt throughput'' (validateLlamaBenchSamples (lb_SamplesTS p))) (\<lambda>_.
        bindE (wrap ''generation throughput'' (validateLlamaBenchSamples (lb_SamplesTS g))) (\<lambda>_.
        if length (lb_SamplesTS p) \<noteq> length (lb_SamplesTS g)
        then Inl (Err ''llama-bench repetition counts do not match'')
        else if length (lb_SamplesTS p) \<noteq> m9LlamaBenchInvocationRepetitions
        then Inl (Err (''llama-bench invocation repetition count = '' @ nat_dec (length (lb_SamplesTS p))
                       @ '', want '' @ nat_dec m9LlamaBenchInvocationRepetitions))
        else Inr \<lparr>tp_RuntimeVersion = lb_BuildCommit p @ ''-'' @ Itoa (lb_BuildNumber p),
                  tp_ModelFilename = lb_ModelFilename p, tp_ModelType = lb_ModelType p, tp_Backend = lb_Backends p,
                  tp_PromptTokens = m9StandardPromptTokens, tp_GeneratedTokens = m9StandardGeneratedTokens,
                  tp_PromptTokensPerSecond = lb_SamplesTS p, tp_GenerationTokensPerSecond = lb_SamplesTS g\<rparr>)))))"

section \<open>compute\_benchmark\_runs.go and compute\_benchmark\_assemble.go\<close>

record computeBenchmarkRunTelemetry =
  tm_TimeToFirstToken :: duration
  tm_PeakSystemRAM :: u64
  tm_PeakVRAMBytes :: "u64 option"
  tm_TemperatureCelsius :: "f64 option"
  tm_Throttled :: "bool option"

definition no_telemetry :: computeBenchmarkRunTelemetry where
  "no_telemetry = \<lparr>tm_TimeToFirstToken = 0, tm_PeakSystemRAM = 0, tm_PeakVRAMBytes = None,
     tm_TemperatureCelsius = None, tm_Throttled = None\<rparr>"

record computeBenchmarkRunMeasurement =
  rn_Throughput :: llamaBenchThroughput
  rn_Telemetry :: computeBenchmarkRunTelemetry
  rn_Error :: string

definition run_text :: "nat \<Rightarrow> string \<Rightarrow> string" where
  "run_text n text = ''compute benchmark run '' @ nat_dec n @ '' '' @ text"

text \<open>The metadata every run must share.\<close>

definition same_metadata :: "llamaBenchThroughput \<Rightarrow> llamaBenchThroughput \<Rightarrow> bool" where
  "same_metadata current ref \<longleftrightarrow> tp_RuntimeVersion current = tp_RuntimeVersion ref
     \<and> tp_ModelFilename current = tp_ModelFilename ref \<and> tp_ModelType current = tp_ModelType ref
     \<and> tp_Backend current = tp_Backend ref \<and> tp_PromptTokens current = tp_PromptTokens ref
     \<and> tp_GeneratedTokens current = tp_GeneratedTokens ref"

text \<open>The body of the loop up to the metadata comparison.\<close>

definition check_run :: "nat \<Rightarrow> computeBenchmarkRunMeasurement \<Rightarrow> err + unit" where
  "check_run n run =
     (let current = rn_Throughput run in
      if length (tp_PromptTokensPerSecond current) \<noteq> m9LlamaBenchInvocationRepetitions
         \<or> length (tp_GenerationTokensPerSecond current) \<noteq> m9LlamaBenchInvocationRepetitions
      then Inl (Err (run_text n ''does not contain exactly one throughput repetition''))
      else if tp_PromptTokens current \<le> 0 \<or> tp_GeneratedTokens current \<le> 0
      then Inl (Err (run_text n ''has invalid token counts''))
      else if tp_RuntimeVersion current = [] \<or> tp_ModelFilename current = [] \<or> tp_ModelType current = []
              \<or> tp_Backend current = []
      then Inl (Err (run_text n ''has incomplete runtime metadata''))
      else
      bindE (wrap (run_text n ''prompt throughput'') (validateLlamaBenchSamples (tp_PromptTokensPerSecond current))) (\<lambda>_.
      bindE (wrap (run_text n ''generation throughput'') (validateLlamaBenchSamples (tp_GenerationTokensPerSecond current))) (\<lambda>_.
      if tm_TimeToFirstToken (rn_Telemetry run) \<le> 0 then Inl (Err (run_text n ''has invalid TTFT''))
      else if tm_PeakSystemRAM (rn_Telemetry run) = 0 then Inl (Err (run_text n ''has invalid peak RAM''))
      else Inr ())))"

text \<open>\<open>combined\<close> is \<open>None\<close> before the first run (\<open>i == 0\<close>).\<close>

fun combine_loop :: "nat \<Rightarrow> llamaBenchThroughput option \<Rightarrow> computeBenchmarkRunTelemetry list
    \<Rightarrow> computeBenchmarkRunMeasurement list \<Rightarrow> err + (llamaBenchThroughput option \<times> computeBenchmarkRunTelemetry list)" where
  "combine_loop i combined telemetry [] = Inr (combined, telemetry)"
| "combine_loop i combined telemetry (run # runs) =
     bindE (check_run (i + 1) run) (\<lambda>_.
       let current = rn_Throughput run in
       bindE (case combined of
                None \<Rightarrow> Inr (current\<lparr>tp_PromptTokensPerSecond := [], tp_GenerationTokensPerSecond := []\<rparr>)
              | Some c \<Rightarrow> if same_metadata current c then Inr c
                          else Inl (Err ''compute benchmark run metadata changed between repetitions'')) (\<lambda>c.
       combine_loop (i + 1)
         (Some (c\<lparr>tp_PromptTokensPerSecond := tp_PromptTokensPerSecond c @ [hd (tp_PromptTokensPerSecond current)],
                  tp_GenerationTokensPerSecond := tp_GenerationTokensPerSecond c @ [hd (tp_GenerationTokensPerSecond current)]\<rparr>))
         (telemetry @ [rn_Telemetry run]) runs))"

definition combineComputeBenchmarkRuns :: "computeBenchmarkRunMeasurement list
    \<Rightarrow> err + (llamaBenchThroughput \<times> computeBenchmarkRunTelemetry list)" where
  "combineComputeBenchmarkRuns runs =
     (if length runs \<noteq> m9StandardRepetitions
      then Inl (Err (''compute benchmark run count = '' @ nat_dec (length runs) @ '', want '' @ nat_dec m9StandardRepetitions))
      else bindE (combine_loop 0 None [] runs) (\<lambda>(c, tel).
        Inr (case c of None \<Rightarrow> no_throughput | Some t \<Rightarrow> t, tel)))"

text \<open>\<open>filepath.Base\<close> on a Unix system.\<close>

definition Base :: "string \<Rightarrow> string" where
  "Base path =
     (if path = [] then ''.''
      else let p = TrimRight path (CHR ''/'');
               b = rev (takeWhile (\<lambda>c. c \<noteq> CHR ''/'') (rev p))
           in if b = [] then ''/'' else b)"

record computeBenchmarkAssemblyInput =
  ai_CollectedAt :: gotime
  ai_Condition :: string
  ai_Quantization :: string
  ai_Throughput :: llamaBenchThroughput
  ai_Telemetry :: "computeBenchmarkRunTelemetry list"

definition sample_of :: "nat \<Rightarrow> int \<Rightarrow> int \<Rightarrow> f64 \<Rightarrow> f64 \<Rightarrow> computeBenchmarkRunTelemetry \<Rightarrow> ComputeBenchmarkSample" where
  "sample_of run promptTokens generatedTokens promptTPS generationTPS t =
     \<lparr>cs_Run = int run, cs_PromptTokens = promptTokens, cs_GeneratedTokens = generatedTokens,
      cs_PromptTokensPerSecond = promptTPS, cs_GenerationTokensPerSecond = generationTPS,
      cs_TimeToFirstTokenMs = milliseconds (tm_TimeToFirstToken t),
      cs_PeakSystemRAMBytes = tm_PeakSystemRAM t, cs_PeakVRAMBytes = tm_PeakVRAMBytes t,
      cs_TemperatureCelsius = tm_TemperatureCelsius t, cs_Throttled = tm_Throttled t, cs_Success = True, cs_Error = []\<rparr>"

fun assemble_samples :: "nat \<Rightarrow> int \<Rightarrow> int \<Rightarrow> (f64 \<times> f64 \<times> computeBenchmarkRunTelemetry) list
    \<Rightarrow> err + ComputeBenchmarkSample list" where
  "assemble_samples i pt gt [] = Inr []"
| "assemble_samples i pt gt ((promptTPS, generationTPS, telemetry) # rest) =
     (if \<not> finiteNonNegative promptTPS \<or> f_le promptTPS (Fin 0) \<or> \<not> finiteNonNegative generationTPS \<or> f_le generationTPS (Fin 0)
      then Inl (Err ''compute benchmark throughput sample is invalid'')
      else if tm_TimeToFirstToken telemetry \<le> 0 then Inl (Err ''compute benchmark TTFT sample is invalid'')
      else if tm_PeakSystemRAM telemetry = 0 then Inl (Err ''compute benchmark RAM sample is invalid'')
      else bindE (assemble_samples (i + 1) pt gt rest) (\<lambda>ss.
             Inr (sample_of (i + 1) pt gt promptTPS generationTPS telemetry # ss)))"

definition benchmark_of :: "gotime \<Rightarrow> string \<Rightarrow> string \<Rightarrow> string \<Rightarrow> string \<Rightarrow> ComputeBenchmarkSample list \<Rightarrow> ComputeBenchmark" where
  "benchmark_of collectedAt condition runtimeVersion model quantization samples =
     \<lparr>cb_SchemaVersion = ComputeBenchmarkSchemaVersion, cb_CollectedAt = collectedAt, cb_WorkloadID = m9StandardWorkloadID,
      cb_Condition = condition, cb_Runtime = ''llama.cpp'', cb_RuntimeVersion = runtimeVersion, cb_Model = model,
      cb_Quantization = quantization, cb_ContextSize = m9StandardContextSize, cb_Samples = samples\<rparr>"

definition assembleComputeBenchmark :: "computeBenchmarkAssemblyInput \<Rightarrow> err + ComputeBenchmark" where
  "assembleComputeBenchmark input =
     (if IsZero (ai_CollectedAt input) then Inl (Err ''compute benchmark collection time is required'')
      else let condition = TrimSpace (ai_Condition input) in
      if condition = [] then Inl (Err ''compute benchmark condition is required'')
      else let throughput = ai_Throughput input in
      if tp_PromptTokens throughput \<le> 0 \<or> tp_GeneratedTokens throughput \<le> 0
      then Inl (Err ''compute benchmark token workload is invalid'')
      else let runCount = length (tp_PromptTokensPerSecond throughput) in
      if runCount = 0 \<or> length (tp_GenerationTokensPerSecond throughput) \<noteq> runCount
         \<or> length (ai_Telemetry input) \<noteq> runCount
      then Inl (Err ''compute benchmark repetition counts do not match'')
      else if runCount \<noteq> m9StandardRepetitions
      then Inl (Err (''compute benchmark repetition count = '' @ nat_dec runCount @ '', want '' @ nat_dec m9StandardRepetitions))
      else let model = TrimSpace (tp_ModelFilename throughput) in
      if model = [] then Inl (Err ''compute benchmark model is missing'')
      else let runtimeVersion = TrimSpace (tp_RuntimeVersion throughput) in
      if runtimeVersion = [] then Inl (Err ''compute benchmark runtime version is missing'')
      else bindE (assemble_samples 0 (tp_PromptTokens throughput) (tp_GeneratedTokens throughput)
                    (zip (tp_PromptTokensPerSecond throughput)
                         (zip (tp_GenerationTokensPerSecond throughput) (ai_Telemetry input)))) (\<lambda>samples.
        Inr (benchmark_of (ai_CollectedAt input) condition runtimeVersion (Base model)
               (TrimSpace (ai_Quantization input)) samples)))"
section \<open>compute\_benchmark\_finalize.go\<close>

definition m9ComputeBenchmarkRunErrorMax :: nat where "m9ComputeBenchmarkRunErrorMax = 1024"

record computeBenchmarkFinalizeInput =
  fi_CollectedAt :: gotime
  fi_Condition :: string
  fi_Quantization :: string
  fi_ModelPath :: string
  fi_Runs :: "computeBenchmarkRunMeasurement list"

definition failed_sample :: "nat \<Rightarrow> string \<Rightarrow> computeBenchmarkRunTelemetry \<Rightarrow> ComputeBenchmarkSample" where
  "failed_sample run errorText t =
     \<lparr>cs_Run = int run, cs_PromptTokens = m9StandardPromptTokens, cs_GeneratedTokens = m9StandardGeneratedTokens,
      cs_PromptTokensPerSecond = Fin 0, cs_GenerationTokensPerSecond = Fin 0,
      cs_TimeToFirstTokenMs = (if tm_TimeToFirstToken t > 0 then milliseconds (tm_TimeToFirstToken t) else Fin 0),
      cs_PeakSystemRAMBytes = tm_PeakSystemRAM t, cs_PeakVRAMBytes = tm_PeakVRAMBytes t,
      cs_TemperatureCelsius = tm_TemperatureCelsius t, cs_Throttled = tm_Throttled t,
      cs_Success = False, cs_Error = errorText\<rparr>"

text \<open>The checks of a successful run before the metadata comparison.\<close>

definition check_success :: "string \<Rightarrow> nat \<Rightarrow> computeBenchmarkRunMeasurement \<Rightarrow> err + unit" where
  "check_success modelName n run =
     (let current = rn_Throughput run in
      if length (tp_PromptTokensPerSecond current) \<noteq> m9LlamaBenchInvocationRepetitions
         \<or> length (tp_GenerationTokensPerSecond current) \<noteq> m9LlamaBenchInvocationRepetitions
      then Inl (Err (run_text n ''does not contain exactly one throughput repetition''))
      else if tp_PromptTokens current \<le> 0 \<or> tp_GeneratedTokens current \<le> 0
      then Inl (Err (run_text n ''has invalid token counts''))
      else if TrimSpace (tp_RuntimeVersion current) = [] \<or> TrimSpace (tp_ModelFilename current) = []
              \<or> TrimSpace (tp_ModelType current) = [] \<or> TrimSpace (tp_Backend current) = []
      then Inl (Err (run_text n ''has incomplete runtime metadata''))
      else if Base (tp_ModelFilename current) \<noteq> modelName
      then Inl (Err (run_text n ''used an unexpected model''))
      else
      bindE (wrap (run_text n ''prompt throughput'') (validateLlamaBenchSamples (tp_PromptTokensPerSecond current))) (\<lambda>_.
      bindE (wrap (run_text n ''generation throughput'') (validateLlamaBenchSamples (tp_GenerationTokensPerSecond current))) (\<lambda>_.
      if tm_TimeToFirstToken (rn_Telemetry run) \<le> 0 then Inl (Err (run_text n ''has invalid TTFT''))
      else if tm_PeakSystemRAM (rn_Telemetry run) = 0 then Inl (Err (run_text n ''has invalid peak RAM''))
      else Inr ())))"

text \<open>The first successful run becomes the reference, whose metadata the later ones must repeat; and the
  sample of a successful run.\<close>

definition run_reference :: "llamaBenchThroughput option \<Rightarrow> llamaBenchThroughput \<Rightarrow> err + llamaBenchThroughput" where
  "run_reference ref current =
     (case ref of
        None \<Rightarrow> Inr current
      | Some r \<Rightarrow> if same_metadata current r then Inr r
                  else Inl (Err ''compute benchmark run metadata changed between successful repetitions''))"

definition finished_sample :: "nat \<Rightarrow> computeBenchmarkRunMeasurement \<Rightarrow> ComputeBenchmarkSample" where
  "finished_sample runNumber run =
     (let current = rn_Throughput run in
      sample_of runNumber (tp_PromptTokens current) (tp_GeneratedTokens current)
        (hd (tp_PromptTokensPerSecond current)) (hd (tp_GenerationTokensPerSecond current)) (rn_Telemetry run))"

text \<open>The loop over the runs; the reference is the first successful run's throughput.\<close>

fun finalize_loop :: "string \<Rightarrow> nat \<Rightarrow> llamaBenchThroughput option \<Rightarrow> computeBenchmarkRunMeasurement list
    \<Rightarrow> err + (llamaBenchThroughput option \<times> ComputeBenchmarkSample list)" where
  "finalize_loop modelName i ref [] = Inr (ref, [])"
| "finalize_loop modelName i ref (run # runs) =
     (let runNumber = i + 1; errorText = TrimSpace (rn_Error run) in
      if errorText \<noteq> []
      then if length errorText > m9ComputeBenchmarkRunErrorMax
           then Inl (Err (run_text runNumber ''error text is too long''))
           else if tm_TimeToFirstToken (rn_Telemetry run) < 0
           then Inl (Err (run_text runNumber ''has invalid partial TTFT''))
           else bindE (finalize_loop modelName runNumber ref runs) (\<lambda>(r, ss).
                  Inr (r, failed_sample runNumber errorText (rn_Telemetry run) # ss))
      else bindE (check_success modelName runNumber run) (\<lambda>_.
           bindE (run_reference ref (rn_Throughput run)) (\<lambda>r.
           bindE (finalize_loop modelName runNumber (Some r) runs) (\<lambda>(r', ss).
             Inr (r', finished_sample runNumber run # ss)))))"

definition finalizeComputeBenchmarkRuns :: "computeBenchmarkFinalizeInput \<Rightarrow> err + ComputeBenchmark" where
  "finalizeComputeBenchmarkRuns input =
     (if IsZero (fi_CollectedAt input) then Inl (Err ''compute benchmark collection time is required'')
      else let condition = TrimSpace (fi_Condition input) in
      if condition = [] then Inl (Err ''compute benchmark condition is required'')
      else let modelPath = TrimSpace (fi_ModelPath input) in
      if modelPath = [] then Inl (Err ''compute benchmark model path is required'')
      else let modelName = Base modelPath in
      if modelName = [] \<or> modelName = ''.'' \<or> modelName = ''/''
      then Inl (Err ''compute benchmark model name is invalid'')
      else if length (fi_Runs input) \<noteq> m9StandardRepetitions
      then Inl (Err (''compute benchmark run count = '' @ nat_dec (length (fi_Runs input))
                     @ '', want '' @ nat_dec m9StandardRepetitions))
      else bindE (finalize_loop modelName 0 None (fi_Runs input)) (\<lambda>(ref, samples).
        Inr (benchmark_of (fi_CollectedAt input) condition
               (case ref of None \<Rightarrow> [] | Some r \<Rightarrow> tp_RuntimeVersion r) modelName
               (TrimSpace (fi_Quantization input)) samples)))"

section \<open>compute\_benchmark\_orchestrate.go\<close>

type_synonym 'w throughput_collector =
  "nat \<Rightarrow> 'w \<Rightarrow> (llamaBenchThroughput \<times> computeBenchmarkRunTelemetry \<times> err option) \<times> 'w"
type_synonym 'w ttft_collector = "nat \<Rightarrow> 'w \<Rightarrow> (duration \<times> err option) \<times> 'w"

record 'w computeBenchmarkOrchestratorInput =
  oi_CollectedAt :: gotime
  oi_Condition :: string
  oi_Quantization :: string
  oi_ModelPath :: string
  oi_CollectThroughput :: "'w throughput_collector option"
  oi_CollectTTFT :: "'w ttft_collector option"

definition failure_text :: "string \<Rightarrow> string \<Rightarrow> err option \<Rightarrow> string list" where
  "failure_text label unknown e =
     (case e of None \<Rightarrow> []
      | Some x \<Rightarrow> let text = TrimSpace (Error x) in [label @ (if text = [] then unknown else text)])"

definition computeBenchmarkRunFailure :: "err option \<Rightarrow> err option \<Rightarrow> string" where
  "computeBenchmarkRunFailure throughputErr ttftErr =
     Join (failure_text ''throughput: '' ''unknown throughput error'' throughputErr
           @ failure_text ''ttft: '' ''unknown TTFT error'' ttftErr) ''; ''"

definition canceled :: "('w \<Rightarrow> err option) \<Rightarrow> string \<Rightarrow> nat \<Rightarrow> 'w \<Rightarrow> (err + 'a) \<times> 'w \<Rightarrow> (err + 'a) \<times> 'w" where
  "canceled ctx when n w rest =
     (case ctx w of Some e \<Rightarrow> (Inl (Wrap (''compute benchmark canceled '' @ when @ '' run '' @ nat_dec n) e), w)
      | None \<Rightarrow> rest)"

text \<open>The five repetitions: the loop over the remaining run numbers.\<close>

fun run_loop :: "('w \<Rightarrow> err option) \<Rightarrow> 'w throughput_collector \<Rightarrow> 'w ttft_collector \<Rightarrow> nat list \<Rightarrow> 'w
    \<Rightarrow> (err + computeBenchmarkRunMeasurement list) \<times> 'w" where
  "run_loop ctx collectThroughput collectTTFT [] w = (Inr [], w)"
| "run_loop ctx collectThroughput collectTTFT (runNumber # rest) w0 =
     canceled ctx ''before'' runNumber w0
     (let ((throughput, telemetry, throughputErr), w1) = collectThroughput runNumber w0 in
      canceled ctx ''during'' runNumber w1
      (let ((ttft, ttftErr), w2) = collectTTFT runNumber w1 in
       canceled ctx ''during TTFT'' runNumber w2
       (let run = \<lparr>rn_Throughput = throughput,
                   rn_Telemetry = (if ttft > 0 then telemetry\<lparr>tm_TimeToFirstToken := ttft\<rparr> else telemetry),
                   rn_Error = computeBenchmarkRunFailure throughputErr ttftErr\<rparr>;
            (r, w3) = run_loop ctx collectThroughput collectTTFT rest w2
        in (bindE r (\<lambda>runs. Inr (run # runs)), w3))))"

definition orchestrateComputeBenchmarkRuns :: "('w \<Rightarrow> err option) option \<Rightarrow> 'w computeBenchmarkOrchestratorInput \<Rightarrow> 'w
    \<Rightarrow> (err + ComputeBenchmark) \<times> 'w" where
  "orchestrateComputeBenchmarkRuns ctx input w =
     (case ctx of None \<Rightarrow> (Inl (Err ''compute benchmark context is nil''), w)
      | Some done' \<Rightarrow>
     (case oi_CollectThroughput input of None \<Rightarrow> (Inl (Err ''compute benchmark throughput collector is nil''), w)
      | Some collectThroughput \<Rightarrow>
     (case oi_CollectTTFT input of None \<Rightarrow> (Inl (Err ''compute benchmark TTFT collector is nil''), w)
      | Some collectTTFT \<Rightarrow>
         let (r, w') = run_loop done' collectThroughput collectTTFT [1..<m9StandardRepetitions + 1] w
         in (bindE r (\<lambda>runs. finalizeComputeBenchmarkRuns
               \<lparr>fi_CollectedAt = oi_CollectedAt input, fi_Condition = oi_Condition input,
                fi_Quantization = oi_Quantization input, fi_ModelPath = oi_ModelPath input, fi_Runs = runs\<rparr>), w'))))"

end
