(* ===== verification/BenchProperties.thy ===== *)
theory BenchProperties
  imports BenchRuns
begin

text \<open>
  What the agent's compute benchmark promises: a finished payload passes every check of the server
  but for texts and temperatures the agent does not bound, failed repetitions are kept, the older
  combine-and-assemble path computes the same payload, and the loop runs the collectors in order
  and stops when it is cancelled.
\<close>

section \<open>Trimming twice\<close>

lemma space_len_prefix:
  assumes "space_len ws p \<noteq> 0" "prefix p s" "[] \<notin> set ws"
  shows "space_len ws s \<noteq> 0"
proof -
  obtain c cs ds where p: "p = c # cs" "s = c # ds" "prefix (c # cs) (c # ds)"
    using assms(1,2) by (cases p; cases s) auto
  show ?thesis
  proof (cases "ascii_space c \<or> ascii_byte c")
    case True
    then show ?thesis using assms(1) p by (auto split: if_splits)
  next
    case False
    then obtain w where w: "find (\<lambda>w. prefix w (c # cs)) ws = Some w"
      using assms(1) p by (auto split: option.splits)
    then have "w \<in> set ws" "prefix w (c # cs)" by (auto simp: find_Some_iff)
    then have "\<exists>w \<in> set ws. prefix w (c # ds)" using p(3) prefix_order.trans by blast
    then obtain v where v: "find (\<lambda>w. prefix w (c # ds)) ws = Some v"
      by (cases "find (\<lambda>w. prefix w (c # ds)) ws") (auto simp: find_None_iff)
    then have "v \<in> set ws" by (auto simp: find_Some_iff)
    with v False p assms(3) show ?thesis by auto
  qed
qed

lemma trim_front_suffix: "suffix (trim_front ws s) s"
proof (induction ws s rule: trim_front.induct)
  case (1 ws s)
  show ?case
  proof (cases "s = [] \<or> space_len ws s = 0")
    case False
    then have "trim_front ws s = trim_front ws (drop (space_len ws s) s)" by (subst trim_front.simps) simp
    then show ?thesis using 1 False suffix_drop suffix_order.trans by metis
  qed (auto simp: trim_front_fix)
qed

lemma TrimSpace_idem [simp]: "TrimSpace (TrimSpace s) = TrimSpace s"
proof -
  define a where "a = trim_front wide_spaces s"
  define b where "b = trim_front (map rev wide_spaces) (rev a)"
  have s: "TrimSpace s = rev b" by (simp add: TrimSpace_def a_def b_def)
  have "prefix (rev b) a"
    using trim_front_suffix [of "map rev wide_spaces" "rev a"] by (simp add: b_def suffix_to_prefix)
  moreover have "[] \<notin> set wide_spaces" by (simp add: wide_spaces_def)
  moreover have "a = [] \<or> space_len wide_spaces a = 0" unfolding a_def by (rule trim_front_done)
  ultimately have "rev b = [] \<or> space_len wide_spaces (rev b) = 0"
    using space_len_prefix [of wide_spaces "rev b" a] by auto
  then have f: "trim_front wide_spaces (rev b) = rev b" by (auto simp: trim_front_fix)
  have "trim_front (map rev wide_spaces) (rev (rev b)) = b" by (simp add: b_def trim_front_idem)
  then have "TrimSpace (rev b) = rev b" unfolding TrimSpace_def f by simp
  then show ?thesis by (simp add: s)
qed

section \<open>Samples of llama-bench\<close>

lemma samples_valid_iff:
  "validateLlamaBenchSamples vs = Inr () \<longleftrightarrow> vs \<noteq> [] \<and> list_all (\<lambda>v. \<exists>r. v = Fin r \<and> 0 < r) vs"
proof -
  have "(\<not> finiteNonNegative v \<or> f_le v (Fin 0)) \<longleftrightarrow> \<not> (\<exists>r. v = Fin r \<and> 0 < r)" for v
    unfolding finite_nonneg by (cases v) (auto simp: f_le_def)
  then show ?thesis by (auto simp: validateLlamaBenchSamples_def list_ex_iff list_all_iff)
qed

definition prompt_row :: "llamaBenchJSONResult \<Rightarrow> bool" where
  "prompt_row r \<longleftrightarrow> lb_NPrompt r = 512 \<and> lb_NGen r = 0"

definition generation_row :: "llamaBenchJSONResult \<Rightarrow> bool" where
  "generation_row r \<longleftrightarrow> lb_NPrompt r = 0 \<and> lb_NGen r = 128"

definition opt_list :: "'a option \<Rightarrow> 'a list" where
  "opt_list x = (case x of None \<Rightarrow> [] | Some y \<Rightarrow> [y])"

lemma pick_rows_iff:
  "pick_rows p g rows = Inr (Some p', Some g') \<longleftrightarrow>
     opt_list p @ filter prompt_row rows = [p'] \<and> opt_list g @ filter generation_row rows = [g']"
proof (induction p g rows rule: pick_rows.induct)
  case (1 p g)
  then show ?case by (auto simp: opt_list_def split: option.splits)
next
  case IH: (2 p g row rows)
  have d: "\<not> (prompt_row row \<and> generation_row row)" by (simp add: prompt_row_def generation_row_def)
  note m = m9StandardPromptTokens_def m9StandardGeneratedTokens_def
  consider "prompt_row row" | "generation_row row" | "\<not> prompt_row row" "\<not> generation_row row" by blast
  then show ?case
  proof cases
    case 1
    then show ?thesis using d IH(1) by (cases p) (auto simp: m prompt_row_def [of row] opt_list_def)
  next
    case 2
    then show ?thesis using d IH(2) by (cases g) (auto simp: m prompt_row_def generation_row_def opt_list_def)
  next
    case 3
    then show ?thesis using IH(3) by (auto simp: m prompt_row_def generation_row_def)
  qed
qed

definition same_build :: "llamaBenchJSONResult \<Rightarrow> llamaBenchJSONResult \<Rightarrow> bool" where
  "same_build p g \<longleftrightarrow> lb_ModelFilename p \<noteq> [] \<and> lb_ModelFilename p = lb_ModelFilename g
     \<and> lb_ModelType p \<noteq> [] \<and> lb_ModelType p = lb_ModelType g
     \<and> lb_BuildCommit p \<noteq> [] \<and> lb_BuildCommit p = lb_BuildCommit g \<and> lb_BuildNumber p = lb_BuildNumber g
     \<and> lb_Backends p \<noteq> [] \<and> lb_Backends p = lb_Backends g"

definition one_sample :: "f64 list \<Rightarrow> bool" where
  "one_sample vs \<longleftrightarrow> (\<exists>r. vs = [Fin r] \<and> 0 < r)"

lemma one_sample_iff:
  "one_sample vs \<longleftrightarrow> validateLlamaBenchSamples vs = Inr () \<and> length vs = m9LlamaBenchInvocationRepetitions"
  by (auto simp: one_sample_def samples_valid_iff m9LlamaBenchInvocationRepetitions_def length_Suc_conv)

lemma parse_bench_iff:
  "parseLlamaBenchJSON dec raw = Inr t \<longleftrightarrow> TrimSpace raw \<noteq> []
     \<and> (\<exists>rows p g. dec raw = Some rows \<and> filter prompt_row rows = [p] \<and> filter generation_row rows = [g]
         \<and> same_build p g \<and> one_sample (lb_SamplesTS p) \<and> one_sample (lb_SamplesTS g)
         \<and> t = \<lparr>tp_RuntimeVersion = lb_BuildCommit p @ ''-'' @ Itoa (lb_BuildNumber p),
                  tp_ModelFilename = lb_ModelFilename p, tp_ModelType = lb_ModelType p, tp_Backend = lb_Backends p,
                  tp_PromptTokens = 512, tp_GeneratedTokens = 128,
                  tp_PromptTokensPerSecond = lb_SamplesTS p, tp_GenerationTokensPerSecond = lb_SamplesTS g\<rparr>)"
proof -
  have n: "opt_list None = []" by (simp add: opt_list_def)
  have "parseLlamaBenchJSON dec raw = Inr t \<longleftrightarrow> TrimSpace raw \<noteq> []
     \<and> (\<exists>rows p g. dec raw = Some rows \<and> pick_rows None None rows = Inr (Some p, Some g)
         \<and> same_build p g \<and> one_sample (lb_SamplesTS p) \<and> one_sample (lb_SamplesTS g)
         \<and> t = \<lparr>tp_RuntimeVersion = lb_BuildCommit p @ ''-'' @ Itoa (lb_BuildNumber p),
                  tp_ModelFilename = lb_ModelFilename p, tp_ModelType = lb_ModelType p, tp_Backend = lb_Backends p,
                  tp_PromptTokens = m9StandardPromptTokens, tp_GeneratedTokens = m9StandardGeneratedTokens,
                  tp_PromptTokensPerSecond = lb_SamplesTS p, tp_GenerationTokensPerSecond = lb_SamplesTS g\<rparr>)"
  proof (cases "dec raw")
    case (Some rows)
    show ?thesis
    proof (cases "pick_rows None None rows")
      case (Inr pg)
      then obtain po go where pg: "pick_rows None None rows = Inr (po, go)" by (cases pg) auto
      show ?thesis
      proof (cases "po = None \<or> go = None")
        case True
        then show ?thesis using Some pg by (auto simp: parseLlamaBenchJSON_def split: option.split)
      next
        case False
        then obtain p g where "po = Some p" "go = Some g" by auto
        then show ?thesis using Some pg
          by (cases "same_build p g") (auto simp: parseLlamaBenchJSON_def one_sample_iff same_build_def bindE_Inr_iff)
      qed
    qed (use Some in \<open>simp add: parseLlamaBenchJSON_def\<close>)
  qed (simp add: parseLlamaBenchJSON_def)
  then show ?thesis unfolding pick_rows_iff n by (simp add: m9StandardPromptTokens_def m9StandardGeneratedTokens_def)
qed

section \<open>The final payload\<close>

definition failed_run :: "computeBenchmarkRunMeasurement \<Rightarrow> bool" where
  "failed_run run \<longleftrightarrow> TrimSpace (rn_Error run) \<noteq> []"

definition run_sample :: "nat \<Rightarrow> computeBenchmarkRunMeasurement \<Rightarrow> ComputeBenchmarkSample" where
  "run_sample n run =
     (if failed_run run then failed_sample n (TrimSpace (rn_Error run)) (rn_Telemetry run)
      else sample_of n (tp_PromptTokens (rn_Throughput run)) (tp_GeneratedTokens (rn_Throughput run))
             (hd (tp_PromptTokensPerSecond (rn_Throughput run))) (hd (tp_GenerationTokensPerSecond (rn_Throughput run)))
             (rn_Telemetry run))"

fun run_samples :: "nat \<Rightarrow> computeBenchmarkRunMeasurement list \<Rightarrow> ComputeBenchmarkSample list" where
  "run_samples i [] = []"
| "run_samples i (run # runs) = run_sample (i + 1) run # run_samples (i + 1) runs"

text \<open>What a successful run must carry.\<close>

definition measured_run :: "computeBenchmarkRunMeasurement \<Rightarrow> bool" where
  "measured_run run \<longleftrightarrow> one_sample (tp_PromptTokensPerSecond (rn_Throughput run))
     \<and> one_sample (tp_GenerationTokensPerSecond (rn_Throughput run))
     \<and> 0 < tp_PromptTokens (rn_Throughput run) \<and> 0 < tp_GeneratedTokens (rn_Throughput run)
     \<and> 0 < tm_TimeToFirstToken (rn_Telemetry run) \<and> tm_PeakSystemRAM (rn_Telemetry run) \<noteq> 0"

definition complete_run :: "string \<Rightarrow> computeBenchmarkRunMeasurement \<Rightarrow> bool" where
  "complete_run modelName run \<longleftrightarrow> measured_run run
     \<and> TrimSpace (tp_RuntimeVersion (rn_Throughput run)) \<noteq> [] \<and> TrimSpace (tp_ModelFilename (rn_Throughput run)) \<noteq> []
     \<and> TrimSpace (tp_ModelType (rn_Throughput run)) \<noteq> [] \<and> TrimSpace (tp_Backend (rn_Throughput run)) \<noteq> []
     \<and> Base (tp_ModelFilename (rn_Throughput run)) = modelName"

definition reportable_failure :: "computeBenchmarkRunMeasurement \<Rightarrow> bool" where
  "reportable_failure run \<longleftrightarrow> length (TrimSpace (rn_Error run)) \<le> 1024 \<and> 0 \<le> tm_TimeToFirstToken (rn_Telemetry run)"

lemma check_success_iff: "check_success m n run = Inr () \<longleftrightarrow> complete_run m run"
  unfolding check_success_def complete_run_def measured_run_def one_sample_iff Let_def
  by (auto simp: bindE_Inr_iff)

lemma check_run_iff:
  "check_run n run = Inr () \<longleftrightarrow> measured_run run
     \<and> tp_RuntimeVersion (rn_Throughput run) \<noteq> [] \<and> tp_ModelFilename (rn_Throughput run) \<noteq> []
     \<and> tp_ModelType (rn_Throughput run) \<noteq> [] \<and> tp_Backend (rn_Throughput run) \<noteq> []"
  unfolding check_run_def measured_run_def one_sample_iff Let_def
  by (auto simp: bindE_Inr_iff)

definition agrees :: "llamaBenchThroughput option \<Rightarrow> llamaBenchThroughput \<Rightarrow> bool" where
  "agrees ref t \<longleftrightarrow> (case ref of None \<Rightarrow> True | Some r \<Rightarrow> same_metadata t r)"

text \<open>The reference after the runs, and the condition that all successful runs agree with it.\<close>

definition reference :: "llamaBenchThroughput option \<Rightarrow> computeBenchmarkRunMeasurement list \<Rightarrow> llamaBenchThroughput option" where
  "reference ref runs =
     (case ref of Some r \<Rightarrow> Some r | None \<Rightarrow> map_option rn_Throughput (find (\<lambda>r. \<not> failed_run r) runs))"

lemma same_metadata_refl [simp]: "same_metadata t t"
  by (simp add: same_metadata_def)

lemma run_reference_iff: "run_reference ref t = Inr r \<longleftrightarrow> agrees ref t \<and> r = (case ref of None \<Rightarrow> t | Some x \<Rightarrow> x)"
  by (auto simp: run_reference_def agrees_def split: option.splits)

lemma finished_run_sample: "\<not> failed_run run \<Longrightarrow> finished_sample n run = run_sample n run"
  by (simp add: finished_sample_def run_sample_def Let_def)

lemma finalize_loop_iff:
  "finalize_loop m i ref runs = Inr (r, ss) \<longleftrightarrow>
     r = reference ref runs \<and> ss = run_samples i runs
   \<and> list_all (\<lambda>run. if failed_run run then reportable_failure run
                     else complete_run m run \<and> agrees (reference ref runs) (rn_Throughput run)) runs"
proof (induction m i ref runs arbitrary: r ss rule: finalize_loop.induct)
  case (1 m i ref)
  then show ?case by (auto simp: reference_def split: option.splits)
next
  case IH: (2 m i ref run runs)
  note d = failed_run_def [of run] reportable_failure_def m9ComputeBenchmarkRunErrorMax_def
  show ?case
  proof (cases "failed_run run")
    case True
    have ref: "reference ref (run # runs) = reference ref runs" using True by (auto simp: reference_def split: option.splits)
    have step: "finalize_loop m i ref (run # runs) = Inr (r, ss) \<longleftrightarrow>
        reportable_failure run \<and> (\<exists>ss'. finalize_loop m (i + 1) ref runs = Inr (r, ss') \<and> ss = run_sample (i + 1) run # ss')"
      using True by (auto simp: d Let_def bindE_Inr_iff run_sample_def)
    have ih: "finalize_loop m (i + 1) ref runs = Inr (r, ss') \<longleftrightarrow>
        r = reference ref runs \<and> ss' = run_samples (i + 1) runs
        \<and> list_all (\<lambda>run. if failed_run run then reportable_failure run
             else complete_run m run \<and> agrees (reference ref runs) (rn_Throughput run)) runs"
      if "reportable_failure run" for ss'
      using True that by (intro IH(1)) (auto simp: d)
    show ?thesis
    proof (cases "reportable_failure run")
      case ok: True
      show ?thesis unfolding step ih [OF ok] ref using True ok by auto
    qed (use step True in simp)
  next
    case False
    then have e: "TrimSpace (rn_Error run) = []" by (simp add: failed_run_def)
    define r1 where "r1 = (case ref of None \<Rightarrow> rn_Throughput run | Some x \<Rightarrow> x)"
    have ref: "reference ref (run # runs) = Some r1" "reference (Some r1) runs = Some r1"
      using False by (auto simp: reference_def r1_def split: option.splits)
    have "finalize_loop m i ref (run # runs) = Inr (r, ss) \<longleftrightarrow>
        complete_run m run \<and> agrees ref (rn_Throughput run)
        \<and> (\<exists>ss'. finalize_loop m (i + 1) (Some r1) runs = Inr (r, ss') \<and> ss = run_sample (i + 1) run # ss')"
      using e check_success_iff [of m "i + 1" run] False
      by (auto simp: Let_def bindE_Inr_iff run_reference_iff finished_run_sample r1_def)
    moreover have "finalize_loop m (i + 1) (Some r1) runs = Inr (r, ss') \<longleftrightarrow>
        r = reference (Some r1) runs \<and> ss' = run_samples (i + 1) runs
        \<and> list_all (\<lambda>run. if failed_run run then reportable_failure run
             else complete_run m run \<and> agrees (reference (Some r1) runs) (rn_Throughput run)) runs" for ss'
      using e by (intro IH(2)) auto
    moreover have "agrees ref (rn_Throughput run) \<longleftrightarrow> same_metadata (rn_Throughput run) r1"
      by (cases ref) (simp_all add: agrees_def r1_def)
    ultimately show ?thesis using False unfolding ref by (auto simp: agrees_def)
  qed
qed

lemma finalize_iff:
  "finalizeComputeBenchmarkRuns input = Inr b \<longleftrightarrow>
     fi_CollectedAt input \<noteq> 0 \<and> TrimSpace (fi_Condition input) \<noteq> [] \<and> TrimSpace (fi_ModelPath input) \<noteq> []
   \<and> Base (TrimSpace (fi_ModelPath input)) \<notin> {[], ''.'', ''/''} \<and> length (fi_Runs input) = 5
   \<and> list_all (\<lambda>run. if failed_run run then reportable_failure run
        else complete_run (Base (TrimSpace (fi_ModelPath input))) run
             \<and> agrees (reference None (fi_Runs input)) (rn_Throughput run)) (fi_Runs input)
   \<and> b = benchmark_of (fi_CollectedAt input) (TrimSpace (fi_Condition input))
          (case reference None (fi_Runs input) of None \<Rightarrow> [] | Some r \<Rightarrow> tp_RuntimeVersion r)
          (Base (TrimSpace (fi_ModelPath input))) (TrimSpace (fi_Quantization input)) (run_samples 0 (fi_Runs input))"
  unfolding finalizeComputeBenchmarkRuns_def Let_def IsZero_def m9StandardRepetitions_def
  by (auto simp: bindE_Inr_iff finalize_loop_iff)

lemma run_samples_nth:
  "i < length runs \<Longrightarrow> run_samples k runs ! i = run_sample (k + i + 1) (runs ! i)"
  "length (run_samples k runs) = length runs"
  by (induction runs arbitrary: i k) (auto simp: nth_Cons split: nat.split)

lemma run_sample_fields [simp]:
  "cs_Run (run_sample n run) = int n" "cs_Success (run_sample n run) \<longleftrightarrow> \<not> failed_run run"
  "cs_Error (run_sample n run) = TrimSpace (rn_Error run)"
  "cs_PeakSystemRAMBytes (run_sample n run) = tm_PeakSystemRAM (rn_Telemetry run)"
  "cs_TemperatureCelsius (run_sample n run) = tm_TemperatureCelsius (rn_Telemetry run)"
  by (auto simp: run_sample_def failed_sample_def sample_of_def failed_run_def)

lemma run_numbers: "map cs_Run (run_samples k runs) = map int [k + 1..<k + 1 + length runs]"
proof (induction runs arbitrary: k)
  case (Cons run runs)
  have "[k + 1..<k + 1 + length (run # runs)] = (k + 1) # [k + 1 + 1..<k + 1 + 1 + length runs]"
    by (subst upt_conv_Cons) auto
  then show ?case using Cons [of "k + 1"] by simp
qed simp

lemma set_run_samples: "s \<in> set (run_samples k runs) \<Longrightarrow> \<exists>n run. k < n \<and> run \<in> set runs \<and> s = run_sample n run"
  by (induction runs arbitrary: k) (auto, meson Suc_lessD lessI less_trans_Suc)+

text \<open>The bounds the agent leaves to the measured machine and the configuration.\<close>

definition plausible_telemetry :: "computeBenchmarkRunTelemetry \<Rightarrow> bool" where
  "plausible_telemetry t \<longleftrightarrow> tm_TimeToFirstToken t < 2 ^ 63
     \<and> (case tm_TemperatureCelsius t of None \<Rightarrow> True | Some c \<Rightarrow> fin_in (- 100) 250 c)"

definition fits_limits :: "computeBenchmarkFinalizeInput \<Rightarrow> bool" where
  "fits_limits input \<longleftrightarrow> length (TrimSpace (fi_Condition input)) \<le> 64
     \<and> TrimSpace (Base (TrimSpace (fi_ModelPath input))) \<noteq> [] \<and> length (TrimSpace (Base (TrimSpace (fi_ModelPath input)))) \<le> 512
     \<and> length (TrimSpace (fi_Quantization input)) \<le> 128
     \<and> list_all (\<lambda>run. length (tp_RuntimeVersion (rn_Throughput run)) \<le> 128 \<and> plausible_telemetry (rn_Telemetry run))
         (fi_Runs input)"

lemma run_sample_wf:
  assumes "if failed_run run then reportable_failure run else measured_run run" "plausible_telemetry (rn_Telemetry run)"
  shows "wf_sample (run_sample n run)"
proof -
  have t: "tm_TemperatureCelsius (rn_Telemetry run) = Some t \<Longrightarrow> \<exists>r. t = Fin r \<and> - 100 \<le> r \<and> r \<le> 250" for t
    using assms(2) by (auto simp: plausible_telemetry_def fin_in_iff)
  have ms: "0 \<le> tm_TimeToFirstToken (rn_Telemetry run) \<Longrightarrow> measured (milliseconds (tm_TimeToFirstToken (rn_Telemetry run)))"
    using assms(2) milliseconds_finite by (auto simp: plausible_telemetry_def measured_def)
  show ?thesis
  proof (cases "failed_run run")
    case True
    then show ?thesis using assms(1) t ms
      by (auto simp: wf_sample_def reportable_failure_def run_sample_def failed_sample_def failed_run_def
          m9StandardPromptTokens_def m9StandardGeneratedTokens_def measured_def)
  next
    case False
    then show ?thesis using assms(1) t ms
      by (auto simp: wf_sample_def run_sample_def sample_of_def measured_run_def one_sample_def measured_def)
  qed
qed

lemma reference_mem: "reference None runs = Some r \<Longrightarrow> r \<in> rn_Throughput ` set runs"
  by (auto simp: reference_def find_Some_iff)

text \<open>What the server's limits ask of the texts of a finished benchmark.\<close>

definition texts_fit :: "ComputeBenchmark \<Rightarrow> bool" where
  "texts_fit b \<longleftrightarrow> length (cb_Condition b) \<le> 64 \<and> validComputeBenchmarkText (cb_Model b) 512
     \<and> length (cb_RuntimeVersion b) \<le> 128 \<and> length (cb_Quantization b) \<le> 128"

lemma finalize_wf_iff:
  assumes "finalizeComputeBenchmarkRuns input = Inr b" "list_all (\<lambda>run. plausible_telemetry (rn_Telemetry run)) (fi_Runs input)"
  shows "wf_compute_benchmark b \<longleftrightarrow> texts_fit b"
proof -
  note f = assms(1) [unfolded finalize_iff]
  have samples: "list_all (\<lambda>s. 0 < cs_Run s \<and> wf_sample s) (run_samples 0 (fi_Runs input))"
    unfolding list_all_iff
  proof
    fix s assume "s \<in> set (run_samples 0 (fi_Runs input))"
    then obtain n run where s: "0 < n" "run \<in> set (fi_Runs input)" "s = run_sample n run"
      using set_run_samples by blast
    then have "if failed_run run then reportable_failure run else measured_run run"
      using f by (auto simp: list_all_iff complete_run_def)
    then show "0 < cs_Run s \<and> wf_sample s" using run_sample_wf s assms(2) by (auto simp: list_all_iff)
  qed
  have "validComputeBenchmarkText m9StandardWorkloadID 128" "validComputeBenchmarkText ''llama.cpp'' 128"
    by code_simp+
  moreover have "distinct (map cs_Run (run_samples 0 (fi_Runs input)))"
    unfolding run_numbers by (simp add: distinct_map)
  moreover have "run_samples 0 (fi_Runs input) \<noteq> []" "length (run_samples 0 (fi_Runs input)) \<le> 50"
    using f run_samples_nth(2) [of 0 "fi_Runs input"] by auto
  moreover have "validComputeBenchmarkText (cb_Condition b) 64 \<longleftrightarrow> length (cb_Condition b) \<le> 64"
    using f by (simp add: benchmark_of_def validComputeBenchmarkText_def TrimSpace_idem)
  ultimately show ?thesis
    using f samples by (simp add: wf_compute_benchmark_def texts_fit_def benchmark_of_def m9StandardContextSize_def)
qed

lemma finalize_wf:
  assumes "finalizeComputeBenchmarkRuns input = Inr b" "fits_limits input"
  shows "wf_compute_benchmark b"
proof -
  have "length (case reference None (fi_Runs input) of None \<Rightarrow> [] | Some r \<Rightarrow> tp_RuntimeVersion r) \<le> 128"
    using assms(2) reference_mem [of "fi_Runs input"] by (auto simp: fits_limits_def list_all_iff split: option.split)
  then have "texts_fit b"
    using assms by (simp add: finalize_iff fits_limits_def texts_fit_def benchmark_of_def validComputeBenchmarkText_def)
  then show ?thesis using finalize_wf_iff [OF assms(1)] assms(2) by (simp add: fits_limits_def list_all_iff)
qed

section \<open>Properties of the payload\<close>

text \<open>A run that took 400 ms to its first token, and one that failed.\<close>

definition good_throughput :: llamaBenchThroughput where
  "good_throughput = \<lparr>tp_RuntimeVersion = ''b1-4'', tp_ModelFilename = ''/m/a.gguf'', tp_ModelType = ''llama'',
     tp_Backend = ''CPU'', tp_PromptTokens = 512, tp_GeneratedTokens = 128,
     tp_PromptTokensPerSecond = [Fin 800], tp_GenerationTokensPerSecond = [Fin 60]\<rparr>"

definition good_run :: computeBenchmarkRunMeasurement where
  "good_run = \<lparr>rn_Throughput = good_throughput,
     rn_Telemetry = no_telemetry\<lparr>tm_TimeToFirstToken := 400000000, tm_PeakSystemRAM := 1024\<rparr>, rn_Error = []\<rparr>"

definition bad_run :: "string \<Rightarrow> computeBenchmarkRunMeasurement" where
  "bad_run e = \<lparr>rn_Throughput = no_throughput, rn_Telemetry = no_telemetry, rn_Error = e\<rparr>"

definition five_runs :: "computeBenchmarkRunMeasurement \<Rightarrow> computeBenchmarkFinalizeInput" where
  "five_runs r = \<lparr>fi_CollectedAt = 7, fi_Condition = ''warm'', fi_Quantization = ''Q4'', fi_ModelPath = ''/m/a.gguf'',
     fi_Runs = [good_run, r, good_run, good_run, good_run]\<rparr>"

lemma five_texts: "TrimSpace ''warm'' = ''warm''" "TrimSpace ''/m/a.gguf'' = ''/m/a.gguf''" "Base ''/m/a.gguf'' = ''a.gguf''"
  "TrimSpace ''a.gguf'' = ''a.gguf''" "TrimSpace ''Q4'' = ''Q4''" "TrimSpace ''b1-4'' = ''b1-4''" "TrimSpace ''llama'' = ''llama''"
  "TrimSpace ''CPU'' = ''CPU''"
  by code_simp+

lemma good_run_ok: "\<not> failed_run good_run" "complete_run ''a.gguf'' good_run" "plausible_telemetry (rn_Telemetry good_run)"
  by (simp_all add: failed_run_def good_run_def complete_run_def measured_run_def one_sample_def good_throughput_def
      no_telemetry_def plausible_telemetry_def five_texts)

lemma five_runs_fit: "fits_limits (five_runs (bad_run e))" "fits_limits (five_runs good_run)"
  using good_run_ok(3)
  by (simp_all add: fits_limits_def five_runs_def five_texts bad_run_def no_throughput_def no_telemetry_def
      plausible_telemetry_def good_run_def good_throughput_def)

lemma five_runs_accepted:
  assumes "TrimSpace (rn_Error r) \<noteq> [] \<and> reportable_failure r \<or> r = good_run"
  shows "\<exists>b. finalizeComputeBenchmarkRuns (five_runs r) = Inr b"
proof -
  have ref: "reference None [good_run, r, good_run, good_run, good_run] = Some good_throughput"
    using good_run_ok(1) by (simp add: reference_def good_run_def)
  have g: "agrees (Some good_throughput) (rn_Throughput good_run)" by (simp add: agrees_def good_run_def)
  show ?thesis
    unfolding finalize_iff using assms good_run_ok g
    by (auto simp: five_runs_def five_texts ref failed_run_def)
qed

text \<open>C11: the agent's payload meets the server's contract. A finished benchmark whose texts fit the
  server's limits and whose temperatures and times are plausible passes the server's whole
  validation in a submission with proper identifiers and timestamps, failed repetitions included.\<close>

theorem final_payload_accepted:
  assumes "finalizeComputeBenchmarkRuns input = Inr b" "fits_limits input"
    "csub_Version s = ComputeBenchmarkSubmissionVersion" "validUUIDv4 (csub_NodeID s)" "validUUIDv4 (csub_ReportID s)"
    "csub_Benchmark s = b" "csub_SignedAt s \<noteq> 0" "\<bar>now - csub_SignedAt s\<bar> \<le> 5 * Minute"
    "\<bar>csub_SignedAt s - fi_CollectedAt input\<bar> \<le> 5 * Minute"
  shows "validateComputeBenchmarkSubmission s now = Inr ()"
proof -
  have "cb_CollectedAt b = fi_CollectedAt input" using assms(1) by (auto simp: finalize_iff benchmark_of_def)
  then show ?thesis
    unfolding compute_accepted_iff using assms finalize_wf [OF assms(1,2)] by (simp add: skew_accepted_def)
qed

theorem final_payload_accepted_witness:
  "\<exists>b. finalizeComputeBenchmarkRuns (five_runs (bad_run ''boom'')) = Inr b
     \<and> validateComputeBenchmarkSubmission \<lparr>csub_Version = ''m9-v1'', csub_NodeID = sample_node,
          csub_ReportID = sample_report, csub_SignedAt = 9, csub_Benchmark = b\<rparr> 11 = Inr ()"
proof -
  have "TrimSpace ''boom'' = ''boom''" by code_simp
  then obtain b where b: "finalizeComputeBenchmarkRuns (five_runs (bad_run ''boom'')) = Inr b"
    using five_runs_accepted [of "bad_run ''boom''"] by (auto simp: reportable_failure_def bad_run_def no_telemetry_def)
  show ?thesis
    using b final_payload_accepted [OF b five_runs_fit(1), of "\<lparr>csub_Version = ''m9-v1'', csub_NodeID = sample_node,
          csub_ReportID = sample_report, csub_SignedAt = 9, csub_Benchmark = b\<rparr>" 11]
    by (simp add: sample_uuids ComputeBenchmarkSubmissionVersion_def duration_units five_runs_def)
qed

text \<open>No repetition is dropped or invented. A finished benchmark has one sample per repetition, in
  order, marked successful exactly when the repetition reported no error; a failed one keeps its
  error text and the telemetry it has, a successful one its measured rates; and the version
  reported is that of a successful repetition.\<close>

lemma repetitions_kept:
  assumes "finalizeComputeBenchmarkRuns input = Inr b" "i < length (fi_Runs input)"
  shows "length (cb_Samples b) = 5 \<and> length (fi_Runs input) = 5
    \<and> (let run = fi_Runs input ! i; s = cb_Samples b ! i in
        cs_Run s = int i + 1 \<and> (cs_Success s \<longleftrightarrow> TrimSpace (rn_Error run) = [])
      \<and> cs_Error s = TrimSpace (rn_Error run) \<and> length (cs_Error s) \<le> 1024
      \<and> cs_PeakSystemRAMBytes s = tm_PeakSystemRAM (rn_Telemetry run)
      \<and> cs_TemperatureCelsius s = tm_TemperatureCelsius (rn_Telemetry run)
      \<and> (if cs_Success s then tp_PromptTokensPerSecond (rn_Throughput run) = [cs_PromptTokensPerSecond s]
           \<and> tp_GenerationTokensPerSecond (rn_Throughput run) = [cs_GenerationTokensPerSecond s]
           \<and> cb_RuntimeVersion b = tp_RuntimeVersion (rn_Throughput run)
         else cs_PromptTokensPerSecond s = Fin 0 \<and> cs_GenerationTokensPerSecond s = Fin 0))"
proof -
  let ?run = "fi_Runs input ! i"
  note f = assms(1) [unfolded finalize_iff]
  have len: "length (fi_Runs input) = 5" using f by simp
  have b: "cb_Samples b = run_samples 0 (fi_Runs input)" using f by (simp add: benchmark_of_def)
  have s: "cb_Samples b ! i = run_sample (i + 1) ?run" unfolding b using run_samples_nth(1) [OF assms(2)] by simp
  have run: "if failed_run ?run then reportable_failure ?run
      else complete_run (Base (TrimSpace (fi_ModelPath input))) ?run
           \<and> agrees (reference None (fi_Runs input)) (rn_Throughput ?run)"
    using f assms(2) by (auto simp: list_all_length)
  show ?thesis
  proof (cases "failed_run ?run")
    case True
    then show ?thesis
      using run len b s run_samples_nth(2) [of 0 "fi_Runs input"]
      by (simp add: Let_def failed_run_def reportable_failure_def) (simp add: run_sample_def failed_sample_def failed_run_def)
  next
    case False
    then obtain r where r: "reference None (fi_Runs input) = Some r"
      using assms(2) by (cases "reference None (fi_Runs input)") (auto simp: reference_def find_None_iff)
    then have v: "cb_RuntimeVersion b = tp_RuntimeVersion (rn_Throughput ?run)"
      using f run False by (simp add: agrees_def same_metadata_def benchmark_of_def)
    show ?thesis
      using run len b s v False run_samples_nth(2) [of 0 "fi_Runs input"]
      by (simp add: Let_def failed_run_def complete_run_def measured_run_def one_sample_def)
        (auto simp: run_sample_def sample_of_def failed_run_def)
  qed
qed

text \<open>A repetition whose error text is longer than 1024 bytes rejects all five repetitions.\<close>

lemma long_error_drops_benchmark:
  assumes "length (TrimSpace e) > 1024"
  shows "finalizeComputeBenchmarkRuns (five_runs (bad_run e)) = Inl (Err ''compute benchmark run 2 error text is too long'')"
proof -
  have n: "nat_dec (Suc (Suc 0)) = ''2''" by code_simp
  have e: "TrimSpace e \<noteq> []" using assms by auto
  have c: "check_success ''a.gguf'' 1 good_run = Inr ()" "TrimSpace (rn_Error good_run) = []"
    using good_run_ok by (simp_all add: check_success_iff failed_run_def)
  have "finalize_loop ''a.gguf'' 0 None [good_run, bad_run e, good_run, good_run, good_run]
      = Inl (Err ''compute benchmark run 2 error text is too long'')"
    using assms e c by (simp add: Let_def bad_run_def m9ComputeBenchmarkRunErrorMax_def run_text_def n run_reference_def)
  then show ?thesis
    by (simp add: finalizeComputeBenchmarkRuns_def five_runs_def five_texts IsZero_def Let_def m9StandardRepetitions_def)
qed

section \<open>The two ways to assemble a benchmark\<close>

definition strip_rates :: "llamaBenchThroughput \<Rightarrow> llamaBenchThroughput" where
  "strip_rates t = t\<lparr>tp_PromptTokensPerSecond := [], tp_GenerationTokensPerSecond := []\<rparr>"

definition rates :: "computeBenchmarkRunMeasurement list \<Rightarrow> llamaBenchThroughput \<Rightarrow> llamaBenchThroughput" where
  "rates runs t = t\<lparr>tp_PromptTokensPerSecond := tp_PromptTokensPerSecond t @ map (\<lambda>r. hd (tp_PromptTokensPerSecond (rn_Throughput r))) runs,
     tp_GenerationTokensPerSecond := tp_GenerationTokensPerSecond t @ map (\<lambda>r. hd (tp_GenerationTokensPerSecond (rn_Throughput r))) runs\<rparr>"

lemma rates_simps [simp]:
  "rates [] t = t"
  "same_metadata c (rates rs t) = same_metadata c t" "same_metadata c (strip_rates t) = same_metadata c t"
  by (simp_all add: rates_def same_metadata_def strip_rates_def)

lemma rates_Cons: "rates (r # rs) t = rates rs (rates [r] t)"
  by (simp add: rates_def)

lemma combine_loop_ok:
  assumes "list_all (\<lambda>r. check_run 0 r = Inr () \<and> same_metadata (rn_Throughput r) c) runs"
  shows "combine_loop i (Some c) tel runs = Inr (Some (rates runs c), tel @ map rn_Telemetry runs)"
  using assms
proof (induction runs arbitrary: i c tel)
  case (Cons r runs)
  let ?c = "rates [r] c"
  have step: "combine_loop i (Some c) tel (r # runs) = combine_loop (i + 1) (Some ?c) (tel @ [rn_Telemetry r]) runs"
    using Cons.prems check_run_iff [of 0 r] check_run_iff [of "i + 1" r] by (simp add: Let_def rates_def)
  have "list_all (\<lambda>r. check_run 0 r = Inr () \<and> same_metadata (rn_Throughput r) ?c) runs"
    using Cons.prems by simp
  then show ?case unfolding step rates_Cons [of r runs] by (simp add: Cons.IH)
qed simp

lemma assemble_samples_ok:
  assumes "list_all (\<lambda>r. \<not> failed_run r \<and> measured_run r \<and> tp_PromptTokens (rn_Throughput r) = pt
             \<and> tp_GeneratedTokens (rn_Throughput r) = gt) runs"
  shows "assemble_samples i pt gt (zip (map (\<lambda>r. hd (tp_PromptTokensPerSecond (rn_Throughput r))) runs)
           (zip (map (\<lambda>r. hd (tp_GenerationTokensPerSecond (rn_Throughput r))) runs) (map rn_Telemetry runs)))
         = Inr (run_samples i runs)"
  using assms
proof (induction runs arbitrary: i)
  case (Cons r runs)
  then show ?case by (auto simp: measured_run_def one_sample_def run_sample_def finite_nonneg f_le_def)
qed simp



text \<open>Reading llama-bench. A result is taken exactly from an output with one prompt row and one
  generation row, whatever the order and whatever other rows, of one build, model and backend and
  one positive sample each; and such a throughput with a measured time and memory is a run the
  combination accepts.\<close>

theorem bench_output_usable:
  assumes "parseLlamaBenchJSON dec raw = Inr t"
  shows "(\<exists>rows p g. dec raw = Some rows \<and> filter prompt_row rows = [p] \<and> filter generation_row rows = [g]
      \<and> same_build p g \<and> tp_PromptTokensPerSecond t = lb_SamplesTS p \<and> tp_GenerationTokensPerSecond t = lb_SamplesTS g)
    \<and> check_run n \<lparr>rn_Throughput = t, rn_Telemetry = no_telemetry\<lparr>tm_TimeToFirstToken := 1, tm_PeakSystemRAM := 1\<rparr>,
                    rn_Error = []\<rparr> = Inr ()"
proof -
  obtain rows p g where r: "dec raw = Some rows" "filter prompt_row rows = [p]" "filter generation_row rows = [g]"
    "same_build p g" "one_sample (lb_SamplesTS p)" "one_sample (lb_SamplesTS g)"
    "t = \<lparr>tp_RuntimeVersion = lb_BuildCommit p @ ''-'' @ Itoa (lb_BuildNumber p),
                  tp_ModelFilename = lb_ModelFilename p, tp_ModelType = lb_ModelType p, tp_Backend = lb_Backends p,
                  tp_PromptTokens = 512, tp_GeneratedTokens = 128,
                  tp_PromptTokensPerSecond = lb_SamplesTS p, tp_GenerationTokensPerSecond = lb_SamplesTS g\<rparr>"
    using assms unfolding parse_bench_iff by blast
  then have "check_run n \<lparr>rn_Throughput = t, rn_Telemetry = no_telemetry\<lparr>tm_TimeToFirstToken := 1, tm_PeakSystemRAM := 1\<rparr>,
                    rn_Error = []\<rparr> = Inr ()"
    unfolding check_run_iff measured_run_def by (auto simp: same_build_def no_telemetry_def)
  with r show ?thesis by auto
qed

definition bench_row :: "int \<Rightarrow> int \<Rightarrow> real \<Rightarrow> llamaBenchJSONResult" where
  "bench_row p g r = \<lparr>lb_BuildCommit = ''c'', lb_BuildNumber = 4, lb_Backends = ''CPU'', lb_ModelFilename = ''m'',
     lb_ModelType = ''t'', lb_NPrompt = p, lb_NGen = g, lb_AvgTS = Fin r, lb_SamplesTS = [Fin r]\<rparr>"

theorem bench_output_usable_witness:
  "\<exists>t. parseLlamaBenchJSON (\<lambda>_. Some [bench_row 0 128 60, bench_row 1 1 1, bench_row 512 0 800]) ''[]'' = Inr t
     \<and> tp_PromptTokensPerSecond t = [Fin 800]"
proof -
  have x: "TrimSpace ''[]'' = ''[]''" by code_simp
  have "\<exists>t. parseLlamaBenchJSON (\<lambda>_. Some [bench_row 0 128 60, bench_row 1 1 1, bench_row 512 0 800]) ''[]'' = Inr t"
    unfolding parse_bench_iff
    by (simp add: x bench_row_def prompt_row_def generation_row_def same_build_def one_sample_def)
  then obtain t where t: "parseLlamaBenchJSON (\<lambda>_. Some [bench_row 0 128 60, bench_row 1 1 1, bench_row 512 0 800]) ''[]'' = Inr t"
    by blast
  show ?thesis using t bench_output_usable [OF t, of 1] by (auto simp: bench_row_def prompt_row_def)
qed

section \<open>The loop over the repetitions\<close>

text \<open>Printable ASCII bytes survive trimming.\<close>

lemma space_len_plain:
  assumes "plain c" "\<forall>w \<in> set ws. \<forall>x \<in> set w. \<not> ascii_byte x"
  shows "c \<notin> set (take (space_len ws s) s)"
proof (cases s)
  case (Cons x xs)
  show ?thesis
  proof (cases "ascii_space x \<or> ascii_byte x")
    case True
    then show ?thesis using assms(1) Cons by (auto simp: plain_def)
  next
    case False
    then show ?thesis
    proof (cases "find (\<lambda>w. prefix w s) ws")
      case (Some w)
      then have w: "w \<in> set ws" "prefix w s" by (auto simp: find_Some_iff)
      then have "take (space_len ws s) s = w" using False Some Cons by (auto simp: prefix_def)
      then show ?thesis using w(1) assms by (auto simp: plain_def)
    qed (use Cons in auto)
  qed
qed simp

lemma trim_front_plain:
  assumes "plain c" "\<forall>w \<in> set ws. \<forall>x \<in> set w. \<not> ascii_byte x"
  shows "c \<in> set s \<Longrightarrow> c \<in> set (trim_front ws s)"
  using assms
proof (induction ws s rule: trim_front.induct)
  case (1 ws s)
  show ?case
  proof (cases "s = [] \<or> space_len ws s = 0")
    case True
    then show ?thesis using 1 by (auto simp: trim_front_fix)
  next
    case False
    have "set s = set (take (space_len ws s) s) \<union> set (drop (space_len ws s) s)" by (simp flip: set_append)
    then have "c \<in> set (drop (space_len ws s) s)" using space_len_plain [OF 1(3,4), of s] 1(2) by auto
    then show ?thesis using 1 False by (subst trim_front.simps) simp
  qed
qed

lemma wide_not_ascii: "\<forall>w \<in> set wide_spaces. \<forall>x \<in> set w. \<not> ascii_byte x"
  by code_simp

lemma TrimSpace_plain_mem:
  assumes "c \<in> set s" "plain c"
  shows "c \<in> set (TrimSpace s)"
proof -
  have "c \<in> set (trim_front wide_spaces s)" using trim_front_plain [OF assms(2) wide_not_ascii assms(1)] .
  moreover have "\<forall>w \<in> set (map rev wide_spaces). \<forall>x \<in> set w. \<not> ascii_byte x" using wide_not_ascii by auto
  ultimately show ?thesis
    using trim_front_plain [OF assms(2), of "map rev wide_spaces" "rev (trim_front wide_spaces s)"]
    by (simp add: TrimSpace_def)
qed

lemma run_failure_iff: "TrimSpace (computeBenchmarkRunFailure e1 e2) = [] \<longleftrightarrow> e1 = None \<and> e2 = None"
proof -
  have c: "plain (CHR '':'')" by code_simp
  have m: "CHR '':'' \<in> set (computeBenchmarkRunFailure e1 e2)" if "e1 \<noteq> None \<or> e2 \<noteq> None"
    using that by (auto simp: computeBenchmarkRunFailure_def failure_text_def Let_def split: option.split)
  have "TrimSpace (computeBenchmarkRunFailure e1 e2) \<noteq> []" if "e1 \<noteq> None \<or> e2 \<noteq> None"
    using TrimSpace_plain_mem [OF m [OF that] c] by auto
  moreover have "computeBenchmarkRunFailure None None = []"
    by (simp add: computeBenchmarkRunFailure_def failure_text_def)
  ultimately show ?thesis by (cases e1; cases e2) auto
qed

text \<open>Collectors with given answers that log their calls: \<open>True\<close> marks the throughput collector.\<close>

definition logged :: "(nat \<Rightarrow> llamaBenchThroughput \<times> computeBenchmarkRunTelemetry \<times> err option) \<Rightarrow> (nat \<Rightarrow> duration \<times> err option)
    \<Rightarrow> computeBenchmarkFinalizeInput \<Rightarrow> (bool \<times> nat) list computeBenchmarkOrchestratorInput" where
  "logged f g i = \<lparr>oi_CollectedAt = fi_CollectedAt i, oi_Condition = fi_Condition i, oi_Quantization = fi_Quantization i,
     oi_ModelPath = fi_ModelPath i, oi_CollectThroughput = Some (\<lambda>n w. (f n, w @ [(True, n)])),
     oi_CollectTTFT = Some (\<lambda>n w. (g n, w @ [(False, n)]))\<rparr>"

definition attempt :: "llamaBenchThroughput \<times> computeBenchmarkRunTelemetry \<times> err option \<Rightarrow> duration \<times> err option
    \<Rightarrow> computeBenchmarkRunMeasurement" where
  "attempt a b = \<lparr>rn_Throughput = fst a,
     rn_Telemetry = (if fst b > 0 then (fst (snd a))\<lparr>tm_TimeToFirstToken := fst b\<rparr> else fst (snd a)),
     rn_Error = computeBenchmarkRunFailure (snd (snd a)) (snd b)\<rparr>"

lemma run_loop_step:
  "run_loop ctx (\<lambda>n w. (f n, w @ [(True, n)])) (\<lambda>n w. (g n, w @ [(False, n)])) (n # ns) w =
     canceled ctx ''before'' n w
     (canceled ctx ''during'' n (w @ [(True, n)])
      (canceled ctx ''during TTFT'' n (w @ [(True, n), (False, n)])
       (case run_loop ctx (\<lambda>n w. (f n, w @ [(True, n)])) (\<lambda>n w. (g n, w @ [(False, n)])) ns (w @ [(True, n), (False, n)]) of
          (r, w') \<Rightarrow> (bindE r (\<lambda>runs. Inr (attempt (f n) (g n) # runs)), w'))))"
  by (cases "f n"; cases "g n") (simp add: Let_def attempt_def split: prod.split)

lemma run_loop_uncancelled:
  "run_loop (\<lambda>_. None) (\<lambda>n w. (f n, w @ [(True, n)])) (\<lambda>n w. (g n, w @ [(False, n)])) ns w =
     (Inr (map (\<lambda>n. attempt (f n) (g n)) ns), w @ concat (map (\<lambda>n. [(True, n), (False, n)]) ns))"
proof (induction ns arbitrary: w)
  case (Cons n ns)
  show ?case unfolding run_loop_step canceled_def Cons.IH by simp
qed simp

lemma five: "[1..<m9StandardRepetitions + 1] = [1, 2, 3, 4, 5]"
  by (simp add: m9StandardRepetitions_def upt_rec)

text \<open>C38: five repetitions, whatever fails. Without cancellation the collectors run in the order
  throughput, first token for the runs 1 to 5, a failure of one never skips another call, and the
  result is the final payload of all five attempts, an attempt counting as failed exactly when
  one of its two measurements returned an error.\<close>

theorem five_attempts:
  "orchestrateComputeBenchmarkRuns (Some (\<lambda>_. None)) (logged f g i) [] =
     (finalizeComputeBenchmarkRuns (i\<lparr>fi_Runs := map (\<lambda>n. attempt (f n) (g n)) [1, 2, 3, 4, 5]\<rparr>),
      concat (map (\<lambda>n. [(True, n), (False, n)]) [1, 2, 3, 4, 5]))
   \<and> (TrimSpace (rn_Error (attempt (f n) (g n))) = [] \<longleftrightarrow> snd (snd (f n)) = None \<and> snd (g n) = None)"
proof
  show "orchestrateComputeBenchmarkRuns (Some (\<lambda>_. None)) (logged f g i) [] =
     (finalizeComputeBenchmarkRuns (i\<lparr>fi_Runs := map (\<lambda>n. attempt (f n) (g n)) [1, 2, 3, 4, 5]\<rparr>),
      concat (map (\<lambda>n. [(True, n), (False, n)]) [1, 2, 3, 4, 5]))"
    unfolding orchestrateComputeBenchmarkRuns_def logged_def five
    by (cases i) (simp add: run_loop_uncancelled del: run_loop.simps)
  show "TrimSpace (rn_Error (attempt (f n) (g n))) = [] \<longleftrightarrow> snd (snd (f n)) = None \<and> snd (g n) = None"
    by (simp add: attempt_def run_failure_iff)
qed

text \<open>Cancellation. A context that is cancelled once \<open>k\<close> of the ten measurements have run stops
  the benchmark with an error before any further measurement.\<close>

theorem cancellation_stops:
  assumes "k \<le> 10"
  shows "\<exists>e log. orchestrateComputeBenchmarkRuns (Some (\<lambda>w. if k \<le> length w then Some c else None)) (logged f g i) []
     = (Inl e, log) \<and> length log = k"
proof -
  have "k = 0 \<or> k = 1 \<or> k = 2 \<or> k = 3 \<or> k = 4 \<or> k = 5 \<or> k = 6 \<or> k = 7 \<or> k = 8 \<or> k = 9 \<or> k = 10"
    using assms by presburger
  then show ?thesis
    unfolding orchestrateComputeBenchmarkRuns_def logged_def five
    by (elim disjE; simp add: run_loop_step canceled_def del: run_loop.simps(2))
qed

theorem cancellation_stops_witness:
  "\<exists>e log. orchestrateComputeBenchmarkRuns (Some (\<lambda>w. if 3 \<le> length w then Some (Err ''stop'') else None))
     (logged (\<lambda>_. (good_throughput, no_telemetry, None)) (\<lambda>_. (5, None)) (five_runs good_run)) [] = (Inl e, log)
     \<and> length log = 3"
  by (rule cancellation_stops) simp

end
