(* ===== verification/AgentSubmit.thy ===== *)
theory AgentSubmit
  imports Identity BenchProperties Submissions
begin

text \<open>
  What the agent sends: the development client (\<^verbatim>\<open>agent/client.go\<close>), secure enrollment
  (\<^verbatim>\<open>agent/secure_enroll.go\<close>), the three signed submissions (\<^verbatim>\<open>agent/*_submit.go\<close>)
  and the transport of a compute benchmark (\<^verbatim>\<open>compute_benchmark_transport.go\<close>,
  \<^verbatim>\<open>compute_benchmark_submit_flow.go\<close>). The JSON codecs are parameters. The theorems join the
  agent to the server's own handlers.
\<close>

section \<open>client.go\<close>

definition AgentVersion :: string where "AgentVersion = ''0.0.1-dev''"

record Client =
  cl_baseURL :: string
  cl_nodeID :: string
  cl_token :: string

definition NewClient :: "string \<Rightarrow> string \<Rightarrow> string \<Rightarrow> Client" where
  "NewClient baseURL nodeID token = \<lparr>cl_baseURL = TrimRight baseURL (CHR ''/''), cl_nodeID = nodeID, cl_token = token\<rparr>"

text \<open>\<open>body\<close> is the encoded value, \<open>None\<close> when encoding fails.\<close>

definition post_json :: "'w doer \<Rightarrow> Client \<Rightarrow> string \<Rightarrow> string option \<Rightarrow> int \<Rightarrow> 'w \<Rightarrow> (err + unit) \<times> 'w" where
  "post_json net c path body expected w =
     (case body of None \<Rightarrow> (Inl (Err ''unsupported value''), w)
      | Some b \<Rightarrow>
      (case NewRequest ''POST'' (cl_baseURL c @ path)
              [(''Content-Type'', ''application/json''), (''Authorization'', ''Bearer '' @ cl_token c)] b of
        Inl e \<Rightarrow> (Inl e, w)
      | Inr req \<Rightarrow>
      (case net req w of
        (Inl e, w') \<Rightarrow> (Inl e, w')
      | (Inr resp, w') \<Rightarrow>
          (if hp_status resp \<noteq> expected then (Inl (Err (path @ '' returned '' @ hp_text resp)), w') else (Inr (), w')))))"

definition client_Enroll :: "(EnrollRequest \<Rightarrow> string option) \<Rightarrow> 'w doer \<Rightarrow> Client \<Rightarrow> 'w \<Rightarrow> (err + unit) \<times> 'w" where
  "client_Enroll enc net c w =
     post_json net c ''/v1/enroll''
       (enc \<lparr>er_NodeID = cl_nodeID c, er_EnrollmentToken = cl_token c, er_AgentVersion = AgentVersion\<rparr>) 201 w"

definition client_Heartbeat :: "(HeartbeatRequest \<Rightarrow> string option) \<Rightarrow> 'w doer \<Rightarrow> Client \<Rightarrow> gotime \<Rightarrow> 'w \<Rightarrow> (err + unit) \<times> 'w" where
  "client_Heartbeat enc net c now w =
     post_json net c ''/v1/heartbeat''
       (enc \<lparr>hb_NodeID = cl_nodeID c, hb_ObservedAt = now, hb_Mode = ''available''\<rparr>) 204 w"

section \<open>secure\_enroll.go\<close>

definition SecureEnrollmentVersion :: string where "SecureEnrollmentVersion = ''0.1.0-m6''"

text \<open>\<open>api_error\<close> is the \<open>error\<close> entry of a JSON object, empty when there is none.\<close>

record enroll_codec =
  ec_request :: "SecureEnrollRequest \<Rightarrow> string option"
  ec_response :: "string \<Rightarrow> EnrollResponse option"
  ec_api_error :: "string \<Rightarrow> string"

definition enroll_request :: "Identity \<Rightarrow> string \<Rightarrow> SecureEnrollRequest" where
  "enroll_request identity enrollCode = \<lparr>ser_NodeID = idn_NodeID identity, ser_EnrollmentCode = enrollCode,
     ser_AgentVersion = SecureEnrollmentVersion, ser_PublicKey = idn_PublicKey identity\<rparr>"

definition EnrollSecure :: "enroll_codec \<Rightarrow> 'w doer \<Rightarrow> string \<Rightarrow> Identity \<Rightarrow> string \<Rightarrow> 'w \<Rightarrow> (err + unit) \<times> 'w" where
  "EnrollSecure j net serverURL identity enrollmentCode w =
     (let baseURL = TrimRight (TrimSpace serverURL) (CHR ''/'') in
      if baseURL = [] then (Inl (Err ''server URL is required''), w)
      else case validateIdentity identity of
        Inl e \<Rightarrow> (Inl e, w)
      | Inr _ \<Rightarrow>
      (let trimmed = TrimSpace enrollmentCode in
       if trimmed = [] then (Inl (Err ''enrollment code is required''), w)
       else case ec_request j (enroll_request identity trimmed) of
         None \<Rightarrow> (Inl (Err ''unsupported value''), w)
       | Some body \<Rightarrow>
       (case NewRequest ''POST'' (baseURL @ ''/v1/agent/enroll'') [(''Content-Type'', ''application/json'')] body of
         Inl e \<Rightarrow> (Inl e, w)
       | Inr req \<Rightarrow>
       (case net req w of
         (Inl e, w') \<Rightarrow> (Inl (Wrap ''contact enrollment service'' e), w')
       | (Inr resp, w') \<Rightarrow>
          (let responseBody = limited 32768 resp in
           if hp_status resp \<noteq> 201
           then let message = TrimSpace (ec_api_error j responseBody)
                in (Inl (Err (''enrollment rejected: '' @ (if message \<noteq> [] then message else hp_text resp))), w')
           else case ec_response j responseBody of
             None \<Rightarrow> (Inl (Err ''enrollment service returned an invalid response''), w')
           | Some result \<Rightarrow>
               if \<not> ersp_Accepted result \<or> ersp_NodeID result \<noteq> idn_NodeID identity
               then (Inl (Err ''enrollment service did not confirm this node identity''), w')
               else (Inr (), w'))))))"

section \<open>The three signed submissions\<close>

text \<open>The last step all three share: decode the private key and sign the message of the body.\<close>

definition sign_with :: "'c agent_crypto_scheme \<Rightarrow> Identity \<Rightarrow> string \<Rightarrow> err + string" where
  "sign_with c identity message =
     (case DecodeString (idn_PrivateKey identity) of
        None \<Rightarrow> Inl (Err ''identity private key is invalid'')
      | Some privateKeyBytes \<Rightarrow>
          if length privateKeyBytes \<noteq> PrivateKeySize then Inl (Err ''identity private key is invalid'')
          else Inr (EncodeToString (ed_sign c privateKeyBytes message)))"

definition marshal :: "string option \<Rightarrow> err + string" where
  "marshal r = (case r of None \<Rightarrow> Inl (Err ''unsupported value'') | Some b \<Rightarrow> Inr b)"

definition BuildSignedInventorySubmission :: "agent_crypto \<Rightarrow> (InventorySubmission \<Rightarrow> string option) \<Rightarrow> u8 list option
    \<Rightarrow> Identity \<Rightarrow> HardwareInventory \<Rightarrow> gotime \<Rightarrow> err + InventorySubmission \<times> string \<times> string" where
  "BuildSignedInventorySubmission c enc raw identity inventory now =
     bindE (validateIdentity identity) (\<lambda>_.
     if hi_SchemaVersion inventory \<noteq> HardwareInventorySchemaVersion then Inl (Err ''unsupported hardware inventory schema'')
     else bindE (random_uuid raw) (\<lambda>reportID.
       let submission = \<lparr>isub_Version = InventorySubmissionVersion, isub_NodeID = idn_NodeID identity,
                         isub_ReportID = reportID, isub_SignedAt = now, isub_Inventory = inventory\<rparr>
       in bindE (marshal (enc submission)) (\<lambda>body.
          bindE (sign_with c identity (InventorySigningMessage (Sum256 c) body)) (\<lambda>signature.
          Inr (submission, body, signature)))))"

definition BuildSignedNetworkBenchmarkSubmission :: "agent_crypto \<Rightarrow> (NetworkBenchmarkSubmission \<Rightarrow> string option)
    \<Rightarrow> u8 list option \<Rightarrow> Identity \<Rightarrow> NetworkBenchmark \<Rightarrow> gotime \<Rightarrow> err + NetworkBenchmarkSubmission \<times> string \<times> string" where
  "BuildSignedNetworkBenchmarkSubmission c enc raw identity benchmark now =
     bindE (validateIdentity identity) (\<lambda>_.
     if nb_SchemaVersion benchmark \<noteq> NetworkBenchmarkSchemaVersion then Inl (Err ''unsupported network benchmark schema'')
     else bindE (random_uuid raw) (\<lambda>reportID.
       let submission = \<lparr>nsub_Version = NetworkBenchmarkSubmissionVersion, nsub_NodeID = idn_NodeID identity,
                         nsub_ReportID = reportID, nsub_SignedAt = now, nsub_Benchmark = benchmark\<rparr>
       in bindE (marshal (enc submission)) (\<lambda>body.
          bindE (sign_with c identity (NetworkBenchmarkSigningMessage (Sum256 c) body)) (\<lambda>signature.
          Inr (submission, body, signature)))))"

definition BuildSignedComputeBenchmarkSubmission :: "agent_crypto \<Rightarrow> (ComputeBenchmarkSubmission \<Rightarrow> string option)
    \<Rightarrow> u8 list option \<Rightarrow> Identity \<Rightarrow> ComputeBenchmark \<Rightarrow> gotime \<Rightarrow> err + ComputeBenchmarkSubmission \<times> string \<times> string" where
  "BuildSignedComputeBenchmarkSubmission c enc raw identity benchmark now =
     bindE (validateIdentity identity) (\<lambda>_.
     if cb_SchemaVersion benchmark \<noteq> ComputeBenchmarkSchemaVersion then Inl (Err ''unsupported compute benchmark schema'')
     else bindE (random_uuid raw) (\<lambda>reportID.
       let submission = \<lparr>csub_Version = ComputeBenchmarkSubmissionVersion, csub_NodeID = idn_NodeID identity,
                         csub_ReportID = reportID, csub_SignedAt = now, csub_Benchmark = benchmark\<rparr>
       in bindE (marshal (enc submission)) (\<lambda>body.
          bindE (sign_with c identity (ComputeBenchmarkSigningMessage (Sum256 c) body)) (\<lambda>signature.
          Inr (submission, body, signature)))))"

section \<open>compute\_benchmark\_transport.go and compute\_benchmark\_submit\_flow.go\<close>

definition normalizeComputeBenchmarkServerURL :: "string \<Rightarrow> err + string" where
  "normalizeComputeBenchmarkServerURL value0 =
     (let v = TrimSpace value0 in
      if v = [] then Inl (Err ''compute benchmark server URL is required'')
      else case Parse v of
        None \<Rightarrow> Inl (Err ''invalid compute benchmark server URL'')
      | Some parsed \<Rightarrow>
          if u_Host parsed = [] \<or> u_User parsed \<noteq> None \<or> u_RawQuery parsed \<noteq> [] \<or> u_Fragment parsed \<noteq> []
             \<or> (u_Path parsed \<noteq> [] \<and> u_Path parsed \<noteq> ''/'')
          then Inl (Err ''invalid compute benchmark server base URL'')
          else let host = ToLower (Hostname parsed) in
               if u_Scheme parsed = ''https'' then Inr (TrimRight v (CHR ''/''))
               else if u_Scheme parsed = ''http''
               then if host \<in> {''127.0.0.1'', ''localhost'', ''::1''} then Inr (TrimRight v (CHR ''/''))
                    else Inl (Err ''plain HTTP compute benchmark transport is limited to loopback'')
               else Inl (Err ''compute benchmark server URL must use HTTPS or loopback HTTP''))"

record transport_codec =
  tc_response :: "string \<Rightarrow> SubmissionResponse option"
  tc_api_error :: "string \<Rightarrow> string"

definition m9ComputeBenchmarkResponseLimit :: nat where "m9ComputeBenchmarkResponseLimit = 65536"

text \<open>What becomes of the answer to the post.\<close>

definition computeBenchmarkAnswer :: "transport_codec \<Rightarrow> string \<Rightarrow> http_response \<Rightarrow> err + SubmissionResponse" where
  "computeBenchmarkAnswer j reportID resp =
     (case ReadLimited m9ComputeBenchmarkResponseLimit resp of
        None \<Rightarrow> Inl (Wrap (''read compute benchmark response for report '' @ reportID) (Err ''unexpected EOF''))
      | Some responseBody \<Rightarrow>
          if hp_status resp \<noteq> 201
          then let message = TrimSpace (tc_api_error j responseBody)
               in Inl (Err (''compute benchmark report '' @ reportID @ '' rejected: ''
                             @ (if message \<noteq> [] then message else hp_text resp)))
          else (case tc_response j responseBody of
            None \<Rightarrow> Inl (Err (''compute benchmark service returned an invalid response for report '' @ reportID))
          | Some result \<Rightarrow>
              if \<not> sr_Accepted result
              then Inl (Err (''compute benchmark service did not accept report '' @ reportID))
              else if sr_ReportID result \<noteq> reportID
              then Inl (Err ''compute benchmark service confirmed unexpected report ID'')
              else Inr result))"

text \<open>\<open>ctx\<close> tells whether the context is not nil; a nil client is replaced by a default one, so the
  network is a parameter either way.\<close>

definition PostSignedComputeBenchmark :: "transport_codec \<Rightarrow> bool \<Rightarrow> 'w doer \<Rightarrow> string \<Rightarrow> string \<Rightarrow> string \<Rightarrow> string \<Rightarrow> 'w
    \<Rightarrow> (err + SubmissionResponse) \<times> 'w" where
  "PostSignedComputeBenchmark j ctx net serverURL body signature0 reportID0 w =
     (if \<not> ctx then (Inl (Err ''compute benchmark context is nil''), w)
      else case normalizeComputeBenchmarkServerURL serverURL of
        Inl e \<Rightarrow> (Inl e, w)
      | Inr baseURL \<Rightarrow>
      (if body = [] then (Inl (Err ''compute benchmark submission body is empty''), w)
       else let signature = TrimSpace signature0 in
       if signature = [] then (Inl (Err ''compute benchmark signature is required''), w)
       else let reportID = TrimSpace reportID0 in
       if reportID = [] then (Inl (Err ''compute benchmark report ID is required''), w)
       else case NewRequest ''POST'' (baseURL @ ComputeBenchmarkSubmissionPath)
              [(''Content-Type'', ''application/json''), (InventorySignatureHeader, signature)] body of
         Inl e \<Rightarrow> (Inl e, w)
       | Inr req \<Rightarrow>
       (case net req w of
         (Inl e, w') \<Rightarrow> (Inl (Wrap (''submit compute benchmark report '' @ reportID) e), w')
       | (Inr resp, w') \<Rightarrow> (computeBenchmarkAnswer j reportID resp, w'))))"

text \<open>The result holds the submission as soon as it is signed, and the response on success.\<close>

definition SubmitComputeBenchmark :: "agent_crypto \<Rightarrow> (ComputeBenchmarkSubmission \<Rightarrow> string option) \<Rightarrow> u8 list option
    \<Rightarrow> transport_codec \<Rightarrow> bool \<Rightarrow> Identity \<Rightarrow> ComputeBenchmark \<Rightarrow> string \<Rightarrow> gotime \<Rightarrow> 'w doer \<Rightarrow> 'w
    \<Rightarrow> ((ComputeBenchmarkSubmission option \<times> SubmissionResponse option) \<times> err option) \<times> 'w" where
  "SubmitComputeBenchmark c enc raw j ctx identity benchmark serverURL signedAt net w =
     (if \<not> ctx then (((None, None), Some (Err ''compute benchmark context is nil'')), w)
      else case normalizeComputeBenchmarkServerURL serverURL of
        Inl e \<Rightarrow> (((None, None), Some e), w)
      | Inr normalizedURL \<Rightarrow>
      (case BuildSignedComputeBenchmarkSubmission c enc raw identity benchmark signedAt of
        Inl e \<Rightarrow> (((None, None), Some e), w)
      | Inr (submission, body, signature) \<Rightarrow>
      (case PostSignedComputeBenchmark j ctx net normalizedURL body signature (csub_ReportID submission) w of
        (Inl e, w') \<Rightarrow> (((Some submission, None), Some e), w')
      | (Inr response, w') \<Rightarrow> (((Some submission, Some response), None), w'))))"

section \<open>Texts that survive trimming\<close>

lemma al_nth: "length al = 64 \<Longrightarrow> 0 \<le> k \<Longrightarrow> k < 64 \<Longrightarrow> al ! nat k \<in> set (al :: string)"
  by (intro nth_mem) simp

lemma b64_alphabet: "length al = 64 \<Longrightarrow> set (b64_encode al bs) \<subseteq> set al"
proof (induction al bs rule: b64_encode.induct)
  case (1 al a b c bs)
  let ?n = "65536 * uint a + 256 * uint b + uint c"
  have "0 \<le> ?n" "?n < 64 * 262144" using u8_int [of a] u8_int [of b] u8_int [of c] by linarith+
  then have "0 \<le> ?n div 262144" "?n div 262144 < 64" by linarith+
  then show ?case using 1 al_nth [of al] by (simp add: Let_def del: nat_mod_distrib)
next
  case (2 al a b)
  let ?n = "1024 * uint a + 4 * uint b"
  have "0 \<le> ?n" "?n < 64 * 4096" using u8_int [of a] u8_int [of b] by linarith+
  then have "0 \<le> ?n div 4096" "?n div 4096 < 64" by linarith+
  then show ?case using 2 al_nth [of al] by (simp add: Let_def)
next
  case (3 al a)
  have "0 \<le> 16 * uint a" "16 * uint a < 64 * 64" using u8_int [of a] by linarith+
  then have "0 \<le> 16 * uint a div 64" "16 * uint a div 64 < 64" by linarith+
  then show ?case using 3 al_nth [of al] by (simp add: Let_def)
qed simp

lemma TrimSpace_EncodeToString: "TrimSpace (EncodeToString bs) = EncodeToString bs"
proof (cases "EncodeToString bs = []")
  case False
  have "list_all plain std_alphabet" by code_simp
  moreover have "length std_alphabet = 64" by code_simp
  ultimately have "list_all plain (EncodeToString bs)"
    using b64_alphabet [of std_alphabet bs] by (auto simp: EncodeToString_def list_all_iff)
  then show ?thesis using False by (intro TrimSpace_plain) (auto simp: list_all_iff)
qed simp

section \<open>A report the agent signs\<close>

text \<open>What the code relies on of Ed25519 for one seed: the sizes, and that a signature made with the
  key pair of the seed verifies under its public key.\<close>

definition ed25519_law :: "agent_crypto \<Rightarrow> u8 list \<Rightarrow> bool" where
  "ed25519_law a seed \<longleftrightarrow> length seed = 32 \<and> length (ed_public a seed) = 32
     \<and> (\<forall>msg. length (ed_sign a (seed @ ed_public a seed) msg) = 64
            \<and> Ed25519Verify a (ed_public a seed) msg (ed_sign a (seed @ ed_public a seed) msg))"

lemma signed_ok:
  assumes "ed25519_law a seed" "sign_with a (fresh_identity a seed raw) msg = Inr sig"
  shows "signature_ok (crypto.truncate a) msg (idn_PublicKey (fresh_identity a seed raw)) sig"
proof -
  have "sig = EncodeToString (ed_sign a (seed @ ed_public a seed) msg)"
    using assms by (simp add: sign_with_def fresh_identity_def Decode_EncodeToString PrivateKeySize_def ed25519_law_def)
  then show ?thesis
    using assms(1)
    by (simp add: signature_ok_def fresh_identity_def TrimSpace_EncodeToString Decode_EncodeToString ed25519_law_def
        crypto.truncate_def)
qed

lemma build_compute:
  assumes "BuildSignedComputeBenchmarkSubmission a enc raw i b now = Inr (sub, body, sig)"
  shows "\<exists>r. raw = Some r \<and> sub = \<lparr>csub_Version = ComputeBenchmarkSubmissionVersion, csub_NodeID = idn_NodeID i,
            csub_ReportID = newUUIDv4 r, csub_SignedAt = now, csub_Benchmark = b\<rparr> \<and> enc sub = Some body
     \<and> sign_with a i (ComputeBenchmarkSigningMessage (Sum256 a) body) = Inr sig"
  using assms
  by (auto simp: BuildSignedComputeBenchmarkSubmission_def bindE_Inr_iff random_uuid_def marshal_def Let_def
      split: if_splits option.splits)

lemma Sum256_truncate [simp]: "Sum256 (crypto.truncate a) = Sum256 a"
  by (simp add: crypto.truncate_def)

lemma compute_decision:
  assumes "sv_owner s \<noteq> None" "readBody r = ReadAll body" "decodeComputeBenchmarkSubmissionBody (c_json c) body = Inr sub"
    "InventoryPublicKey (c_env c 0) (csub_NodeID sub) (sv_db s) = Inr pk"
    "verifyComputeBenchmarkSignature (c_crypto c) pk (rq_signature r) body = Inr ()"
    "enc_compute (c_json c) (csub_Benchmark sub) = Some payload"
  shows "rs_status (fst (computeBenchmarkSubmission c r s)) = 201 \<longleftrightarrow> validateComputeBenchmarkSubmission sub (c_now c) = Inr ()
     \<and> is_ok (fst (InsertComputeBenchmark (c_pg c) (c_env c 1) (csub_ReportID sub) (csub_NodeID sub) payload
              (sb_Score (CalculateComputeScore (csub_Benchmark sub))) (c_now c) (sv_db s)))"
  using assms by (cases "validateComputeBenchmarkSubmission sub (c_now c)")
    (auto simp: computeBenchmarkSubmission_def Let_def split: sum.split prod.split)

lemma compute_endpoint:
  assumes "sv_owner s \<noteq> None" "readBody r = ReadAll body" "decodeComputeBenchmarkSubmissionBody (c_json c) body = Inr sub"
    "validateComputeBenchmarkSubmission sub (c_now c) = Inr ()"
    "InventoryPublicKey (c_env c 0) (csub_NodeID sub) (sv_db s) = Inr pk"
    "verifyComputeBenchmarkSignature (c_crypto c) pk (rq_signature r) body = Inr ()"
    "enc_compute (c_json c) (csub_Benchmark sub) = Some payload"
  shows "rs_status (fst (computeBenchmarkSubmission c r s)) = 201 \<longleftrightarrow>
     is_ok (fst (InsertComputeBenchmark (c_pg c) (c_env c 1) (csub_ReportID sub) (csub_NodeID sub) payload
              (sb_Score (CalculateComputeScore (csub_Benchmark sub))) (c_now c) (sv_db s)))"
  using compute_decision [OF assms(1-3,5-7)] assms(4) by simp

lemma readBody_ok: "rq_body r = body \<Longrightarrow> length body \<le> 1048576 \<Longrightarrow> \<not> rq_read_error r \<Longrightarrow> readBody r = ReadAll body"
  by (simp add: readBody_def maxSubmissionBodyBytes_def)

lemma signed_report_passes:
  assumes "ed25519_law a seed" "length uuid = 16" "length raw = 16"
    "finalizeComputeBenchmarkRuns input = Inr b" "fits_limits input"
    "BuildSignedComputeBenchmarkSubmission a enc (Some raw) (fresh_identity a seed uuid) b now = Inr (sub, body, sig)"
    "now \<noteq> 0" "\<bar>received - now\<bar> \<le> 5 * Minute" "\<bar>now - fi_CollectedAt input\<bar> \<le> 5 * Minute"
  shows "sub = \<lparr>csub_Version = ComputeBenchmarkSubmissionVersion, csub_NodeID = newUUIDv4 uuid,
      csub_ReportID = newUUIDv4 raw, csub_SignedAt = now, csub_Benchmark = b\<rparr>"
    "validateComputeBenchmarkSubmission sub received = Inr ()"
    "verifyComputeBenchmarkSignature (crypto.truncate a) (idn_PublicKey (fresh_identity a seed uuid)) sig body = Inr ()"
proof -
  show sub: "sub = \<lparr>csub_Version = ComputeBenchmarkSubmissionVersion, csub_NodeID = newUUIDv4 uuid,
      csub_ReportID = newUUIDv4 raw, csub_SignedAt = now, csub_Benchmark = b\<rparr>"
    using build_compute [OF assms(6)] by (auto simp: fresh_identity_def)
  have sig: "sign_with a (fresh_identity a seed uuid) (ComputeBenchmarkSigningMessage (Sum256 a) body) = Inr sig"
    using build_compute [OF assms(6)] by auto
  have "cb_CollectedAt b = fi_CollectedAt input" using assms(4) by (auto simp: finalize_iff benchmark_of_def)
  then show "validateComputeBenchmarkSubmission sub received = Inr ()"
    unfolding compute_accepted_iff sub using finalize_wf [OF assms(4,5)] assms(2,3,7-9)
    by (simp add: skew_accepted_def validUUIDv4_newUUIDv4)
  show "verifyComputeBenchmarkSignature (crypto.truncate a) (idn_PublicKey (fresh_identity a seed uuid)) sig body = Inr ()"
    using signed_ok [OF assms(1) sig] by (simp add: verify_iff)
qed

text \<open>From the benchmark to the table. The report an agent builds and signs with its generated identity
  from a finished benchmark, failed repetitions included, passes decoding, validation and the
  signature check of the server that enrolled this identity: whether it is answered with 201
  depends on the insertion alone. Signatures made with a key pair verify, and the server decodes
  what the agent encoded.\<close>

lemma compute_report_end_to_end:
  assumes "ed25519_law a seed" "length uuid = 16" "length raw = 16" "c_crypto c = crypto.truncate a"
    "finalizeComputeBenchmarkRuns input = Inr b" "fits_limits input"
    "BuildSignedComputeBenchmarkSubmission a enc (Some raw) (fresh_identity a seed uuid) b now = Inr (sub, body, sig)"
    "now \<noteq> 0" "\<bar>c_now c - now\<bar> \<le> 5 * Minute" "\<bar>now - fi_CollectedAt input\<bar> \<le> 5 * Minute"
    "dec_compute (c_json c) body = Some (sub, [])" "enc_compute (c_json c) b = Some payload"
    "sv_owner s \<noteq> None" "rq_body r = body" "rq_signature r = sig" "length body \<le> 1048576" "\<not> rq_read_error r"
    "InventoryPublicKey (c_env c 0) (newUUIDv4 uuid) (sv_db s) = Inr (idn_PublicKey (fresh_identity a seed uuid))"
  shows "rs_status (fst (computeBenchmarkSubmission c r s)) = 201 \<longleftrightarrow>
     is_ok (fst (InsertComputeBenchmark (c_pg c) (c_env c 1) (newUUIDv4 raw) (newUUIDv4 uuid) payload
              (sb_Score (CalculateComputeScore b)) (c_now c) (sv_db s)))"
proof -
  note p = signed_report_passes [OF assms(1-3,5-10)]
  have "decodeComputeBenchmarkSubmissionBody (c_json c) body = Inr sub"
    using assms(11) by (simp add: decodeComputeBenchmarkSubmissionBody_def at_eof_def)
  from compute_endpoint [OF assms(13) readBody_ok [OF assms(14,16,17)] this p(2), of "idn_PublicKey (fresh_identity a seed uuid)" payload]
  show ?thesis using p assms(4,12,15,18) by simp
qed

definition toy_seed :: "u8 list" where "toy_seed = replicate 32 7"
definition toy_raw :: "u8 list" where "toy_raw = replicate 16 5"

definition toy_submission :: "ComputeBenchmark \<Rightarrow> ComputeBenchmarkSubmission" where
  "toy_submission b = \<lparr>csub_Version = ComputeBenchmarkSubmissionVersion, csub_NodeID = newUUIDv4 toy_raw,
     csub_ReportID = newUUIDv4 toy_raw, csub_SignedAt = 9, csub_Benchmark = b\<rparr>"

definition toy_call :: "ComputeBenchmark \<Rightarrow> call" where
  "toy_call b = sample_call\<lparr>c_crypto := crypto.truncate toy_crypto,
     c_json := sample_codecs\<lparr>dec_compute := \<lambda>_. Some (toy_submission b, [])\<rparr>\<rparr>"

definition toy_server :: server where
  "toy_server = sample_server\<lparr>sv_db := (sample_db [])\<lparr>nodes := [\<lparr>n_id = ''n1'', n_user = ''u1'', n_key = newUUIDv4 toy_raw,
     n_version = ''1'', n_pubkey = Some (idn_PublicKey (fresh_identity toy_crypto toy_seed toy_raw))\<rparr>]\<rparr>\<rparr>"

lemma toy_law: "ed25519_law toy_crypto toy_seed"
  by (simp add: ed25519_law_def toy_crypto_def toy_seed_def)

lemma toy_signs:
  "\<exists>sig. sign_with toy_crypto (fresh_identity toy_crypto toy_seed toy_raw) m = Inr sig"
  by (simp add: sign_with_def fresh_identity_def Decode_EncodeToString PrivateKeySize_def toy_crypto_def toy_seed_def)

lemma toy_valid: "validateIdentity (fresh_identity toy_crypto toy_seed toy_raw) = Inr ()"
  by (rule fresh_valid) (simp_all add: toy_crypto_def toy_seed_def toy_raw_def)

lemma toy_built:
  assumes "cb_SchemaVersion b = ComputeBenchmarkSchemaVersion"
  obtains sig where "BuildSignedComputeBenchmarkSubmission toy_crypto (\<lambda>_. Some ''body'') (Some toy_raw)
      (fresh_identity toy_crypto toy_seed toy_raw) b 9 = Inr (toy_submission b, ''body'', sig)"
proof -
  let ?i = "fresh_identity toy_crypto toy_seed toy_raw"
  obtain sig where sig: "sign_with toy_crypto ?i (ComputeBenchmarkSigningMessage (Sum256 toy_crypto) ''body'') = Inr sig"
    using toy_signs by blast
  show ?thesis
    using toy_valid assms sig by (intro that [of sig]) (simp add: BuildSignedComputeBenchmarkSubmission_def random_uuid_def
        marshal_def Let_def toy_submission_def, simp add: fresh_identity_def)
qed

lemma toy_key: "InventoryPublicKey (sample_env 1000 ''id'') (newUUIDv4 toy_raw) (sv_db toy_server)
    = Inr (idn_PublicKey (fresh_identity toy_crypto toy_seed toy_raw))"
proof -
  have "DecodeString [] = Some []" by code_simp
  then have "EncodeToString toy_seed \<noteq> []" using Decode_EncodeToString [of toy_seed] by (auto simp: toy_seed_def)
  then have "idn_PublicKey (fresh_identity toy_crypto toy_seed toy_raw) \<noteq> []" by (simp add: fresh_identity_def toy_crypto_def)
  then show ?thesis by (simp add: InventoryPublicKey_def toy_server_def stmt_def sample_env_def row_def)
qed

lemma toy_call_simps:
  "c_now (toy_call b) = 1000" "c_crypto (toy_call b) = crypto.truncate toy_crypto" "c_pg (toy_call b) = sample_pg"
  "c_env (toy_call b) = (\<lambda>_. sample_env 1000 ''id'')" "dec_compute (c_json (toy_call b)) = (\<lambda>_. Some (toy_submission b, []))"
  "enc_compute (c_json (toy_call b)) b = Some ''{}''"
  by (simp_all add: toy_call_def sample_call_def sample_codecs_def)

text \<open>The three kinds of report verify alike.\<close>

lemma signed_reports_verify:
  assumes "ed25519_law a seed"
  shows "BuildSignedInventorySubmission a ei raw (fresh_identity a seed uuid) hi now = Inr (si, bi, sigi) \<Longrightarrow>
      verifyInventorySignature (crypto.truncate a) (idn_PublicKey (fresh_identity a seed uuid)) sigi bi = Inr ()"
    "BuildSignedNetworkBenchmarkSubmission a en raw (fresh_identity a seed uuid) nb now = Inr (sn, bn, sign') \<Longrightarrow>
      verifyNetworkBenchmarkSignature (crypto.truncate a) (idn_PublicKey (fresh_identity a seed uuid)) sign' bn = Inr ()"
  using signed_ok [OF assms]
  by (auto simp: BuildSignedInventorySubmission_def BuildSignedNetworkBenchmarkSubmission_def bindE_Inr_iff verify_iff
      Let_def split: if_splits)

section \<open>Where a benchmark is sent\<close>

definition trusted_target :: "url \<Rightarrow> bool" where
  "trusted_target u \<longleftrightarrow> u_Host u \<noteq> [] \<and> u_User u = None \<and> u_RawQuery u = [] \<and> u_Fragment u = []
     \<and> (u_Scheme u = ''https'' \<or> u_Scheme u = ''http'' \<and> ToLower (Hostname u) \<in> {''127.0.0.1'', ''localhost'', ''::1''})"

lemma normalize_target:
  assumes "normalizeComputeBenchmarkServerURL addr = Inr baseURL" "\<not> HasSuffix (TrimSpace addr) ''?''"
    "CHR ''#'' \<notin> set (TrimSpace addr)"
  obtains u where "Parse (baseURL @ ComputeBenchmarkSubmissionPath) = Some u" "trusted_target u"
    "u_Path u = ComputeBenchmarkSubmissionPath"
proof -
  let ?v = "TrimSpace addr"
  obtain u where u: "Parse ?v = Some u" "u_Host u \<noteq> []" "u_User u = None" "u_RawQuery u = []" "u_Fragment u = []"
      "u_Path u = [] \<or> u_Path u = ''/''" "baseURL = TrimRight ?v (CHR ''/'')"
      "u_Scheme u = ''https'' \<or> u_Scheme u = ''http'' \<and> ToLower (Hostname u) \<in> {''127.0.0.1'', ''localhost'', ''::1''}"
    using assms(1) by (auto simp: normalizeComputeBenchmarkServerURL_def Let_def split: if_splits option.splits)
  have p: "parse ?v False = Some u" using u(1) Parse_no_fragment [OF assms(3)] by simp
  have e: "endpoint ComputeBenchmarkSubmissionPath" by code_simp
  have "u_Scheme u \<noteq> []" using u(8) by auto
  from base_endpoint [OF p u(2) this u(3,4,6) assms(2) e]
  show thesis using u that by (auto simp: trusted_target_def empty_url_def Hostname_def)
qed

lemma set_TrimSpace: "set (TrimSpace s) \<subseteq> set s"
proof -
  have "set (trim_front ws t) \<subseteq> set t" for ws t using trim_front_suffix [of ws t] by (rule set_mono_suffix)
  then show ?thesis unfolding TrimSpace_def set_rev by (metis order_trans set_rev)
qed

lemma set_TrimRight: "set (TrimRight s c) \<subseteq> set s"
  unfolding TrimRight_def set_rev by (metis set_dropWhileD set_rev subsetI)

lemma normalize_set: "normalizeComputeBenchmarkServerURL addr = Inr baseURL \<Longrightarrow> set baseURL \<subseteq> set addr"
  using set_TrimRight [of "TrimSpace addr" "CHR ''/''"] set_TrimSpace [of addr]
  by (auto simp: normalizeComputeBenchmarkServerURL_def Let_def split: if_splits option.splits)

lemma no_question_suffix: "CHR ''?'' \<notin> set s \<Longrightarrow> \<not> HasSuffix (TrimSpace s) ''?''"
  using set_TrimSpace [of s] by (auto simp: HasSuffix_def suffix_def)

text \<open>A request of the transport: to a trusted target, carrying the signed body.\<close>

definition report_request :: "string \<Rightarrow> http_request \<Rightarrow> bool" where
  "report_request body q \<longleftrightarrow> hr_method q = ''POST'' \<and> hr_body q = body
     \<and> (case Parse (hr_url q) of None \<Rightarrow> False
        | Some u \<Rightarrow> trusted_target u \<and> u_Path u = ComputeBenchmarkSubmissionPath)"

lemma post_requests:
  assumes "CHR ''?'' \<notin> set addr" "CHR ''#'' \<notin> set addr"
    "PostSignedComputeBenchmark j ctx (recording f) addr body sig rid [] = (res, reqs)"
  shows "(reqs = [] \<or> (\<exists>q. reqs = [q] \<and> report_request body q))
    \<and> (\<forall>x. res = Inr x \<longrightarrow> sr_Accepted x \<and> sr_ReportID x = TrimSpace rid \<and> reqs \<noteq> [])"
proof (cases "normalizeComputeBenchmarkServerURL addr")
  case (Inr baseURL)
  have h: "\<not> HasSuffix (TrimSpace addr) ''?''" "CHR ''#'' \<notin> set (TrimSpace addr)"
    using no_question_suffix assms(1,2) set_TrimSpace [of addr] by auto
  obtain u where u: "Parse (baseURL @ ComputeBenchmarkSubmissionPath) = Some u" "trusted_target u"
    "u_Path u = ComputeBenchmarkSubmissionPath"
    using normalize_target [OF Inr h] by blast
  let ?q = "\<lparr>hr_method = ''POST'', hr_url = baseURL @ ComputeBenchmarkSubmissionPath,
     hr_headers = [(''Content-Type'', ''application/json''), (InventorySignatureHeader, TrimSpace sig)], hr_body = body\<rparr>"
  have q: "report_request body ?q" using u by (simp add: report_request_def)
  show ?thesis
    using assms(3) Inr u(1) q
    by (cases "f ?q")
       (auto simp: PostSignedComputeBenchmark_def computeBenchmarkAnswer_def NewRequest_def recording_def Let_def split: if_splits option.splits)
qed (use assms(3) in \<open>auto simp: PostSignedComputeBenchmark_def split: if_splits\<close>)



text \<open>A lone trailing question mark passes the check of the query here too, and sends the report to
  the root of the server.\<close>

lemma question_mark_transport:
  "normalizeComputeBenchmarkServerURL ''https://api.example.com?'' = Inr ''https://api.example.com?''
   \<and> map_option (\<lambda>u. (u_Path u, u_RawQuery u)) (Parse (''https://api.example.com?'' @ ComputeBenchmarkSubmissionPath))
     = Some ([], ComputeBenchmarkSubmissionPath)"
  by code_simp

end
