(* ===== verification/BenchServer.thy ===== *)
theory BenchServer
  imports BenchRuns
begin

text \<open>
  The benchmark's own \<open>llama-server\<close>: the time to its first token
  (\<^verbatim>\<open>agent/compute_benchmark_ttft.go\<close>) and its life on the two platforms
  (\<^verbatim>\<open>..._server_linux.go\<close>, \<^verbatim>\<open>..._server_darwin.go\<close>). The two platform files differ in
  the command line and in the texts, so both are instances of the same definitions. Processes,
  network and clock act on a state \<open>'w\<close> of the outside world.
\<close>

section \<open>compute\_benchmark\_ttft.go\<close>

record llamaTTFTRequest =
  tr_Prompt :: string
  tr_NPredict :: int
  tr_Stream :: bool
  tr_CachePrompt :: bool
  tr_ReturnTokens :: bool
  tr_Seed :: int
  tr_Temperature :: f64

record llamaTTFTStreamEvent =
  ev_Content :: string
  ev_Tokens :: "int list"
  ev_Stop :: bool

record ttft_codec =
  tt_request :: "llamaTTFTRequest \<Rightarrow> string option"
  tt_event :: "string \<Rightarrow> llamaTTFTStreamEvent option"

type_synonym 'w clock = "'w \<Rightarrow> gotime \<times> 'w"

definition validateLocalBenchmarkBaseURL :: "string \<Rightarrow> err + string" where
  "validateLocalBenchmarkBaseURL value0 =
     (let v = TrimSpace value0 in
      case Parse v of
        None \<Rightarrow> Inl (Err ''invalid benchmark server URL'')
      | Some parsed \<Rightarrow>
          if u_Scheme parsed \<noteq> ''http'' \<or> u_Host parsed = [] \<or> u_User parsed \<noteq> None \<or> u_RawQuery parsed \<noteq> []
             \<or> u_Fragment parsed \<noteq> [] \<or> (u_Path parsed \<noteq> [] \<and> u_Path parsed \<noteq> ''/'')
          then Inl (Err ''benchmark server must be a local HTTP base URL'')
          else if ToLower (Hostname parsed) \<notin> {''127.0.0.1'', ''localhost'', ''::1''}
          then Inl (Err ''benchmark server must use a loopback address'')
          else Inr (TrimRight v (CHR ''/'')))"

text \<open>The loop over the lines: \<open>Some r\<close> is a return inside it.\<close>

fun first_token :: "(string \<Rightarrow> llamaTTFTStreamEvent option) \<Rightarrow> string list \<Rightarrow> (err + unit) option" where
  "first_token dec [] = None"
| "first_token dec (raw # rest) =
     (let line = TrimSpace raw in
      if \<not> HasPrefix line ''data:'' then first_token dec rest
      else let data = TrimSpace (TrimPrefix line ''data:'') in
      if data = [] \<or> data = ''[DONE]'' then first_token dec rest
      else case dec data of
        None \<Rightarrow> Some (Inl (Err ''invalid llama.cpp streaming event''))
      | Some event \<Rightarrow>
          if ev_Tokens event \<noteq> [] \<or> ev_Content event \<noteq> [] then Some (Inr ())
          else if ev_Stop event then Some (Inl (Err ''llama.cpp stream stopped before first token''))
          else first_token dec rest)"

definition waitForFirstLlamaToken :: "(string \<Rightarrow> llamaTTFTStreamEvent option) \<Rightarrow> http_response \<Rightarrow> err + unit" where
  "waitForFirstLlamaToken dec resp =
     (let (lines, tooLong) = scan_lines (2 ^ 20) (Split (CHR 0x0A) (hp_body resp)) in
      case first_token dec lines of
        Some r \<Rightarrow> r
      | None \<Rightarrow>
          if tooLong then Inl (Wrap ''read llama.cpp stream'' (Err ''bufio.Scanner: token too long''))
          else if hp_fail resp then Inl (Wrap ''read llama.cpp stream'' (Err ''unexpected EOF''))
          else Inl (Err ''llama.cpp stream ended before first token''))"

definition ttft_request :: "string \<Rightarrow> llamaTTFTRequest" where
  "ttft_request prompt = \<lparr>tr_Prompt = prompt, tr_NPredict = 1, tr_Stream = True, tr_CachePrompt = False,
     tr_ReturnTokens = True, tr_Seed = 1, tr_Temperature = Fin 0\<rparr>"

definition measureLlamaServerTTFT :: "ttft_codec \<Rightarrow> 'w doer option \<Rightarrow> string \<Rightarrow> string \<Rightarrow> 'w clock option \<Rightarrow> 'w
    \<Rightarrow> (err + duration) \<times> 'w" where
  "measureLlamaServerTTFT j client baseURL0 prompt now w0 =
     (case client of None \<Rightarrow> (Inl (Err ''TTFT HTTP client is nil''), w0)
      | Some net \<Rightarrow>
     (case now of None \<Rightarrow> (Inl (Err ''TTFT clock is nil''), w0)
      | Some clk \<Rightarrow>
     (if TrimSpace prompt = [] then (Inl (Err ''TTFT prompt is empty''), w0)
      else case validateLocalBenchmarkBaseURL baseURL0 of
        Inl e \<Rightarrow> (Inl e, w0)
      | Inr baseURL \<Rightarrow>
     (case tt_request j (ttft_request prompt) of
        None \<Rightarrow> (Inl (Err ''unsupported value''), w0)
      | Some body \<Rightarrow>
     (case NewRequest ''POST'' (baseURL @ ''/completion'') [(''Content-Type'', ''application/json'')] body of
        Inl e \<Rightarrow> (Inl e, w0)
      | Inr req \<Rightarrow>
     (case clk w0 of (startedAt, w1) \<Rightarrow>
     (case net req w1 of
        (Inl e, w2) \<Rightarrow> (Inl (Wrap ''llama.cpp TTFT request failed'' e), w2)
      | (Inr resp, w2) \<Rightarrow>
          if hp_status resp < 200 \<or> hp_status resp > 299
          then (Inl (Err (''llama.cpp TTFT HTTP status '' @ Itoa (hp_status resp))), w2)
          else (case waitForFirstLlamaToken (tt_event j) resp of
                  Inl e \<Rightarrow> (Inl e, w2)
                | Inr _ \<Rightarrow>
                   (case clk w2 of (finishedAt, w3) \<Rightarrow>
                      let d = time_sub finishedAt startedAt
                      in if d \<le> 0 then (Inl (Err ''TTFT duration is invalid''), w3) else (Inr d, w3))))))))))"

section \<open>The server process\<close>

text \<open>What the selects of the code can observe: in the health loop the exit of the process (with its
  error), the end of the context, or the poll interval; when stopping, the exit or the timeout.\<close>

datatype poll = ProcessDone "err option" | ContextDone err | PollTick

record 'w server_os =
  so_start :: "string \<Rightarrow> string list \<Rightarrow> 'w \<Rightarrow> (err + unit) \<times> 'w"
  so_interrupt :: "'w \<Rightarrow> 'w"
  so_kill :: "'w \<Rightarrow> 'w"
  so_poll :: "'w \<Rightarrow> poll \<times> 'w"
  so_stop :: "'w \<Rightarrow> err option \<times> 'w"
  so_timeout :: "'w \<Rightarrow> err \<times> 'w"

text \<open>\<open>Stop\<close>: interrupt, then wait for the exit or for the end of the stop context, which kills.
  \<open>drained\<close> tells that the one value of the channel \<open>waitDone\<close> was already received: then only
  the stop context can end the select.\<close>

definition stop_server :: "'w server_os \<Rightarrow> bool \<Rightarrow> 'w \<Rightarrow> err option \<times> 'w" where
  "stop_server os drained w0 =
     (let w1 = so_interrupt os w0 in
      if drained then (case so_timeout os w1 of (e, w2) \<Rightarrow> (Some e, so_kill os w2))
      else (case so_stop os w1 of
              (None, w2) \<Rightarrow> (None, w2)
            | (Some e, w2) \<Rightarrow> (Some e, so_kill os w2)))"

text \<open>The health loop: the error it returns, and whether it received the exit of the process. It may
  run for ever, so it is partial.\<close>

definition healthy :: "err + http_response \<Rightarrow> bool" where
  "healthy r = (case r of Inl _ \<Rightarrow> False | Inr resp \<Rightarrow> hp_status resp = 200)"

partial_function (option) health_loop :: "string \<Rightarrow> 'w doer \<Rightarrow> ('w \<Rightarrow> poll \<times> 'w) \<Rightarrow> http_request \<Rightarrow> 'w
    \<Rightarrow> ((err option \<times> bool) \<times> 'w) option" where
  "health_loop label net poll req w =
     (case net req w of (r, w1) \<Rightarrow>
        if healthy r then Some ((None, False), w1)
        else (case poll w1 of
                (ProcessDone None, w2) \<Rightarrow>
                  Some ((Some (Err (label @ '' llama-server exited before becoming healthy'')), True), w2)
              | (ProcessDone (Some e), w2) \<Rightarrow>
                  Some ((Some (Wrap (label @ '' llama-server exited before becoming healthy'') e), True), w2)
              | (ContextDone e, w2) \<Rightarrow>
                  Some ((Some (Wrap (''wait for '' @ label @ '' llama-server health'') e), False), w2)
              | (PollTick, w2) \<Rightarrow> health_loop label net poll req w2))"

definition wait_for_health :: "string \<Rightarrow> 'w doer \<Rightarrow> ('w \<Rightarrow> poll \<times> 'w) \<Rightarrow> string \<Rightarrow> 'w
    \<Rightarrow> ((err option \<times> bool) \<times> 'w) option" where
  "wait_for_health label net poll baseURL0 w =
     (case validateLocalBenchmarkBaseURL baseURL0 of
        Inl e \<Rightarrow> Some ((Some e, False), w)
      | Inr baseURL \<Rightarrow>
         (case NewRequest ''GET'' (baseURL @ ''/health'') [] [] of
            Inl e \<Rightarrow> Some ((Some e, False), w)
          | Inr req \<Rightarrow> health_loop label net poll req w))"

type_synonym command = "err + string \<times> string list \<times> string"

text \<open>Starting: the base URL of a healthy server, or the error after the process was stopped again.
  A nil starter or client is replaced by the real one, which are the parameters either way.\<close>

definition start_server :: "string \<Rightarrow> command \<Rightarrow> 'w server_os \<Rightarrow> 'w doer \<Rightarrow> 'w \<Rightarrow> ((err + string) \<times> 'w) option" where
  "start_server label cmd os net w =
     (case cmd of Inl e \<Rightarrow> Some (Inl e, w)
      | Inr (commandName, commandArgs, baseURL) \<Rightarrow>
     (case so_start os commandName commandArgs w of
        (Inl e, w1) \<Rightarrow> Some (Inl (Wrap (''start '' @ label @ '' llama-server'') e), w1)
      | (Inr _, w1) \<Rightarrow>
         (case wait_for_health label net (so_poll os) baseURL w1 of
            None \<Rightarrow> None
          | Some ((Some e, drained), w2) \<Rightarrow> Some (Inl e, snd (stop_server os drained w2))
          | Some ((None, _), w2) \<Rightarrow> Some (Inr baseURL, w2))))"

section \<open>compute\_benchmark\_server\_linux.go\<close>

definition m9LinuxBenchmarkServerHost :: string where "m9LinuxBenchmarkServerHost = ''127.0.0.1''"
definition m9LinuxBenchmarkServerPort :: int where "m9LinuxBenchmarkServerPort = 18190"

text \<open>The timeouts are those of the contexts and timers behind \<open>so_poll\<close>; theorems about the health
  loop refer to them.\<close>

definition m9LinuxBenchmarkServerStartupTimeout :: duration where "m9LinuxBenchmarkServerStartupTimeout = 3 * Minute"
definition m9LinuxBenchmarkServerPollInterval :: duration where "m9LinuxBenchmarkServerPollInterval = 250 * Millisecond"

definition m9LinuxBashPath :: string where "m9LinuxBashPath = ''/bin/bash''"
definition m9LinuxOneAPISetvarsPath :: string where "m9LinuxOneAPISetvarsPath = ''/opt/intel/oneapi/setvars.sh''"

definition m9LinuxOneAPICommandScript :: string where
  "m9LinuxOneAPICommandScript =
     ''env_script=\"$1\"; shift; command_args=(\"$@\"); set --; source \"$env_script\" >/dev/null 2>&1 || exit 125; exec \"${command_args[@]}\"''"

definition linuxOneAPIWrappedCommand :: "string \<Rightarrow> string list \<Rightarrow> err + string \<times> string list" where
  "linuxOneAPIWrappedCommand name0 args =
     (let name = TrimSpace name0 in
      if name = [] then Inl (Err ''Linux benchmark command is empty'')
      else Inr (m9LinuxBashPath,
                [''-c'', m9LinuxOneAPICommandScript, ''meshalot-oneapi'', m9LinuxOneAPISetvarsPath, name] @ args))"

definition linuxBenchmarkServerCommand :: "string \<Rightarrow> string \<Rightarrow> command" where
  "linuxBenchmarkServerCommand serverPath0 modelPath0 =
     (let serverPath = TrimSpace serverPath0; modelPath = TrimSpace modelPath0 in
      if serverPath = [] then Inl (Err ''llama-server path is required'')
      else if modelPath = [] then Inl (Err ''benchmark model path is required'')
      else bindE (linuxOneAPIWrappedCommand serverPath
             [''--model'', modelPath, ''--offline'', ''--device'', ''SYCL0'', ''--n-gpu-layers'', ''999'',
              ''--ctx-size'', Itoa m9StandardContextSize, ''--parallel'', ''1'', ''--flash-attn'', ''off'',
              ''--host'', m9LinuxBenchmarkServerHost, ''--port'', Itoa m9LinuxBenchmarkServerPort])
             (\<lambda>(commandName, commandArgs). Inr (commandName, commandArgs,
                ''http://'' @ m9LinuxBenchmarkServerHost @ '':'' @ Itoa m9LinuxBenchmarkServerPort)))"

definition waitForLinuxBenchmarkServerHealth :: "'w doer \<Rightarrow> ('w \<Rightarrow> poll \<times> 'w) \<Rightarrow> string \<Rightarrow> 'w
    \<Rightarrow> ((err option \<times> bool) \<times> 'w) option" where
  "waitForLinuxBenchmarkServerHealth = wait_for_health ''M9''"

definition startLinuxComputeBenchmarkServer :: "'w server_os \<Rightarrow> 'w doer \<Rightarrow> string \<Rightarrow> string \<Rightarrow> 'w
    \<Rightarrow> ((err + string) \<times> 'w) option" where
  "startLinuxComputeBenchmarkServer os net serverPath modelPath =
     start_server ''M9'' (linuxBenchmarkServerCommand serverPath modelPath) os net"

definition Stop_linux :: "'w server_os \<Rightarrow> bool \<Rightarrow> 'w \<Rightarrow> err option \<times> 'w" where
  "Stop_linux = stop_server"

section \<open>compute\_benchmark\_server\_darwin.go\<close>

definition m9DarwinBenchmarkServerHost :: string where "m9DarwinBenchmarkServerHost = ''127.0.0.1''"
definition m9DarwinBenchmarkServerPort :: int where "m9DarwinBenchmarkServerPort = 18190"
definition m9DarwinBenchmarkServerStartupTimeout :: duration where "m9DarwinBenchmarkServerStartupTimeout = 3 * Minute"
definition m9DarwinBenchmarkServerPollInterval :: duration where "m9DarwinBenchmarkServerPollInterval = 250 * Millisecond"

definition darwinBenchmarkServerCommand :: "string \<Rightarrow> string \<Rightarrow> command" where
  "darwinBenchmarkServerCommand serverPath0 modelPath0 =
     (let serverPath = TrimSpace serverPath0; modelPath = TrimSpace modelPath0 in
      if serverPath = [] then Inl (Err ''llama-server path is required'')
      else if modelPath = [] then Inl (Err ''benchmark model path is required'')
      else Inr (serverPath,
             [''--model'', modelPath, ''--offline'', ''--n-gpu-layers'', ''0'',
              ''--ctx-size'', Itoa m9StandardContextSize, ''--parallel'', ''1'', ''--flash-attn'', ''off'',
              ''--host'', m9DarwinBenchmarkServerHost, ''--port'', Itoa m9DarwinBenchmarkServerPort],
             ''http://'' @ m9DarwinBenchmarkServerHost @ '':'' @ Itoa m9DarwinBenchmarkServerPort))"

definition waitForDarwinBenchmarkServerHealth :: "'w doer \<Rightarrow> ('w \<Rightarrow> poll \<times> 'w) \<Rightarrow> string \<Rightarrow> 'w
    \<Rightarrow> ((err option \<times> bool) \<times> 'w) option" where
  "waitForDarwinBenchmarkServerHealth = wait_for_health ''Darwin M9''"

definition startDarwinComputeBenchmarkServer :: "'w server_os \<Rightarrow> 'w doer \<Rightarrow> string \<Rightarrow> string \<Rightarrow> 'w
    \<Rightarrow> ((err + string) \<times> 'w) option" where
  "startDarwinComputeBenchmarkServer os net serverPath modelPath =
     start_server ''Darwin M9'' (darwinBenchmarkServerCommand serverPath modelPath) os net"

definition Stop_darwin :: "'w server_os \<Rightarrow> bool \<Rightarrow> 'w \<Rightarrow> err option \<times> 'w" where
  "Stop_darwin = stop_server"

end
