(* ===== verification/BenchLinux.thy ===== *)
theory BenchLinux
  imports BenchServer "HOL-Library.AList"
begin

text \<open>
  The Linux compute benchmark: one throughput run with its telemetry
  (\<^verbatim>\<open>agent/compute_benchmark_linux.go\<close>), the runner of the operating system
  (\<^verbatim>\<open>..._execute_linux.go\<close>), the wiring of the five repetitions
  (\<^verbatim>\<open>..._orchestrate_linux.go\<close>) and the session around the benchmark server
  (\<^verbatim>\<open>..._session_linux.go\<close>). Reading \<open>sysfs\<close> observes the state of the world, running a
  command changes it.
\<close>

section \<open>compute\_benchmark\_linux.go\<close>

definition m9LinuxTimePath :: string where "m9LinuxTimePath = ''/usr/bin/time''"

definition m9LinuxTemperatureGlobs :: "string list" where
  "m9LinuxTemperatureGlobs = [''/sys/class/thermal/thermal_zone*/temp'', ''/sys/class/hwmon/hwmon*/temp*_input'']"

definition m9LinuxThrottleGlob :: string where
  "m9LinuxThrottleGlob = ''/sys/devices/system/cpu/cpu*/thermal_throttle/*_throttle_count''"

text \<open>Standard output, standard error and the error of a command.\<close>

type_synonym 'w bench_runner = "string \<Rightarrow> string list \<Rightarrow> 'w \<Rightarrow> (string \<times> string \<times> err option) \<times> 'w"

record 'w linuxComputeTelemetryReader =
  rd_Glob :: "string \<Rightarrow> 'w \<Rightarrow> string list option"
  rd_ReadFile :: "string \<Rightarrow> 'w \<Rightarrow> string option"

text \<open>The counters as an association list with distinct keys; nil is the empty list.\<close>

record linuxComputeTelemetrySnapshot =
  sn_TemperatureCelsius :: "f64 option"
  sn_ThrottleCounts :: "(string \<times> u64) list"

record linuxLlamaBenchRunResult =
  lr_Throughput :: llamaBenchThroughput
  lr_PeakSystemRAM :: u64
  lr_TemperatureCelsius :: "f64 option"
  lr_Throttled :: "bool option"

fun peak_rss_line :: "string list \<Rightarrow> err + u64" where
  "peak_rss_line [] = Inl (Err ''Linux peak RSS was not found'')"
| "peak_rss_line (raw # rest) =
     (let line = TrimSpace raw in
      if \<not> HasPrefix line ''Maximum resident set size (kbytes):'' then peak_rss_line rest
      else case ParseUint (TrimSpace (TrimPrefix line ''Maximum resident set size (kbytes):'')) of
        None \<Rightarrow> Inl (Err ''invalid Linux peak RSS value'')
      | Some kib \<Rightarrow>
          if kib = 0 then Inl (Err ''invalid Linux peak RSS value'')
          else if kib > (- 1) div 1024 then Inl (Err ''Linux peak RSS value overflows bytes'')
          else Inr (kib * 1024))"

definition parseLinuxTimePeakRSS :: "string \<Rightarrow> err + u64" where
  "parseLinuxTimePeakRSS raw = peak_rss_line (Split (CHR 0x0A) raw)"

definition parseLinuxMilliCelsius :: "string \<Rightarrow> err + f64" where
  "parseLinuxMilliCelsius raw =
     (case ParseInt (TrimSpace raw) of
        None \<Rightarrow> Inl (Err ''invalid Linux temperature value'')
      | Some milli \<Rightarrow>
          if milli \<le> 0 then Inl (Err ''invalid Linux temperature value'')
          else let celsius = f_div (f_of_int milli) (Fin 1000)
               in if f_lt (Fin 150) celsius then Inl (Err ''Linux temperature value is out of range'')
                  else Inr celsius)"

text \<open>The loops over the patterns and the files: a file that cannot be read or parsed is skipped.\<close>

definition hotter :: "'w linuxComputeTelemetryReader \<Rightarrow> 'w \<Rightarrow> f64 option \<Rightarrow> string \<Rightarrow> f64 option" where
  "hotter rd w maxTemperature path =
     (case rd_ReadFile rd path w of None \<Rightarrow> maxTemperature
      | Some raw \<Rightarrow>
         (case parseLinuxMilliCelsius raw of Inl _ \<Rightarrow> maxTemperature
          | Inr temperature \<Rightarrow>
             (case maxTemperature of None \<Rightarrow> Some temperature
              | Some m \<Rightarrow> if f_lt m temperature then Some temperature else Some m)))"

definition add_count :: "'w linuxComputeTelemetryReader \<Rightarrow> 'w \<Rightarrow> (string \<times> u64) list \<Rightarrow> string \<Rightarrow> (string \<times> u64) list" where
  "add_count rd w counts path =
     (case rd_ReadFile rd path w of None \<Rightarrow> counts
      | Some raw \<Rightarrow>
         (case ParseUint (TrimSpace raw) of None \<Rightarrow> counts | Some n \<Rightarrow> AList.update path n counts))"

definition readLinuxComputeTelemetry :: "'w linuxComputeTelemetryReader option \<Rightarrow> 'w \<Rightarrow> linuxComputeTelemetrySnapshot" where
  "readLinuxComputeTelemetry reader w =
     (case reader of None \<Rightarrow> \<lparr>sn_TemperatureCelsius = None, sn_ThrottleCounts = []\<rparr>
      | Some rd \<Rightarrow>
         \<lparr>sn_TemperatureCelsius =
            foldl (\<lambda>m pattern. case rd_Glob rd pattern w of None \<Rightarrow> m | Some paths \<Rightarrow> foldl (hotter rd w) m paths)
              None m9LinuxTemperatureGlobs,
          sn_ThrottleCounts =
            (case rd_Glob rd m9LinuxThrottleGlob w of None \<Rightarrow> [] | Some paths \<Rightarrow> foldl (add_count rd w) [] paths)\<rparr>)"

text \<open>The loop over \<open>before\<close> with its two flags, \<open>comparable\<close> and \<open>throttled\<close>.\<close>

fun throttle_loop :: "(string \<times> u64) list \<Rightarrow> (string \<times> u64) list \<Rightarrow> bool \<times> bool \<Rightarrow> bool \<times> bool" where
  "throttle_loop after [] (comparable, throttled) = (comparable, throttled)"
| "throttle_loop after ((path, beforeCount) # rest) (comparable, throttled) =
     (case map_of after path of
        None \<Rightarrow> throttle_loop after rest (comparable, throttled)
      | Some afterCount \<Rightarrow>
          if afterCount < beforeCount then throttle_loop after rest (comparable, throttled)
          else throttle_loop after rest (True, throttled \<or> afterCount > beforeCount))"

definition linuxBenchmarkThrottleDelta :: "(string \<times> u64) list \<Rightarrow> (string \<times> u64) list \<Rightarrow> bool option" where
  "linuxBenchmarkThrottleDelta before after =
     (if before = [] \<or> after = [] then None
      else case throttle_loop after before (False, False) of
        (comparable, throttled) \<Rightarrow> if \<not> comparable then None else Some throttled)"

definition maxOptionalTemperature :: "f64 option \<Rightarrow> f64 option \<Rightarrow> f64 option" where
  "maxOptionalTemperature a b =
     (case (a, b) of
        (None, None) \<Rightarrow> None
      | (None, Some y) \<Rightarrow> Some y
      | (Some x, None) \<Rightarrow> Some x
      | (Some x, Some y) \<Rightarrow> Some (if f_lt x y then y else x))"

definition no_linux_run :: linuxLlamaBenchRunResult where
  "no_linux_run = \<lparr>lr_Throughput = no_throughput, lr_PeakSystemRAM = 0, lr_TemperatureCelsius = None, lr_Throttled = None\<rparr>"

text \<open>\<open>ctx\<close> tells whether the context is not nil; a failing run returns the zero result with its error.\<close>

definition measureLinuxLlamaBenchRun :: "(string \<Rightarrow> llamaBenchJSONResult list option) \<Rightarrow> bool \<Rightarrow> 'w bench_runner option
    \<Rightarrow> 'w linuxComputeTelemetryReader option \<Rightarrow> string \<Rightarrow> string \<Rightarrow> 'w \<Rightarrow> (err + linuxLlamaBenchRunResult) \<times> 'w" where
  "measureLinuxLlamaBenchRun decode ctx runner telemetryReader llamaBenchPath0 modelPath w =
     (if \<not> ctx then (Inl (Err ''compute benchmark context is nil''), w)
      else case runner of None \<Rightarrow> (Inl (Err ''compute benchmark runner is nil''), w)
      | Some run \<Rightarrow>
      (let llamaBenchPath = TrimSpace llamaBenchPath0 in
       if llamaBenchPath = [] then (Inl (Err ''llama-bench path is required''), w)
       else case m9LlamaBenchArgs modelPath of
         Inl e \<Rightarrow> (Inl e, w)
       | Inr benchArgs \<Rightarrow>
         (let before = readLinuxComputeTelemetry telemetryReader w in
          case run m9LinuxTimePath ([''-v'', llamaBenchPath] @ benchArgs) w of
            ((stdout, stderr, Some e), w') \<Rightarrow> (Inl (Wrap ''llama-bench execution failed'' e), w')
          | ((stdout, stderr, None), w') \<Rightarrow>
              (bindE (wrap ''parse llama-bench output'' (parseLlamaBenchJSON decode stdout)) (\<lambda>throughput.
               bindE (wrap ''parse llama-bench peak RAM'' (parseLinuxTimePeakRSS stderr)) (\<lambda>peakRAM.
               let after = readLinuxComputeTelemetry telemetryReader w'
               in Inr \<lparr>lr_Throughput = throughput, lr_PeakSystemRAM = peakRAM,
                       lr_TemperatureCelsius = maxOptionalTemperature (sn_TemperatureCelsius before) (sn_TemperatureCelsius after),
                       lr_Throttled = linuxBenchmarkThrottleDelta (sn_ThrottleCounts before) (sn_ThrottleCounts after)\<rparr>)), w'))))"

section \<open>compute\_benchmark\_execute\_linux.go\<close>

definition m9LinuxBenchmarkOutputLimit :: int where "m9LinuxBenchmarkOutputLimit = 2 * 2 ^ 20"

definition m9LinuxLimitedBuffer_Write :: "buffer \<Rightarrow> string \<Rightarrow> nat \<times> buffer" where
  "m9LinuxLimitedBuffer_Write b p0 =
     (case b of (w, n) \<Rightarrow>
        if n \<le> 0 then (length p0, b)
        else let p = (if int (length p0) > n then take (nat n) p0 else p0)
             in (length p0, (w @ p, n - int (length p))))"

definition linux_runner :: "'w os_exec \<Rightarrow> 'w bench_runner" where
  "linux_runner ex name args w =
     (case linuxOneAPIWrappedCommand name args of
        Inl e \<Rightarrow> (([], [], Some e), w)
      | Inr (commandName, commandArgs) \<Rightarrow>
         (case ex commandName commandArgs w of (r, w') \<Rightarrow>
            ((captured m9LinuxLimitedBuffer_Write m9LinuxBenchmarkOutputLimit (x_stdout r),
              captured m9LinuxLimitedBuffer_Write m9LinuxBenchmarkOutputLimit (x_stderr r), x_err r), w')))"

definition collectLinuxLlamaBenchRun :: "(string \<Rightarrow> llamaBenchJSONResult list option) \<Rightarrow> 'w os_exec
    \<Rightarrow> 'w linuxComputeTelemetryReader \<Rightarrow> bool \<Rightarrow> string \<Rightarrow> string \<Rightarrow> 'w \<Rightarrow> (err + linuxLlamaBenchRunResult) \<times> 'w" where
  "collectLinuxLlamaBenchRun decode ex reader ctx llamaBenchPath modelPath w =
     measureLinuxLlamaBenchRun decode ctx (Some (linux_runner ex)) (Some reader) llamaBenchPath modelPath w"

text \<open>The buffer keeps the contract of the bounded buffers, so the output kept is a prefix of the output.\<close>

interpretation linux_buffer: limited_writer m9LinuxLimitedBuffer_Write
  by unfold_locales (auto simp: m9LinuxLimitedBuffer_Write_def Let_def)

section \<open>compute\_benchmark\_orchestrate\_linux.go\<close>

definition m9StandardTTFTPrompt :: string where "m9StandardTTFTPrompt = ''MeshAlot M9 benchmark prompt''"

text \<open>The nil defaults (a real HTTP client, the real clock, \<open>collectLinuxLlamaBenchRun\<close>) are replaced
  by the caller of the model; a failing collector returns the zero result, as the real one does.\<close>

record 'w linuxComputeBenchmarkOrchestratorInput =
  lo_CollectedAt :: gotime
  lo_Condition :: string
  lo_Quantization :: string
  lo_LlamaBenchPath :: string
  lo_ModelPath :: string
  lo_TTFTBaseURL :: string
  lo_HTTPClient :: "'w doer"
  lo_Now :: "'w clock"
  lo_CollectRun :: "string \<Rightarrow> string \<Rightarrow> 'w \<Rightarrow> (err + linuxLlamaBenchRunResult) \<times> 'w"

definition linux_throughput :: "(string \<Rightarrow> string \<Rightarrow> 'w \<Rightarrow> (err + linuxLlamaBenchRunResult) \<times> 'w) \<Rightarrow> string \<Rightarrow> string
    \<Rightarrow> 'w throughput_collector" where
  "linux_throughput collectRun llamaBenchPath modelPath n w =
     (case collectRun llamaBenchPath modelPath w of (r, w') \<Rightarrow>
        let (result, e) = (case r of Inl e \<Rightarrow> (no_linux_run, Some e) | Inr x \<Rightarrow> (x, None))
        in ((lr_Throughput result,
             \<lparr>tm_TimeToFirstToken = 0, tm_PeakSystemRAM = lr_PeakSystemRAM result, tm_PeakVRAMBytes = None,
              tm_TemperatureCelsius = lr_TemperatureCelsius result, tm_Throttled = lr_Throttled result\<rparr>, e), w'))"

definition ttft_result :: "err + duration \<Rightarrow> duration \<times> err option" where
  "ttft_result r = (case r of Inl e \<Rightarrow> (0, Some e) | Inr d \<Rightarrow> (d, None))"

definition orchestrateLinuxComputeBenchmark :: "ttft_codec \<Rightarrow> ('w \<Rightarrow> err option) option
    \<Rightarrow> 'w linuxComputeBenchmarkOrchestratorInput \<Rightarrow> 'w \<Rightarrow> (err + ComputeBenchmark) \<times> 'w" where
  "orchestrateLinuxComputeBenchmark j ctx input w =
     (if ctx = None then (Inl (Err ''compute benchmark context is nil''), w)
      else let llamaBenchPath = TrimSpace (lo_LlamaBenchPath input) in
      if llamaBenchPath = [] then (Inl (Err ''llama-bench path is required''), w)
      else let modelPath = TrimSpace (lo_ModelPath input) in
      case m9LlamaBenchArgs modelPath of
        Inl e \<Rightarrow> (Inl e, w)
      | Inr _ \<Rightarrow>
      (case validateLocalBenchmarkBaseURL (lo_TTFTBaseURL input) of
        Inl e \<Rightarrow> (Inl e, w)
      | Inr ttftBaseURL \<Rightarrow>
         orchestrateComputeBenchmarkRuns ctx
           \<lparr>oi_CollectedAt = lo_CollectedAt input, oi_Condition = lo_Condition input,
            oi_Quantization = lo_Quantization input, oi_ModelPath = modelPath,
            oi_CollectThroughput = Some (linux_throughput (lo_CollectRun input) llamaBenchPath modelPath),
            oi_CollectTTFT = Some (\<lambda>n w. case measureLlamaServerTTFT j (Some (lo_HTTPClient input)) ttftBaseURL
                                m9StandardTTFTPrompt (Some (lo_Now input)) w of (r, w') \<Rightarrow> (ttft_result r, w'))\<rparr> w))"

section \<open>compute\_benchmark\_session\_linux.go\<close>

record 'w linuxComputeBenchmarkExecutionInput =
  lx_CollectedAt :: gotime
  lx_Condition :: string
  lx_Quantization :: string
  lx_LlamaBenchPath :: string
  lx_LlamaServerPath :: string
  lx_ModelPath :: string
  lx_ServerStarter :: "'w server_os"
  lx_HealthClient :: "'w doer"
  lx_TTFTClient :: "'w doer"
  lx_Now :: "'w clock"
  lx_CollectRun :: "string \<Rightarrow> string \<Rightarrow> 'w \<Rightarrow> (err + linuxLlamaBenchRunResult) \<times> 'w"

text \<open>The checks before any process starts.\<close>

definition linux_session_input :: "'w linuxComputeBenchmarkExecutionInput \<Rightarrow> err + unit" where
  "linux_session_input input =
     (if IsZero (lx_CollectedAt input) then Inl (Err ''compute benchmark collection time is required'')
      else if TrimSpace (lx_Condition input) = [] then Inl (Err ''compute benchmark condition is required'')
      else if TrimSpace (lx_Quantization input) = [] then Inl (Err ''compute benchmark quantization is required'')
      else if TrimSpace (lx_LlamaBenchPath input) = [] then Inl (Err ''llama-bench path is required'')
      else bindE (m9LlamaBenchArgs (lx_ModelPath input)) (\<lambda>_.
           bindE (linuxBenchmarkServerCommand (lx_LlamaServerPath input) (lx_ModelPath input)) (\<lambda>_. Inr ())))"

definition join_errors :: "err option \<Rightarrow> err option \<Rightarrow> err option" where
  "join_errors a b =
     (case b of None \<Rightarrow> a
      | Some y \<Rightarrow> Some (Joined (case a of None \<Rightarrow> [y] | Some x \<Rightarrow> [x, y])))"

text \<open>The benchmark and the error are both returned; the deferred function stops the server and joins
  its error to the result.\<close>

definition executeLinuxComputeBenchmark :: "ttft_codec \<Rightarrow> ('w \<Rightarrow> err option) option
    \<Rightarrow> 'w linuxComputeBenchmarkExecutionInput \<Rightarrow> 'w \<Rightarrow> ((ComputeBenchmark option \<times> err option) \<times> 'w) option" where
  "executeLinuxComputeBenchmark j ctx input w =
     (if ctx = None then Some ((None, Some (Err ''compute benchmark context is nil'')), w)
      else case linux_session_input input of
        Inl e \<Rightarrow> Some ((None, Some e), w)
      | Inr _ \<Rightarrow>
      (case startLinuxComputeBenchmarkServer (lx_ServerStarter input) (lx_HealthClient input)
              (lx_LlamaServerPath input) (lx_ModelPath input) w of
        None \<Rightarrow> None
      | Some (Inl e, w1) \<Rightarrow> Some ((None, Some e), w1)
      | Some (Inr baseURL, w1) \<Rightarrow>
         (case orchestrateLinuxComputeBenchmark j ctx
                 \<lparr>lo_CollectedAt = lx_CollectedAt input, lo_Condition = lx_Condition input,
                  lo_Quantization = lx_Quantization input, lo_LlamaBenchPath = lx_LlamaBenchPath input,
                  lo_ModelPath = lx_ModelPath input, lo_TTFTBaseURL = baseURL, lo_HTTPClient = lx_TTFTClient input,
                  lo_Now = lx_Now input, lo_CollectRun = lx_CollectRun input\<rparr> w1 of
            (r, w2) \<Rightarrow>
              let (benchmark, retErr) = (case r of Inl e \<Rightarrow> (None, Some e) | Inr b \<Rightarrow> (Some b, None));
                  (stopErr, w3) = Stop_linux (lx_ServerStarter input) False w2
              in Some ((benchmark, join_errors retErr (map_option (Wrap ''stop M9 benchmark server'') stopErr)), w3))))"

record LinuxComputeBenchmarkExecutionOptions =
  lp_CollectedAt :: gotime
  lp_Condition :: string
  lp_Quantization :: string
  lp_LlamaBenchPath :: string
  lp_LlamaServerPath :: string
  lp_ModelPath :: string

text \<open>The operating system behind the defaults.\<close>

record 'w linux_world =
  lw_server :: "'w server_os"
  lw_net :: "'w doer"
  lw_now :: "'w clock"
  lw_exec :: "'w os_exec"
  lw_sysfs :: "'w linuxComputeTelemetryReader"

definition ExecuteLinuxComputeBenchmark :: "ttft_codec \<Rightarrow> (string \<Rightarrow> llamaBenchJSONResult list option)
    \<Rightarrow> 'w linux_world \<Rightarrow> ('w \<Rightarrow> err option) option \<Rightarrow> LinuxComputeBenchmarkExecutionOptions \<Rightarrow> 'w
    \<Rightarrow> ((ComputeBenchmark option \<times> err option) \<times> 'w) option" where
  "ExecuteLinuxComputeBenchmark j decode world ctx options =
     executeLinuxComputeBenchmark j ctx
       \<lparr>lx_CollectedAt = lp_CollectedAt options, lx_Condition = lp_Condition options,
        lx_Quantization = lp_Quantization options, lx_LlamaBenchPath = lp_LlamaBenchPath options,
        lx_LlamaServerPath = lp_LlamaServerPath options, lx_ModelPath = lp_ModelPath options,
        lx_ServerStarter = lw_server world, lx_HealthClient = lw_net world, lx_TTFTClient = lw_net world,
        lx_Now = lw_now world,
        lx_CollectRun = collectLinuxLlamaBenchRun decode (lw_exec world) (lw_sysfs world) (ctx \<noteq> None)\<rparr>"

end
