(* ===== verification/BenchDarwin.thy ===== *)
theory BenchDarwin
  imports BenchLinux
begin

text \<open>
  The macOS compute benchmark: the telemetry parsers
  (\<^verbatim>\<open>agent/compute_benchmark_telemetry_darwin.go\<close>), one throughput run and its runner
  (\<^verbatim>\<open>..._execute_darwin.go\<close>), the repetitions, each with a benchmark server of its own
  (\<^verbatim>\<open>..._orchestrate_darwin.go\<close>), and the session (\<^verbatim>\<open>..._session_darwin.go\<close>).
\<close>

section \<open>compute\_benchmark\_telemetry\_darwin.go\<close>

definition parseDarwinProcessRSS :: "string \<Rightarrow> err + u64" where
  "parseDarwinProcessRSS raw =
     (case Fields raw of
        [field] \<Rightarrow>
          (case ParseUint field of
             None \<Rightarrow> Inl (Err ''invalid macOS process RSS value'')
           | Some kib \<Rightarrow>
               if kib = 0 then Inl (Err ''invalid macOS process RSS value'')
               else if kib > (- 1) div 1024 then Inl (Err ''macOS process RSS value overflows bytes'')
               else Inr (kib * 1024))
      | _ \<Rightarrow> Inl (Err ''invalid macOS process RSS output''))"

text \<open>A limit is \<open>None\<close> as long as its \<open>have\<close> flag is false.\<close>

record thermal_limits =
  th_scheduler :: "int option"
  th_available :: "int option"
  th_speed :: "int option"

definition thermal_line :: "thermal_limits \<Rightarrow> string \<Rightarrow> thermal_limits" where
  "thermal_line t raw =
     (let line = TrimSpace raw in
      if line = [] then t
      else case Cut (CHR ''='') line of
        None \<Rightarrow> t
      | Some (k, v) \<Rightarrow>
          (let key = TrimSpace k in
           case Atoi (TrimSpace v) of
             None \<Rightarrow> t
           | Some parsed \<Rightarrow>
               if key = ''CPU_Scheduler_Limit'' then t\<lparr>th_scheduler := Some parsed\<rparr>
               else if key = ''CPU_Available_CPUs'' then t\<lparr>th_available := Some parsed\<rparr>
               else if key = ''CPU_Speed_Limit'' then t\<lparr>th_speed := Some parsed\<rparr>
               else t))"

definition parseDarwinThermalState :: "string \<Rightarrow> int \<Rightarrow> err + bool" where
  "parseDarwinThermalState raw logicalCPUs =
     (if logicalCPUs \<le> 0 then Inl (Err ''logical CPU count is invalid'')
      else let t = foldl thermal_line \<lparr>th_scheduler = None, th_available = None, th_speed = None\<rparr> (Split (CHR 0x0A) raw) in
      case (th_scheduler t, th_available t, th_speed t) of
        (Some schedulerLimit, Some availableCPUs, Some speedLimit) \<Rightarrow>
          if schedulerLimit < 0 \<or> schedulerLimit > 100 \<or> speedLimit < 0 \<or> speedLimit > 100
             \<or> availableCPUs \<le> 0 \<or> availableCPUs > logicalCPUs
          then Inl (Err ''macOS thermal state contains invalid limits'')
          else Inr (schedulerLimit < 100 \<or> speedLimit < 100 \<or> availableCPUs < logicalCPUs)
      | _ \<Rightarrow> Inl (Err ''macOS thermal state is incomplete''))"

fun darwin_rss_line :: "string list \<Rightarrow> err + u64" where
  "darwin_rss_line [] = Inl (Err ''macOS maximum resident set size not found'')"
| "darwin_rss_line (raw # rest) =
     (let line = TrimSpace raw in
      if \<not> HasSuffix line ''maximum resident set size'' then darwin_rss_line rest
      else case ParseUint (TrimSpace (TrimSuffix line ''maximum resident set size'')) of
        None \<Rightarrow> Inl (Err ''invalid macOS maximum resident set size'')
      | Some n \<Rightarrow> if n = 0 then Inl (Err ''invalid macOS maximum resident set size'') else Inr n)"

definition parseDarwinTimePeakRSS :: "string \<Rightarrow> err + u64" where
  "parseDarwinTimePeakRSS raw = darwin_rss_line (Split (CHR 0x0A) raw)"

section \<open>compute\_benchmark\_execute\_darwin.go\<close>

definition m9DarwinBenchmarkOutputLimit :: int where "m9DarwinBenchmarkOutputLimit = 2 * 2 ^ 20"
definition m9DarwinTimePath :: string where "m9DarwinTimePath = ''/usr/bin/time''"
definition m9DarwinPMSetPath :: string where "m9DarwinPMSetPath = ''/usr/bin/pmset''"

definition m9DarwinLimitedBuffer_Write :: "buffer \<Rightarrow> string \<Rightarrow> nat \<times> buffer" where
  "m9DarwinLimitedBuffer_Write b p0 =
     (case b of (w, n) \<Rightarrow>
        if n \<le> 0 then (length p0, b)
        else let p = (if int (length p0) > n then take (nat n) p0 else p0)
             in (length p0, (w @ p, n - int (length p))))"

interpretation darwin_buffer: limited_writer m9DarwinLimitedBuffer_Write
  by unfold_locales (auto simp: m9DarwinLimitedBuffer_Write_def Let_def)

definition darwin_runner :: "'w os_exec \<Rightarrow> 'w bench_runner" where
  "darwin_runner ex name args w =
     (case ex name args w of (r, w') \<Rightarrow>
        ((captured m9DarwinLimitedBuffer_Write m9DarwinBenchmarkOutputLimit (x_stdout r),
          captured m9DarwinLimitedBuffer_Write m9DarwinBenchmarkOutputLimit (x_stderr r), x_err r), w'))"

record darwinLlamaBenchRunResult =
  dr_Throughput :: llamaBenchThroughput
  dr_PeakSystemRAM :: u64
  dr_Throttled :: "bool option"

definition no_darwin_run :: darwinLlamaBenchRunResult where
  "no_darwin_run = \<lparr>dr_Throughput = no_throughput, dr_PeakSystemRAM = 0, dr_Throttled = None\<rparr>"

text \<open>\<open>None\<close> is the second result false.\<close>

definition readDarwinBenchmarkThrottle :: "'w bench_runner \<Rightarrow> int \<Rightarrow> 'w \<Rightarrow> bool option \<times> 'w" where
  "readDarwinBenchmarkThrottle run logicalCPUs w =
     (case run m9DarwinPMSetPath [''-g'', ''therm''] w of
        ((stdout, stderr, Some e), w') \<Rightarrow> (None, w')
      | ((stdout, stderr, None), w') \<Rightarrow>
          let raw = (if stdout = [] then stderr else stdout)
          in ((case parseDarwinThermalState raw logicalCPUs of Inl _ \<Rightarrow> None | Inr throttled \<Rightarrow> Some throttled), w'))"

definition measureDarwinLlamaBenchRun :: "(string \<Rightarrow> llamaBenchJSONResult list option) \<Rightarrow> 'w bench_runner option
    \<Rightarrow> string \<Rightarrow> string \<Rightarrow> int \<Rightarrow> 'w \<Rightarrow> (err + darwinLlamaBenchRunResult) \<times> 'w" where
  "measureDarwinLlamaBenchRun decode runner llamaBenchPath0 modelPath logicalCPUs w =
     (case runner of None \<Rightarrow> (Inl (Err ''compute benchmark runner is nil''), w)
      | Some run \<Rightarrow>
      (let llamaBenchPath = TrimSpace llamaBenchPath0 in
       if llamaBenchPath = [] then (Inl (Err ''llama-bench path is required''), w)
       else if logicalCPUs \<le> 0 then (Inl (Err ''logical CPU count is invalid''), w)
       else case m9LlamaBenchArgs modelPath of
         Inl e \<Rightarrow> (Inl e, w)
       | Inr benchArgs \<Rightarrow>
      (case readDarwinBenchmarkThrottle run logicalCPUs w of (preThrottle, w1) \<Rightarrow>
      (case run m9DarwinTimePath ([''-l'', llamaBenchPath] @ benchArgs) w1 of
         ((stdout, stderr, Some e), w2) \<Rightarrow> (Inl (Wrap ''llama-bench execution failed'' e), w2)
       | ((stdout, stderr, None), w2) \<Rightarrow>
      (case wrap ''parse llama-bench output'' (parseLlamaBenchJSON decode stdout) of
         Inl e \<Rightarrow> (Inl e, w2)
       | Inr throughput \<Rightarrow>
      (case wrap ''parse llama-bench peak RAM'' (parseDarwinTimePeakRSS stderr) of
         Inl e \<Rightarrow> (Inl e, w2)
       | Inr peakRAM \<Rightarrow>
      (case readDarwinBenchmarkThrottle run logicalCPUs w2 of (postThrottle, w3) \<Rightarrow>
         (Inr \<lparr>dr_Throughput = throughput, dr_PeakSystemRAM = peakRAM,
               dr_Throttled = (case (preThrottle, postThrottle) of
                                 (Some pre, Some post) \<Rightarrow> Some (pre \<or> post) | _ \<Rightarrow> None)\<rparr>, w3))))))))"

definition collectDarwinLlamaBenchRun :: "(string \<Rightarrow> llamaBenchJSONResult list option) \<Rightarrow> 'w os_exec \<Rightarrow> int
    \<Rightarrow> string \<Rightarrow> string \<Rightarrow> 'w \<Rightarrow> (err + darwinLlamaBenchRunResult) \<times> 'w" where
  "collectDarwinLlamaBenchRun decode ex numCPU llamaBenchPath modelPath w =
     measureDarwinLlamaBenchRun decode (Some (darwin_runner ex)) llamaBenchPath modelPath numCPU w"

section \<open>compute\_benchmark\_orchestrate\_darwin.go\<close>

definition m9DarwinStandardTTFTPrompt :: string where "m9DarwinStandardTTFTPrompt = ''MeshAlot M9 benchmark prompt''"

record 'w darwinComputeBenchmarkOrchestratorInput =
  do_CollectedAt :: gotime
  do_Condition :: string
  do_Quantization :: string
  do_LlamaBenchPath :: string
  do_LlamaServerPath :: string
  do_ModelPath :: string
  do_ServerStarter :: "'w server_os"
  do_HealthClient :: "'w doer"
  do_TTFTClient :: "'w doer"
  do_Now :: "'w clock"
  do_CollectRun :: "string \<Rightarrow> string \<Rightarrow> 'w \<Rightarrow> (err + darwinLlamaBenchRunResult) \<times> 'w"

definition darwin_throughput :: "(string \<Rightarrow> string \<Rightarrow> 'w \<Rightarrow> (err + darwinLlamaBenchRunResult) \<times> 'w) \<Rightarrow> string \<Rightarrow> string
    \<Rightarrow> 'w throughput_collector" where
  "darwin_throughput collectRun llamaBenchPath modelPath n w =
     (case collectRun llamaBenchPath modelPath w of (r, w') \<Rightarrow>
        let (result, e) = (case r of Inl e \<Rightarrow> (no_darwin_run, Some e) | Inr x \<Rightarrow> (x, None))
        in ((dr_Throughput result,
             \<lparr>tm_TimeToFirstToken = 0, tm_PeakSystemRAM = dr_PeakSystemRAM result, tm_PeakVRAMBytes = None,
              tm_TemperatureCelsius = None, tm_Throttled = dr_Throttled result\<rparr>, e), w'))"

text \<open>The function literal \<open>CollectTTFT\<close>: start the server, measure, stop it. \<open>None\<close>: the health loop
  of the start does not end.\<close>

definition darwin_ttft :: "ttft_codec \<Rightarrow> 'w darwinComputeBenchmarkOrchestratorInput \<Rightarrow> string \<Rightarrow> 'w
    \<Rightarrow> ((duration \<times> err option) \<times> 'w) option" where
  "darwin_ttft j input modelPath w =
     (case startDarwinComputeBenchmarkServer (do_ServerStarter input) (do_HealthClient input)
             (do_LlamaServerPath input) modelPath w of
        None \<Rightarrow> None
      | Some (Inl e, w1) \<Rightarrow> Some ((0, Some e), w1)
      | Some (Inr baseURL, w1) \<Rightarrow>
         (case measureLlamaServerTTFT j (Some (do_TTFTClient input)) baseURL m9DarwinStandardTTFTPrompt
                 (Some (do_Now input)) w1 of
            (r, w2) \<Rightarrow>
              let (d, measureErr) = ttft_result r;
                  (stopErr, w3) = Stop_darwin (do_ServerStarter input) False w2
              in Some ((d, join_errors measureErr
                            (map_option (Wrap ''stop Darwin M9 benchmark server'') stopErr)), w3)))"

text \<open>The shared repetitions run over worlds where \<open>None\<close> says that a call did not return; the
  context then looks done, so nothing follows.\<close>

definition partial_ctx :: "('w \<Rightarrow> err option) \<Rightarrow> 'w option \<Rightarrow> err option" where
  "partial_ctx ctx w = (case w of None \<Rightarrow> Some (Err ''no return'') | Some v \<Rightarrow> ctx v)"

definition partial_throughput :: "'w throughput_collector \<Rightarrow> 'w option throughput_collector" where
  "partial_throughput f n w =
     (case w of None \<Rightarrow> ((no_throughput, no_telemetry, None), None)
      | Some v \<Rightarrow> (case f n v of (r, v') \<Rightarrow> (r, Some v')))"

definition partial_ttft :: "('w \<Rightarrow> ((duration \<times> err option) \<times> 'w) option) \<Rightarrow> 'w option ttft_collector" where
  "partial_ttft f n w =
     (case w of None \<Rightarrow> ((0, None), None)
      | Some v \<Rightarrow> (case f v of None \<Rightarrow> ((0, None), None) | Some (r, v') \<Rightarrow> (r, Some v')))"

definition returned :: "'a \<times> 'w option \<Rightarrow> ('a \<times> 'w) option" where
  "returned r = (case r of (a, None) \<Rightarrow> None | (a, Some w) \<Rightarrow> Some (a, w))"

definition orchestrateDarwinComputeBenchmark :: "ttft_codec \<Rightarrow> ('w \<Rightarrow> err option) option
    \<Rightarrow> 'w darwinComputeBenchmarkOrchestratorInput \<Rightarrow> 'w \<Rightarrow> ((err + ComputeBenchmark) \<times> 'w) option" where
  "orchestrateDarwinComputeBenchmark j ctx input w =
     (if ctx = None then Some (Inl (Err ''compute benchmark context is nil''), w)
      else let llamaBenchPath = TrimSpace (do_LlamaBenchPath input) in
      if llamaBenchPath = [] then Some (Inl (Err ''llama-bench path is required''), w)
      else let modelPath = TrimSpace (do_ModelPath input) in
      case m9LlamaBenchArgs modelPath of
        Inl e \<Rightarrow> Some (Inl e, w)
      | Inr _ \<Rightarrow>
      (case darwinBenchmarkServerCommand (do_LlamaServerPath input) modelPath of
        Inl e \<Rightarrow> Some (Inl e, w)
      | Inr _ \<Rightarrow>
         returned (orchestrateComputeBenchmarkRuns (map_option partial_ctx ctx)
           \<lparr>oi_CollectedAt = do_CollectedAt input, oi_Condition = do_Condition input,
            oi_Quantization = do_Quantization input, oi_ModelPath = modelPath,
            oi_CollectThroughput = Some (partial_throughput (darwin_throughput (do_CollectRun input) llamaBenchPath modelPath)),
            oi_CollectTTFT = Some (partial_ttft (darwin_ttft j input modelPath))\<rparr> (Some w))))"

section \<open>compute\_benchmark\_session\_darwin.go\<close>

record 'w darwinComputeBenchmarkExecutionInput =
  dx_CollectedAt :: gotime
  dx_Condition :: string
  dx_Quantization :: string
  dx_LlamaBenchPath :: string
  dx_LlamaServerPath :: string
  dx_ModelPath :: string
  dx_ServerStarter :: "'w server_os"
  dx_HealthClient :: "'w doer"
  dx_TTFTClient :: "'w doer"
  dx_Now :: "'w clock"
  dx_CollectRun :: "string \<Rightarrow> string \<Rightarrow> 'w \<Rightarrow> (err + darwinLlamaBenchRunResult) \<times> 'w"

definition darwin_session_input :: "'w darwinComputeBenchmarkExecutionInput \<Rightarrow> err + unit" where
  "darwin_session_input input =
     (if IsZero (dx_CollectedAt input) then Inl (Err ''compute benchmark collection time is required'')
      else if TrimSpace (dx_Condition input) = [] then Inl (Err ''compute benchmark condition is required'')
      else if TrimSpace (dx_Quantization input) = [] then Inl (Err ''compute benchmark quantization is required'')
      else if TrimSpace (dx_LlamaBenchPath input) = [] then Inl (Err ''llama-bench path is required'')
      else bindE (m9LlamaBenchArgs (dx_ModelPath input)) (\<lambda>_.
           bindE (darwinBenchmarkServerCommand (dx_LlamaServerPath input) (dx_ModelPath input)) (\<lambda>_. Inr ())))"

definition executeDarwinComputeBenchmark :: "ttft_codec \<Rightarrow> ('w \<Rightarrow> err option) option
    \<Rightarrow> 'w darwinComputeBenchmarkExecutionInput \<Rightarrow> 'w \<Rightarrow> ((err + ComputeBenchmark) \<times> 'w) option" where
  "executeDarwinComputeBenchmark j ctx input w =
     (if ctx = None then Some (Inl (Err ''compute benchmark context is nil''), w)
      else case darwin_session_input input of
        Inl e \<Rightarrow> Some (Inl e, w)
      | Inr _ \<Rightarrow>
         orchestrateDarwinComputeBenchmark j ctx
           \<lparr>do_CollectedAt = dx_CollectedAt input, do_Condition = dx_Condition input,
            do_Quantization = dx_Quantization input, do_LlamaBenchPath = dx_LlamaBenchPath input,
            do_LlamaServerPath = dx_LlamaServerPath input, do_ModelPath = dx_ModelPath input,
            do_ServerStarter = dx_ServerStarter input, do_HealthClient = dx_HealthClient input,
            do_TTFTClient = dx_TTFTClient input, do_Now = dx_Now input, do_CollectRun = dx_CollectRun input\<rparr> w)"

record DarwinComputeBenchmarkExecutionOptions =
  dp_CollectedAt :: gotime
  dp_Condition :: string
  dp_Quantization :: string
  dp_LlamaBenchPath :: string
  dp_LlamaServerPath :: string
  dp_ModelPath :: string

record 'w darwin_world =
  dw_server :: "'w server_os"
  dw_net :: "'w doer"
  dw_now :: "'w clock"
  dw_exec :: "'w os_exec"
  dw_cpus :: int

definition ExecuteDarwinComputeBenchmark :: "ttft_codec \<Rightarrow> (string \<Rightarrow> llamaBenchJSONResult list option)
    \<Rightarrow> 'w darwin_world \<Rightarrow> ('w \<Rightarrow> err option) option \<Rightarrow> DarwinComputeBenchmarkExecutionOptions \<Rightarrow> 'w
    \<Rightarrow> ((err + ComputeBenchmark) \<times> 'w) option" where
  "ExecuteDarwinComputeBenchmark j decode world ctx options =
     executeDarwinComputeBenchmark j ctx
       \<lparr>dx_CollectedAt = dp_CollectedAt options, dx_Condition = dp_Condition options,
        dx_Quantization = dp_Quantization options, dx_LlamaBenchPath = dp_LlamaBenchPath options,
        dx_LlamaServerPath = dp_LlamaServerPath options, dx_ModelPath = dp_ModelPath options,
        dx_ServerStarter = dw_server world, dx_HealthClient = dw_net world, dx_TTFTClient = dw_net world,
        dx_Now = dw_now world,
        dx_CollectRun = collectDarwinLlamaBenchRun decode (dw_exec world) (dw_cpus world)\<rparr>"

end
