(* ===== verification/BenchSession.thy ===== *)
theory BenchSession
  imports BenchDarwin BenchProperties
begin

text \<open>
  What the benchmark sessions do to the processes of the machine. The world is instrumented with the
  sequence of the process events; the sessions of both platforms are followed on it. Linux keeps one
  server over all repetitions; macOS starts one per repetition and never has a benchmark run and a
  server at the same time.
\<close>

section \<open>Process events\<close>

datatype process_event =
    Started string "string list"
  | Interrupted
  | Killed
  | Ran string "string list"
  | Sent http_request

type_synonym 'v traced = "'v \<times> process_event list"

definition quiet :: "('v \<Rightarrow> 'a \<times> 'v) \<Rightarrow> 'v traced \<Rightarrow> 'a \<times> 'v traced" where
  "quiet f w = (case f (fst w) of (a, v') \<Rightarrow> (a, (v', snd w)))"

definition logged :: "process_event \<Rightarrow> ('v \<Rightarrow> 'a \<times> 'v) \<Rightarrow> 'v traced \<Rightarrow> 'a \<times> 'v traced" where
  "logged x f w = (case f (fst w) of (a, v') \<Rightarrow> (a, (v', snd w @ [x])))"

definition traced_net :: "'v doer \<Rightarrow> 'v traced doer" where
  "traced_net net req = logged (Sent req) (net req)"

definition traced_exec :: "'v os_exec \<Rightarrow> 'v traced os_exec" where
  "traced_exec ex c a = logged (Ran c a) (ex c a)"

definition traced_os :: "'v server_os \<Rightarrow> 'v traced server_os" where
  "traced_os os = \<lparr>
     so_start = (\<lambda>c a w. case so_start os c a (fst w) of
        (Inl e, v') \<Rightarrow> (Inl e, (v', snd w)) | (Inr u, v') \<Rightarrow> (Inr u, (v', snd w @ [Started c a]))),
     so_interrupt = (\<lambda>w. (so_interrupt os (fst w), snd w @ [Interrupted])),
     so_kill = (\<lambda>w. (so_kill os (fst w), snd w @ [Killed])),
     so_poll = quiet (so_poll os), so_stop = quiet (so_stop os), so_timeout = quiet (so_timeout os)\<rparr>"

definition traced_linux :: "'v linux_world \<Rightarrow> 'v traced linux_world" where
  "traced_linux world = \<lparr>lw_server = traced_os (lw_server world), lw_net = traced_net (lw_net world),
     lw_now = quiet (lw_now world), lw_exec = traced_exec (lw_exec world),
     lw_sysfs = \<lparr>rd_Glob = (\<lambda>p w. rd_Glob (lw_sysfs world) p (fst w)),
                 rd_ReadFile = (\<lambda>p w. rd_ReadFile (lw_sysfs world) p (fst w))\<rparr>\<rparr>"

definition traced_darwin :: "'v darwin_world \<Rightarrow> 'v traced darwin_world" where
  "traced_darwin world = \<lparr>dw_server = traced_os (dw_server world), dw_net = traced_net (dw_net world),
     dw_now = quiet (dw_now world), dw_exec = traced_exec (dw_exec world), dw_cpus = dw_cpus world\<rparr>"

definition traced_ctx :: "('v \<Rightarrow> err option) \<Rightarrow> 'v traced \<Rightarrow> err option" where
  "traced_ctx ctx w = ctx (fst w)"

definition server_url :: string where "server_url = ''http://127.0.0.1:18190''"

definition health_request :: http_request where
  "health_request = \<lparr>hr_method = ''GET'', hr_url = server_url @ ''/health'', hr_headers = [], hr_body = []\<rparr>"

text \<open>The events of one measurement of the time to the first token: one request, unless its body
  cannot be encoded.\<close>

definition ttft_events :: "ttft_codec \<Rightarrow> process_event list" where
  "ttft_events j =
     (case tt_request j (ttft_request m9StandardTTFTPrompt) of None \<Rightarrow> []
      | Some body \<Rightarrow> [Sent \<lparr>hr_method = ''POST'', hr_url = server_url @ ''/completion'',
                          hr_headers = [(''Content-Type'', ''application/json'')], hr_body = body\<rparr>])"

section \<open>The server over traced worlds\<close>

lemma quiet_trace: "snd (snd (quiet f w)) = snd w"
  by (simp add: quiet_def split: prod.splits)

lemma logged_trace: "snd (snd (logged x f w)) = snd w @ [x]"
  by (simp add: logged_def split: prod.splits)

lemma server_url_valid: "validateLocalBenchmarkBaseURL server_url = Inr server_url"
  by code_simp

lemma health_request_made: "NewRequest ''GET'' (server_url @ ''/health'') [] [] = Inr health_request"
  by code_simp

lemma completion_request_made:
  "NewRequest ''POST'' (server_url @ ''/completion'') [(''Content-Type'', ''application/json'')] body =
     Inr \<lparr>hr_method = ''POST'', hr_url = server_url @ ''/completion'',
          hr_headers = [(''Content-Type'', ''application/json'')], hr_body = body\<rparr>"
proof -
  have "Parse (server_url @ ''/completion'') \<noteq> None" by code_simp
  then show ?thesis by (auto simp: NewRequest_def)
qed

lemma prompts: "m9DarwinStandardTTFTPrompt = m9StandardTTFTPrompt"
  by (simp add: m9DarwinStandardTTFTPrompt_def m9StandardTTFTPrompt_def)

lemma health_loop_trace:
  assumes "health_loop label (traced_net net) (quiet poll) req w = Some y"
  shows "\<exists>n. snd (snd y) = snd w @ replicate n (Sent req)"
proof -
  have "\<forall>n p. N = traced_net n \<longrightarrow> P = quiet p \<longrightarrow> (\<exists>n. snd (snd y) = snd w @ replicate n (Sent req))"
    if "health_loop label N P req w = Some y" for N :: "'a traced doer" and P
    using that
  proof (induction rule: health_loop.raw_induct [rotated, consumes 1, case_names step])
    case (step self label' net' poll' req' w' y')
    obtain r w1 where net: "net' req' w' = (r, w1)" by (metis surj_pair)
    obtain q w2 where poll: "poll' w1 = (q, w2)" by (metis surj_pair)
    show ?case
    proof (intro allI impI)
      fix n p assume inst: "net' = traced_net n" "poll' = quiet p"
      have w1: "snd w1 = snd w' @ [Sent req']"
        using net logged_trace [of "Sent req'" "n req'" w'] by (simp add: inst traced_net_def)
      have w2: "snd w2 = snd w1" using poll quiet_trace [of p w1] by (simp add: inst)
      show "\<exists>n. snd (snd y') = snd w' @ replicate n (Sent req')"
      proof (cases "healthy r")
        case True
        then have "y' = ((None, False), w1)" using step(2) net by simp
        then show ?thesis using w1 by (intro exI [of _ 1]) simp
      next
        case False
        show ?thesis
        proof (cases q)
          case PollTick
          then have "self label' net' poll' req' w2 = Some y'" using step(2) net poll False by simp
          from step(1) [OF this] inst obtain k where "snd (snd y') = snd w2 @ replicate k (Sent req')" by blast
          then show ?thesis using w1 w2 by (intro exI [of _ "Suc k"]) simp
        qed (use step(2) net poll False w1 w2 in \<open>auto split: option.splits intro!: exI [of _ 1]\<close>)
      qed
    qed
  qed
  then show ?thesis using assms by blast
qed

definition stop_events :: "process_event list \<Rightarrow> bool" where
  "stop_events s \<longleftrightarrow> s = [Interrupted] \<or> s = [Interrupted, Killed]"

lemma stop_server_trace:
  assumes "stop_server (traced_os os) drained w = (e, w')"
  shows "\<exists>s. snd w' = snd w @ s \<and> stop_events s \<and> (e = None \<longrightarrow> s = [Interrupted])"
  using assms quiet_trace [of "so_stop os" "(so_interrupt os (fst w), snd w @ [Interrupted])"]
    quiet_trace [of "so_timeout os" "(so_interrupt os (fst w), snd w @ [Interrupted])"]
  by (auto simp: stop_server_def traced_os_def stop_events_def Let_def split: if_splits prod.splits option.splits)

lemma start_server_trace:
  assumes "start_server label (Inr (c, a, server_url)) (traced_os os) (traced_net net) w = Some (r, w')"
  shows "(\<exists>n. r = Inr server_url \<and> snd w' = snd w @ Started c a # replicate n (Sent health_request))
       \<or> (\<exists>e n s. r = Inl e \<and> snd w' = snd w @ Started c a # replicate n (Sent health_request) @ s \<and> stop_events s)
       \<or> (\<exists>e. r = Inl e \<and> snd w' = snd w)"
proof -
  obtain q w1 where start: "so_start (traced_os os) c a w = (q, w1)" by (metis surj_pair)
  show ?thesis
  proof (cases q)
    case (Inl e)
    then show ?thesis
      using assms start by (auto simp: start_server_def traced_os_def split: prod.splits sum.splits)
  next
    case (Inr u)
    have w1: "snd w1 = snd w @ [Started c a]"
      using start Inr by (auto simp: traced_os_def split: prod.splits sum.splits)
    have wait: "wait_for_health label (traced_net net) (so_poll (traced_os os)) server_url w1
                = health_loop label (traced_net net) (quiet (so_poll os)) health_request w1"
      by (simp add: wait_for_health_def server_url_valid health_request_made traced_os_def)
    from assms obtain y where y: "health_loop label (traced_net net) (quiet (so_poll os)) health_request w1 = Some y"
      by (simp add: start_server_def start Inr wait split: option.splits)
    obtain e drained w2 where yy: "y = ((e, drained), w2)" by (metis prod.collapse)
    obtain n where w2: "snd w2 = snd w @ Started c a # replicate n (Sent health_request)"
      using health_loop_trace [OF y] w1 yy by auto
    show ?thesis
    proof (cases e)
      case None
      then show ?thesis using assms w2 by (auto simp: start_server_def start Inr wait y yy)
    next
      case (Some x)
      obtain se w3 where stop: "stop_server (traced_os os) drained w2 = (se, w3)" by (metis surj_pair)
      from stop_server_trace [OF this] w2 obtain s
        where "snd w3 = snd w @ Started c a # replicate n (Sent health_request) @ s" "stop_events s" by auto
      then show ?thesis using assms by (auto simp: start_server_def start Inr wait y yy Some stop)
    qed
  qed
qed

lemma measure_trace:
  assumes "measureLlamaServerTTFT j (Some (traced_net net)) server_url m9StandardTTFTPrompt (Some (quiet clk)) w = (r, w')"
  shows "snd w' = snd w @ ttft_events j"
proof -
  have prompt: "TrimSpace m9StandardTTFTPrompt \<noteq> []" by code_simp
  obtain a w1 where c1: "quiet clk w = (a, w1)" by (metis surj_pair)
  then have w1: "snd w1 = snd w" using quiet_trace [of clk w] by simp
  show ?thesis
  proof (cases "tt_request j (ttft_request m9StandardTTFTPrompt)")
    case None
    then show ?thesis using assms prompt
      by (simp add: measureLlamaServerTTFT_def server_url_valid ttft_events_def)
  next
    case (Some body)
    let ?req = "\<lparr>hr_method = ''POST'', hr_url = server_url @ ''/completion'',
          hr_headers = [(''Content-Type'', ''application/json'')], hr_body = body\<rparr>"
    obtain q w2 where n: "traced_net net ?req w1 = (q, w2)" by (metis surj_pair)
    then have w2: "snd w2 = snd w @ [Sent ?req]"
      using w1 logged_trace [of "Sent ?req" "net ?req" w1] by (simp add: traced_net_def)
    have "snd w' = snd w2"
    proof (cases q)
      case Inl
      then show ?thesis using assms prompt Some
        by (simp add: measureLlamaServerTTFT_def server_url_valid completion_request_made c1 n)
    next
      case (Inr resp)
      show ?thesis
        using assms prompt Some Inr quiet_trace [of clk w2]
        by (auto simp: measureLlamaServerTTFT_def server_url_valid completion_request_made c1 n Let_def
            split: if_splits sum.splits prod.splits)
    qed
    then show ?thesis using w2 Some by (simp add: ttft_events_def)
  qed
qed
section \<open>The repetitions over traced worlds\<close>

text \<open>Collectors that append fixed events: whole rounds, or rounds and one throughput run when the
  context is done in between.\<close>

definition rounds :: "nat \<Rightarrow> process_event list \<Rightarrow> process_event list \<Rightarrow> process_event list" where
  "rounds k b s = concat (replicate k (b @ s))"

lemma rounds_simps [simp]: "rounds 0 b s = []" "rounds (Suc k) b s = b @ s @ rounds k b s"
  by (simp_all add: rounds_def)

lemma run_loop_events:
  assumes "\<And>n w. snd (snd (collectT n w)) = snd w @ b" "\<And>n w. snd (snd (collectF n w)) = snd w @ s"
    and "run_loop ctx collectT collectF ns w = (r, w')"
  shows "\<exists>k \<le> length ns. (snd w' = snd w @ rounds k b s \<or> (k < length ns \<and> snd w' = snd w @ rounds k b s @ b))
           \<and> (is_ok r \<longrightarrow> snd w' = snd w @ rounds (length ns) b s)"
  using assms(3)
proof (induction ns arbitrary: w r w')
  case (Cons n ns)
  obtain tp tm te w1 where t: "collectT n w = ((tp, tm, te), w1)" by (metis surj_pair)
  obtain d fe w2 where f: "collectF n w1 = ((d, fe), w2)" by (metis surj_pair)
  have w1: "snd w1 = snd w @ b" using assms(1) [of n w] t by simp
  have w2: "snd w2 = snd w1 @ s" using assms(2) [of n w1] f by simp
  show ?case
  proof (cases "ctx w = None \<and> ctx w1 = None \<and> ctx w2 = None")
    case True
    obtain r3 w3 where rest: "run_loop ctx collectT collectF ns w2 = (r3, w3)" by (metis surj_pair)
    from Cons.IH [OF rest] obtain k where k: "k \<le> length ns"
      "snd w3 = snd w2 @ rounds k b s \<or> (k < length ns \<and> snd w3 = snd w2 @ rounds k b s @ b)"
      "is_ok r3 \<longrightarrow> snd w3 = snd w2 @ rounds (length ns) b s" by blast
    have "w' = w3" "is_ok r \<longrightarrow> is_ok r3"
      using Cons.prems True by (auto simp: canceled_def t f rest Let_def is_ok_def bindE_def split: sum.splits)
    then show ?thesis using k w1 w2 by (intro exI [of _ "Suc k"]) auto
  next
    case False
    consider "ctx w \<noteq> None" | "ctx w = None" "ctx w1 \<noteq> None" | "ctx w = None" "ctx w1 = None" "ctx w2 \<noteq> None"
      using False by (cases "ctx w = None"; cases "ctx w1 = None") auto
    then show ?thesis
    proof cases
      case 1
      then show ?thesis using Cons.prems by (auto simp: canceled_def is_ok_def intro!: exI [of _ 0])
    next
      case 2
      then show ?thesis using Cons.prems w1
        by (auto simp: canceled_def is_ok_def t Let_def intro!: exI [of _ 0])
    next
      case 3
      then show ?thesis using Cons.prems w1 w2
        by (auto simp: canceled_def is_ok_def t f Let_def intro!: exI [of _ "Suc 0"])
    qed
  qed
qed (simp add: is_ok_def)

lemma run_loop_keeps:
  assumes "\<And>n w. P w \<Longrightarrow> P (snd (collectT n w))" "\<And>n w. P w \<Longrightarrow> P (snd (collectF n w))" "P w"
  shows "P (snd (run_loop ctx collectT collectF ns w))"
  using assms(3)
proof (induction ns arbitrary: w)
  case (Cons n ns)
  obtain tp tm te w1 where t: "collectT n w = ((tp, tm, te), w1)" by (metis surj_pair)
  obtain d fe w2 where f: "collectF n w1 = ((d, fe), w2)" by (metis surj_pair)
  have w1: "P w1" using assms(1) [OF Cons.prems, of n] t by simp
  have w2: "P w2" using assms(2) [OF w1, of n] f by simp
  show ?case
    using Cons.prems w1 w2 Cons.IH [OF w2]
    by (auto simp: canceled_def t f Let_def split: option.splits prod.splits)
qed simp

section \<open>The Linux session\<close>

definition linux_bench_event :: "string \<Rightarrow> string \<Rightarrow> process_event list" where
  "linux_bench_event llamaBenchPath modelPath =
     (case m9LlamaBenchArgs modelPath of Inl _ \<Rightarrow> []
      | Inr args \<Rightarrow>
         (case linuxOneAPIWrappedCommand m9LinuxTimePath ([''-v'', llamaBenchPath] @ args) of
            Inl _ \<Rightarrow> [] | Inr (c, a) \<Rightarrow> [Ran c a]))"

lemma linux_runner_trace:
  assumes "linuxOneAPIWrappedCommand name args = Inr (c, a)"
  shows "snd (snd (linux_runner (traced_exec ex) name args w)) = snd w @ [Ran c a]"
  using logged_trace [of "Ran c a" "ex c a" w]
  by (auto simp: linux_runner_def assms traced_exec_def split: prod.splits)

lemma linux_bench_trace:
  assumes "TrimSpace path \<noteq> []" "TrimSpace path = path"
  shows "snd (snd (collectLinuxLlamaBenchRun decode (traced_exec ex) reader True path model w))
       = snd w @ linux_bench_event path model"
proof (cases "m9LlamaBenchArgs model")
  case Inl
  then show ?thesis using assms by (simp add: collectLinuxLlamaBenchRun_def measureLinuxLlamaBenchRun_def linux_bench_event_def)
next
  case (Inr args)
  have "TrimSpace m9LinuxTimePath \<noteq> []" by code_simp
  then obtain c a where cmd: "linuxOneAPIWrappedCommand m9LinuxTimePath (''-v'' # path # args) = Inr (c, a)"
    by (auto simp: linuxOneAPIWrappedCommand_def Let_def)
  obtain so se e w1 where run: "linux_runner (traced_exec ex) m9LinuxTimePath (''-v'' # path # args) w = ((so, se, e), w1)"
    by (metis surj_pair)
  have "snd w1 = snd w @ [Ran c a]" using linux_runner_trace [OF cmd, of ex w] run by simp
  then show ?thesis
    using assms Inr cmd run
    by (cases e) (simp_all add: collectLinuxLlamaBenchRun_def measureLinuxLlamaBenchRun_def linux_bench_event_def Let_def)
qed

lemma linux_throughput_trace:
  "snd (linux_throughput f path model n w) = snd (f path model w)"
  by (auto simp: linux_throughput_def Let_def split: prod.splits sum.splits)

lemma linux_orchestrate_events:
  assumes "orchestrateLinuxComputeBenchmark j (Some ctx)
      \<lparr>lo_CollectedAt = collected, lo_Condition = cond, lo_Quantization = quant, lo_LlamaBenchPath = bench, lo_ModelPath = model,
       lo_TTFTBaseURL = server_url, lo_HTTPClient = traced_net net, lo_Now = quiet clk,
       lo_CollectRun = collectLinuxLlamaBenchRun decode (traced_exec ex) reader True\<rparr> w = (r, w')"
    and "TrimSpace bench \<noteq> []" "m9LlamaBenchArgs (TrimSpace model) = Inr args"
  shows "\<exists>k \<le> 5. (let b = linux_bench_event (TrimSpace bench) (TrimSpace model); s = ttft_events j in
           (snd w' = snd w @ rounds k b s \<or> (k < 5 \<and> snd w' = snd w @ rounds k b s @ b))
           \<and> (is_ok r \<longrightarrow> snd w' = snd w @ rounds 5 b s))"
proof -
  let ?b = "linux_bench_event (TrimSpace bench) (TrimSpace model)" and ?s = "ttft_events j"
  let ?T = "linux_throughput (collectLinuxLlamaBenchRun decode (traced_exec ex) reader True) (TrimSpace bench) (TrimSpace model)"
  let ?F = "\<lambda>n w. case measureLlamaServerTTFT j (Some (traced_net net)) server_url m9StandardTTFTPrompt (Some (quiet clk)) w of
                 (r, w') \<Rightarrow> (ttft_result r, w')"
  obtain q w1 where loop: "run_loop ctx ?T ?F [1..<m9StandardRepetitions + 1] w = (q, w1)" by (metis surj_pair)
  have b: "snd (snd (?T n v)) = snd v @ ?b" for n v
    using assms(2) by (simp add: linux_throughput_trace linux_bench_trace TrimSpace_idem)
  have s: "snd (snd (?F n v)) = snd v @ ?s" for n v
    by (auto split: prod.splits dest: measure_trace)
  have len: "length [1..<m9StandardRepetitions + 1] = 5" by (simp add: m9StandardRepetitions_def)
  from run_loop_events [OF b s loop] obtain k where k: "k \<le> 5"
    "snd w1 = snd w @ rounds k ?b ?s \<or> (k < 5 \<and> snd w1 = snd w @ rounds k ?b ?s @ ?b)"
    "is_ok q \<longrightarrow> snd w1 = snd w @ rounds 5 ?b ?s" unfolding len by blast
  have "w' = w1" "is_ok r \<longrightarrow> is_ok q"
    using assms loop
    by (auto simp: orchestrateLinuxComputeBenchmark_def orchestrateComputeBenchmarkRuns_def server_url_valid Let_def
        is_ok_def bindE_def split: sum.splits)
  then show ?thesis using k by (auto simp: Let_def)
qed
text \<open>The events of a whole session: nothing, or one server that is started with the command of the
  options, asked for its health, used and stopped.\<close>

definition linux_work :: "ttft_codec \<Rightarrow> LinuxComputeBenchmarkExecutionOptions \<Rightarrow> nat \<Rightarrow> bool \<Rightarrow> process_event list" where
  "linux_work j p k half =
     (let b = linux_bench_event (TrimSpace (lp_LlamaBenchPath p)) (TrimSpace (lp_ModelPath p))
      in rounds k b (ttft_events j) @ (if half then b else []))"

definition linux_started :: "LinuxComputeBenchmarkExecutionOptions \<Rightarrow> process_event list" where
  "linux_started p =
     (case linuxBenchmarkServerCommand (lp_LlamaServerPath p) (lp_ModelPath p) of
        Inl _ \<Rightarrow> [] | Inr (c, a, _) \<Rightarrow> [Started c a])"

lemma bindE_url: "bindE r (\<lambda>(n, a). Inr (n, a, u)) = Inr (c, a', url) \<Longrightarrow> url = u"
  by (auto simp: bindE_def split: sum.splits)

lemma linux_server_url:
  assumes "linuxBenchmarkServerCommand sp mp = Inr (c, a, url)"
  shows "url = server_url"
proof -
  have "url = ''http://'' @ m9LinuxBenchmarkServerHost @ '':'' @ Itoa m9LinuxBenchmarkServerPort"
  proof (cases "TrimSpace sp = [] \<or> TrimSpace mp = []")
    case True
    then show ?thesis using assms unfolding linuxBenchmarkServerCommand_def Let_def
      by (elim disjE) (simp_all only: if_True simp_thms Inl_Inr_False split: if_split_asm)
  next
    case False
    then show ?thesis using assms unfolding linuxBenchmarkServerCommand_def Let_def
      by (simp only: if_False de_Morgan_disj simp_thms) (erule bindE_url)
  qed
  moreover have "\<dots> = server_url"
    by (simp add: server_url_def m9LinuxBenchmarkServerHost_def m9LinuxBenchmarkServerPort_def Itoa_def nat_dec.simps)
      code_simp
  ultimately show ?thesis by simp
qed

lemma linux_session_input_ok:
  assumes "linux_session_input input = Inr u"
  shows "TrimSpace (lx_LlamaBenchPath input) \<noteq> []"
    "\<exists>args. m9LlamaBenchArgs (lx_ModelPath input) = Inr args"
    "\<exists>c a. linuxBenchmarkServerCommand (lx_LlamaServerPath input) (lx_ModelPath input) = Inr (c, a, server_url)"
proof -
  from assms show "TrimSpace (lx_LlamaBenchPath input) \<noteq> []"
    by (simp add: linux_session_input_def split: if_splits)
  from assms obtain args c a url where "m9LlamaBenchArgs (lx_ModelPath input) = Inr args"
    and cmd: "linuxBenchmarkServerCommand (lx_LlamaServerPath input) (lx_ModelPath input) = Inr (c, a, url)"
    by (auto simp: linux_session_input_def bindE_Inr_iff split: if_splits)
  then show "\<exists>args. m9LlamaBenchArgs (lx_ModelPath input) = Inr args" by blast
  from cmd linux_server_url [OF cmd]
  show "\<exists>c a. linuxBenchmarkServerCommand (lx_LlamaServerPath input) (lx_ModelPath input) = Inr (c, a, server_url)"
    by blast
qed

lemma m9LlamaBenchArgs_trim: "m9LlamaBenchArgs (TrimSpace model) = m9LlamaBenchArgs model"
  by (simp add: m9LlamaBenchArgs_def TrimSpace_idem)

lemma linux_orchestrate_work:
  assumes "orchestrateLinuxComputeBenchmark j (Some ctx)
      \<lparr>lo_CollectedAt = collected, lo_Condition = cond, lo_Quantization = quant, lo_LlamaBenchPath = lp_LlamaBenchPath p,
       lo_ModelPath = lp_ModelPath p, lo_TTFTBaseURL = server_url, lo_HTTPClient = traced_net net, lo_Now = quiet clk,
       lo_CollectRun = collectLinuxLlamaBenchRun decode (traced_exec ex) reader True\<rparr> w = (r, w')"
    and "TrimSpace (lp_LlamaBenchPath p) \<noteq> []" "m9LlamaBenchArgs (TrimSpace (lp_ModelPath p)) = Inr args"
  shows "\<exists>k half. k + of_bool half \<le> (5::nat) \<and> snd w' = snd w @ linux_work j p k half \<and> (is_ok r \<longrightarrow> k = 5)"
proof (cases "is_ok r")
  case True
  with linux_orchestrate_events [OF assms] show ?thesis
    by (intro exI [of _ 5] exI [of _ False]) (auto simp: linux_work_def Let_def)
next
  case False
  from linux_orchestrate_events [OF assms] obtain k where k: "k \<le> 5"
    "snd w' = snd w @ linux_work j p k False \<or> (k < 5 \<and> snd w' = snd w @ linux_work j p k True)"
    by (auto simp: linux_work_def Let_def)
  then show ?thesis
  proof (elim conjE disjE)
    assume "k \<le> 5" "snd w' = snd w @ linux_work j p k False"
    then show ?thesis using False by (intro exI [of _ k] exI [of _ False]) simp
  next
    assume "k < 5" "snd w' = snd w @ linux_work j p k True"
    then show ?thesis using False by (intro exI [of _ k] exI [of _ True]) simp
  qed
qed

text \<open>A session whose input is accepted: the start fails, or the benchmark runs and the server is stopped.\<close>

lemma executeLinux_phases:
  assumes run: "executeLinuxComputeBenchmark j (Some ctx) input w = Some ((benchmark, retErr), w')"
    and input: "linux_session_input input = Inr u"
  obtains (failed) e where "startLinuxComputeBenchmarkServer (lx_ServerStarter input) (lx_HealthClient input)
      (lx_LlamaServerPath input) (lx_ModelPath input) w = Some (Inl e, w')" "benchmark = None" "retErr = Some e"
  | (ran) base w1 r w2 se where "startLinuxComputeBenchmarkServer (lx_ServerStarter input) (lx_HealthClient input)
      (lx_LlamaServerPath input) (lx_ModelPath input) w = Some (Inr base, w1)"
    "orchestrateLinuxComputeBenchmark j (Some ctx)
       \<lparr>lo_CollectedAt = lx_CollectedAt input, lo_Condition = lx_Condition input,
        lo_Quantization = lx_Quantization input, lo_LlamaBenchPath = lx_LlamaBenchPath input,
        lo_ModelPath = lx_ModelPath input, lo_TTFTBaseURL = base, lo_HTTPClient = lx_TTFTClient input,
        lo_Now = lx_Now input, lo_CollectRun = lx_CollectRun input\<rparr> w1 = (r, w2)"
    "stop_server (lx_ServerStarter input) False w2 = (se, w')"
    "benchmark = (case r of Inl e \<Rightarrow> None | Inr b \<Rightarrow> Some b)" "retErr = None \<longrightarrow> se = None \<and> is_ok r"
proof -
  obtain q w1 where start: "startLinuxComputeBenchmarkServer (lx_ServerStarter input) (lx_HealthClient input)
      (lx_LlamaServerPath input) (lx_ModelPath input) w = Some (q, w1)"
    using run input by (cases "startLinuxComputeBenchmarkServer (lx_ServerStarter input) (lx_HealthClient input)
      (lx_LlamaServerPath input) (lx_ModelPath input) w") (auto simp: executeLinuxComputeBenchmark_def)
  show ?thesis
  proof (cases q)
    case (Inl e)
    then show ?thesis using run input start by (intro failed) (auto simp: executeLinuxComputeBenchmark_def)
  next
    case (Inr base)
    obtain r w2 where orch: "orchestrateLinuxComputeBenchmark j (Some ctx)
       \<lparr>lo_CollectedAt = lx_CollectedAt input, lo_Condition = lx_Condition input,
        lo_Quantization = lx_Quantization input, lo_LlamaBenchPath = lx_LlamaBenchPath input,
        lo_ModelPath = lx_ModelPath input, lo_TTFTBaseURL = base, lo_HTTPClient = lx_TTFTClient input,
        lo_Now = lx_Now input, lo_CollectRun = lx_CollectRun input\<rparr> w1 = (r, w2)" by (metis surj_pair)
    obtain se w3 where stop: "stop_server (lx_ServerStarter input) False w2 = (se, w3)" by (metis surj_pair)
    have "w' = w3" "benchmark = (case r of Inl e \<Rightarrow> None | Inr b \<Rightarrow> Some b)" "retErr = None \<longrightarrow> se = None \<and> is_ok r"
      using run input start Inr orch stop
      by (auto simp: executeLinuxComputeBenchmark_def Stop_linux_def join_errors_def is_ok_def Let_def
          split: sum.splits option.splits)
    then show ?thesis using ran [OF start [unfolded Inr] orch, of se] stop by simp
  qed
qed


section \<open>The macOS session\<close>

text \<open>The discipline of macOS, on a sequence of events and whether a server is up: a benchmark runs only
  while no server is up, a request is sent only to a server that is up, and every server is stopped.\<close>

fun one_model :: "bool \<Rightarrow> process_event list \<Rightarrow> bool" where
  "one_model up [] = (\<not> up)"
| "one_model up (Started c a # t) = (\<not> up \<and> one_model True t)"
| "one_model up (Interrupted # t) = (up \<and> one_model False t)"
| "one_model up (Killed # t) = (\<not> up \<and> one_model False t)"
| "one_model up (Ran c a # t) = (\<not> up \<and> one_model up t)"
| "one_model up (Sent r # t) = (up \<and> one_model up t)"

lemma one_model_append: "one_model up a \<Longrightarrow> one_model up (a @ b) = one_model False b"
  by (induction up a rule: one_model.induct) auto

lemma one_model_health: "one_model True (replicate n (Sent r) @ t) = one_model True t"
  by (induction n) auto

lemma one_model_stop: "stop_events s \<Longrightarrow> one_model True s"
  by (auto simp: stop_events_def)

lemma one_model_ttft: "one_model True (ttft_events j @ t) = one_model True t"
  by (simp add: ttft_events_def split: option.split)

definition darwin_event :: "DarwinComputeBenchmarkExecutionOptions \<Rightarrow> process_event \<Rightarrow> bool" where
  "darwin_event p x =
     (case x of
        Started c a \<Rightarrow> darwinBenchmarkServerCommand (dp_LlamaServerPath p) (TrimSpace (dp_ModelPath p)) = Inr (c, a, server_url)
      | Ran c a \<Rightarrow> (c = m9DarwinPMSetPath \<and> a = [''-g'', ''therm''])
                   \<or> (\<exists>args. m9LlamaBenchArgs (TrimSpace (dp_ModelPath p)) = Inr args \<and> c = m9DarwinTimePath
                           \<and> a = [''-l'', TrimSpace (dp_LlamaBenchPath p)] @ args)
      | Sent r \<Rightarrow> hr_url r \<in> {server_url @ ''/health'', server_url @ ''/completion''}
      | Interrupted \<Rightarrow> True | Killed \<Rightarrow> True)"

definition darwin_ok :: "DarwinComputeBenchmarkExecutionOptions \<Rightarrow> process_event list \<Rightarrow> bool" where
  "darwin_ok p t \<longleftrightarrow> one_model False t \<and> (\<forall>x\<in>set t. darwin_event p x)"

lemma darwin_ok_append: "darwin_ok p a \<Longrightarrow> darwin_ok p b \<Longrightarrow> darwin_ok p (a @ b)"
  by (auto simp: darwin_ok_def one_model_append)

lemma darwin_server_url:
  assumes "darwinBenchmarkServerCommand sp mp = Inr (c, a, url)"
  shows "url = server_url"
proof -
  have "url = ''http://'' @ m9DarwinBenchmarkServerHost @ '':'' @ Itoa m9DarwinBenchmarkServerPort"
    using assms by (simp add: darwinBenchmarkServerCommand_def Let_def split: if_splits)
  moreover have "\<dots> = server_url"
    by (simp add: server_url_def m9DarwinBenchmarkServerHost_def m9DarwinBenchmarkServerPort_def Itoa_def nat_dec.simps)
      code_simp
  ultimately show ?thesis by simp
qed

lemma darwin_runner_trace:
  "snd (snd (darwin_runner (traced_exec ex) c a w)) = snd w @ [Ran c a]"
  using logged_trace [of "Ran c a" "ex c a" w]
  by (auto simp: darwin_runner_def traced_exec_def split: prod.splits)

lemma throttle_trace:
  "snd (snd (readDarwinBenchmarkThrottle (darwin_runner (traced_exec ex)) cpus w)) = snd w @ [Ran m9DarwinPMSetPath [''-g'', ''therm'']]"
  using darwin_runner_trace [of ex m9DarwinPMSetPath "[''-g'', ''therm'']" w]
  by (auto simp: readDarwinBenchmarkThrottle_def Let_def split: prod.splits option.splits)

lemma darwin_bench_trace:
  assumes "TrimSpace (dp_LlamaBenchPath p) \<noteq> []"
    and "collectDarwinLlamaBenchRun decode (traced_exec ex) cpus (TrimSpace (dp_LlamaBenchPath p)) (TrimSpace (dp_ModelPath p)) w = (r, w')"
  shows "\<exists>s. snd w' = snd w @ s \<and> darwin_ok p s"
proof (cases "cpus \<le> 0 \<or> (\<exists>e. m9LlamaBenchArgs (TrimSpace (dp_ModelPath p)) = Inl e)")
  case True
  then have "w' = w" using assms
    by (auto simp: collectDarwinLlamaBenchRun_def measureDarwinLlamaBenchRun_def TrimSpace_idem Let_def split: if_splits sum.splits)
  then show ?thesis by (intro exI [of _ "[]"]) (simp add: darwin_ok_def)
next
  case False
  then obtain args where args: "m9LlamaBenchArgs (TrimSpace (dp_ModelPath p)) = Inr args" and cpus: "\<not> cpus \<le> 0"
    by (cases "m9LlamaBenchArgs (TrimSpace (dp_ModelPath p))") auto
  let ?path = "TrimSpace (dp_LlamaBenchPath p)"
  let ?P = "Ran m9DarwinPMSetPath [''-g'', ''therm'']" and ?B = "Ran m9DarwinTimePath (''-l'' # ?path # args)"
  let ?run = "darwin_runner (traced_exec ex)"
  obtain pre w1 where pre: "readDarwinBenchmarkThrottle ?run cpus w = (pre, w1)" by (metis surj_pair)
  obtain so se e w2 where run: "?run m9DarwinTimePath (''-l'' # ?path # args) w1 = ((so, se, e), w2)" by (metis surj_pair)
  obtain post w3 where post: "readDarwinBenchmarkThrottle ?run cpus w2 = (post, w3)" by (metis surj_pair)
  have w1: "snd w1 = snd w @ [?P]" using throttle_trace [of ex cpus w] pre by simp
  have w2: "snd w2 = snd w1 @ [?B]"
    using darwin_runner_trace [of ex m9DarwinTimePath "''-l'' # ?path # args" w1] run by simp
  have w3: "snd w3 = snd w2 @ [?P]" using throttle_trace [of ex cpus w2] post by simp
  have "w' = w2 \<or> w' = w3"
    using assms cpus by (auto simp: collectDarwinLlamaBenchRun_def measureDarwinLlamaBenchRun_def TrimSpace_idem Let_def args pre run post
        split: option.splits sum.splits)
  moreover have ok: "darwin_event p ?P" "darwin_event p ?B" using args by (simp_all add: darwin_event_def)
  then have "darwin_ok p [?P, ?B]" "darwin_ok p [?P, ?B, ?P]" unfolding darwin_ok_def by simp_all
  ultimately show ?thesis using w1 w2 w3 by (metis append.assoc append_Cons append_Nil)
qed

lemma darwin_ttft_trace:
  assumes "darwin_ttft j input (TrimSpace (dp_ModelPath p)) w = Some (r, w')"
    and "do_ServerStarter input = traced_os os" "do_HealthClient input = traced_net net"
      "do_TTFTClient input = traced_net net'" "do_Now input = quiet clk" "do_LlamaServerPath input = dp_LlamaServerPath p"
    and cmd: "darwinBenchmarkServerCommand (dp_LlamaServerPath p) (TrimSpace (dp_ModelPath p)) = Inr (c, a, server_url)"
  shows "\<exists>s. snd w' = snd w @ s \<and> darwin_ok p s"
proof -
  have ev: "darwin_event p (Started c a)" "darwin_event p (Sent health_request)"
    by (simp_all add: darwin_event_def cmd health_request_def)
  have tev: "\<forall>x\<in>set (ttft_events j). darwin_event p x"
    by (cases "tt_request j (ttft_request m9StandardTTFTPrompt)") (simp_all add: darwin_event_def ttft_events_def)
  have stop_ev: "\<forall>x\<in>set s. darwin_event p x" if "stop_events s" for s
    using that by (auto simp: stop_events_def darwin_event_def)
  have start_eq: "startDarwinComputeBenchmarkServer (do_ServerStarter input) (do_HealthClient input) (do_LlamaServerPath input)
       (TrimSpace (dp_ModelPath p)) w = start_server ''Darwin M9'' (Inr (c, a, server_url)) (traced_os os) (traced_net net) w"
    by (simp add: assms startDarwinComputeBenchmarkServer_def cmd)
  obtain q w1 where start: "start_server ''Darwin M9'' (Inr (c, a, server_url)) (traced_os os) (traced_net net) w = Some (q, w1)"
    using assms(1) unfolding darwin_ttft_def start_eq by (cases "start_server ''Darwin M9'' (Inr (c, a, server_url)) (traced_os os) (traced_net net) w") auto
  show ?thesis
  proof (cases q)
    case (Inl e)
    then have "w' = w1" using assms(1) unfolding darwin_ttft_def start_eq start by simp
    with start_server_trace [OF start] Inl consider "snd w' = snd w"
      | n s where "snd w' = snd w @ Started c a # replicate n (Sent health_request) @ s" "stop_events s" by auto
    then show ?thesis
    proof cases
      case 1
      then show ?thesis by (intro exI [of _ "[]"]) (simp add: darwin_ok_def)
    next
      case (2 n s)
      then show ?thesis
        by (intro exI [of _ "Started c a # replicate n (Sent health_request) @ s"])
          (auto simp: darwin_ok_def one_model_health one_model_stop ev stop_ev)
    qed
  next
    case (Inr base)
    with start_server_trace [OF start] obtain n where base: "base = server_url"
      and w1: "snd w1 = snd w @ Started c a # replicate n (Sent health_request)" by auto
    obtain m w2 where m: "measureLlamaServerTTFT j (Some (traced_net net')) server_url m9StandardTTFTPrompt (Some (quiet clk)) w1 = (m, w2)"
      by (metis surj_pair)
    obtain e w3 where st: "stop_server (traced_os os) False w2 = (e, w3)" by (metis surj_pair)
    have "w' = w3" using assms(1) unfolding darwin_ttft_def start_eq start
      by (auto simp: Inr base prompts assms m st Stop_darwin_def Let_def split: prod.splits)
    moreover obtain s where "snd w3 = snd w2 @ s" "stop_events s" using stop_server_trace [OF st] by blast
    ultimately show ?thesis using w1 measure_trace [OF m]
      by (intro exI [of _ "Started c a # replicate n (Sent health_request) @ ttft_events j @ s"])
        (auto simp: darwin_ok_def one_model_health one_model_ttft one_model_stop ev tev stop_ev)
  qed
qed
text \<open>What the repetitions keep: the events so far are in order.\<close>

definition darwin_state :: "DarwinComputeBenchmarkExecutionOptions \<Rightarrow> 'v traced option \<Rightarrow> bool" where
  "darwin_state p w = (case w of None \<Rightarrow> True | Some v \<Rightarrow> darwin_ok p (snd v))"

lemma darwin_throughput_keeps:
  assumes "TrimSpace (dp_LlamaBenchPath p) \<noteq> []" "darwin_state p w"
  shows "darwin_state p (snd (partial_throughput (darwin_throughput
           (collectDarwinLlamaBenchRun decode (traced_exec ex) cpus) (TrimSpace (dp_LlamaBenchPath p)) (TrimSpace (dp_ModelPath p))) n w))"
proof (cases w)
  case (Some v)
  obtain r v' where run: "collectDarwinLlamaBenchRun decode (traced_exec ex) cpus (TrimSpace (dp_LlamaBenchPath p))
      (TrimSpace (dp_ModelPath p)) v = (r, v')" by (metis surj_pair)
  from darwin_bench_trace [OF assms(1) run] obtain s where "snd v' = snd v @ s" "darwin_ok p s" by blast
  then show ?thesis using assms(2) Some run
    by (auto simp: partial_throughput_def darwin_throughput_def darwin_state_def Let_def darwin_ok_append split: sum.splits)
qed (simp add: partial_throughput_def darwin_state_def)

lemma darwin_ttft_keeps:
  assumes "do_ServerStarter input = traced_os os" "do_HealthClient input = traced_net net"
      "do_TTFTClient input = traced_net net'" "do_Now input = quiet clk" "do_LlamaServerPath input = dp_LlamaServerPath p"
      "darwinBenchmarkServerCommand (dp_LlamaServerPath p) (TrimSpace (dp_ModelPath p)) = Inr (c, a, server_url)"
    and "darwin_state p w"
  shows "darwin_state p (snd (partial_ttft (darwin_ttft j input (TrimSpace (dp_ModelPath p))) n w))"
proof (cases w)
  case (Some v)
  show ?thesis
  proof (cases "darwin_ttft j input (TrimSpace (dp_ModelPath p)) v")
    case None
    then show ?thesis using Some by (simp add: partial_ttft_def darwin_state_def)
  next
    case (Some y)
    obtain r v' where y: "y = (r, v')" by (metis surj_pair)
    from darwin_ttft_trace [OF Some [unfolded y] assms(1-6)] obtain s
      where "snd v' = snd v @ s" "darwin_ok p s" by blast
    then show ?thesis using assms(7) Some y \<open>w = Some v\<close>
      by (simp add: partial_ttft_def darwin_state_def darwin_ok_append)
  qed
qed (simp add: partial_ttft_def darwin_state_def)

lemma darwin_orchestrate_state:
  assumes "orchestrateDarwinComputeBenchmark j (Some ctx) input w = Some (r, w')" "darwin_ok p (snd w)"
    and "do_ServerStarter input = traced_os os" "do_HealthClient input = traced_net net"
      "do_TTFTClient input = traced_net net'" "do_Now input = quiet clk" "do_LlamaServerPath input = dp_LlamaServerPath p"
    and "do_LlamaBenchPath input = dp_LlamaBenchPath p" "do_ModelPath input = dp_ModelPath p"
      "do_CollectRun input = collectDarwinLlamaBenchRun decode (traced_exec ex) cpus"
  shows "darwin_ok p (snd w')"
proof -
  let ?bench = "TrimSpace (dp_LlamaBenchPath p)" and ?model = "TrimSpace (dp_ModelPath p)"
  consider "w' = w" | c a url where "?bench \<noteq> []" "darwinBenchmarkServerCommand (dp_LlamaServerPath p) ?model = Inr (c, a, url)"
    using assms(1) by (auto simp: orchestrateDarwinComputeBenchmark_def Let_def assms(7-9) split: if_splits sum.splits)
  then show ?thesis
  proof cases
    case 1
    then show ?thesis using assms(2) by simp
  next
    case (2 c a url)
    note cmd = 2(2) [unfolded darwin_server_url [OF 2(2)]]
    let ?T = "partial_throughput (darwin_throughput (do_CollectRun input) ?bench ?model)"
    let ?F = "partial_ttft (darwin_ttft j input ?model)"
    obtain q u where loop: "run_loop (partial_ctx ctx) ?T ?F [1..<m9StandardRepetitions + 1] (Some w) = (q, u)"
      by (metis surj_pair)
    have "darwin_state p (snd (run_loop (partial_ctx ctx) ?T ?F [1..<m9StandardRepetitions + 1] (Some w)))"
    proof (rule run_loop_keeps)
      show "darwin_state p (snd (?T n v))" if "darwin_state p v" for n v
        using darwin_throughput_keeps [OF 2(1) that] by (simp add: assms(10))
      show "darwin_state p (snd (?F n v))" if "darwin_state p v" for n v
        using darwin_ttft_keeps [OF assms(3-7) cmd that] .
      show "darwin_state p (Some w)" using assms(2) by (simp add: darwin_state_def)
    qed
    moreover have "u = Some w' \<or> w' = w"
      using assms(1) loop
      by (auto simp: orchestrateDarwinComputeBenchmark_def orchestrateComputeBenchmarkRuns_def returned_def Let_def
          assms(7-9) split: if_splits sum.splits prod.splits option.splits)
    ultimately show ?thesis using assms(2) loop by (auto simp: darwin_state_def)
  qed
qed

section \<open>The sessions return\<close>

text \<open>What the code relies on from the startup context and the poll timer: with \<open>left\<close> the time until
  the deadline of the startup context, a start leaves at most the startup timeout, requests do not give
  time back, and the poll timer wins the select only before the deadline and after the poll interval.\<close>

definition startup_clock :: "duration \<Rightarrow> duration \<Rightarrow> 'w server_os \<Rightarrow> 'w doer \<Rightarrow> ('w \<Rightarrow> duration) \<Rightarrow> bool" where
  "startup_clock timeout interval os net left \<longleftrightarrow>
     (\<forall>c a w w1. so_start os c a w = (Inr (), w1) \<longrightarrow> left w1 \<le> timeout)
   \<and> (\<forall>req w r w1. net req w = (r, w1) \<longrightarrow> left w1 \<le> left w)
   \<and> (\<forall>w w1. so_poll os w = (PollTick, w1) \<longrightarrow> 0 < left w \<and> left w1 \<le> left w - interval)"

lemma startup_clockD:
  assumes "startup_clock timeout interval os net left"
  shows "so_start os c a w = (Inr (), w1) \<Longrightarrow> left w1 \<le> timeout"
    "net req w = (r, w1) \<Longrightarrow> left w1 \<le> left w"
    "so_poll os w = (PollTick, w1) \<Longrightarrow> 0 < left w"
    "so_poll os w = (PollTick, w1) \<Longrightarrow> left w1 \<le> left w - interval"
  using assms unfolding startup_clock_def by blast+

lemma startup_clock_traced:
  assumes "startup_clock timeout interval os net left"
  shows "startup_clock timeout interval (traced_os os) (traced_net net) (\<lambda>w. left (fst w))"
proof -
  note c = assms [unfolded startup_clock_def]
  have "left (fst w1) \<le> timeout" if "so_start (traced_os os) c a w = (Inr (), w1)" for c a w w1
  proof -
    have "so_start os c a (fst w) = (Inr (), fst w1)"
      using that by (auto simp: traced_os_def split: prod.splits sum.splits)
    then show ?thesis using c by blast
  qed
  moreover have "left (fst w1) \<le> left (fst w)" if "traced_net net req w = (r, w1)" for req w r w1
  proof -
    have "net req (fst w) = (r, fst w1)" using that by (auto simp: traced_net_def logged_def split: prod.splits)
    then show ?thesis using c by blast
  qed
  moreover have "0 < left (fst w) \<and> left (fst w1) \<le> left (fst w) - interval"
    if "so_poll (traced_os os) w = (PollTick, w1)" for w w1
  proof -
    have "so_poll os (fst w) = (PollTick, fst w1)" using that by (auto simp: traced_os_def quiet_def split: prod.splits)
    then show ?thesis using c by blast
  qed
  ultimately show ?thesis unfolding startup_clock_def by blast
qed

lemma health_loop_stops:
  assumes "net req w = (r, w1)" "poll w1 = (q, w2)" "healthy r \<or> q \<noteq> PollTick"
  shows "\<exists>a w'. health_loop label net poll req w = Some (a, w') \<and> (w' = w1 \<or> w' = w2)"
  using assms by (subst health_loop.simps) (auto split: poll.split option.split)

text \<open>The health loop sends at most one request more than the intervals that fit.\<close>

lemma health_loop_probes:
  assumes clock: "startup_clock timeout interval os net left"
  shows "left (fst w) \<le> interval * int k \<Longrightarrow>
     \<exists>y n. health_loop label (traced_net net) (so_poll (traced_os os)) req w = Some y
         \<and> snd (snd y) = snd w @ replicate n (Sent req) \<and> n \<le> Suc k"
proof (induction k arbitrary: w)
  case (0 w)
  obtain r w1 where net: "traced_net net req w = (r, w1)" by (metis surj_pair)
  obtain q w2 where poll: "so_poll (traced_os os) w1 = (q, w2)" by (metis surj_pair)
  note c = startup_clock_traced [OF clock]
  have "left (fst w1) \<le> 0" using startup_clockD(2) [OF c net] 0 by simp
  then have q: "q \<noteq> PollTick" using startup_clockD(3) [OF c] poll by fastforce
  have w1: "snd w1 = snd w @ [Sent req]" using net logged_trace [of "Sent req" "net req" w] by (simp add: traced_net_def)
  have w2: "snd w2 = snd w1" using poll quiet_trace [of "so_poll os" w1] by (simp add: traced_os_def)
  obtain y w' where "health_loop label (traced_net net) (so_poll (traced_os os)) req w = Some (y, w')" "w' = w1 \<or> w' = w2"
    using health_loop_stops [of "traced_net net" req w r w1 "so_poll (traced_os os)" q w2, OF net poll] q by blast
  then show ?case using w1 w2 by (intro exI [of _ "(y, w')"] exI [of _ 1]) auto
next
  case (Suc k w)
  obtain r w1 where net: "traced_net net req w = (r, w1)" by (metis surj_pair)
  obtain q w2 where poll: "so_poll (traced_os os) w1 = (q, w2)" by (metis surj_pair)
  note c = startup_clock_traced [OF clock]
  have w1: "snd w1 = snd w @ [Sent req]" using net logged_trace [of "Sent req" "net req" w] by (simp add: traced_net_def)
  have w2: "snd w2 = snd w1" using poll quiet_trace [of "so_poll os" w1] by (simp add: traced_os_def)
  show ?case
  proof (cases "healthy r \<or> q \<noteq> PollTick")
    case True
    then obtain y w' where "health_loop label (traced_net net) (so_poll (traced_os os)) req w = Some (y, w')" "w' = w1 \<or> w' = w2"
      using health_loop_stops [of "traced_net net" req w r w1 "so_poll (traced_os os)" q w2, OF net poll] by blast
    then show ?thesis using w1 w2 by (intro exI [of _ "(y, w')"] exI [of _ 1]) auto
  next
    case False
    have "left (fst w1) \<le> left (fst w)" using startup_clockD(2) [OF c net] .
    moreover have "left (fst w2) \<le> left (fst w1) - interval" using startup_clockD(4) [OF c] poll False by simp
    ultimately have "left (fst w2) \<le> interval * int k" using Suc.prems by (simp add: algebra_simps)
    from Suc.IH [OF this] obtain y n where "health_loop label (traced_net net) (so_poll (traced_os os)) req w2 = Some y"
      "snd (snd y) = snd w2 @ replicate n (Sent req)" "n \<le> Suc k" by blast
    then show ?thesis using False w1 w2
      by (subst health_loop.simps) (auto simp: net poll intro!: exI [of _ "Suc n"])
  qed
qed
lemma start_server_returns:
  assumes clock: "startup_clock timeout interval os net left" and k: "timeout \<le> interval * int k"
  shows "\<exists>r w'. start_server label (Inr (c, a, server_url)) (traced_os os) (traced_net net) w = Some (r, w')
            \<and> (\<exists>rest. snd w' = snd w @ rest \<and> count_list rest (Sent health_request) \<le> Suc k)"
proof -
  obtain q w1 where start: "so_start (traced_os os) c a w = (q, w1)" by (metis surj_pair)
  show ?thesis
  proof (cases q)
    case (Inl e)
    then have "snd w1 = snd w" using start by (auto simp: traced_os_def split: prod.splits sum.splits)
    then show ?thesis using start Inl by (auto simp: start_server_def intro!: exI [of _ "[]"])
  next
    case (Inr u)
    have w1: "snd w1 = snd w @ [Started c a]" and so: "so_start os c a (fst w) = (Inr (), fst w1)"
      using start Inr by (auto simp: traced_os_def split: prod.splits sum.splits)
    then have "left (fst w1) \<le> interval * int k" using startup_clockD(1) [OF clock so] k by simp
    from health_loop_probes [OF clock this, of label health_request] obtain e d w2 n
      where loop: "health_loop label (traced_net net) (so_poll (traced_os os)) health_request w1 = Some ((e, d), w2)"
        and w2: "snd w2 = snd w1 @ replicate n (Sent health_request)" "n \<le> Suc k"
      by (metis prod.collapse)
    have wait: "wait_for_health label (traced_net net) (so_poll (traced_os os)) server_url w1 = Some ((e, d), w2)"
      using loop by (simp add: wait_for_health_def server_url_valid health_request_made)
    have count: "count_list (replicate n (Sent health_request)) (Sent health_request) = n" by (induction n) auto
    show ?thesis
    proof (cases e)
      case None
      then show ?thesis using w1 w2 count
        by (auto simp: start_server_def start Inr wait intro!: exI [of _ "Started c a # replicate n (Sent health_request)"])
    next
      case (Some x)
      obtain se w3 where stop: "stop_server (traced_os os) d w2 = (se, w3)" by (metis surj_pair)
      from stop_server_trace [OF this] obtain s where s: "snd w3 = snd w2 @ s" "stop_events s" by blast
      then have "count_list s (Sent health_request) = 0" by (auto simp: stop_events_def)
      then show ?thesis using w1 w2 count s
        by (auto simp: start_server_def start Inr wait Some stop
            intro!: exI [of _ "Started c a # replicate n (Sent health_request) @ s"])
    qed
  qed
qed

lemma linux_session_returns:
  assumes "startup_clock timeout interval (lw_server world) (lw_net world) left" "timeout \<le> interval * int k"
  shows "\<exists>y. ExecuteLinuxComputeBenchmark j decode (traced_linux world) ctx options w = Some y"
proof -
  let ?os = "traced_os (lw_server world)" and ?net = "traced_net (lw_net world)"
  have "\<exists>r w'. startLinuxComputeBenchmarkServer ?os ?net (lp_LlamaServerPath options) (lp_ModelPath options) w = Some (r, w')"
  proof (cases "linuxBenchmarkServerCommand (lp_LlamaServerPath options) (lp_ModelPath options)")
    case Inl
    then show ?thesis by (simp add: startLinuxComputeBenchmarkServer_def start_server_def)
  next
    case (Inr x)
    obtain c a url where x: "x = (c, a, url)" by (metis surj_pair)
    note cmd = Inr [unfolded x]
    from start_server_returns [OF assms] show ?thesis
      unfolding startLinuxComputeBenchmarkServer_def cmd linux_server_url [OF cmd] by blast
  qed
  then obtain r w' where "startLinuxComputeBenchmarkServer ?os ?net (lp_LlamaServerPath options) (lp_ModelPath options) w = Some (r, w')"
    by blast
  then show ?thesis
    by (cases r) (auto simp: ExecuteLinuxComputeBenchmark_def executeLinuxComputeBenchmark_def traced_linux_def Let_def
        split: sum.split prod.split)
qed

lemma darwin_ttft_returns:
  assumes "startup_clock timeout interval os net left" "timeout \<le> interval * int k"
    and "do_ServerStarter input = traced_os os" "do_HealthClient input = traced_net net"
  shows "\<exists>y. darwin_ttft j input model w = Some y"
proof -
  have "\<exists>r w'. startDarwinComputeBenchmarkServer (traced_os os) (traced_net net) (do_LlamaServerPath input) model w = Some (r, w')"
  proof (cases "darwinBenchmarkServerCommand (do_LlamaServerPath input) model")
    case Inl
    then show ?thesis by (simp add: startDarwinComputeBenchmarkServer_def start_server_def)
  next
    case (Inr x)
    obtain c a url where x: "x = (c, a, url)" by (metis surj_pair)
    note cmd = Inr [unfolded x]
    from start_server_returns [OF assms(1,2)] show ?thesis
      unfolding startDarwinComputeBenchmarkServer_def cmd darwin_server_url [OF cmd] by blast
  qed
  then obtain r w' where "startDarwinComputeBenchmarkServer (traced_os os) (traced_net net) (do_LlamaServerPath input) model w = Some (r, w')"
    by blast
  then show ?thesis
    by (cases r) (auto simp: darwin_ttft_def assms Let_def split: sum.split prod.split)
qed

lemma darwin_session_returns:
  assumes "startup_clock timeout interval (dw_server world) (dw_net world) left" "timeout \<le> interval * int k"
  shows "\<exists>y. ExecuteDarwinComputeBenchmark j decode (traced_darwin world) ctx options w = Some y"
proof -
  let ?input = "\<lparr>do_CollectedAt = dp_CollectedAt options, do_Condition = dp_Condition options,
            do_Quantization = dp_Quantization options, do_LlamaBenchPath = dp_LlamaBenchPath options,
            do_LlamaServerPath = dp_LlamaServerPath options, do_ModelPath = dp_ModelPath options,
            do_ServerStarter = traced_os (dw_server world), do_HealthClient = traced_net (dw_net world),
            do_TTFTClient = traced_net (dw_net world), do_Now = quiet (dw_now world),
            do_CollectRun = collectDarwinLlamaBenchRun decode (traced_exec (dw_exec world)) (dw_cpus world)\<rparr>"
  let ?F = "partial_ttft (darwin_ttft j ?input (TrimSpace (dp_ModelPath options)))"
  let ?T = "partial_throughput (darwin_throughput (do_CollectRun ?input) (TrimSpace (dp_LlamaBenchPath options)) (TrimSpace (dp_ModelPath options)))"
  have "snd (run_loop c ?T ?F ns (Some w)) \<noteq> None" for c ns
  proof (rule run_loop_keeps)
    show "snd (?T n v) \<noteq> None" if "v \<noteq> None" for n v
      using that by (auto simp: partial_throughput_def split: prod.splits)
    show "snd (?F n v) \<noteq> None" if some: "v \<noteq> None" for n and v :: "'a traced option"
    proof -
      obtain v0 where v: "v = Some v0" using some by (cases v) auto
      have "\<exists>y. darwin_ttft j ?input (TrimSpace (dp_ModelPath options)) v0 = Some y"
        by (rule darwin_ttft_returns [OF assms]) simp_all
      then obtain y where "darwin_ttft j ?input (TrimSpace (dp_ModelPath options)) v0 = Some y" by blast
      then show ?thesis by (cases y) (simp add: v partial_ttft_def)
    qed
  qed simp
  then have loop: "\<exists>q w'. run_loop c ?T ?F ns (Some w) = (q, Some w')" for c ns
    by (metis not_None_eq surj_pair snd_conv)
  have "\<exists>y. orchestrateDarwinComputeBenchmark j ctx ?input w = Some y"
  proof (cases ctx)
    case (Some c)
    obtain q w' where "run_loop (partial_ctx c) ?T ?F [1..<m9StandardRepetitions + 1] (Some w) = (q, Some w')" using loop by blast
    then show ?thesis
      by (auto simp: orchestrateDarwinComputeBenchmark_def orchestrateComputeBenchmarkRuns_def Some returned_def Let_def split: sum.split)
  qed (simp add: orchestrateDarwinComputeBenchmark_def)
  then show ?thesis
    by (auto simp: ExecuteDarwinComputeBenchmark_def executeDarwinComputeBenchmark_def traced_darwin_def split: sum.split)
qed
lemma linux_startup_probes: "m9LinuxBenchmarkServerStartupTimeout \<le> m9LinuxBenchmarkServerPollInterval * int 720"
  and darwin_startup_probes: "m9DarwinBenchmarkServerStartupTimeout \<le> m9DarwinBenchmarkServerPollInterval * int 720"
  by (simp_all add: m9LinuxBenchmarkServerStartupTimeout_def m9LinuxBenchmarkServerPollInterval_def
      m9DarwinBenchmarkServerStartupTimeout_def m9DarwinBenchmarkServerPollInterval_def
      Minute_def Second_def Millisecond_def)


section \<open>Witnesses\<close>

text \<open>A machine whose state is the time left for the startup: the server starts but never answers, and
  every benchmark run fails.\<close>

definition deaf_server :: "int server_os" where
  "deaf_server = \<lparr>so_start = (\<lambda>c a v. (Inr (), 3 * Minute)), so_interrupt = (\<lambda>v. v), so_kill = (\<lambda>v. v),
     so_poll = (\<lambda>v. if 0 < v then (PollTick, v - 250 * Millisecond) else (ContextDone (Err ''context deadline exceeded''), v)),
     so_stop = (\<lambda>v. (None, v)), so_timeout = (\<lambda>v. (Err ''context deadline exceeded'', v))\<rparr>"

definition deaf_net :: "int doer" where
  "deaf_net req v = (Inl (Err ''connection refused''), v)"

definition failing_exec :: "int os_exec" where
  "failing_exec c a v = (\<lparr>x_stdout = [], x_stderr = [], x_err = Some (Err ''exit status 1'')\<rparr>, v)"

definition deaf_linux :: "int linux_world" where
  "deaf_linux = \<lparr>lw_server = deaf_server, lw_net = deaf_net, lw_now = (\<lambda>v. (0, v)), lw_exec = failing_exec,
     lw_sysfs = \<lparr>rd_Glob = (\<lambda>p v. None), rd_ReadFile = (\<lambda>p v. None)\<rparr>\<rparr>"

definition deaf_darwin :: "int darwin_world" where
  "deaf_darwin = \<lparr>dw_server = deaf_server, dw_net = deaf_net, dw_now = (\<lambda>v. (0, v)), dw_exec = failing_exec, dw_cpus = 8\<rparr>"

definition linux_options :: LinuxComputeBenchmarkExecutionOptions where
  "linux_options = \<lparr>lp_CollectedAt = 1000, lp_Condition = ''idle'', lp_Quantization = ''Q4_K_M'',
     lp_LlamaBenchPath = ''/opt/llama-bench'', lp_LlamaServerPath = ''/opt/llama-server'', lp_ModelPath = ''/m/model.gguf''\<rparr>"

definition darwin_options :: DarwinComputeBenchmarkExecutionOptions where
  "darwin_options = \<lparr>dp_CollectedAt = 1000, dp_Condition = ''idle'', dp_Quantization = ''Q4_K_M'',
     dp_LlamaBenchPath = ''/opt/llama-bench'', dp_LlamaServerPath = ''/opt/llama-server'', dp_ModelPath = ''/m/model.gguf''\<rparr>"

definition toy_codec :: ttft_codec where
  "toy_codec = \<lparr>tt_request = (\<lambda>r. Some ''{}''), tt_event = (\<lambda>s. None)\<rparr>"

lemma deaf_clock:
  "startup_clock m9LinuxBenchmarkServerStartupTimeout m9LinuxBenchmarkServerPollInterval deaf_server deaf_net (\<lambda>v. v)"
  "startup_clock m9DarwinBenchmarkServerStartupTimeout m9DarwinBenchmarkServerPollInterval deaf_server deaf_net (\<lambda>v. v)"
  by (simp_all add: startup_clock_def deaf_server_def deaf_net_def m9LinuxBenchmarkServerStartupTimeout_def
      m9LinuxBenchmarkServerPollInterval_def m9DarwinBenchmarkServerStartupTimeout_def m9DarwinBenchmarkServerPollInterval_def
      Minute_def Second_def Millisecond_def split: if_splits)

lemma deaf_worlds: "lw_server deaf_linux = deaf_server" "lw_net deaf_linux = deaf_net"
  "dw_server deaf_darwin = deaf_server" "dw_net deaf_darwin = deaf_net"
  by (simp_all add: deaf_linux_def deaf_darwin_def)




text \<open>When the server exits before it is healthy, the health loop has received the only value of
  \<open>waitDone\<close>: \<open>Stop\<close> then waits for the whole stop timeout and kills a process that is gone.\<close>

lemma early_exit_waits_and_kills:
  assumes "linuxBenchmarkServerCommand sp mp = Inr (c, a, url)" "so_start os c a w = (Inr (), w1)"
    and "net health_request w1 = (r, w2)" "\<not> healthy r" "so_poll os w2 = (ProcessDone e, w3)"
  shows "\<exists>x. startLinuxComputeBenchmarkServer os net sp mp w
              = Some (Inl x, so_kill os (snd (so_timeout os (so_interrupt os w3))))"
proof -
  have "\<exists>x. health_loop ''M9'' net (so_poll os) health_request w1 = Some ((Some x, True), w3)"
    using assms(3-) by (subst health_loop.simps) (auto split: option.split)
  then obtain x where loop: "health_loop ''M9'' net (so_poll os) health_request w1 = Some ((Some x, True), w3)" by blast
  show ?thesis
    unfolding startLinuxComputeBenchmarkServer_def start_server_def wait_for_health_def assms(1)
      linux_server_url [OF assms(1)]
    by (simp add: assms(2) server_url_valid health_request_made loop stop_server_def split: prod.split)
qed

end
