(* ===== verification/BenchTelemetry.thy ===== *)
theory BenchTelemetry
  imports BenchDarwin
begin

text \<open>
  What the telemetry parsers of the compute benchmark promise: throttling is reported exactly on the
  evidence of the counters or limits, and a peak memory is the figure of the output in bytes, never a
  wrapped one.
\<close>

section \<open>Throttling\<close>

lemma throttle_loop_eq:
  "throttle_loop after before (c, t) =
     (c \<or> (\<exists>(p, n)\<in>set before. \<exists>m. map_of after p = Some m \<and> n \<le> m),
      t \<or> (\<exists>(p, n)\<in>set before. \<exists>m. map_of after p = Some m \<and> n < m))"
  by (induction after before "(c, t)" arbitrary: c t rule: throttle_loop.induct)
    (auto simp: not_less split: option.splits prod.splits)

text \<open>The limits after a line, as a function of the key and the number of the line.\<close>

definition thermal_entry :: "string \<Rightarrow> (string \<times> int) option" where
  "thermal_entry raw =
     (case Cut (CHR ''='') (TrimSpace raw) of None \<Rightarrow> None
      | Some (k, v) \<Rightarrow> (case Atoi (TrimSpace v) of None \<Rightarrow> None | Some n \<Rightarrow> Some (TrimSpace k, n)))"

definition last_entry :: "string \<Rightarrow> string list \<Rightarrow> int option" where
  "last_entry key lines = map_of (rev (List.map_filter thermal_entry lines)) key"

lemma thermal_line_eq:
  "thermal_line t raw =
     (case thermal_entry raw of None \<Rightarrow> t
      | Some (key, n) \<Rightarrow>
          if key = ''CPU_Scheduler_Limit'' then t\<lparr>th_scheduler := Some n\<rparr>
          else if key = ''CPU_Available_CPUs'' then t\<lparr>th_available := Some n\<rparr>
          else if key = ''CPU_Speed_Limit'' then t\<lparr>th_speed := Some n\<rparr> else t)"
  by (cases "TrimSpace raw = []")
    (auto simp: thermal_line_def thermal_entry_def Cut_def Let_def split: option.splits prod.splits)

lemma map_filter_snoc:
  "List.map_filter f (xs @ [x]) = List.map_filter f xs @ (case f x of None \<Rightarrow> [] | Some y \<Rightarrow> [y])"
  by (simp add: List.map_filter_def split: option.split)

lemma thermal_lines_eq:
  "foldl thermal_line \<lparr>th_scheduler = None, th_available = None, th_speed = None\<rparr> lines =
     \<lparr>th_scheduler = last_entry ''CPU_Scheduler_Limit'' lines, th_available = last_entry ''CPU_Available_CPUs'' lines,
      th_speed = last_entry ''CPU_Speed_Limit'' lines\<rparr>"
proof (induction lines rule: rev_induct)
  case Nil
  show ?case by (simp add: last_entry_def List.map_filter_def)
next
  case (snoc x xs)
  show ?case
  proof (cases "thermal_entry x")
    case None
    then show ?thesis using snoc by (simp add: thermal_line_eq last_entry_def map_filter_snoc)
  next
    case (Some e)
    obtain key n where "e = (key, n)" by (metis surj_pair)
    then show ?thesis using snoc Some
      by (auto simp: thermal_line_eq last_entry_def map_filter_snoc)
  qed
qed

text \<open>Throttling is reported on evidence only. On Linux it is unknown unless some counter was read
  before and after and did not run backwards, and then it is reported exactly when one of them
  increased. On macOS it is reported exactly when the last value of one of the three limits is below its
  full value, and an incomplete or impossible set of limits is an error.\<close>

theorem throttling_on_evidence:
  "(linuxBenchmarkThrottleDelta before after = Some throttled \<longleftrightarrow>
     (\<exists>(p, n)\<in>set before. \<exists>m. map_of after p = Some m \<and> n \<le> m)
     \<and> throttled = (\<exists>(p, n)\<in>set before. \<exists>m. map_of after p = Some m \<and> n < m))
   \<and> (parseDarwinThermalState raw cpus = Inr hot \<longleftrightarrow>
     (\<exists>s a v. last_entry ''CPU_Scheduler_Limit'' (Split (CHR 0x0A) raw) = Some s
        \<and> last_entry ''CPU_Available_CPUs'' (Split (CHR 0x0A) raw) = Some a
        \<and> last_entry ''CPU_Speed_Limit'' (Split (CHR 0x0A) raw) = Some v
        \<and> s \<in> {0..100} \<and> v \<in> {0..100} \<and> a \<in> {1..cpus}
        \<and> hot = (\<not> (s = 100 \<and> v = 100 \<and> a = cpus))))"
proof
  show "linuxBenchmarkThrottleDelta before after = Some throttled \<longleftrightarrow>
     (\<exists>(p, n)\<in>set before. \<exists>m. map_of after p = Some m \<and> n \<le> m)
     \<and> throttled = (\<exists>(p, n)\<in>set before. \<exists>m. map_of after p = Some m \<and> n < m)"
    unfolding linuxBenchmarkThrottleDelta_def throttle_loop_eq by auto
  show "parseDarwinThermalState raw cpus = Inr hot \<longleftrightarrow>
     (\<exists>s a v. last_entry ''CPU_Scheduler_Limit'' (Split (CHR 0x0A) raw) = Some s
        \<and> last_entry ''CPU_Available_CPUs'' (Split (CHR 0x0A) raw) = Some a
        \<and> last_entry ''CPU_Speed_Limit'' (Split (CHR 0x0A) raw) = Some v
        \<and> s \<in> {0..100} \<and> v \<in> {0..100} \<and> a \<in> {1..cpus}
        \<and> hot = (\<not> (s = 100 \<and> v = 100 \<and> a = cpus)))"
    unfolding parseDarwinThermalState_def thermal_lines_eq Let_def
    by (auto split: option.splits if_splits)
qed

section \<open>Peak memory\<close>

lemma kib_fits:
  fixes kib :: u64
  shows "kib > (- 1) div 1024 \<longleftrightarrow> 2 ^ 64 \<le> 1024 * unat kib"
    and "\<not> kib > (- 1) div 1024 \<Longrightarrow> unat (kib * 1024) = 1024 * unat kib"
proof -
  have "unat ((- 1 :: u64) div 1024) = (2 ^ 64 - 1) div 1024" by (simp add: unat_div unsigned_minus_1_eq_mask mask_eq_exp_minus_1)
  then have iff: "kib > (- 1) div 1024 \<longleftrightarrow> unat kib > (2 ^ 64 - 1) div 1024" by (simp add: word_less_nat_alt)
  then show "kib > (- 1) div 1024 \<longleftrightarrow> 2 ^ 64 \<le> 1024 * unat kib" by auto
  show "unat (kib * 1024) = 1024 * unat kib" if "\<not> kib > (- 1) div 1024"
    using that iff by (simp add: unat_word_ariths)
qed

definition kib_bytes :: "u64 option \<Rightarrow> u64 \<Rightarrow> bool" where
  "kib_bytes kib v \<longleftrightarrow> (\<exists>k. kib = Some k \<and> 0 < unat k \<and> unat v = 1024 * unat k)"

lemma kib_bytes_iff:
  "(case kib of None \<Rightarrow> Inl e | Some k \<Rightarrow> if k = 0 then Inl e else if k > (- 1) div 1024 then Inl e' else Inr (k * 1024)) = Inr v
   \<longleftrightarrow> kib_bytes kib v"
proof (cases kib)
  case (Some k)
  show ?thesis
  proof (cases "k > (- 1) div 1024")
    case True
    moreover have "unat v < 2 ^ LENGTH(64)" by (rule unsigned_less)
    ultimately show ?thesis using Some kib_fits(1) [of k] by (auto simp: kib_bytes_def)
  next
    case False
    have "v = k * 1024 \<longleftrightarrow> unat v = 1024 * unat k" using kib_fits(2) [OF False] by (metis unsigned_word_eqI)
    then show ?thesis using Some False by (auto simp: kib_bytes_def unat_gt_0)
  qed
qed (simp add: kib_bytes_def)

lemma peak_rss_line_eq:
  "peak_rss_line lines =
     (case find (\<lambda>l. HasPrefix (TrimSpace l) ''Maximum resident set size (kbytes):'') lines of
        None \<Rightarrow> Inl (Err ''Linux peak RSS was not found'')
      | Some l \<Rightarrow>
         (case ParseUint (TrimSpace (TrimPrefix (TrimSpace l) ''Maximum resident set size (kbytes):'')) of
            None \<Rightarrow> Inl (Err ''invalid Linux peak RSS value'')
          | Some k \<Rightarrow> if k = 0 then Inl (Err ''invalid Linux peak RSS value'')
                      else if k > (- 1) div 1024 then Inl (Err ''Linux peak RSS value overflows bytes'')
                      else Inr (k * 1024)))"
  by (induction lines) (simp_all add: Let_def)

lemma darwin_rss_line_eq:
  "darwin_rss_line lines =
     (case find (\<lambda>l. HasSuffix (TrimSpace l) ''maximum resident set size'') lines of
        None \<Rightarrow> Inl (Err ''macOS maximum resident set size not found'')
      | Some l \<Rightarrow>
         (case ParseUint (TrimSpace (TrimSuffix (TrimSpace l) ''maximum resident set size'')) of
            None \<Rightarrow> Inl (Err ''invalid macOS maximum resident set size'')
          | Some n \<Rightarrow> if n = 0 then Inl (Err ''invalid macOS maximum resident set size'') else Inr n))"
  by (induction lines) (simp_all add: Let_def)

text \<open>A peak memory is the figure of the output in bytes. The Linux parser and the RSS parser of
  macOS succeed exactly on a positive number of KiB whose bytes fit 64 bits, in the first line that
  carries the label (the only field), and return 1024 times it without wrap-around; the macOS peak is
  the positive number of bytes before the label. Everything else is an error.\<close>

theorem peak_memory_exact:
  "(parseLinuxTimePeakRSS raw = Inr v \<longleftrightarrow>
      (\<exists>l. find (\<lambda>l. HasPrefix (TrimSpace l) ''Maximum resident set size (kbytes):'') (Split (CHR 0x0A) raw) = Some l
         \<and> kib_bytes (ParseUint (TrimSpace (TrimPrefix (TrimSpace l) ''Maximum resident set size (kbytes):''))) v))
   \<and> (parseDarwinProcessRSS raw = Inr v \<longleftrightarrow> (\<exists>field. Fields raw = [field] \<and> kib_bytes (ParseUint field) v))
   \<and> (parseDarwinTimePeakRSS raw = Inr v \<longleftrightarrow>
      (\<exists>l. find (\<lambda>l. HasSuffix (TrimSpace l) ''maximum resident set size'') (Split (CHR 0x0A) raw) = Some l
         \<and> ParseUint (TrimSpace (TrimSuffix (TrimSpace l) ''maximum resident set size'')) = Some v \<and> v \<noteq> 0))"
proof (intro conjI)
  show "parseLinuxTimePeakRSS raw = Inr v \<longleftrightarrow>
      (\<exists>l. find (\<lambda>l. HasPrefix (TrimSpace l) ''Maximum resident set size (kbytes):'') (Split (CHR 0x0A) raw) = Some l
         \<and> kib_bytes (ParseUint (TrimSpace (TrimPrefix (TrimSpace l) ''Maximum resident set size (kbytes):''))) v)"
    unfolding parseLinuxTimePeakRSS_def peak_rss_line_eq
    by (cases "find (\<lambda>l. HasPrefix (TrimSpace l) ''Maximum resident set size (kbytes):'') (Split (CHR 0x0A) raw)")
      (simp_all add: kib_bytes_iff)
  show "parseDarwinProcessRSS raw = Inr v \<longleftrightarrow> (\<exists>field. Fields raw = [field] \<and> kib_bytes (ParseUint field) v)"
    unfolding parseDarwinProcessRSS_def by (simp add: kib_bytes_iff split: list.split)
  show "parseDarwinTimePeakRSS raw = Inr v \<longleftrightarrow>
      (\<exists>l. find (\<lambda>l. HasSuffix (TrimSpace l) ''maximum resident set size'') (Split (CHR 0x0A) raw) = Some l
         \<and> ParseUint (TrimSpace (TrimSuffix (TrimSpace l) ''maximum resident set size'')) = Some v \<and> v \<noteq> 0)"
    unfolding parseDarwinTimePeakRSS_def darwin_rss_line_eq
    by (auto split: option.splits)
qed

text \<open>Output that exceeds the limit is cut, never refused: what a runner keeps is a prefix of at most
  2 MiB of each stream, on both platforms.\<close>

lemma captured_output_bounded:
  "captured m9LinuxLimitedBuffer_Write m9LinuxBenchmarkOutputLimit chunks = take (2 * 2 ^ 20) (concat chunks)"
  "captured m9DarwinLimitedBuffer_Write m9DarwinBenchmarkOutputLimit chunks = take (2 * 2 ^ 20) (concat chunks)"
  using linux_buffer.feed_prefix [of m9LinuxBenchmarkOutputLimit "[]" chunks]
    darwin_buffer.feed_prefix [of m9DarwinBenchmarkOutputLimit "[]" chunks]
  by (simp_all add: captured_def linux_buffer.feed_def darwin_buffer.feed_def m9LinuxBenchmarkOutputLimit_def
      m9DarwinBenchmarkOutputLimit_def)

end
