(* ===== verification/GoNumber.thy ===== *)
theory GoNumber
  imports GoFloat GoEncoding GoStrings
begin

text \<open>
  Go's \<open>strconv.ParseFloat(s, 64)\<close>: decimal and hexadecimal floating-point numbers with digit
  separators, infinities and NaN. The value is the exact number rounded to 53 bits; \<open>None\<close> is any
  error, of syntax or of range.
\<close>

definition lower_ascii :: "string \<Rightarrow> string" where
  "lower_ascii s = map (\<lambda>c. if 65 \<le> (of_char c :: nat) \<and> (of_char c :: nat) \<le> 90 then char_of ((of_char c :: nat) + 32) else c) s"

definition special_float :: "string \<Rightarrow> f64 option" where
  "special_float s =
     (let (sign, r) = (case s of [] \<Rightarrow> (None, [])
                       | c # cs \<Rightarrow> if c = CHR ''+'' then (Some False, cs) else if c = CHR ''-'' then (Some True, cs) else (None, s));
          t = lower_ascii r
      in if t = ''inf'' \<or> t = ''infinity'' then Some (if sign = Some True then NegInf else PosInf)
         else if t = ''nan'' \<and> sign = None then Some NaN else None)"

text \<open>The separators are allowed between digits and after the base prefix: the state is \<open>0\<close> after a
  digit (or the prefix), the separator after a separator, something else otherwise.\<close>

fun underscores_from :: "bool \<Rightarrow> char \<Rightarrow> string \<Rightarrow> bool" where
  "underscores_from hex i [] = (i \<noteq> CHR ''_'')"
| "underscores_from hex i (c # s) =
     (if is_digit c \<or> (hex \<and> hex_val c \<noteq> None) then underscores_from hex (CHR ''0'') s
      else if c = CHR ''_'' then i = CHR ''0'' \<and> underscores_from hex (CHR ''_'') s
      else i \<noteq> CHR ''_'' \<and> underscores_from hex (CHR ''!'') s)"

definition unsigned_part :: "string \<Rightarrow> bool \<times> string" where
  "unsigned_part s = (case s of [] \<Rightarrow> (False, [])
     | c # cs \<Rightarrow> if c = CHR ''-'' then (True, cs) else if c = CHR ''+'' then (False, cs) else (False, s))"

definition underscoreOK :: "string \<Rightarrow> bool" where
  "underscoreOK s =
     (case snd (unsigned_part s) of
        c # d # r \<Rightarrow> if c = CHR ''0'' \<and> lower_ascii [d] \<in> {''b'', ''o'', ''x''}
                     then underscores_from (lower_ascii [d] = ''x'') (CHR ''0'') r
                     else underscores_from False (CHR ''^'') (c # d # r)
      | r \<Rightarrow> underscores_from False (CHR ''^'') r)"

text \<open>The digits of the mantissa: their value, how many follow the point, whether there is one at all,
  and the rest of the text.\<close>

fun read_mantissa :: "bool \<Rightarrow> bool \<Rightarrow> int \<times> int \<times> bool \<Rightarrow> string \<Rightarrow> (int \<times> int \<times> bool) \<times> string" where
  "read_mantissa hex dot acc [] = (acc, [])"
| "read_mantissa hex dot (m, f, saw) (c # s) =
     (if c = CHR ''_'' then read_mantissa hex dot (m, f, saw) s
      else if c = CHR ''.'' then (if dot then ((m, f, saw), c # s) else read_mantissa hex True (m, f, saw) s)
      else if is_digit c then read_mantissa hex dot ((if hex then 16 else 10) * m + digit_val c, (if dot then f + 1 else f), True) s
      else case (if hex then hex_val c else None) of
             Some v \<Rightarrow> read_mantissa hex dot (16 * m + int v, (if dot then f + 1 else f), True) s
           | None \<Rightarrow> ((m, f, saw), c # s))"

fun read_exponent :: "int \<Rightarrow> string \<Rightarrow> int \<times> string" where
  "read_exponent e [] = (e, [])"
| "read_exponent e (c # s) =
     (if c = CHR ''_'' then read_exponent e s
      else if is_digit c then read_exponent (if e < 10000 then 10 * e + digit_val c else e) s
      else (e, c # s))"

text \<open>The optional exponent behind the mantissa; \<open>None\<close> is a syntax error.\<close>

definition exponent_part :: "bool \<Rightarrow> string \<Rightarrow> (int \<times> string) option" where
  "exponent_part hex s =
     (case s of
        c # r \<Rightarrow>
          if lower_ascii [c] = (if hex then ''p'' else ''e'')
          then let (neg, ds) = unsigned_part r
               in (case ds of [] \<Rightarrow> None
                   | d # _ \<Rightarrow> if \<not> is_digit d then None
                             else let (e, rest) = read_exponent 0 ds in Some (if neg then - e else e, rest))
          else if hex then None else Some (0, s)
      | [] \<Rightarrow> if hex then None else Some (0, []))"

definition float_value :: "bool \<Rightarrow> bool \<Rightarrow> int \<Rightarrow> int \<Rightarrow> int \<Rightarrow> real" where
  "float_value hex neg m f e =
     (if neg then - 1 else 1) * of_int m * (if hex then 2 powi (e - 4 * f) else 10 powi (e - f))"

definition ParseFloat :: "string \<Rightarrow> f64 option" where
  "ParseFloat s =
     (case special_float s of Some x \<Rightarrow> Some x
      | None \<Rightarrow>
         (let (neg, r) = unsigned_part s;
              (hex, body) = (case r of
                 c # d # e # t \<Rightarrow> if c = CHR ''0'' \<and> lower_ascii [d] = ''x'' then (True, e # t) else (False, r)
               | _ \<Rightarrow> (False, r));
              ((m, f, saw), rest) = read_mantissa hex False (0, 0, False) body
          in if \<not> saw then None
             else case exponent_part hex rest of None \<Rightarrow> None
             | Some (e, rest') \<Rightarrow>
                 if rest' \<noteq> [] \<or> (CHR ''_'' \<in> set s \<and> \<not> underscoreOK s) then None
                 else case fl (float_value hex neg m f e) of Fin x \<Rightarrow> Some (Fin x) | _ \<Rightarrow> None))"

text \<open>\<open>time.Duration(x * float64(time.Second))\<close> and other conversions stay in 64 bits.\<close>

lemma f_to_int_range: "- (2 ^ 63) \<le> f_to_int x \<and> f_to_int x < 2 ^ 63"
  by (cases x) auto

end
