(* ===== verification/NetLinux.thy ===== *)
theory NetLinux
  imports NetMeasure GoNumber SubmissionAuth
begin

text \<open>
  \<^verbatim>\<open>agent/network_benchmark_linux.go\<close>: the network benchmark of Linux, from the routing table,
  timed transfers and timed control connections, all of them commands of the machine. Commands and
  temporary files act on a state \<open>'w\<close> of the outside world; the contexts with their timeouts are left
  out (a command may fail).
\<close>

definition networkBenchmarkOutputLimit :: int where "networkBenchmarkOutputLimit = 512 * 2 ^ 10"
definition networkBenchmarkProbeCount :: nat where "networkBenchmarkProbeCount = 10"
definition networkBenchmarkControlURL :: string where
  "networkBenchmarkControlURL = ''https://api.meshalot.com/v1/health''"

definition linuxNetworkBenchmarkDownloadBytes :: int where "linuxNetworkBenchmarkDownloadBytes = 25000000"
definition linuxNetworkBenchmarkUploadBytes :: int where "linuxNetworkBenchmarkUploadBytes = 10000000"
definition linuxNetworkBenchmarkThroughputSamples :: nat where "linuxNetworkBenchmarkThroughputSamples = 3"
definition linuxNetworkBenchmarkPercentile :: f64 where "linuxNetworkBenchmarkPercentile = fl (9 / 10)"
definition linuxNetworkBenchmarkDownloadURL :: string where
  "linuxNetworkBenchmarkDownloadURL = ''https://speed.cloudflare.com/__down?bytes=25000000''"
definition linuxNetworkBenchmarkUploadURL :: string where
  "linuxNetworkBenchmarkUploadURL = ''https://speed.cloudflare.com/__up''"

definition networkBenchmarkLimitedBuffer_Write :: "buffer \<Rightarrow> string \<Rightarrow> nat \<times> buffer" where
  "networkBenchmarkLimitedBuffer_Write b p0 =
     (case b of (w, n) \<Rightarrow>
        if n \<le> 0 then (length p0, b)
        else let p = (if int (length p0) > n then take (nat n) p0 else p0)
             in (length p0, (w @ p, n - int (length p))))"

interpretation linux_network_buffer: limited_writer networkBenchmarkLimitedBuffer_Write
  by unfold_locales (auto simp: networkBenchmarkLimitedBuffer_Write_def Let_def)

definition networkBenchmarkOSRunner_Run :: "'w os_exec \<Rightarrow> 'w runner" where
  "networkBenchmarkOSRunner_Run ex name args w =
     (case ex name args w of (r, w') \<Rightarrow>
        let stdout = captured networkBenchmarkLimitedBuffer_Write networkBenchmarkOutputLimit (x_stdout r);
            stderr = captured networkBenchmarkLimitedBuffer_Write networkBenchmarkOutputLimit (x_stderr r)
        in ((if stdout \<noteq> [] then stdout else stderr, x_err r), w'))"

section \<open>Parsing\<close>

fun route_device :: "string list \<Rightarrow> err + string" where
  "route_device (a # b # rest) =
     (if a = ''dev'' \<and> TrimSpace b \<noteq> [] then Inr (TrimSpace b) else route_device (b # rest))"
| "route_device _ = Inl (Err ''Linux route output does not contain device'')"

definition parseLinuxRouteInterface :: "string \<Rightarrow> err + string" where
  "parseLinuxRouteInterface raw = route_device (Fields raw)"

definition parseLinuxThroughputResult :: "string \<Rightarrow> int \<Rightarrow> err + f64" where
  "parseLinuxThroughputResult raw expectedBytes =
     (case Fields raw of
        [status, transferred, speed] \<Rightarrow>
          (case Atoi status of
             None \<Rightarrow> Inl (Err ''Linux throughput endpoint returned invalid HTTP status'')
           | Some statusCode \<Rightarrow>
               if statusCode < 200 \<or> statusCode > 299
               then Inl (Err ''Linux throughput endpoint returned invalid HTTP status'')
               else case ParseFloat transferred of
                 None \<Rightarrow> Inl (Err ''invalid Linux throughput byte count'')
               | Some transferredBytes \<Rightarrow>
                   if \<not> finiteNonNegative transferredBytes then Inl (Err ''invalid Linux throughput byte count'')
                   else if f_lt transferredBytes (f_of_int expectedBytes)
                   then Inl (Err ''Linux throughput transfer was incomplete'')
                   else case ParseFloat speed of
                     None \<Rightarrow> Inl (Err ''invalid Linux throughput speed'')
                   | Some speedBytesPerSecond \<Rightarrow>
                       if \<not> finiteNonNegative speedBytesPerSecond \<or> f_le speedBytesPerSecond (Fin 0)
                       then Inl (Err ''invalid Linux throughput speed'')
                       else Inr (f_div (f_mul speedBytesPerSecond (Fin 8)) (Fin 1000000)))
      | _ \<Rightarrow> Inl (Err ''invalid Linux throughput result''))"

definition linuxPercentile :: "f64 list \<Rightarrow> f64 \<Rightarrow> err + f64" where
  "linuxPercentile samples percentile =
     (if samples = [] then Inl (Err ''Linux throughput samples are empty'')
      else if f_lt percentile (Fin 0) \<or> f_lt (Fin 1) percentile
      then Inl (Err ''Linux throughput percentile is invalid'')
      else let sorted = sort samples;
               index = f_mul (f_of_int (int (length sorted) - 1)) percentile;
               lower = f_to_int index;
               upper = (if f_ne (f_of_int lower) index then lower + 1 else lower)
           in if lower = upper then Inr (sorted ! nat lower)
              else let fraction = f_sub index (f_of_int lower)
                   in Inr (f_add (sorted ! nat lower)
                                 (f_mul (f_sub (sorted ! nat upper) (sorted ! nat lower)) fraction)))"

section \<open>Commands\<close>

definition determineLinuxPreferredPath :: "'w runner \<Rightarrow> 'w \<Rightarrow> (err + string) \<times> 'w" where
  "determineLinuxPreferredPath run w =
     (case run ''/usr/sbin/ip'' [''-4'', ''route'', ''get'', ''1.1.1.1''] w of ((raw4, e4), w1) \<Rightarrow>
      case (if e4 = None then parseLinuxRouteInterface raw4 else Inl (Err [])) of
        Inr path \<Rightarrow> (Inr path, w1)
      | Inl _ \<Rightarrow>
         (case run ''/usr/sbin/ip'' [''-6'', ''route'', ''get'', ''2606:4700:4700::1111''] w1 of ((raw6, e6), w2) \<Rightarrow>
          case (if e6 = None then parseLinuxRouteInterface raw6 else Inl (Err [])) of
            Inr path \<Rightarrow> (Inr path, w2)
          | Inl _ \<Rightarrow> (Inl (Err ''default Linux network interface not found''), w2)))"

definition upload_args :: "string \<Rightarrow> string \<Rightarrow> string \<Rightarrow> string list" where
  "upload_args family path uploadPath =
     [family, ''--interface'', path, ''--connect-timeout'', ''5'', ''--max-time'', ''45'', ''-sS'',
      ''-H'', ''Content-Type: application/octet-stream'', ''--data-binary'', ''@'' @ uploadPath,
      ''-o'', ''/dev/null'', ''-w'', ''%{http_code} %{size_upload} %{speed_upload}'' @ [CHR 0x0A], linuxNetworkBenchmarkUploadURL]"

definition download_args :: "string \<Rightarrow> string \<Rightarrow> string list" where
  "download_args family path =
     [family, ''--interface'', path, ''--connect-timeout'', ''5'', ''--max-time'', ''45'', ''-sS'',
      ''-o'', ''/dev/null'', ''-w'', ''%{http_code} %{size_download} %{speed_download}'' @ [CHR 0x0A], linuxNetworkBenchmarkDownloadURL]"

text \<open>The loop of the transfers with \<open>n\<close> of them still to do.\<close>

fun throughput_loop :: "'w runner \<Rightarrow> string \<Rightarrow> string \<Rightarrow> bool \<Rightarrow> string \<Rightarrow> int \<Rightarrow> nat \<Rightarrow> 'w \<Rightarrow> (err + f64 list) \<times> 'w" where
  "throughput_loop run family path upload uploadPath expectedBytes 0 w = (Inr [], w)"
| "throughput_loop run family path upload uploadPath expectedBytes (Suc n) w =
     (case run ''/usr/bin/curl'' (if upload then upload_args family path uploadPath else download_args family path) w of
        ((raw, Some e), w1) \<Rightarrow>
          (Inl (Err (if upload then ''Linux upload throughput test failed'' else ''Linux download throughput test failed'')), w1)
      | ((raw, None), w1) \<Rightarrow>
          (case parseLinuxThroughputResult raw expectedBytes of
             Inl e \<Rightarrow> (Inl e, w1)
           | Inr mbps \<Rightarrow>
               (case throughput_loop run family path upload uploadPath expectedBytes n w1 of
                  (r, w2) \<Rightarrow> (bindE r (\<lambda>samples. Inr (mbps # samples)), w2))))"

definition collectLinuxThroughputSamples :: "'w runner \<Rightarrow> string \<Rightarrow> string \<Rightarrow> bool \<Rightarrow> string \<Rightarrow> int \<Rightarrow> 'w \<Rightarrow> (err + f64) \<times> 'w" where
  "collectLinuxThroughputSamples run family path upload uploadPath expectedBytes w =
     (case throughput_loop run family path upload uploadPath expectedBytes linuxNetworkBenchmarkThroughputSamples w of
        (r, w') \<Rightarrow> (bindE r (\<lambda>samples. linuxPercentile samples linuxNetworkBenchmarkPercentile), w'))"

text \<open>The operations on the temporary file; \<open>None\<close> and \<open>False\<close> are failures.\<close>

record 'w temp_files =
  tf_CreateTemp :: "'w \<Rightarrow> string option \<times> 'w"
  tf_Truncate :: "string \<Rightarrow> int \<Rightarrow> 'w \<Rightarrow> bool \<times> 'w"
  tf_Close :: "string \<Rightarrow> 'w \<Rightarrow> bool \<times> 'w"
  tf_Remove :: "string \<Rightarrow> 'w \<Rightarrow> 'w"

text \<open>The path of the payload; the clean-up function that comes with it removes the path.\<close>

definition createLinuxUploadPayload :: "'w temp_files \<Rightarrow> int \<Rightarrow> 'w \<Rightarrow> (err + string) \<times> 'w" where
  "createLinuxUploadPayload fs size0 w =
     (if size0 \<le> 0 then (Inl (Err ''Linux upload payload size must be positive''), w)
      else case tf_CreateTemp fs w of
        (None, w1) \<Rightarrow> (Inl (Err ''create Linux upload payload''), w1)
      | (Some path, w1) \<Rightarrow>
         (case tf_Truncate fs path size0 w1 of
            (False, w2) \<Rightarrow> (case tf_Close fs path w2 of (_, w3) \<Rightarrow> (Inl (Err ''size Linux upload payload''), tf_Remove fs path w3))
          | (True, w2) \<Rightarrow>
             (case tf_Close fs path w2 of
                (False, w3) \<Rightarrow> (Inl (Err ''close Linux upload payload''), tf_Remove fs path w3)
              | (True, w3) \<Rightarrow> (Inr path, w3))))"

definition failed_probe :: networkProbeSample where
  "failed_probe = \<lparr>np_ConnectDuration = 0, np_Success = False\<rparr>"

text \<open>What a probe makes of the output of its command; both platforms have the same text.\<close>

definition probe_result :: "string \<times> err option \<Rightarrow> networkProbeSample" where
  "probe_result out =
     (case out of
        (raw, Some e) \<Rightarrow> failed_probe
      | (raw, None) \<Rightarrow>
         (case Fields raw of
            [status, time] \<Rightarrow>
              (case Atoi status of None \<Rightarrow> failed_probe
               | Some statusCode \<Rightarrow>
                  (case ParseFloat time of None \<Rightarrow> failed_probe
                   | Some connectSeconds \<Rightarrow>
                       if \<not> finiteNonNegative connectSeconds \<or> f_le connectSeconds (Fin 0) then failed_probe
                       else if statusCode < 100 \<or> statusCode > 599 then failed_probe
                       else \<lparr>np_ConnectDuration = f_to_int (f_mul connectSeconds (f_of_int Second)), np_Success = True\<rparr>))
          | _ \<Rightarrow> failed_probe))"

definition control_args_linux :: "string \<Rightarrow> string \<Rightarrow> string list" where
  "control_args_linux family path =
     [family, ''--interface'', path, ''--connect-timeout'', ''3'', ''--max-time'', ''6'', ''-sS'', ''-o'', ''/dev/null'',
      ''-w'', ''%{http_code} %{time_connect}'' @ [CHR 0x0A], networkBenchmarkControlURL]"

definition runNetworkControlProbe_linux :: "'w runner \<Rightarrow> string \<Rightarrow> string \<Rightarrow> 'w \<Rightarrow> networkProbeSample \<times> 'w" where
  "runNetworkControlProbe_linux run family path w =
     (case run ''/usr/bin/curl'' (control_args_linux family path) w of (out, w') \<Rightarrow> (probe_result out, w'))"

text \<open>\<open>n\<close> probes in a row.\<close>

fun probes :: "('w \<Rightarrow> networkProbeSample \<times> 'w) \<Rightarrow> nat \<Rightarrow> 'w \<Rightarrow> networkProbeSample list \<times> 'w" where
  "probes probe 0 w = ([], w)"
| "probes probe (Suc n) w =
     (case probe w of (s, w1) \<Rightarrow> (case probes probe n w1 of (ss, w2) \<Rightarrow> (s # ss, w2)))"

section \<open>Collection\<close>

text \<open>From the warm-up probe to the payload: the part after the transfers.\<close>

definition finish_linux :: "'w runner \<Rightarrow> ('w \<Rightarrow> gotime \<times> 'w) \<Rightarrow> string \<Rightarrow> string \<Rightarrow> bool \<Rightarrow> bool \<Rightarrow> f64 \<Rightarrow> f64 \<Rightarrow> 'w
    \<Rightarrow> (err + NetworkBenchmark) \<times> 'w" where
  "finish_linux run now family path ipv4Available ipv6Available downloadMbps uploadMbps w =
     (case runNetworkControlProbe_linux run family path w of (_, w1) \<Rightarrow>
     (case probes (runNetworkControlProbe_linux run family path) networkBenchmarkProbeCount w1 of (samples, w2) \<Rightarrow>
     (case summarizeNetworkProbes samples of
        (_, Some e) \<Rightarrow> (Inl e, w2)
      | ((latencyMs, jitterMs, packetLossPercent), None) \<Rightarrow>
         (case now w2 of (t, w3) \<Rightarrow>
            (Inr \<lparr>nb_SchemaVersion = NetworkBenchmarkSchemaVersion, nb_CollectedAt = t,
                  nb_IPv4Available = ipv4Available, nb_IPv6Available = ipv6Available,
                  nb_DownloadMbps = downloadMbps, nb_UploadMbps = uploadMbps, nb_LatencyMs = latencyMs,
                  nb_JitterMs = jitterMs, nb_PacketLossPercent = packetLossPercent, nb_PreferredPath = path\<rparr>, w3)))))"

text \<open>The deferred clean-up runs on every path after the payload exists.\<close>

definition collectNetworkBenchmarkLinux :: "'w runner \<Rightarrow> 'w temp_files \<Rightarrow> ('w \<Rightarrow> gotime \<times> 'w) option \<Rightarrow> 'w
    \<Rightarrow> (err + NetworkBenchmark) \<times> 'w" where
  "collectNetworkBenchmarkLinux run fs now0 w0 =
     (case now0 of None \<Rightarrow> (Inl (Err ''network benchmark clock is nil''), w0)
      | Some now \<Rightarrow>
     (case determineLinuxPreferredPath run w0 of
        (Inl e, w1) \<Rightarrow> (Inl e, w1)
      | (Inr path, w1) \<Rightarrow>
         if HasPrefix path ''tailscale'' then (Inl (Err ''Tailscale path is not permitted for MeshAlot benchmark''), w1)
         else (case runNetworkControlProbe_linux run ''-4'' path w1 of (probe4, w2) \<Rightarrow>
              (case runNetworkControlProbe_linux run ''-6'' path w2 of (probe6, w3) \<Rightarrow>
         if \<not> np_Success probe4 \<and> \<not> np_Success probe6
         then (Inl (Err ''MeshAlot control region unavailable over IPv4 and IPv6''), w3)
         else let family = (if np_Success probe4 then ''-4'' else ''-6'') in
         (case collectLinuxThroughputSamples run family path False [] linuxNetworkBenchmarkDownloadBytes w3 of
            (Inl e, w4) \<Rightarrow> (Inl e, w4)
          | (Inr downloadMbps, w4) \<Rightarrow>
         (case createLinuxUploadPayload fs linuxNetworkBenchmarkUploadBytes w4 of
            (Inl e, w5) \<Rightarrow> (Inl e, w5)
          | (Inr uploadPath, w5) \<Rightarrow>
             (case (case collectLinuxThroughputSamples run family path True uploadPath linuxNetworkBenchmarkUploadBytes w5 of
                      (Inl e, w6) \<Rightarrow> (Inl e, w6)
                    | (Inr uploadMbps, w6) \<Rightarrow>
                        finish_linux run now family path (np_Success probe4) (np_Success probe6) downloadMbps uploadMbps w6)
              of (r, w7) \<Rightarrow> (r, tf_Remove fs uploadPath w7))))))))"

definition CollectNetworkBenchmark_linux :: "'w os_exec \<Rightarrow> 'w temp_files \<Rightarrow> ('w \<Rightarrow> gotime \<times> 'w) \<Rightarrow> 'w
    \<Rightarrow> (err + NetworkBenchmark) \<times> 'w" where
  "CollectNetworkBenchmark_linux ex fs now =
     collectNetworkBenchmarkLinux (networkBenchmarkOSRunner_Run ex) fs (Some now)"

end
