(* ===== verification/NetDarwin.thy ===== *)
theory NetDarwin
  imports NetLinux
begin

text \<open>
  \<^verbatim>\<open>agent/network_benchmark_darwin.go\<close>: the network benchmark of macOS, with the throughput of
  Apple's \<open>networkQuality\<close>. The parsing of a probe is the text of the Linux file.
\<close>

definition networkBenchmarkOutputLimit_darwin :: int where "networkBenchmarkOutputLimit_darwin = 512 * 2 ^ 10"
definition networkBenchmarkProbeCount_darwin :: nat where "networkBenchmarkProbeCount_darwin = 10"
definition networkBenchmarkControlURL_darwin :: string where
  "networkBenchmarkControlURL_darwin = ''https://api.meshalot.com/v1/health''"

definition networkBenchmarkLimitedBuffer_Write_darwin :: "buffer \<Rightarrow> string \<Rightarrow> nat \<times> buffer" where
  "networkBenchmarkLimitedBuffer_Write_darwin b p0 =
     (case b of (w, n) \<Rightarrow>
        if n \<le> 0 then (length p0, b)
        else let p = (if int (length p0) > n then take (nat n) p0 else p0)
             in (length p0, (w @ p, n - int (length p))))"

interpretation darwin_network_buffer: limited_writer networkBenchmarkLimitedBuffer_Write_darwin
  by unfold_locales (auto simp: networkBenchmarkLimitedBuffer_Write_darwin_def Let_def)

definition networkBenchmarkOSRunner_Run_darwin :: "'w os_exec \<Rightarrow> 'w runner" where
  "networkBenchmarkOSRunner_Run_darwin ex name args w =
     (case ex name args w of (r, w') \<Rightarrow>
        let stdout = captured networkBenchmarkLimitedBuffer_Write_darwin networkBenchmarkOutputLimit_darwin (x_stdout r);
            stderr = captured networkBenchmarkLimitedBuffer_Write_darwin networkBenchmarkOutputLimit_darwin (x_stderr r)
        in ((if stdout \<noteq> [] then stdout else stderr, x_err r), w'))"

fun interface_line :: "string list \<Rightarrow> err + string" where
  "interface_line [] = Inl (Err ''default network interface not found'')"
| "interface_line (raw # rest) =
     (let line = TrimSpace raw in
      if \<not> HasPrefix line ''interface:'' then interface_line rest
      else let v = TrimSpace (TrimPrefix line ''interface:'')
           in if v \<noteq> [] then Inr v else interface_line rest)"

definition parseDarwinDefaultInterface :: "string \<Rightarrow> err + string" where
  "parseDarwinDefaultInterface raw = interface_line (Split (CHR 0x0A) raw)"

definition control_args_darwin :: "string \<Rightarrow> string list" where
  "control_args_darwin family =
     [family, ''--connect-timeout'', ''3'', ''--max-time'', ''6'', ''-sS'', ''-o'', ''/dev/null'',
      ''-w'', ''%{http_code} %{time_connect}'' @ [CHR 0x0A], networkBenchmarkControlURL_darwin]"

definition runNetworkControlProbe_darwin :: "'w runner \<Rightarrow> string \<Rightarrow> 'w \<Rightarrow> networkProbeSample \<times> 'w" where
  "runNetworkControlProbe_darwin run family w =
     (case run ''/usr/bin/curl'' (control_args_darwin family) w of (out, w') \<Rightarrow> (probe_result out, w'))"

definition collectNetworkBenchmarkDarwin :: "(string \<Rightarrow> networkQualityResult option) \<Rightarrow> 'w runner
    \<Rightarrow> ('w \<Rightarrow> gotime \<times> 'w) option \<Rightarrow> 'w \<Rightarrow> (err + NetworkBenchmark) \<times> 'w" where
  "collectNetworkBenchmarkDarwin decode run now0 w0 =
     (case now0 of None \<Rightarrow> (Inl (Err ''network benchmark clock is nil''), w0)
      | Some now \<Rightarrow>
     (case run ''/sbin/route'' [''-n'', ''get'', ''default''] w0 of
        ((_, Some e), w1) \<Rightarrow> (Inl (Err ''determine preferred network interface''), w1)
      | ((routeRaw, None), w1) \<Rightarrow>
     (case parseDarwinDefaultInterface routeRaw of
        Inl e \<Rightarrow> (Inl e, w1)
      | Inr path \<Rightarrow>
     (case run ''/usr/bin/networkQuality'' [''-I'', path, ''-M'', ''30'', ''-c''] w1 of
        ((_, Some e), w2) \<Rightarrow> (Inl (Err ''networkQuality throughput test failed''), w2)
      | ((qualityRaw, None), w2) \<Rightarrow>
     (case parseNetworkQualityResult decode qualityRaw of
        Inl e \<Rightarrow> (Inl e, w2)
      | Inr (downloadMbps, uploadMbps, qualityInterface) \<Rightarrow>
         if qualityInterface \<noteq> path then (Inl (Err ''networkQuality used unexpected interface''), w2)
         else (case runNetworkControlProbe_darwin run ''-4'' w2 of (probe4, w3) \<Rightarrow>
              (case runNetworkControlProbe_darwin run ''-6'' w3 of (probe6, w4) \<Rightarrow>
         if \<not> np_Success probe4 \<and> \<not> np_Success probe6
         then (Inl (Err ''MeshAlot control region unavailable over IPv4 and IPv6''), w4)
         else let family = (if np_Success probe4 then ''-4'' else ''-6'') in
         (case runNetworkControlProbe_darwin run family w4 of (_, w5) \<Rightarrow>
         (case probes (runNetworkControlProbe_darwin run family) networkBenchmarkProbeCount_darwin w5 of (samples, w6) \<Rightarrow>
         (case summarizeNetworkProbes samples of
            (_, Some e) \<Rightarrow> (Inl e, w6)
          | ((latencyMs, jitterMs, packetLossPercent), None) \<Rightarrow>
             (case now w6 of (t, w7) \<Rightarrow>
                (Inr \<lparr>nb_SchemaVersion = NetworkBenchmarkSchemaVersion, nb_CollectedAt = t,
                      nb_IPv4Available = np_Success probe4, nb_IPv6Available = np_Success probe6,
                      nb_DownloadMbps = downloadMbps, nb_UploadMbps = uploadMbps, nb_LatencyMs = latencyMs,
                      nb_JitterMs = jitterMs, nb_PacketLossPercent = packetLossPercent, nb_PreferredPath = path\<rparr>, w7))))))))))))"

definition CollectNetworkBenchmark_darwin :: "(string \<Rightarrow> networkQualityResult option) \<Rightarrow> 'w os_exec
    \<Rightarrow> ('w \<Rightarrow> gotime \<times> 'w) \<Rightarrow> 'w \<Rightarrow> (err + NetworkBenchmark) \<times> 'w" where
  "CollectNetworkBenchmark_darwin decode ex now =
     collectNetworkBenchmarkDarwin decode (networkBenchmarkOSRunner_Run_darwin ex) (Some now)"

end
