(* ===== verification/NetProperties.thy ===== *)
theory NetProperties
  imports NetDarwin BenchProperties
begin

text \<open>
  What the network benchmarks of the agent promise: the throughput lies between the two best transfers,
  a collected benchmark is one that the server's validation accepts, no command runs over a forbidden
  interface, and the upload payload is removed on every path.
\<close>

section \<open>The percentile of the transfers\<close>

lemma fround_err: "0 < x \<Longrightarrow> fround x \<le> x + 2 powi (ulp_exp x) / 2"
proof -
  assume x: "0 < x"
  let ?p = "2 powi (ulp_exp x) :: real"
  have p: "0 < ?p" by simp
  have "of_int (round_even (x / ?p)) * ?p \<le> (x / ?p + 1 / 2) * ?p"
    using round_even_le p by (intro mult_right_mono) auto
  also have "\<dots> = x + ?p / 2" using p by (simp add: field_simps)
  finally show ?thesis using x by (simp add: fround_def)
qed

lemma fround_on_grid: "\<exists>m. fround x = of_int m * 2 powi (- 1074)"
proof (cases "x = 0")
  case False
  have "- 1074 \<le> ulp_exp x" by (simp add: ulp_exp_def)
  then obtain k where "(2::real) powi (ulp_exp x) = of_int k * 2 powi (- 1074)" by (rule powi_grid)
  then have "fround x = of_int (round_even (x / 2 powi (ulp_exp x)) * k) * 2 powi (- 1074)"
    using False by (simp add: fround_def)
  then show ?thesis by blast
qed (auto intro: exI [of _ 0])

text \<open>Two roundings do not undo a factor of at most 7/8 of a difference of floats.\<close>

lemma fround_shrink:
  assumes "0 \<le> d" "d = of_int m * 2 powi (- 1074)" "0 \<le> c" "c \<le> 7 / 8"
  shows "fround (fround d * c) \<le> d"
proof (cases "d = 0")
  case False
  then have d: "0 < d" using assms(1) by simp
  show ?thesis
  proof (cases "ulp_exp d = - 1074")
    case True
    have grid: "d = of_int m * 2 powi (ulp_exp d)" by (subst True) (rule assms(2))
    have fd: "fround d = d"
      using fround_grid(1) [OF False grid order_refl] fround_grid(2) [OF False grid order_refl] by (rule antisym)
    have "d * c \<le> d * 1" using d assms(4) by (intro mult_left_mono) auto
    then have "fround (d * c) \<le> fround d" by (intro fround_mono) simp
    then show ?thesis using fd by simp
  next
    case ne: False
    let ?e = "ulp_exp d"
    have e: "?e = ilog2 d - 52" "- 1074 \<le> ?e" using ne d by (auto simp: ulp_exp_def)
    have "2 powi (ilog2 d) \<le> d" using d by (rule ilog2_bounds)
    moreover have "(2::real) powi (ilog2 d) = 2 ^ 52 * 2 powi ?e" using e by (simp add: power_int_diff)
    ultimately have small: "2 powi ?e \<le> d / 2 ^ 52" by simp
    have x: "fround d \<le> d * (1 + 1 / 2 ^ 53)" using fround_err [OF d] small by (simp add: field_simps)
    have "fround d * c \<le> d * (1 + 1 / 2 ^ 53) * (7 / 8)"
      using x assms(3,4) d fround_nonneg [of d] by (intro mult_mono) auto
    also have "\<dots> \<le> d * (15 / 16)" using d by simp
    finally have z: "fround d * c \<le> d * (15 / 16)" .
    let ?g = "d * (15 / 16)"
    have g: "0 < ?g" "?g \<le> d" using d by simp_all
    then have "ulp_exp ?g \<le> ?e" using ilog2_mono [of ?g d] by (simp add: ulp_exp_def)
    then have "(2::real) powi (ulp_exp ?g) \<le> 2 powi ?e" by (simp only: powi2_le)
    then have "fround ?g \<le> ?g + d / 2 ^ 53" using fround_err [OF g(1)] small by (simp add: field_simps)
    also have "\<dots> \<le> d" using d by simp
    finally have "fround ?g \<le> d" .
    with fround_mono [OF z] show ?thesis by linarith
  qed
qed (simp add: assms)

text \<open>Finite floats that are not negative, as ParseFloat and the operations give them.\<close>

definition good_float :: "f64 \<Rightarrow> bool" where
  "good_float a \<longleftrightarrow> (\<exists>x. a = Fin x \<and> 0 \<le> x \<and> x < 2 ^ 1024 \<and> fround x = x)"

lemma fl_Fin: "0 \<le> x \<Longrightarrow> fround x < 2 ^ 1024 \<Longrightarrow> fl x = Fin (fround x)"
  using overflow_iff [of "fround x"] fround_nonneg [of x] by (auto simp: fl_def Let_def)

lemma between_floats:
  assumes "good_float (Fin a)" "good_float (Fin b)" "a \<le> b" "0 \<le> c" "c \<le> 7 / 8"
  shows "\<exists>v. f_add (Fin a) (f_mul (f_sub (Fin b) (Fin a)) (Fin c)) = Fin v \<and> a \<le> v \<and> v \<le> b"
proof -
  have a: "0 \<le> a" "fround a = a" and b: "b < 2 ^ 1024" "fround b = b" using assms(1,2) by (auto simp: good_float_def)
  obtain ma mb where "a = of_int ma * 2 powi (- 1074)" "b = of_int mb * 2 powi (- 1074)"
    using fround_on_grid [of a] fround_on_grid [of b] a b by auto
  then have grid: "b - a = of_int (mb - ma) * 2 powi (- 1074)" by (simp add: algebra_simps)
  define d x y where "d = b - a" and "x = fround d" and "y = fround (x * c)"
  have d: "0 \<le> d" "d \<le> b" using assms(3) a by (simp_all add: d_def)
  have x: "0 \<le> x" "x \<le> b" using fround_mono [of d b] fround_nonneg [of d] d b by (simp_all add: x_def)
  have sub: "f_sub (Fin b) (Fin a) = Fin x"
    using fl_Fin [of d] d x b by (simp add: f_sub_def d_def x_def)
  have xc: "0 \<le> x * c" using x assms(4) by simp
  have y: "0 \<le> y" "y \<le> d"
    using fround_nonneg [OF xc] fround_shrink [OF d(1) grid [folded d_def] assms(4,5)] by (simp_all add: y_def x_def)
  have "y < 2 ^ 1024" using y d b by linarith
  then have mul: "f_mul (Fin x) (Fin c) = Fin y" using fl_Fin [OF xc] by (simp add: y_def)
  have le: "a \<le> fround (a + y)" "fround (a + y) \<le> b"
    using fround_mono [of a "a + y"] fround_mono [of "a + y" b] a b y by (simp_all add: d_def)
  have "f_add (Fin a) (Fin y) = Fin (fround (a + y))" using fl_Fin [of "a + y"] a y le b by simp
  then show ?thesis using sub mul le by simp
qed

text \<open>The percentile 0.90 of three values: the index is between 1.75 and 1.875.\<close>

lemma percentile_float: "\<exists>p. linuxNetworkBenchmarkPercentile = Fin p \<and> 7 / 8 \<le> p \<and> p \<le> 15 / 16"
proof -
  have ex: "fround (7 / 8) = 7 / 8" "fround (15 / 16) = (15 / 16 :: real)"
    using fround_exact [of "7 / 8" 7 "- 3"] fround_exact [of "15 / 16" 15 "- 4"] by (simp_all add: power_int_minus)
  have p: "7 / 8 \<le> fround (9 / 10)" "fround (9 / 10) \<le> 15 / 16"
    using fround_mono [of "7 / 8" "9 / 10"] fround_mono [of "9 / 10" "15 / 16"] ex by simp_all
  have "(15 / 16 :: real) < 2 ^ 1024"
    using two_53_1024 by (rule order.strict_trans [rotated]) simp
  then have "fl (9 / 10) = Fin (fround (9 / 10))" using p by (intro fl_Fin) auto
  then show ?thesis using p by (simp add: linuxNetworkBenchmarkPercentile_def)
qed

lemma three_eq:
  "\<exists>c. 0 \<le> c \<and> c \<le> 7 / 8 \<and> linuxPercentile [a1, a2, a3] linuxNetworkBenchmarkPercentile =
     Inr (let s = sort [a1, a2, a3] in f_add (s ! 1) (f_mul (f_sub (s ! 2) (s ! 1)) (Fin c)))"
proof -
  obtain p where p: "linuxNetworkBenchmarkPercentile = Fin p" "7 / 8 \<le> p" "p \<le> 15 / 16" using percentile_float by blast
  have big: "(15 / 8 :: real) < 2 ^ 1024" using two_53_1024 by (rule order.strict_trans [rotated]) simp
  have ex: "fround (7 / 4) = 7 / 4" "fround (15 / 8) = (15 / 8 :: real)"
    using fround_exact [of "7 / 4" 7 "- 2"] fround_exact [of "15 / 8" 15 "- 3"] by (simp_all add: power_int_minus)
  define i where "i = fround (2 * p)"
  have i: "7 / 4 \<le> i" "i \<le> 15 / 8"
    using fround_mono [of "7 / 4" "2 * p"] fround_mono [of "2 * p" "15 / 8"] ex p by (simp_all add: i_def)
  have idx: "f_mul (f_of_int 2) (Fin p) = Fin i"
    using fl_Fin [of "2 * p"] i big p(2) f_of_int_small [of 2] by (simp add: i_def)
  have tr: "trunc_real i = 1" using i by (simp add: trunc_real_def floor_eq_iff)
  define c where "c = fround (i - 1)"
  have exc: "fround (3 / 4) = 3 / 4" "fround (7 / 8) = (7 / 8 :: real)"
    using fround_exact [of "3 / 4" 3 "- 2"] fround_exact [of "7 / 8" 7 "- 3"] by (simp_all add: power_int_minus)
  have c: "3 / 4 \<le> c" "c \<le> 7 / 8"
    using fround_mono [of "3 / 4" "i - 1"] fround_mono [of "i - 1" "7 / 8"] exc i by (simp_all add: c_def)
  have frac: "f_sub (Fin i) (f_of_int 1) = Fin c"
    using fl_Fin [of "i - 1"] c i big f_of_int_small [of 1] by (simp add: f_sub_def c_def)
  have len: "int (length (sort [a1, a2, a3])) - 1 = 2" by simp
  have ne: "f_ne (f_of_int 1) (Fin i)" using i f_of_int_small [of 1] by (simp add: f_ne_def)
  have lower: "f_to_int (Fin i) = 1" using tr by simp
  have "linuxPercentile [a1, a2, a3] linuxNetworkBenchmarkPercentile =
      Inr (let s = sort [a1, a2, a3] in f_add (s ! 1) (f_mul (f_sub (s ! 2) (s ! 1)) (Fin c)))"
    unfolding linuxPercentile_def Let_def len p(1) idx lower
    using p(2,3) ne frac by simp
  then show ?thesis using c by (intro exI [of _ c]) simp
qed
lemma fl_good: "0 \<le> x \<Longrightarrow> fl x = PosInf \<or> good_float (fl x)"
proof -
  assume x: "0 \<le> x"
  then have r: "0 \<le> fround x" by (rule fround_nonneg)
  show ?thesis
  proof (cases "2 ^ 1024 \<le> fround x")
    case False
    then show ?thesis using fl_Fin [OF x] r fround_idem [of x] by (simp add: good_float_def del: power_numeral)
  next
    case True
    then show ?thesis unfolding fl_alt by simp
  qed
qed

lemma throughput_result_good:
  assumes "parseLinuxThroughputResult raw n = Inr x"
  shows "x = PosInf \<or> good_float x"
proof -
  obtain speed where x: "x = f_div (f_mul speed (Fin 8)) (Fin 1000000)" and s: "finiteNonNegative speed"
    using assms by (auto simp: parseLinuxThroughputResult_def split: list.splits option.splits if_splits)
  obtain r where r: "speed = Fin r" "0 \<le> r" using s by (auto simp: finite_nonneg)
  have "fl (r * 8) = PosInf \<or> good_float (fl (r * 8))" using r by (intro fl_good) simp
  then show ?thesis
  proof
    assume "good_float (fl (r * 8))"
    then obtain y where "fl (r * 8) = Fin y" "0 \<le> y" by (auto simp: good_float_def)
    then show ?thesis using fl_good [of "y / 1000000"] by (simp add: x r)
  qed (simp add: x r)
qed

lemma throughput_loop_samples:
  assumes "throughput_loop run family path upload up n k w = (Inr s, w')"
  shows "length s = k \<and> (\<forall>a\<in>set s. a = PosInf \<or> good_float a)"
  using assms
proof (induction k arbitrary: w s w')
  case (Suc k)
  let ?args = "if upload then upload_args family path up else download_args family path"
  obtain raw e w1 where run: "run ''/usr/bin/curl'' ?args w = ((raw, e), w1)" by (metis surj_pair)
  obtain x where x: "parseLinuxThroughputResult raw n = Inr x" and e: "e = None"
    using Suc.prems run by (cases e; cases "parseLinuxThroughputResult raw n") auto
  obtain r w2 where rest: "throughput_loop run family path upload up n k w1 = (r, w2)" by (metis surj_pair)
  obtain t where "r = Inr t" "s = x # t"
    using Suc.prems run x e rest by (cases r) auto
  with Suc.IH rest throughput_result_good [OF x] show ?case by auto
qed simp

lemma three_sorted:
  fixes a b c :: f64
  assumes "\<forall>x\<in>set [a, b, c]. x = PosInf \<or> good_float x"
  shows "(sort [a, b, c] ! 1 = PosInf \<or> good_float (sort [a, b, c] ! 1)) \<and> (sort [a, b, c] ! 2 = PosInf \<or> good_float (sort [a, b, c] ! 2))"
    and "sort [a, b, c] ! 1 \<le> sort [a, b, c] ! 2"
    and "PosInf \<notin> set [a, b, c] \<Longrightarrow> sort [a, b, c] ! 1 \<noteq> PosInf \<and> sort [a, b, c] ! 2 \<noteq> PosInf"
proof -
  have len: "length (sort [a, b, c]) = 3" by simp
  have mem: "sort [a, b, c] ! 1 \<in> set [a, b, c]" "sort [a, b, c] ! 2 \<in> set [a, b, c]"
    by (metis len nth_mem set_sort one_less_numeral_iff semiring_norm(77), metis len nth_mem set_sort numeral_less_iff semiring_norm(79) lessI numeral_3_eq_3 numeral_2_eq_2)
  show "(sort [a, b, c] ! 1 = PosInf \<or> good_float (sort [a, b, c] ! 1)) \<and> (sort [a, b, c] ! 2 = PosInf \<or> good_float (sort [a, b, c] ! 2))"
    using mem assms by blast
  show "sort [a, b, c] ! 1 \<le> sort [a, b, c] ! 2"
    by (rule sorted_nth_mono) (simp_all add: len del: sort_key_simps)
  show "PosInf \<notin> set [a, b, c] \<Longrightarrow> sort [a, b, c] ! 1 \<noteq> PosInf \<and> sort [a, b, c] ! 2 \<noteq> PosInf"
    using mem by metis
qed

lemma percentile_nonneg:
  assumes "\<forall>x\<in>set [a1, a2, a3]. x = PosInf \<or> good_float x"
  shows "\<exists>x. linuxPercentile [a1, a2, a3] linuxNetworkBenchmarkPercentile = Inr x \<and> nonneg x
     \<and> (PosInf \<notin> set [a1, a2, a3] \<longrightarrow> sort [a1, a2, a3] ! 1 \<le> x \<and> x \<le> sort [a1, a2, a3] ! 2)"
proof -
  let ?s = "sort [a1, a2, a3]"
  obtain c where c: "0 \<le> c" "c \<le> 7 / 8"
    and eq: "linuxPercentile [a1, a2, a3] linuxNetworkBenchmarkPercentile = Inr (f_add (?s ! 1) (f_mul (f_sub (?s ! 2) (?s ! 1)) (Fin c)))"
    using three_eq [of a1 a2 a3] unfolding Let_def by blast
  note t = three_sorted [OF assms]
  show ?thesis
  proof (cases "?s ! 1 = PosInf \<or> ?s ! 2 = PosInf")
    case True
    have "nonneg (f_add (?s ! 1) (f_mul (f_sub (?s ! 2) (?s ! 1)) (Fin c)))"
    proof (cases "?s ! 1")
      case (Fin x)
      then have "?s ! 2 = PosInf" using True by simp
      then show ?thesis using Fin c by (cases "c = 0") (auto simp: nonneg_def f_sub_def inf_sgn_def)
    next
      case PosInf
      then have "?s ! 2 = PosInf" using t(2) by simp
      then show ?thesis using PosInf by (simp add: nonneg_def f_sub_def)
    qed (use t(1) in \<open>auto simp: good_float_def\<close>)
    then show ?thesis using eq t(3) True by auto
  next
    case False
    then have g: "good_float (?s ! 1)" "good_float (?s ! 2)" using t(1) by auto
    then obtain a b where ab: "?s ! 1 = Fin a" "?s ! 2 = Fin b" by (auto simp: good_float_def)
    obtain v where v: "f_add (Fin a) (f_mul (f_sub (Fin b) (Fin a)) (Fin c)) = Fin v" "a \<le> v" "v \<le> b"
      using between_floats [of a b c] g ab t(2) c by auto
    have "0 \<le> a" using g ab by (auto simp: good_float_def)
    then show ?thesis using eq v ab by (auto simp: nonneg_def)
  qed
qed

lemma throughput_samples:
  assumes "collectLinuxThroughputSamples run family path upload up n w = (Inr x, w')"
  shows "\<exists>s. throughput_loop run family path upload up n 3 w = (Inr s, w') \<and> length s = 3 \<and> nonneg x
           \<and> (PosInf \<notin> set s \<longrightarrow> sort s ! 1 \<le> x \<and> x \<le> sort s ! 2)"
proof -
  obtain r w1 where loop: "throughput_loop run family path upload up n 3 w = (r, w1)" by (metis surj_pair)
  obtain s where s: "r = Inr s" "w1 = w'" and p: "linuxPercentile s linuxNetworkBenchmarkPercentile = Inr x"
    using assms loop by (cases r) (auto simp: collectLinuxThroughputSamples_def linuxNetworkBenchmarkThroughputSamples_def)
  have l: "length s = 3" "\<forall>a\<in>set s. a = PosInf \<or> good_float a"
    using throughput_loop_samples [OF loop [unfolded s]] by auto
  then obtain a1 a2 a3 where abc: "s = [a1, a2, a3]"
    by (auto simp: numeral_3_eq_3 length_Suc_conv)
  from percentile_nonneg [OF l(2) [unfolded abc]] p show ?thesis
    using loop s l(1) unfolding abc by auto
qed

text \<open>C39: The throughput that Linux reports is a robust upper figure of the three transfers. Whenever
  three transfers give a figure, none of them failed, and unless one overflowed, the figure computed in
  IEEE arithmetic lies between the second best and the best transfer, so one outlier alone does not set it.\<close>

theorem throughput_between_best_two:
  assumes "collectLinuxThroughputSamples run family path upload up n w = (Inr x, w')"
  shows "\<exists>s. throughput_loop run family path upload up n linuxNetworkBenchmarkThroughputSamples w = (Inr s, w') \<and> length s = 3
           \<and> (PosInf \<notin> set s \<longrightarrow> sort s ! 1 \<le> x \<and> x \<le> sort s ! 2)"
  using throughput_samples [OF assms] by (auto simp: linuxNetworkBenchmarkThroughputSamples_def)
section \<open>A collected benchmark is accepted by the server\<close>

lemma probe_result_range: "np_ConnectDuration (probe_result out) < 2 ^ 63"
proof -
  have "f_to_int x < 9223372036854775808" for x using f_to_int_range [of x] by simp
  then show ?thesis by (auto simp: probe_result_def failed_probe_def Let_def split: prod.splits list.splits option.splits)
qed

lemma probes_range:
  assumes "\<And>w. \<exists>out. fst (probe w) = probe_result out" "probes probe n w = (ss, w')"
  shows "length ss = n \<and> list_all (\<lambda>p. np_ConnectDuration p < 2 ^ 63) ss"
  using assms(2)
proof (induction n arbitrary: w ss w')
  case (Suc n)
  obtain s w1 where p: "probe w = (s, w1)" by (metis surj_pair)
  obtain t w2 where r: "probes probe n w1 = (t, w2)" by (metis surj_pair)
  obtain out where "s = probe_result out" using assms(1) [of w] p by auto
  then show ?case using Suc.prems Suc.IH [OF r] p r probe_result_range [of out] by auto
qed simp

lemma linux_probe_result: "\<exists>out. fst (runNetworkControlProbe_linux run family path w) = probe_result out"
  by (auto simp: runNetworkControlProbe_linux_def split: prod.splits)

lemma darwin_probe_result: "\<exists>out. fst (runNetworkControlProbe_darwin run family w) = probe_result out"
  by (auto simp: runNetworkControlProbe_darwin_def split: prod.splits)

text \<open>The figures of a collected benchmark that the server checks.\<close>

definition sound_figures :: "NetworkBenchmark \<Rightarrow> bool" where
  "sound_figures b \<longleftrightarrow> nb_SchemaVersion b = NetworkBenchmarkSchemaVersion \<and> TrimSpace (nb_PreferredPath b) \<noteq> []
     \<and> (nb_IPv4Available b \<or> nb_IPv6Available b) \<and> nonneg (nb_DownloadMbps b) \<and> nonneg (nb_UploadMbps b)
     \<and> nonneg (nb_LatencyMs b) \<and> nonneg (nb_JitterMs b) \<and> nonneg (nb_PacketLossPercent b)
     \<and> \<not> f_lt (Fin 100) (nb_PacketLossPercent b)"

lemma summary_sound:
  assumes "list_all (\<lambda>p. np_ConnectDuration p < 2 ^ 63) samples" "length samples = 10"
    and "summarizeNetworkProbes samples = ((lat, jit, loss), None)"
  shows "nonneg lat \<and> nonneg jit \<and> nonneg loss \<and> \<not> f_lt (Fin 100) loss"
  using probe_summary_bounds [OF assms(1)] assms(2,3) by (auto simp: fin_in_iff nonneg_def)

lemma route_device_nonempty: "route_device fs = Inr path \<Longrightarrow> TrimSpace path \<noteq> []"
  by (induction fs rule: route_device.induct) (auto simp: TrimSpace_idem split: if_splits)

lemma preferred_path_nonempty:
  "determineLinuxPreferredPath run w = (Inr path, w') \<Longrightarrow> TrimSpace path \<noteq> []"
  by (auto simp: determineLinuxPreferredPath_def parseLinuxRouteInterface_def
      dest: route_device_nonempty split: prod.splits sum.splits if_splits)

lemma finish_linux_sound:
  assumes "finish_linux run now family path v4 v6 d u w = (Inr b, w')" "TrimSpace path \<noteq> []" "v4 \<or> v6" "nonneg d" "nonneg u"
  shows "sound_figures b \<and> nb_IPv4Available b = v4 \<and> nb_IPv6Available b = v6"
proof -
  obtain p1 w1 where p1: "runNetworkControlProbe_linux run family path w = (p1, w1)" by (metis surj_pair)
  obtain ss w2 where ss: "probes (runNetworkControlProbe_linux run family path) networkBenchmarkProbeCount w1 = (ss, w2)"
    by (metis surj_pair)
  obtain lat jit loss e where sum: "summarizeNetworkProbes ss = ((lat, jit, loss), e)" by (metis surj_pair)
  have r: "length ss = 10" "list_all (\<lambda>p. np_ConnectDuration p < 2 ^ 63) ss"
    using probes_range [OF linux_probe_result ss] by (simp_all add: networkBenchmarkProbeCount_def)
  have e: "e = None" using assms(1) p1 ss sum by (cases e) (simp_all add: finish_linux_def)
  note s = summary_sound [OF r(2,1) sum [unfolded e]]
  show ?thesis using assms p1 ss sum e s
    by (auto simp: finish_linux_def sound_figures_def split: prod.splits)
qed

lemma linux_collect_sound:
  assumes "collectNetworkBenchmarkLinux run fs (Some now) w = (Inr b, w')"
  shows "sound_figures b"
proof -
  obtain rp w1 where path: "determineLinuxPreferredPath run w = (rp, w1)" by (metis surj_pair)
  with assms obtain path where rp: "rp = Inr path" by (cases rp) (auto simp: collectNetworkBenchmarkLinux_def)
  obtain p4 w2 where p4: "runNetworkControlProbe_linux run ''-4'' path w1 = (p4, w2)" by (metis surj_pair)
  obtain p6 w3 where p6: "runNetworkControlProbe_linux run ''-6'' path w2 = (p6, w3)" by (metis surj_pair)
  have ts: "\<not> HasPrefix path ''tailscale''" "np_Success p4 \<or> np_Success p6"
    using assms path rp p4 p6 by (auto simp: collectNetworkBenchmarkLinux_def split: if_splits)
  let ?fam = "if np_Success p4 then ''-4'' else ''-6''"
  obtain dr w4 where dl: "collectLinuxThroughputSamples run ?fam path False [] linuxNetworkBenchmarkDownloadBytes w3 = (dr, w4)"
    by (metis surj_pair)
  obtain d where dr: "dr = Inr d"
    using assms path rp p4 p6 ts dl by (cases dr) (auto simp: collectNetworkBenchmarkLinux_def Let_def)
  obtain cr w5 where cp: "createLinuxUploadPayload fs linuxNetworkBenchmarkUploadBytes w4 = (cr, w5)" by (metis surj_pair)
  obtain up where cr: "cr = Inr up"
    using assms path rp p4 p6 ts dl dr cp by (cases cr) (auto simp: collectNetworkBenchmarkLinux_def Let_def)
  obtain ur w6 where ul: "collectLinuxThroughputSamples run ?fam path True up linuxNetworkBenchmarkUploadBytes w5 = (ur, w6)"
    by (metis surj_pair)
  obtain u where ur: "ur = Inr u"
    using assms path rp p4 p6 ts dl dr cp cr ul by (cases ur) (auto simp: collectNetworkBenchmarkLinux_def Let_def)
  obtain fr w7 where fin: "finish_linux run now ?fam path (np_Success p4) (np_Success p6) d u w6 = (fr, w7)" by (metis surj_pair)
  have fr: "fr = Inr b"
    using assms path rp p4 p6 ts dl dr cp cr ul ur fin by (auto simp: collectNetworkBenchmarkLinux_def Let_def)
  have "nonneg d" "nonneg u"
    using throughput_samples [OF dl [unfolded dr]] throughput_samples [OF ul [unfolded ur]] by auto
  then show ?thesis
    using finish_linux_sound [OF fin [unfolded fr] preferred_path_nonempty [OF path [unfolded rp]] ts(2)] by simp
qed

lemma interface_line_nonempty: "interface_line ls = Inr path \<Longrightarrow> TrimSpace path \<noteq> []"
  by (induction ls) (auto simp: TrimSpace_idem Let_def split: if_splits)

lemma quality_nonneg:
  assumes "parseNetworkQualityResult decode raw = Inr (d, u, i)"
  shows "nonneg d \<and> nonneg u"
proof -
  obtain q where dec: "decode raw = Some q"
    using assms by (cases "decode raw") (auto simp: parseNetworkQualityResult_def split: if_splits)
  have q: "finiteNonNegative (nq_DownloadBitsPerSecond q)" "finiteNonNegative (nq_UploadBitsPerSecond q)"
    "d = f_div (nq_DownloadBitsPerSecond q) (Fin 1000000)" "u = f_div (nq_UploadBitsPerSecond q) (Fin 1000000)"
    using assms by (auto simp: parseNetworkQualityResult_def Let_def dec split: if_splits)
  have "nonneg (fl (x / 1000000))" if "0 \<le> x" for x
    using fl_good [of "x / 1000000"] that by (auto simp: nonneg_def good_float_def)
  then show ?thesis using q by (auto simp: finite_nonneg)
qed

lemma darwin_collect_sound:
  assumes "collectNetworkBenchmarkDarwin decode run (Some now) w = (Inr b, w')"
  shows "sound_figures b"
proof -
  obtain routeRaw e1 w1 where r1: "run ''/sbin/route'' [''-n'', ''get'', ''default''] w = ((routeRaw, e1), w1)" by (metis surj_pair)
  then have e1: "e1 = None" using assms by (cases e1) (auto simp: collectNetworkBenchmarkDarwin_def)
  obtain path where path: "parseDarwinDefaultInterface routeRaw = Inr path"
    using assms r1 e1 by (cases "parseDarwinDefaultInterface routeRaw") (auto simp: collectNetworkBenchmarkDarwin_def)
  obtain q e2 w2 where r2: "run ''/usr/bin/networkQuality'' [''-I'', path, ''-M'', ''30'', ''-c''] w1 = ((q, e2), w2)" by (metis surj_pair)
  then have e2: "e2 = None" using assms r1 e1 path by (cases e2) (auto simp: collectNetworkBenchmarkDarwin_def)
  obtain d u i where q: "parseNetworkQualityResult decode q = Inr (d, u, i)"
    using assms r1 e1 path r2 e2
    by (cases "parseNetworkQualityResult decode q") (auto simp: collectNetworkBenchmarkDarwin_def)
  obtain p4 w3 where p4: "runNetworkControlProbe_darwin run ''-4'' w2 = (p4, w3)" by (metis surj_pair)
  obtain p6 w4 where p6: "runNetworkControlProbe_darwin run ''-6'' w3 = (p6, w4)" by (metis surj_pair)
  have ok: "i = path" "np_Success p4 \<or> np_Success p6"
    using assms r1 e1 path r2 e2 q p4 p6 by (auto simp: collectNetworkBenchmarkDarwin_def split: if_splits)
  let ?fam = "if np_Success p4 then ''-4'' else ''-6''"
  obtain p5 w5 where p5: "runNetworkControlProbe_darwin run ?fam w4 = (p5, w5)" by (metis surj_pair)
  obtain ss w6 where ss: "probes (runNetworkControlProbe_darwin run ?fam) networkBenchmarkProbeCount_darwin w5 = (ss, w6)" by (metis surj_pair)
  obtain lat jit loss e where sum: "summarizeNetworkProbes ss = ((lat, jit, loss), e)" by (metis surj_pair)
  have e: "e = None"
    using assms r1 e1 path r2 e2 q p4 p6 ok p5 ss sum by (cases e) (auto simp: collectNetworkBenchmarkDarwin_def Let_def)
  have r: "length ss = 10" "list_all (\<lambda>p. np_ConnectDuration p < 2 ^ 63) ss"
    using probes_range [OF darwin_probe_result ss] by (simp_all add: networkBenchmarkProbeCount_darwin_def)
  note s = summary_sound [OF r(2,1) sum [unfolded e]]
  have "TrimSpace path \<noteq> []" using path by (auto simp: parseDarwinDefaultInterface_def dest: interface_line_nonempty)
  then show ?thesis
    using assms r1 e1 path r2 e2 q p4 p6 ok p5 ss sum e s quality_nonneg [OF q]
    by (auto simp: collectNetworkBenchmarkDarwin_def Let_def sound_figures_def split: prod.splits)
qed

lemma collected_network_sound:
  assumes "CollectNetworkBenchmark_linux ex fs now w = (Inr b, w') \<or> CollectNetworkBenchmark_darwin decode ex now w = (Inr b, w')"
  shows "sound_figures b"
  using assms unfolding CollectNetworkBenchmark_linux_def CollectNetworkBenchmark_darwin_def
  by (elim disjE) (rule linux_collect_sound, assumption, rule darwin_collect_sound, assumption)

lemma sound_figures_accepted:
  assumes "sound_figures (nsub_Benchmark sub)" "nsub_Version sub = NetworkBenchmarkSubmissionVersion"
    and "validUUIDv4 (nsub_NodeID sub)" "validUUIDv4 (nsub_ReportID sub)"
    and "\<not> IsZero (nsub_SignedAt sub)" "\<not> IsZero (nb_CollectedAt (nsub_Benchmark sub))"
    and "skew_accepted t (nsub_SignedAt sub)" "skew_accepted (nsub_SignedAt sub) (nb_CollectedAt (nsub_Benchmark sub))"
  shows "validateNetworkBenchmarkSubmission sub t = Inr ()"
  using assms by (simp add: network_accepted_iff sound_figures_def IsZero_def)
section \<open>Commands and the upload payload\<close>

datatype net_event = Command string "string list" | Created string | Removed string

type_synonym 'v net_traced = "'v \<times> net_event list"

definition traced_runner :: "'v runner \<Rightarrow> 'v net_traced runner" where
  "traced_runner run c a w = (case run c a (fst w) of (r, v') \<Rightarrow> (r, (v', snd w @ [Command c a])))"

definition traced_files :: "'v temp_files \<Rightarrow> 'v net_traced temp_files" where
  "traced_files fs = \<lparr>
     tf_CreateTemp = (\<lambda>w. case tf_CreateTemp fs (fst w) of
        (None, v') \<Rightarrow> (None, (v', snd w)) | (Some p, v') \<Rightarrow> (Some p, (v', snd w @ [Created p]))),
     tf_Truncate = (\<lambda>p n w. case tf_Truncate fs p n (fst w) of (r, v') \<Rightarrow> (r, (v', snd w))),
     tf_Close = (\<lambda>p w. case tf_Close fs p (fst w) of (r, v') \<Rightarrow> (r, (v', snd w))),
     tf_Remove = (\<lambda>p w. (tf_Remove fs p (fst w), snd w @ [Removed p]))\<rparr>"

definition traced_time :: "('v \<Rightarrow> gotime \<times> 'v) \<Rightarrow> 'v net_traced \<Rightarrow> gotime \<times> 'v net_traced" where
  "traced_time now w = (case now (fst w) of (t, v') \<Rightarrow> (t, (v', snd w)))"

text \<open>\<open>sends P n w w'\<close>: at most \<open>n\<close> events between the two worlds, all of them in \<open>P\<close>.\<close>

definition sends :: "(net_event \<Rightarrow> bool) \<Rightarrow> nat \<Rightarrow> 'v net_traced \<Rightarrow> 'v net_traced \<Rightarrow> bool" where
  "sends P n w w' \<longleftrightarrow> (\<exists>es. snd w' = snd w @ es \<and> length es \<le> n \<and> (\<forall>e\<in>set es. P e))"

lemma sends_refl: "snd w' = snd w \<Longrightarrow> sends P n w w'"
  by (auto simp: sends_def)

lemma sends_trans: "sends P n a b \<Longrightarrow> sends P m b c \<Longrightarrow> sends P (n + m) a c"
proof -
  assume "sends P n a b" "sends P m b c"
  then obtain es fs where "snd b = snd a @ es" "length es \<le> n" "\<forall>e\<in>set es. P e"
    "snd c = snd b @ fs" "length fs \<le> m" "\<forall>e\<in>set fs. P e" by (auto simp: sends_def)
  then show ?thesis unfolding sends_def by (intro exI [of _ "es @ fs"]) auto
qed

lemma sends_weaken: "sends P n a b \<Longrightarrow> n \<le> m \<Longrightarrow> (\<And>e. P e \<Longrightarrow> Q e) \<Longrightarrow> sends Q m a b"
  unfolding sends_def by (meson order_trans)

lemma sends_command: "traced_runner run c a w = (r, w') \<Longrightarrow> P (Command c a) \<Longrightarrow> sends P 1 w w'"
  by (auto simp: traced_runner_def sends_def split: prod.splits)

text \<open>The commands of the benchmark: the routing table, and \<open>curl\<close> bound to the interface found there.\<close>

definition route_command :: "net_event \<Rightarrow> bool" where
  "route_command e \<longleftrightarrow> (\<exists>a. e = Command ''/usr/sbin/ip'' a)"

definition curl_command :: "string \<Rightarrow> net_event \<Rightarrow> bool" where
  "curl_command path e \<longleftrightarrow> (\<exists>family rest. e = Command ''/usr/bin/curl'' (family # ''--interface'' # path # rest))"

lemma linux_probe_sends:
  assumes "runNetworkControlProbe_linux (traced_runner run) family path w = (s, w')"
  shows "sends (curl_command path) 1 w w'"
proof -
  obtain out w1 where run: "traced_runner run ''/usr/bin/curl'' (control_args_linux family path) w = (out, w1)" by (metis surj_pair)
  then have "w' = w1" using assms by (simp add: runNetworkControlProbe_linux_def)
  then show ?thesis
    by (simp only:) (rule sends_command [OF run], simp add: curl_command_def control_args_linux_def)
qed

lemma linux_probes_send:
  "probes (runNetworkControlProbe_linux (traced_runner run) family path) n w = (ss, w') \<Longrightarrow> sends (curl_command path) n w w'"
proof (induction n arbitrary: w ss w')
  case (Suc n)
  obtain s w1 where p: "runNetworkControlProbe_linux (traced_runner run) family path w = (s, w1)" by (metis surj_pair)
  obtain t w2 where r: "probes (runNetworkControlProbe_linux (traced_runner run) family path) n w1 = (t, w2)" by (metis surj_pair)
  show ?case using sends_trans [OF linux_probe_sends [OF p] Suc.IH [OF r]] Suc.prems p r by simp
qed (simp add: sends_refl)

lemma throughput_loop_sends:
  "throughput_loop (traced_runner run) family path upload up n k w = (r, w') \<Longrightarrow> sends (curl_command path) k w w'"
proof (induction k arbitrary: w r w')
  case (Suc k)
  let ?args = "if upload then upload_args family path up else download_args family path"
  obtain raw e w1 where run: "traced_runner run ''/usr/bin/curl'' ?args w = ((raw, e), w1)" by (metis surj_pair)
  have one: "sends (curl_command path) 1 w w1"
    by (rule sends_command [OF run]) (simp add: curl_command_def upload_args_def download_args_def)
  obtain r2 w2 where rest: "throughput_loop (traced_runner run) family path upload up n k w1 = (r2, w2)" by (metis surj_pair)
  have "w' = w1 \<or> w' = w2"
    using Suc.prems run rest by (cases e; cases "parseLinuxThroughputResult raw n") auto
  then show ?case
    using sends_trans [OF one Suc.IH [OF rest]] sends_weaken [OF one, of "Suc k"] by auto
qed (simp add: sends_refl)

lemma throughput_samples_send:
  assumes "collectLinuxThroughputSamples (traced_runner run) family path upload up n w = (r, w')"
  shows "sends (curl_command path) 3 w w'"
proof -
  obtain q w1 where loop: "throughput_loop (traced_runner run) family path upload up n 3 w = (q, w1)" by (metis surj_pair)
  then have "w' = w1" using assms by (simp add: collectLinuxThroughputSamples_def linuxNetworkBenchmarkThroughputSamples_def)
  then show ?thesis using throughput_loop_sends [OF loop] by simp
qed

lemma preferred_path_sends:
  assumes "determineLinuxPreferredPath (traced_runner run) w = (r, w')"
  shows "sends route_command 2 w w'"
proof -
  obtain raw4 e4 w1 where r4: "traced_runner run ''/usr/sbin/ip'' [''-4'', ''route'', ''get'', ''1.1.1.1''] w = ((raw4, e4), w1)"
    by (metis surj_pair)
  obtain raw6 e6 w2 where r6: "traced_runner run ''/usr/sbin/ip'' [''-6'', ''route'', ''get'', ''2606:4700:4700::1111''] w1 = ((raw6, e6), w2)"
    by (metis surj_pair)
  have s: "sends route_command 1 w w1" "sends route_command 1 w1 w2"
    using sends_command [OF r4] sends_command [OF r6] by (auto simp: route_command_def)
  have "w' = w1 \<or> w' = w2" using assms r4 r6 by (auto simp: determineLinuxPreferredPath_def split: sum.splits)
  then show ?thesis using sends_weaken [OF s(1), of 2 route_command] sends_trans [OF s] by (auto simp: numeral_2_eq_2)
qed

lemma finish_linux_sends:
  assumes "finish_linux (traced_runner run) (traced_time now) family path v4 v6 d u w = (r, w')"
  shows "sends (curl_command path) 11 w w'"
proof -
  obtain p1 w1 where p1: "runNetworkControlProbe_linux (traced_runner run) family path w = (p1, w1)" by (metis surj_pair)
  obtain ss w2 where ss: "probes (runNetworkControlProbe_linux (traced_runner run) family path) 10 w1 = (ss, w2)" by (metis surj_pair)
  have s: "sends (curl_command path) 11 w w2"
    using sends_trans [OF linux_probe_sends [OF p1] linux_probes_send [OF ss]] by simp
  have "snd w' = snd w2"
    using assms p1 ss by (auto simp: finish_linux_def networkBenchmarkProbeCount_def traced_time_def split: prod.splits option.splits)
  then show ?thesis using s by (simp add: sends_def)
qed

text \<open>Creating the payload: nothing, or the file; a failure removes what it created.\<close>

lemma payload_events:
  assumes "createLinuxUploadPayload (traced_files fs) n w = (r, w')"
  shows "(\<exists>p. r = Inr p \<and> snd w' = snd w @ [Created p])
       \<or> (\<exists>e. r = Inl e \<and> (snd w' = snd w \<or> (\<exists>p. snd w' = snd w @ [Created p, Removed p])))"
  using assms
  by (auto simp: createLinuxUploadPayload_def traced_files_def split: if_splits prod.splits option.splits bool.splits)

text \<open>The events after the choice of the interface: commands bound to it, and around some of them the
  payload of the upload.\<close>

definition cleaned_up :: "string \<Rightarrow> net_event list \<Rightarrow> net_event list \<Rightarrow> bool" where
  "cleaned_up path routes t \<longleftrightarrow> (\<exists>before after p. (\<forall>e\<in>set (before @ after). curl_command path e)
     \<and> length before \<le> 5 \<and> length after \<le> 14 \<and> (t = routes @ before \<or> t = routes @ before @ Created p # after @ [Removed p]))"

lemma cleaned_up_commands:
  assumes "sends (curl_command path) 5 w1 w"
  shows "cleaned_up path (snd w1) (snd w)"
proof -
  obtain es where "snd w = snd w1 @ es" "length es \<le> 5" "\<forall>e\<in>set es. curl_command path e"
    using assms by (auto simp: sends_def)
  then show ?thesis unfolding cleaned_up_def by (intro exI [of _ es] exI [of _ "[]"]) auto
qed

lemma cleaned_up_payload:
  assumes "sends (curl_command path) 5 w1 w" "t = snd w @ Created p # after @ [Removed p]"
    "\<forall>e\<in>set after. curl_command path e" "length after \<le> 14"
  shows "cleaned_up path (snd w1) t"
proof -
  obtain es where "snd w = snd w1 @ es" "length es \<le> 5" "\<forall>e\<in>set es. curl_command path e"
    using assms(1) by (auto simp: sends_def)
  with assms(2-4) show ?thesis unfolding cleaned_up_def by (intro exI [of _ es] exI [of _ "after"] exI [of _ p]) auto
qed

lemma upload_sends:
  assumes "collectLinuxThroughputSamples (traced_runner run) fam path True up n w5 = (ur, w6)"
    "w7 = (case ur of Inl e \<Rightarrow> w6 | Inr u \<Rightarrow> snd (finish_linux (traced_runner run) (traced_time now) fam path a b d u w6))"
  shows "sends (curl_command path) 14 w5 w7"
proof (cases ur)
  case (Inl e)
  then show ?thesis using assms sends_weaken [OF throughput_samples_send [OF assms(1)], of 14] by simp
next
  case (Inr u)
  obtain fr where fin: "finish_linux (traced_runner run) (traced_time now) fam path a b d u w6 = (fr, w7)"
    using assms(2) Inr by (metis prod.collapse sum.case(2))
  show ?thesis using sends_trans [OF throughput_samples_send [OF assms(1)] finish_linux_sends [OF fin]] by simp
qed

lemma linux_bound_events:
  assumes run: "collectNetworkBenchmarkLinux (traced_runner run) (traced_files fs) (Some (traced_time now)) w = (r, (v', t))"
    and path: "determineLinuxPreferredPath (traced_runner run) w = (Inr path, w1)" "\<not> HasPrefix path ''tailscale''"
  shows "cleaned_up path (snd w1) t"
proof -
  let ?run = "traced_runner run" and ?fs = "traced_files fs" and ?now = "traced_time now" and ?P = "curl_command path"
  obtain p4 w2 where p4: "runNetworkControlProbe_linux ?run ''-4'' path w1 = (p4, w2)" by (metis surj_pair)
  obtain p6 w3 where p6: "runNetworkControlProbe_linux ?run ''-6'' path w2 = (p6, w3)" by (metis surj_pair)
  let ?fam = "if np_Success p4 then ''-4'' else ''-6''"
  obtain dr w4 where dl: "collectLinuxThroughputSamples ?run ?fam path False [] linuxNetworkBenchmarkDownloadBytes w3 = (dr, w4)"
    by (metis surj_pair)
  obtain cr w5 where cp: "createLinuxUploadPayload ?fs linuxNetworkBenchmarkUploadBytes w4 = (cr, w5)" by (metis surj_pair)
  have s3: "sends ?P 2 w1 w3" using sends_trans [OF linux_probe_sends [OF p4] linux_probe_sends [OF p6]] by (simp add: numeral_2_eq_2)
  have s4: "sends ?P 5 w1 w4" using sends_trans [OF s3 throughput_samples_send [OF dl]] by simp
  consider "\<not> (np_Success p4 \<or> np_Success p6)" | e where "np_Success p4 \<or> np_Success p6" "dr = Inl e"
    | d e where "np_Success p4 \<or> np_Success p6" "dr = Inr d" "cr = Inl e"
    | d up where "np_Success p4 \<or> np_Success p6" "dr = Inr d" "cr = Inr up"
    by (metis sumE)
  then show ?thesis
  proof cases
    case 1
    then have "w3 = (v', t)" using run path p4 p6 by (auto simp: collectNetworkBenchmarkLinux_def)
    then show ?thesis using cleaned_up_commands [OF sends_weaken [OF s3]] by auto
  next
    case 2
    then have "w4 = (v', t)" using run path p4 p6 dl by (auto simp: collectNetworkBenchmarkLinux_def Let_def)
    then show ?thesis using cleaned_up_commands [OF s4] by simp
  next
    case 3
    then have "w5 = (v', t)" using run path p4 p6 dl cp by (auto simp: collectNetworkBenchmarkLinux_def Let_def)
    then show ?thesis using payload_events [OF cp] 3 cleaned_up_commands [OF s4] cleaned_up_payload [OF s4, of t _ "[]"] by auto
  next
    case (4 d up)
    then have w5: "snd w5 = snd w4 @ [Created up]" using payload_events [OF cp] by auto
    obtain ur w6 where ul: "collectLinuxThroughputSamples ?run ?fam path True up linuxNetworkBenchmarkUploadBytes w5 = (ur, w6)"
      by (metis surj_pair)
    let ?w7 = "case ur of Inl e \<Rightarrow> w6 | Inr u \<Rightarrow> snd (finish_linux ?run ?now ?fam path (np_Success p4) (np_Success p6) d u w6)"
    have "(v', t) = tf_Remove ?fs up ?w7"
      using run path p4 p6 dl cp 4 ul by (auto simp: collectNetworkBenchmarkLinux_def Let_def split: sum.splits prod.splits)
    then have t: "t = snd ?w7 @ [Removed up]" by (simp add: traced_files_def)
    obtain es where es: "snd ?w7 = snd w5 @ es" "length es \<le> 14" "\<forall>e\<in>set es. ?P e"
      using upload_sends [OF ul refl, of now "np_Success p4" "np_Success p6" d] by (auto simp: sends_def)
    show ?thesis by (rule cleaned_up_payload [OF s4 _ es(3,2)]) (simp only: t es(1) w5 append_assoc append.simps)
  qed
qed

text \<open>C40: The Linux benchmark is bounded, stays on its interface and cleans up. It runs at most 21
  commands: the routing table first, then only \<open>curl\<close> bound to the interface found there, which is
  never a Tailscale interface. If it creates the upload payload, the payload is removed at the end,
  whether the benchmark succeeds or fails at any step.\<close>

theorem network_commands_and_payload:
  assumes "collectNetworkBenchmarkLinux (traced_runner run) (traced_files fs) (Some (traced_time now)) (v, []) = (r, (v', t))"
  shows "\<exists>routes. (\<forall>e\<in>set routes. route_command e) \<and> length routes \<le> 2 \<and>
     (t = routes \<or>
      (\<exists>path before after p. \<not> HasPrefix path ''tailscale'' \<and> (\<forall>e\<in>set (before @ after). curl_command path e)
         \<and> length before \<le> 5 \<and> length after \<le> 14
         \<and> (t = routes @ before \<or> t = routes @ before @ Created p # after @ [Removed p])))"
proof -
  obtain rp w1 where path: "determineLinuxPreferredPath (traced_runner run) (v, []) = (rp, w1)" by (metis surj_pair)
  from preferred_path_sends [OF path] have routes: "\<forall>e\<in>set (snd w1). route_command e" "length (snd w1) \<le> 2"
    by (auto simp: sends_def)
  show ?thesis
  proof (cases "\<exists>path. rp = Inr path \<and> \<not> HasPrefix path ''tailscale''")
    case False
    then have "w1 = (v', t)" using assms path by (cases rp) (auto simp: collectNetworkBenchmarkLinux_def)
    then show ?thesis using routes by (intro exI [of _ t]) simp
  next
    case True
    then obtain path where rp: "rp = Inr path" "\<not> HasPrefix path ''tailscale''" by blast
    from linux_bound_events [OF assms path [unfolded rp(1)] rp(2)] routes rp(2) show ?thesis
      unfolding cleaned_up_def by (intro exI [of _ "snd w1"]) blast
  qed
qed

section \<open>Witnesses\<close>

lemma read_mantissa_digits:
  "list_all is_digit s \<Longrightarrow> read_mantissa False False (m, f, saw) s = ((foldl (\<lambda>n c. 10 * n + digit_val c) m s, f, saw \<or> s \<noteq> []), [])"
proof (induction s arbitrary: m saw)
  case (Cons c s)
  have "c \<noteq> CHR ''_''" "c \<noteq> CHR ''.''" using Cons.prems by (auto simp: is_digit_def)
  then show ?case using Cons by simp
qed simp

text \<open>A plain number of at most 53 bits is read exactly.\<close>

lemma ParseFloat_digits:
  assumes "list_all is_digit s" "s \<noteq> []" "digits_val s < 2 ^ 53" "0 \<le> digits_val s"
  shows "ParseFloat s = Some (Fin (of_int (digits_val s)))"
proof -
  obtain c cs where s: "s = c # cs" using assms(2) by (cases s) auto
  have nc: "c \<noteq> CHR ''+''" "c \<noteq> CHR ''-''" "c \<noteq> CHR ''i''" "c \<noteq> CHR ''n''" "c \<noteq> CHR ''I''" "c \<noteq> CHR ''N''"
    using assms(1) s by (auto simp: is_digit_def)
  have low: "lower_ascii s = c # lower_ascii cs" using assms(1) s by (auto simp: lower_ascii_def is_digit_def)
  have sp: "special_float s = None" using nc low s by (auto simp: special_float_def Let_def)
  have un: "unsigned_part s = (False, s)" using nc s by (simp add: unsigned_part_def)
  have hexfree: "lower_ascii [d] \<noteq> ''x''" if "is_digit d" for d
    using that by (auto simp: lower_ascii_def is_digit_def)
  have body: "(case s of c # d # e # t \<Rightarrow> if c = CHR ''0'' \<and> lower_ascii [d] = ''x'' then (True, e # t) else (False, s) | _ \<Rightarrow> (False, s)) = (False, s)"
    using assms(1) hexfree by (auto split: list.split)
  have us: "CHR ''_'' \<notin> set s" using assms(1) by (auto simp: list_all_iff is_digit_def)
  have m: "read_mantissa False False (0, 0, False) s = ((digits_val s, 0, True), [])"
    using read_mantissa_digits [OF assms(1)] assms(2) by (simp add: digits_val_def)
  show ?thesis
    unfolding ParseFloat_def sp un Let_def option.case prod.case body m exponent_part_def
    using us fl_of_int [of "digits_val s"] assms(3,4) by (simp add: float_value_def)
qed

definition demo_output :: "string \<Rightarrow> string list \<Rightarrow> string" where
  "demo_output c a =
     (if c = ''/usr/sbin/ip'' then ''1.1.1.1 dev eth0''
      else if last a = networkBenchmarkControlURL then ''200 1''
      else if last a = linuxNetworkBenchmarkUploadURL then ''200 10000000 1000000''
      else ''200 25000000 1000000'')"

definition demo_exec :: "unit os_exec" where
  "demo_exec c a w = (\<lparr>x_stdout = [demo_output c a], x_stderr = [], x_err = None\<rparr>, w)"

definition demo_files :: "unit temp_files" where
  "demo_files = \<lparr>tf_CreateTemp = (\<lambda>w. (Some ''/tmp/p'', w)), tf_Truncate = (\<lambda>p n w. (True, w)),
     tf_Close = (\<lambda>p w. (True, w)), tf_Remove = (\<lambda>p w. w)\<rparr>"

lemma demo_run: "networkBenchmarkOSRunner_Run demo_exec c a w = ((demo_output c a, None), w)"
proof -
  have cap: "captured networkBenchmarkLimitedBuffer_Write networkBenchmarkOutputLimit chunks = take (512 * 2 ^ 10) (concat chunks)" for chunks
    using linux_network_buffer.feed_prefix [of networkBenchmarkOutputLimit "[]" chunks]
    by (simp add: captured_def linux_network_buffer.feed_def networkBenchmarkOutputLimit_def)
  have "length (demo_output c a) < 100" "demo_output c a \<noteq> []" by (simp_all add: demo_output_def)
  then show ?thesis
    by (simp add: networkBenchmarkOSRunner_Run_def demo_exec_def cap Let_def)
qed

lemma demo_fields:
  "Fields ''1.1.1.1 dev eth0'' = [''1.1.1.1'', ''dev'', ''eth0'']" "Fields ''200 1'' = [''200'', ''1'']"
  "Fields ''200 10000000 1000000'' = [''200'', ''10000000'', ''1000000'']"
  "Fields ''200 25000000 1000000'' = [''200'', ''25000000'', ''1000000'']"
  "TrimSpace ''eth0'' = ''eth0''" "Atoi ''200'' = Some 200" "HasPrefix ''eth0'' ''tailscale'' = False"
  by code_simp+

lemma demo_numbers:
  "ParseFloat ''1'' = Some (Fin 1)" "ParseFloat ''1000000'' = Some (Fin 1000000)"
  "ParseFloat ''10000000'' = Some (Fin 10000000)" "ParseFloat ''25000000'' = Some (Fin 25000000)"
proof -
  have d: "list_all is_digit ''1''" "list_all is_digit ''1000000''" "list_all is_digit ''10000000''" "list_all is_digit ''25000000''"
    "digits_val ''1'' = 1" "digits_val ''1000000'' = 1000000" "digits_val ''10000000'' = 10000000" "digits_val ''25000000'' = 25000000"
    by code_simp+
  show "ParseFloat ''1'' = Some (Fin 1)" "ParseFloat ''1000000'' = Some (Fin 1000000)"
    "ParseFloat ''10000000'' = Some (Fin 10000000)" "ParseFloat ''25000000'' = Some (Fin 25000000)"
    using ParseFloat_digits [OF d(1)] ParseFloat_digits [OF d(2)] ParseFloat_digits [OF d(3)] ParseFloat_digits [OF d(4)]
    by (simp_all add: d)
qed

lemma demo_path: "determineLinuxPreferredPath (networkBenchmarkOSRunner_Run demo_exec) w = (Inr ''eth0'', w)"
  by (simp add: determineLinuxPreferredPath_def demo_run demo_output_def parseLinuxRouteInterface_def demo_fields)

lemma demo_probe:
  "runNetworkControlProbe_linux (networkBenchmarkOSRunner_Run demo_exec) family path w
     = (\<lparr>np_ConnectDuration = 1000000000, np_Success = True\<rparr>, w)"
proof -
  have "f_of_int Second = Fin 1000000000" using f_of_int_small [of Second] by (simp add: Second_def)
  moreover have "fl 1000000000 = Fin 1000000000" using fl_of_int [of 1000000000] by simp
  ultimately show ?thesis
    by (simp add: runNetworkControlProbe_linux_def demo_run demo_output_def control_args_linux_def probe_result_def
        demo_fields demo_numbers finite_nonneg f_le_def trunc_real_def)
qed

lemma demo_probes:
  "probes (runNetworkControlProbe_linux (networkBenchmarkOSRunner_Run demo_exec) family path) n w
     = (replicate n \<lparr>np_ConnectDuration = 1000000000, np_Success = True\<rparr>, w)"
  by (induction n) (simp_all add: demo_probe)

lemma demo_transfer:
  "\<exists>x. parseLinuxThroughputResult ''200 10000000 1000000'' linuxNetworkBenchmarkUploadBytes = Inr x"
  "\<exists>x. parseLinuxThroughputResult ''200 25000000 1000000'' linuxNetworkBenchmarkDownloadBytes = Inr x"
  using f_of_int_small [of 10000000] f_of_int_small [of 25000000]
  by (simp_all add: parseLinuxThroughputResult_def demo_fields demo_numbers finite_nonneg f_le_def
      linuxNetworkBenchmarkUploadBytes_def linuxNetworkBenchmarkDownloadBytes_def)

lemma demo_urls: "linuxNetworkBenchmarkUploadURL \<noteq> networkBenchmarkControlURL" "linuxNetworkBenchmarkDownloadURL \<noteq> networkBenchmarkControlURL"
  "linuxNetworkBenchmarkDownloadURL \<noteq> linuxNetworkBenchmarkUploadURL"
  by code_simp+

lemma demo_throughput:
  "\<exists>x. collectLinuxThroughputSamples (networkBenchmarkOSRunner_Run demo_exec) family path False [] linuxNetworkBenchmarkDownloadBytes w = (Inr x, w)"
  "\<exists>x. collectLinuxThroughputSamples (networkBenchmarkOSRunner_Run demo_exec) family path True up linuxNetworkBenchmarkUploadBytes w = (Inr x, w)"
proof -
  obtain x y where x: "parseLinuxThroughputResult ''200 25000000 1000000'' linuxNetworkBenchmarkDownloadBytes = Inr x"
    and y: "parseLinuxThroughputResult ''200 10000000 1000000'' linuxNetworkBenchmarkUploadBytes = Inr y" using demo_transfer by blast
  have perc: "\<exists>v. linuxPercentile [z, z, z] linuxNetworkBenchmarkPercentile = Inr v" if "z = PosInf \<or> good_float z" for z
    using percentile_nonneg [of z z z] that by auto
  obtain vx vy where v: "linuxPercentile [x, x, x] linuxNetworkBenchmarkPercentile = Inr vx"
    "linuxPercentile [y, y, y] linuxNetworkBenchmarkPercentile = Inr vy"
    using perc throughput_result_good [OF x] throughput_result_good [OF y] by blast
  have out: "demo_output ''/usr/bin/curl'' (download_args family path) = ''200 25000000 1000000''"
    "demo_output ''/usr/bin/curl'' (upload_args family path up) = ''200 10000000 1000000''"
    using demo_urls by (simp_all add: demo_output_def download_args_def upload_args_def)
  show "\<exists>x. collectLinuxThroughputSamples (networkBenchmarkOSRunner_Run demo_exec) family path False [] linuxNetworkBenchmarkDownloadBytes w = (Inr x, w)"
    "\<exists>x. collectLinuxThroughputSamples (networkBenchmarkOSRunner_Run demo_exec) family path True up linuxNetworkBenchmarkUploadBytes w = (Inr x, w)"
    using v by (simp_all add: collectLinuxThroughputSamples_def linuxNetworkBenchmarkThroughputSamples_def numeral_3_eq_3
        demo_run out x y)
qed

lemma demo_collect:
  "\<exists>b. CollectNetworkBenchmark_linux demo_exec demo_files (\<lambda>w. (1000, w)) () = (Inr b, ()) \<and> nb_CollectedAt b = 1000"
proof -
  obtain d where d: "collectLinuxThroughputSamples (networkBenchmarkOSRunner_Run demo_exec) ''-4'' ''eth0'' False [] linuxNetworkBenchmarkDownloadBytes () = (Inr d, ())"
    using demo_throughput(1) by blast
  obtain u where u: "collectLinuxThroughputSamples (networkBenchmarkOSRunner_Run demo_exec) ''-4'' ''eth0'' True ''/tmp/p'' linuxNetworkBenchmarkUploadBytes () = (Inr u, ())"
    using demo_throughput(2) by blast
  have p: "createLinuxUploadPayload demo_files linuxNetworkBenchmarkUploadBytes () = (Inr ''/tmp/p'', ())"
    by (simp add: createLinuxUploadPayload_def demo_files_def linuxNetworkBenchmarkUploadBytes_def)
  have s: "\<exists>lat jit loss. summarizeNetworkProbes (replicate 10 \<lparr>np_ConnectDuration = 1000000000, np_Success = True\<rparr>) = ((lat, jit, loss), None)"
    by (simp add: numeral_eq_Suc summarizeNetworkProbes_def Let_def)
  then obtain lat jit loss where s: "summarizeNetworkProbes (replicate 10 \<lparr>np_ConnectDuration = 1000000000, np_Success = True\<rparr>) = ((lat, jit, loss), None)"
    by blast
  show ?thesis
    by (simp add: CollectNetworkBenchmark_linux_def collectNetworkBenchmarkLinux_def demo_path demo_fields demo_probe d u p
        finish_linux_def demo_probes networkBenchmarkProbeCount_def s)
qed

theorem throughput_between_best_two_witness:
  "\<exists>x s. collectLinuxThroughputSamples (networkBenchmarkOSRunner_Run demo_exec) ''-4'' ''eth0'' False [] linuxNetworkBenchmarkDownloadBytes () = (Inr x, ())
     \<and> length s = (3::nat) \<and> (PosInf \<notin> set s \<longrightarrow> sort s ! 1 \<le> x \<and> x \<le> sort s ! 2)"
proof -
  obtain x where x: "collectLinuxThroughputSamples (networkBenchmarkOSRunner_Run demo_exec) ''-4'' ''eth0'' False [] linuxNetworkBenchmarkDownloadBytes () = (Inr x, ())"
    using demo_throughput(1) by blast
  from throughput_between_best_two [OF x] x show ?thesis by blast
qed

theorem network_commands_and_payload_witness:
  "\<exists>r v' t routes. collectNetworkBenchmarkLinux (traced_runner (networkBenchmarkOSRunner_Run demo_exec)) (traced_files demo_files)
        (Some (traced_time (\<lambda>w. (1000, w)))) ((), []) = (r, (v', t))
     \<and> length (routes :: net_event list) \<le> 2
     \<and> (t = routes \<or> (\<exists>before after p. t = routes @ before \<or> t = routes @ before @ Created p # after @ [Removed p]))"
proof -
  obtain r v' t where run: "collectNetworkBenchmarkLinux (traced_runner (networkBenchmarkOSRunner_Run demo_exec)) (traced_files demo_files)
        (Some (traced_time (\<lambda>w. (1000, w)))) ((), []) = (r, (v', t))" by (metis surj_pair)
  from network_commands_and_payload [OF run] run show ?thesis by blast
qed

end
