(* ===== verification/GoRegexp.thy ===== *)
theory GoRegexp
  imports GoStrings
begin

text \<open>
  Go's \<open>regexp\<close> package as far as the agent uses it: leftmost matches, alternatives and repetitions in
  the order of preference (greedy or lazy), capturing groups, the anchors and word boundaries. A
  pattern is a value of \<open>re\<close>, translated from its text construct by construct. Texts are bytes; a
  letter under \<open>(?i)\<close> also stands for the runes that fold to it.
\<close>

datatype re =
    Eps
  | Byte "char \<Rightarrow> bool"
  | Cat re re
  | Or re re
  | Star re
  | LazyStar re
  | Group nat re
  | BeginText
  | EndText
  | WordBoundary

text \<open>A position: the byte before it, the rest of the text, and the groups captured so far.\<close>

type_synonym position = "char option \<times> string \<times> (nat \<times> string) list"

definition rest_of :: "position \<Rightarrow> string" where "rest_of p = fst (snd p)"

text \<open>The repetitions, in order of preference; every round consumes something.\<close>

fun repeat_greedy :: "nat \<Rightarrow> (position \<Rightarrow> position list) \<Rightarrow> position \<Rightarrow> position list" where
  "repeat_greedy 0 m p = [p]"
| "repeat_greedy (Suc n) m p =
     concat (map (repeat_greedy n m) (filter (\<lambda>q. length (rest_of q) < length (rest_of p)) (m p))) @ [p]"

fun repeat_lazy :: "nat \<Rightarrow> (position \<Rightarrow> position list) \<Rightarrow> position \<Rightarrow> position list" where
  "repeat_lazy 0 m p = [p]"
| "repeat_lazy (Suc n) m p =
     p # concat (map (repeat_lazy n m) (filter (\<lambda>q. length (rest_of q) < length (rest_of p)) (m p)))"

definition word_byte :: "char option \<Rightarrow> bool" where
  "word_byte c = (case c of None \<Rightarrow> False
     | Some x \<Rightarrow> is_digit x \<or> x = CHR ''_'' \<or> (let n = (of_char x :: nat) in (65 \<le> n \<and> n \<le> 90) \<or> (97 \<le> n \<and> n \<le> 122)))"

definition next_byte :: "string \<Rightarrow> char option" where
  "next_byte s = (case s of [] \<Rightarrow> None | c # _ \<Rightarrow> Some c)"

primrec matches :: "re \<Rightarrow> position \<Rightarrow> position list" where
  "matches Eps p = [p]"
| "matches (Byte P) p =
     (case p of (prev, s, gs) \<Rightarrow> (case s of [] \<Rightarrow> [] | c # cs \<Rightarrow> if P c then [(Some c, cs, gs)] else []))"
| "matches (Cat a b) p = concat (map (matches b) (matches a p))"
| "matches (Or a b) p = matches a p @ matches b p"
| "matches (Star a) p = repeat_greedy (length (rest_of p)) (matches a) p"
| "matches (LazyStar a) p = repeat_lazy (length (rest_of p)) (matches a) p"
| "matches (Group n a) p =
     (case p of (prev, s, gs) \<Rightarrow>
        map (\<lambda>q. case q of (prev', s', gs') \<Rightarrow> (prev', s', (n, take (length s - length s') s) # gs')) (matches a p))"
| "matches BeginText p = (case p of (prev, s, gs) \<Rightarrow> if prev = None then [p] else [])"
| "matches EndText p = (case p of (prev, s, gs) \<Rightarrow> if s = [] then [p] else [])"
| "matches WordBoundary p =
     (case p of (prev, s, gs) \<Rightarrow> if word_byte prev \<noteq> word_byte (next_byte s) then [p] else [])"

text \<open>The leftmost match at or behind a position: the text before it, the matched text, and where it ends.\<close>

fun find_from :: "re \<Rightarrow> char option \<Rightarrow> string \<Rightarrow> (string \<times> string \<times> position) option" where
  "find_from r prev s =
     (case matches r (prev, s, []) of
        q # _ \<Rightarrow> Some ([], take (length s - length (rest_of q)) s, q)
      | [] \<Rightarrow> (case s of [] \<Rightarrow> None
               | c # cs \<Rightarrow> map_option (\<lambda>(before, m, q). (c # before, m, q)) (find_from r (Some c) cs)))"

declare find_from.simps [simp del]

definition MatchString :: "re \<Rightarrow> string \<Rightarrow> bool" where
  "MatchString r s \<longleftrightarrow> find_from r None s \<noteq> None"

definition FindString :: "re \<Rightarrow> string \<Rightarrow> string" where
  "FindString r s = (case find_from r None s of None \<Rightarrow> [] | Some (_, m, _) \<Rightarrow> m)"

text \<open>\<open>FindStringSubmatch\<close>: the groups of the leftmost match; a group that took no part is empty.\<close>

definition FindStringSubmatch :: "re \<Rightarrow> string \<Rightarrow> (nat \<Rightarrow> string) option" where
  "FindStringSubmatch r s =
     (case find_from r None s of None \<Rightarrow> None
      | Some (_, m, (_, _, gs)) \<Rightarrow>
          Some (\<lambda>n. if n = 0 then m else case map_of gs n of None \<Rightarrow> [] | Some g \<Rightarrow> g))"

text \<open>All matches without overlap, from left to right, for patterns that match no empty text, with the
  text between them: at most one match per byte.\<close>

fun find_all :: "nat \<Rightarrow> re \<Rightarrow> char option \<Rightarrow> string \<Rightarrow> (string \<times> string) list \<times> string" where
  "find_all 0 r prev s = ([], s)"
| "find_all (Suc n) r prev s =
     (case find_from r prev s of None \<Rightarrow> ([], s)
      | Some (before, m, (prev', s', _)) \<Rightarrow>
          (case find_all n r prev' s' of (ms, tail) \<Rightarrow> ((before, m) # ms, tail)))"

definition FindAllString :: "re \<Rightarrow> string \<Rightarrow> string list" where
  "FindAllString r s = map snd (fst (find_all (length s) r None s))"

definition RemoveAllString :: "re \<Rightarrow> string \<Rightarrow> string" where
  "RemoveAllString r s = (case find_all (length s) r None s of (ms, tail) \<Rightarrow> concat (map fst ms) @ tail)"

section \<open>Building patterns\<close>

fun cats :: "re list \<Rightarrow> re" where
  "cats [] = Eps" | "cats [r] = r" | "cats (r # rs) = Cat r (cats rs)"

fun ors :: "re list \<Rightarrow> re" where
  "ors [] = Or (Byte (\<lambda>c. False)) (Byte (\<lambda>c. False))" | "ors [r] = r" | "ors (r # rs) = Or r (ors rs)"

definition Plus :: "re \<Rightarrow> re" where "Plus r = Cat r (Star r)"
definition Optional :: "re \<Rightarrow> re" where "Optional r = Or r Eps"
definition times_re :: "nat \<Rightarrow> re \<Rightarrow> re" where "times_re n r = cats (replicate n r)"

definition Lit :: "string \<Rightarrow> re" where "Lit s = cats (map (\<lambda>c. Byte (\<lambda>x. x = c)) s)"

text \<open>A letter under \<open>(?i)\<close>; \<open>k\<close> and \<open>s\<close> have a rune outside ASCII that folds to them.\<close>

definition fold_byte :: "char \<Rightarrow> re" where
  "fold_byte c =
     (let b = Byte (\<lambda>x. lower_char x = lower_char c) in
      if lower_char c = CHR ''k'' then Or b (Lit [CHR 0xE2, CHR 0x84, CHR 0xAA])
      else if lower_char c = CHR ''s'' then Or b (Lit [CHR 0xC5, CHR 0xBF])
      else b)"

definition FoldLit :: "string \<Rightarrow> re" where "FoldLit s = cats (map fold_byte s)"

definition AnyByte :: re where "AnyByte = Byte (\<lambda>c. c \<noteq> CHR 0x0A)"
definition Digit :: re where "Digit = Byte is_digit"
definition Space :: re where "Space = Byte (\<lambda>c. c \<in> {CHR 0x09, CHR 0x0A, CHR 0x0C, CHR 0x0D, CHR '' ''})"

definition is_alnum :: "char \<Rightarrow> bool" where
  "is_alnum c \<longleftrightarrow> is_digit c \<or> (97 \<le> (of_char (lower_char c) :: nat) \<and> (of_char (lower_char c) :: nat) \<le> 122)"

text \<open>\<open>[A-Z0-9]\<close> under \<open>(?i)\<close>.\<close>

definition FoldAlnum :: re where
  "FoldAlnum = ors [Byte is_alnum, Lit [CHR 0xE2, CHR 0x84, CHR 0xAA], Lit [CHR 0xC5, CHR 0xBF]]"

section \<open>Matches are part of the text\<close>

lemma repeat_suffix:
  assumes "\<And>q p. q \<in> set (m p) \<Longrightarrow> suffix (rest_of q) (rest_of p)"
  shows "q \<in> set (repeat_greedy n m p) \<Longrightarrow> suffix (rest_of q) (rest_of p)"
    and "q \<in> set (repeat_lazy n m p) \<Longrightarrow> suffix (rest_of q) (rest_of p)"
proof -
  show "q \<in> set (repeat_greedy n m p) \<Longrightarrow> suffix (rest_of q) (rest_of p)"
  proof (induction n arbitrary: p)
    case (Suc n)
    from Suc.prems consider "q = p" | x where "x \<in> set (m p)" "q \<in> set (repeat_greedy n m x)" by auto
    then show ?case
    proof cases
      case (2 x)
      then show ?thesis using suffix_order.trans [OF Suc.IH assms] by blast
    qed simp
  qed simp
  show "q \<in> set (repeat_lazy n m p) \<Longrightarrow> suffix (rest_of q) (rest_of p)"
  proof (induction n arbitrary: p)
    case (Suc n)
    from Suc.prems consider "q = p" | x where "x \<in> set (m p)" "q \<in> set (repeat_lazy n m x)" by auto
    then show ?case
    proof cases
      case (2 x)
      then show ?thesis using suffix_order.trans [OF Suc.IH assms] by blast
    qed simp
  qed simp
qed

lemma matches_suffix: "q \<in> set (matches r p) \<Longrightarrow> suffix (rest_of q) (rest_of p)"
proof (induction r arbitrary: p q)
  case (Byte P)
  then show ?case by (auto simp: rest_of_def suffix_ConsI split: list.splits if_splits)
next
  case (Cat a b)
  from Cat.prems obtain x where "x \<in> set (matches a p)" "q \<in> set (matches b x)" by auto
  then show ?case using suffix_order.trans [OF Cat.IH(2) Cat.IH(1)] by blast
next
  case (Star a)
  then show ?case using repeat_suffix(1) [of "matches a"] by (auto simp del: repeat_greedy.simps)
next
  case (LazyStar a)
  then show ?case using repeat_suffix(2) [of "matches a"] by (auto simp del: repeat_lazy.simps)
next
  case (Group n a)
  then show ?case by (fastforce simp: rest_of_def split: prod.splits)
qed (auto split: prod.splits if_splits)

text \<open>The leftmost match splits the text.\<close>

lemma find_from_split:
  "find_from r prev s = Some (before, m, q) \<Longrightarrow> s = before @ m @ rest_of q"
proof (induction s arbitrary: prev before)
  case (Cons c cs)
  show ?case
  proof (cases "matches r (prev, c # cs, [])")
    case Nil
    with Cons.prems obtain b where "find_from r (Some c) cs = Some (b, m, q)" "before = c # b"
      by (auto simp: find_from.simps [of r prev "c # cs"])
    then show ?thesis using Cons.IH by simp
  next
    case (Cons q' qs)
    then have q: "before = []" "q' = q" "m = take (length (c # cs) - length (rest_of q)) (c # cs)"
      using Cons.prems by (auto simp: find_from.simps [of r prev "c # cs"])
    have "suffix (rest_of q) (c # cs)" using matches_suffix [of q r "(prev, c # cs, [])"] Cons q by (simp add: rest_of_def)
    then obtain t where "c # cs = t @ rest_of q" by (auto simp: suffix_def)
    then show ?thesis using q by simp
  qed
next
  case Nil
  then obtain qs where "matches r (prev, [], []) = q # qs" "before = []" "m = []"
    by (auto simp: find_from.simps [of r prev "[]"] split: list.splits)
  moreover have "suffix (rest_of q) []" using matches_suffix [of q r "(prev, [], [])"] calculation by (simp add: rest_of_def)
  ultimately show ?case by simp
qed

lemma find_all_split: "find_all n r prev s = (ms, tail) \<Longrightarrow> s = concat (map (\<lambda>(b, m). b @ m) ms) @ tail"
proof (induction n arbitrary: prev s ms tail)
  case (Suc n)
  show ?case
  proof (cases "find_from r prev s")
    case None
    then show ?thesis using Suc.prems by simp
  next
    case (Some x)
    obtain before m prev' s' gs where x: "x = (before, m, (prev', s', gs))" by (metis surj_pair)
    obtain ms' where "find_all n r prev' s' = (ms', tail)" "ms = (before, m) # ms'"
      using Suc.prems Some x by (auto split: prod.splits)
    then show ?thesis using Suc.IH find_from_split [OF Some [unfolded x]] by (simp add: rest_of_def)
  qed
qed simp

end
