(* ===== verification/Inventory.thy ===== *)
theory Inventory
  imports Identity GoNumber GoRegexp "HOL-Library.AList" "HOL-Library.List_Lexorder" "HOL-Library.Product_Lexorder"
begin

text \<open>
  What \<^verbatim>\<open>agent/inventory_linux.go\<close> and \<^verbatim>\<open>agent/inventory_darwin.go\<close> have in common: the maps of
  parsed fields, sizes with units, the confinement of paths, and the discovery of model files below a
  root. The file system below a root is a tree; \<open>strings.ToLower\<close> on all of Unicode is an argument
  (\<open>lower\<close>) wherever more than its ASCII part is observable, and so is the order in which a map is
  enumerated.
\<close>

section \<open>Texts, fields and numbers\<close>

fun firstNonEmpty :: "string list \<Rightarrow> string" where
  "firstNonEmpty [] = []"
| "firstNonEmpty (v # vs) = (if TrimSpace v \<noteq> [] then TrimSpace v else firstNonEmpty vs)"

text \<open>A Go map of strings; a missing key reads as the empty string.\<close>

type_synonym string_map = "string \<Rightarrow> string option"

definition value_of :: "string_map \<Rightarrow> string \<Rightarrow> string" where
  "value_of m k = (case m k of None \<Rightarrow> [] | Some v \<Rightarrow> v)"

text \<open>\<open>strings.Trim(s, cutset)\<close> for a cutset of bytes.\<close>

definition TrimSet :: "string \<Rightarrow> string \<Rightarrow> string" where
  "TrimSet s cutset = rev (dropWhile (\<lambda>c. c \<in> set cutset) (rev (dropWhile (\<lambda>c. c \<in> set cutset) s)))"

text \<open>\<open>v, _ := strconv.Atoi(s)\<close>: zero on a syntax error, the nearest integer when out of range.\<close>

definition Atoi_value :: "string \<Rightarrow> int" where
  "Atoi_value s =
     (let (neg, ds) = unsigned_part s;
          v = (if neg then - digits_val ds else digits_val ds)
      in if ds = [] \<or> \<not> list_all is_digit ds then 0
         else if v < - (2 ^ 63) then - (2 ^ 63) else if v \<ge> 2 ^ 63 then 2 ^ 63 - 1 else v)"

text \<open>\<open>uint64(x)\<close> of a float as amd64 computes it, also out of range.\<close>

definition f_to_u64 :: "f64 \<Rightarrow> u64" where
  "f_to_u64 x =
     (if f_lt x (Fin (2 ^ 63)) then word_of_int (f_to_int x)
      else or (word_of_int (f_to_int (f_sub x (Fin (2 ^ 63))))) (2 ^ 63))"

text \<open>\<open>strings.ToUpper\<close> as far as a comparison with ASCII text can see it: the long s and the dotless i
  have an upper case in ASCII.\<close>

fun ToUpper :: "string \<Rightarrow> string" where
  "ToUpper [] = []"
| "ToUpper (c # cs) =
     (if ascii_byte c then upper_char c # ToUpper cs
      else if prefix [CHR 0xC5, CHR 0xBF] (c # cs) then CHR ''S'' # ToUpper (drop 1 cs)
      else if prefix [CHR 0xC4, CHR 0xB1] (c # cs) then CHR ''I'' # ToUpper (drop 1 cs)
      else c # ToUpper cs)"

definition decimal_units :: "(string \<times> f64) list" where
  "decimal_units = [(''KB'', Fin 1000), (''MB'', Fin 1000000), (''GB'', Fin 1000000000), (''TB'', Fin 1000000000000)]"

text \<open>A size such as \<open>4.7 GB\<close>: \<open>parseHumanBytes\<close>, and \<open>darwinHumanBytes\<close> with the same body.\<close>

definition parseHumanBytes :: "string \<Rightarrow> string \<Rightarrow> u64 option" where
  "parseHumanBytes value unit =
     (case ParseFloat value of None \<Rightarrow> None
      | Some v \<Rightarrow>
          if f_lt v (Fin 0) then None
          else (case map_of decimal_units (ToUpper unit) of None \<Rightarrow> None
                | Some m \<Rightarrow> Some (f_to_u64 (f_mul v m))))"

text \<open>One line of \<open>ollama list\<close>.\<close>

definition ollama_model :: "(string \<Rightarrow> string \<Rightarrow> u64 option) \<Rightarrow> string list \<Rightarrow> ModelInventory" where
  "ollama_model humanBytes xs =
     \<lparr>mdl_Name = xs ! 0, mdl_Runtime = ''Ollama'', mdl_Format = ''ollama'', mdl_Quantization = [],
      mdl_SizeBytes = (if length xs \<ge> 4
                       then (case humanBytes (xs ! 2) (xs ! 3) of None \<Rightarrow> 0 | Some sz \<Rightarrow> sz)
                       else 0)\<rparr>"

text \<open>The lines that name a model; the first line is left out if it is the heading.\<close>

definition ollama_lines :: "string \<Rightarrow> string list list" where
  "ollama_lines raw =
     (let lines = Split (CHR 0x0A) raw;
          body = (if HasPrefix (TrimSpace (hd lines)) ''NAME'' then tl lines else lines)
      in filter (\<lambda>xs. xs \<noteq> []) (map Fields body))"

section \<open>Paths\<close>

definition IsAbs :: "string \<Rightarrow> bool" where "IsAbs p \<longleftrightarrow> HasPrefix p ''/''"

text \<open>\<open>filepath.Abs\<close>; \<open>cwd\<close> is the working directory, if there is one.\<close>

definition Abs :: "string option \<Rightarrow> string \<Rightarrow> string option" where
  "Abs cwd p = (if IsAbs p then Some (Clean p) else map_option (\<lambda>d. JoinPath [d, p]) cwd)"

definition path_elems :: "string \<Rightarrow> string list" where
  "path_elems p = filter (\<lambda>e. e \<noteq> []) (Split (CHR ''/'') (Clean p))"

fun drop_common :: "'a list \<Rightarrow> 'a list \<Rightarrow> 'a list \<times> 'a list" where
  "drop_common (x # xs) (y # ys) = (if x = y then drop_common xs ys else (x # xs, y # ys))"
| "drop_common xs ys = (xs, ys)"

text \<open>\<open>filepath.Rel\<close>, exact for two absolute paths (the code makes every path absolute before); an
  absolute and a relative path are an error.\<close>

definition Rel :: "string \<Rightarrow> string \<Rightarrow> string option" where
  "Rel base targ =
     (if IsAbs base \<noteq> IsAbs targ then None
      else case drop_common (path_elems base) (path_elems targ) of
        (b, t) \<Rightarrow> Some (if b = [] \<and> t = [] then ''.'' else Join (map (\<lambda>_. ''..'') b @ t) ''/''))"

definition pathInsideRoot :: "string \<Rightarrow> string \<Rightarrow> bool" where
  "pathInsideRoot base target =
     (case Rel base target of None \<Rightarrow> False
      | Some rel \<Rightarrow> if IsAbs rel then False else rel \<noteq> ''..'' \<and> \<not> HasPrefix rel ''../'')"

text \<open>\<open>filepath.Ext\<close> of a name without separators.\<close>

definition Ext :: "string \<Rightarrow> string" where
  "Ext name = (if CHR ''.'' \<in> set name then CHR ''.'' # rev (takeWhile (\<lambda>c. c \<noteq> CHR ''.'') (rev name)) else [])"

section \<open>Model files\<close>

text \<open>What lies below a root: directories with their entries in the order of their names, symbolic links
  with the absolute path they resolve to (if they do) and what \<open>Stat\<close> says there, and everything else
  with what \<open>Info\<close> says.\<close>

record file_info =
  fi_IsRegular :: bool
  fi_Size :: int

datatype tree =
    Directory "(string \<times> tree) list"
  | Link "(string \<times> file_info option) option"
  | Entry "file_info option"

definition maxModelWalkDepth :: nat where "maxModelWalkDepth = 6"
definition maxDiscoveredModels :: nat where "maxDiscoveredModels = 200"

text \<open>\<open>filepath.WalkDir\<close>: the entries other than directories in its order, each with its depth; a
  directory that is too deep is skipped. A directory that cannot be read has the entries that could.\<close>

fun walk :: "nat \<Rightarrow> string \<Rightarrow> tree \<Rightarrow> (nat \<times> string \<times> tree) list"
  and walk_entries :: "nat \<Rightarrow> (string \<times> tree) list \<Rightarrow> (nat \<times> string \<times> tree) list" where
  "walk depth name (Directory es) = (if depth > maxModelWalkDepth then [] else walk_entries (Suc depth) es)"
| "walk depth name (Link target) = [(depth, name, Link target)]"
| "walk depth name (Entry info) = [(depth, name, Entry info)]"
| "walk_entries depth [] = []"
| "walk_entries depth ((n, t) # es) = walk depth n t @ walk_entries depth es"

definition regular_size :: "file_info option \<Rightarrow> int option" where
  "regular_size info =
     (case info of None \<Rightarrow> None
      | Some i \<Rightarrow> if \<not> fi_IsRegular i \<or> fi_Size i < 0 then None else Some (fi_Size i))"

text \<open>The size with which an entry counts, if it does.\<close>

definition counted :: "string \<Rightarrow> nat \<times> string \<times> tree \<Rightarrow> int option" where
  "counted resolvedRoot e =
     (case e of (depth, name, node) \<Rightarrow>
        if depth > maxModelWalkDepth then None
        else if \<not> EqualFold (Ext name) ''.gguf'' then None
        else if HasPrefix (ToLower name) ''mmproj-'' then None
        else (case node of
                Directory _ \<Rightarrow> None
              | Link None \<Rightarrow> None
              | Link (Some (resolved, info)) \<Rightarrow>
                  if \<not> pathInsideRoot resolvedRoot resolved then None else regular_size info
              | Entry info \<Rightarrow> regular_size info))"

definition multipartGGUF :: re where
  "multipartGGUF = cats [BeginText, Group 1 (Star AnyByte), Lit ''-'', Group 2 (times_re 5 Digit), FoldLit ''-of-'',
     Group 3 (times_re 5 Digit), FoldLit ''.gguf'', EndText]"

text \<open>The key of the group a file belongs to, and the name of the group.\<close>

definition group_key :: "(string \<Rightarrow> string) \<Rightarrow> string \<Rightarrow> string \<times> string" where
  "group_key lower name =
     (case FindStringSubmatch multipartGGUF name of
        Some m \<Rightarrow> (let n = m 1 @ ''.gguf'' in (lower n, n))
      | None \<Rightarrow> (lower name, name))"

text \<open>Adding a file to its group; a new group is only opened when there is room.\<close>

type_synonym groups = "(string \<times> string \<times> u64) list"

definition add_file :: "(nat \<Rightarrow> bool) \<Rightarrow> string \<times> string \<Rightarrow> int \<Rightarrow> groups \<Rightarrow> groups" where
  "add_file full kn sz groups =
     (case kn of (key, name) \<Rightarrow>
        (case map_of groups key of
           None \<Rightarrow> if full (length groups) then groups else groups @ [(key, name, word_of_int sz)]
         | Some _ \<Rightarrow> map (\<lambda>(k, n, s). if k = key then (k, n, s + word_of_int sz) else (k, n, s)) groups))"

definition visit :: "(nat \<Rightarrow> bool) \<Rightarrow> (string \<Rightarrow> string) \<Rightarrow> string \<Rightarrow> nat \<times> string \<times> tree \<Rightarrow> groups \<Rightarrow> groups" where
  "visit full lower resolvedRoot e groups =
     (case counted resolvedRoot e of None \<Rightarrow> groups
      | Some sz \<Rightarrow> add_file full (group_key lower (fst (snd e))) sz groups)"

definition model_groups :: "(nat \<Rightarrow> bool) \<Rightarrow> (string \<Rightarrow> string) \<Rightarrow> string \<Rightarrow> (string \<times> tree) list \<Rightarrow> groups" where
  "model_groups full lower resolvedRoot es =
     fold (visit full lower resolvedRoot) (walk 0 [] (Directory es)) []"

definition group_model :: "(string \<Rightarrow> string) \<Rightarrow> string \<times> string \<times> u64 \<Rightarrow> ModelInventory" where
  "group_model quantization g =
     (case g of (key, name, sz) \<Rightarrow>
        let base = TrimSuffix name (Ext name)
        in \<lparr>mdl_Name = base, mdl_Runtime = ''llama.cpp'', mdl_Format = ''GGUF'',
            mdl_Quantization = quantization base, mdl_SizeBytes = sz\<rparr>)"

definition quantizationPattern :: re where
  "quantizationPattern =
     (let word = Plus FoldAlnum in
      Group 1 (ors [cats [FoldLit ''Q'', Plus Digit, Plus (Cat (Lit ''_'') word)],
                    cats [FoldLit ''IQ'', Plus Digit, Lit ''_'', word],
                    cats [FoldLit ''UD-IQ'', Plus Digit, Lit ''_'', word]]))"

text \<open>The keys of the map of all models, and its enumeration: in some order, then sorted.\<close>

definition ollama_key :: "ModelInventory \<Rightarrow> string" where
  "ollama_key m = ''ollama'' @ [CHR 0x00] @ mdl_Name m"

definition gguf_key :: "(string \<Rightarrow> string) \<Rightarrow> ModelInventory \<Rightarrow> string" where
  "gguf_key lower m = ''gguf'' @ [CHR 0x00] @ lower (mdl_Name m) @ [CHR 0x00] @ nat_dec (unat (mdl_SizeBytes m))"

type_synonym enumeration = "string \<Rightarrow> ModelInventory list \<Rightarrow> ModelInventory list"

definition sorted_models :: "ModelInventory list \<Rightarrow> ModelInventory list" where
  "sorted_models = sort_key (\<lambda>m. (mdl_Runtime m, mdl_Name m))"

text \<open>A root: what is there without following a link, and the path it resolves to.\<close>

type_synonym 'w roots = "string \<Rightarrow> 'w \<Rightarrow> (tree \<times> string option) option"

definition model_roots :: "string \<Rightarrow> string list" where
  "model_roots home =
     [JoinPath [home, ''.cache'', ''huggingface'', ''hub''], JoinPath [home, ''.cache'', ''llama.cpp''],
      JoinPath [home, ''models'']]"

text \<open>The line of \<open>vulkaninfo --summary\<close> with the version.\<close>

definition vulkan_version :: "string \<Rightarrow> string" where
  "vulkan_version out =
     (case find (\<lambda>l. HasPrefix (TrimSpace l) ''Vulkan Instance Version:'') (Split (CHR 0x0A) out) of
        None \<Rightarrow> []
      | Some l \<Rightarrow> TrimSpace (TrimPrefix (TrimSpace l) ''Vulkan Instance Version:''))"

end
