(* ===== verification/InventoryLinux.thy ===== *)
theory InventoryLinux
  imports Inventory
begin

text \<open>
  \<^verbatim>\<open>agent/inventory_linux.go\<close>: the hardware inventory of a Linux machine, from the files and the
  commands of the machine. Both act on a state \<open>'w\<close> of the outside world; the contexts with their
  timeouts are left out (a command may fail).
\<close>

definition inventoryOutputLimit :: int where "inventoryOutputLimit = 256 * 2 ^ 10"

definition limitedBuffer_Write :: "buffer \<Rightarrow> string \<Rightarrow> nat \<times> buffer" where
  "limitedBuffer_Write b p0 =
     (case b of (w, n) \<Rightarrow>
        if n \<le> 0 then (length p0, b)
        else let p = (if int (length p0) > n then take (nat n) p0 else p0)
             in (length p0, (w @ p, n - int (length p))))"

interpretation linux_inventory_buffer: limited_writer limitedBuffer_Write
  by unfold_locales (auto simp: limitedBuffer_Write_def Let_def)

definition osCommandRunner_Run :: "'w os_exec \<Rightarrow> 'w runner" where
  "osCommandRunner_Run ex name args w =
     (case ex name args w of (r, w') \<Rightarrow>
        let stdout = captured limitedBuffer_Write inventoryOutputLimit (x_stdout r);
            stderr = captured limitedBuffer_Write inventoryOutputLimit (x_stderr r)
        in ((if length stdout = 0 then stderr else stdout, x_err r), w'))"

text \<open>The machine as the collection sees it: \<open>commandRunner\<close> and the functions it is given, the two
  constants of the runtime, the clock, the model roots, and the order of enumeration of maps.\<close>

record 'w linux_machine =
  lm_Run :: "'w runner"
  lm_ReadFile :: "string \<Rightarrow> 'w \<Rightarrow> string option"
  lm_Stat :: "string \<Rightarrow> 'w \<Rightarrow> bool"
  lm_HomeDir :: "'w \<Rightarrow> string"
  lm_Now :: "'w \<Rightarrow> gotime \<times> 'w"
  lm_GOARCH :: string
  lm_NumCPU :: int
  lm_Roots :: "'w roots"
  lm_Lower :: "string \<Rightarrow> string"
  lm_Range :: enumeration

section \<open>Operating system, CPU and memory\<close>

definition os_release_line :: "string \<Rightarrow> string_map \<Rightarrow> string_map" where
  "os_release_line raw values =
     (let line = TrimSpace raw in
      if line = [] \<or> HasPrefix line ''#'' then values
      else case Cut (CHR ''='') line of None \<Rightarrow> values
      | Some (key, v) \<Rightarrow> values(TrimSpace key \<mapsto> TrimSet (TrimSpace v) [CHR 0x22, CHR 0x27]))"

definition parseOSRelease :: "string \<Rightarrow> string_map" where
  "parseOSRelease raw = fold os_release_line (fst (scan_lines (2 ^ 16) (Split (CHR 0x0A) raw))) Map.empty"

definition detectLinuxOS :: "'w linux_machine \<Rightarrow> 'w \<Rightarrow> OperatingSystemInventory \<times> 'w" where
  "detectLinuxOS m w0 =
     (let (name, version) = (case lm_ReadFile m ''/etc/os-release'' w0 of None \<Rightarrow> ([], [])
        | Some raw \<Rightarrow> (let values = parseOSRelease raw in
            (firstNonEmpty [value_of values ''NAME'', value_of values ''ID'', ''Linux''],
             firstNonEmpty [value_of values ''VERSION'', value_of values ''VERSION_ID''])));
          ((rel, relErr), w1) = lm_Run m ''uname'' [''-r''] w0;
          ((mach, machErr), w2) = lm_Run m ''uname'' [''-m''] w1
      in (\<lparr>os_Name = (if name = [] then ''Linux'' else name), os_Version = version,
           os_Architecture = (if machErr = None \<and> TrimSpace mach \<noteq> [] then TrimSpace mach else lm_GOARCH m),
           os_Kernel = (if relErr = None then TrimSpace rel else [])\<rparr>, w2))"

definition parseColonFields :: "string \<Rightarrow> string_map" where
  "parseColonFields raw =
     fold (\<lambda>line values. case Cut (CHR '':'') line of None \<Rightarrow> values
             | Some (key, v) \<Rightarrow> values(TrimSpace key \<mapsto> TrimSpace v))
       (Split (CHR 0x0A) raw) Map.empty"

definition detectLinuxCPU :: "'w linux_machine \<Rightarrow> 'w \<Rightarrow> CPUInventory \<times> 'w" where
  "detectLinuxCPU m w0 =
     (let ((out, e), w1) = lm_Run m ''lscpu'' [] w0 in
      if e \<noteq> None then (\<lparr>cpu_Model = [], cpu_PhysicalCores = 0, cpu_LogicalCores = lm_NumCPU m\<rparr>, w1)
      else
        let values = parseColonFields out;
            cores = Atoi_value (TrimSpace (value_of values ''Core(s) per socket''));
            sockets = Atoi_value (TrimSpace (value_of values ''Socket(s)''))
        in (\<lparr>cpu_Model = TrimSpace (value_of values ''Model name''),
             cpu_PhysicalCores = (if cores > 0 \<and> sockets > 0 then wrap64 (cores * sockets) else 0),
             cpu_LogicalCores = (case Atoi (TrimSpace (value_of values ''CPU(s)'')) of
                                   Some v \<Rightarrow> if v > 0 then v else lm_NumCPU m
                                 | None \<Rightarrow> lm_NumCPU m)\<rparr>, w1))"

fun mem_total :: "string list \<Rightarrow> u64" where
  "mem_total [] = 0"
| "mem_total (line # lines) =
     (case Fields line of
        a # b # _ \<Rightarrow>
          if a = ''MemTotal:''
          then (case ParseUint b of Some kb \<Rightarrow> kb * 1024 | None \<Rightarrow> mem_total lines)
          else mem_total lines
      | _ \<Rightarrow> mem_total lines)"

definition detectLinuxMemory :: "'w linux_machine \<Rightarrow> 'w \<Rightarrow> MemoryInventory" where
  "detectLinuxMemory m w =
     (case lm_ReadFile m ''/proc/meminfo'' w of None \<Rightarrow> \<lparr>mem_TotalBytes = 0\<rparr>
      | Some raw \<Rightarrow> \<lparr>mem_TotalBytes = mem_total (Split (CHR 0x0A) raw)\<rparr>)"

section \<open>Graphics processors\<close>

definition no_gpu :: GPUInventory where
  "no_gpu = \<lparr>gpu_Vendor = [], gpu_Model = [], gpu_DeviceType = [], gpu_MemoryType = [], gpu_UsableVRAMBytes = None,
     gpu_KernelDriver = [], gpu_DriverName = [], gpu_DriverVersion = []\<rparr>"

definition pciGPUHeader :: re where
  "pciGPUHeader =
     cats [Group 1 (ors [FoldLit ''VGA compatible controller'', FoldLit ''3D controller'', FoldLit ''Display controller'']),
           LazyStar AnyByte, Lit '':'', Star Space, Group 2 (Plus AnyByte), EndText]"

definition HexDigit :: re where "HexDigit = Byte (\<lambda>c. hex_val c \<noteq> None)"

definition bracketID :: re where
  "bracketID =
     cats [Star Space, Lit ''['', times_re 4 HexDigit, Lit '':'', times_re 4 HexDigit, Lit '']'',
           Optional (cats [Star Space, Lit ''(rev '', Plus HexDigit, Lit '')''])]"

definition stripPCIIDs :: "string \<Rightarrow> string" where
  "stripPCIIDs v = TrimSpace (RemoveAllString bracketID v)"

definition vendorFromText :: "string \<Rightarrow> string" where
  "vendorFromText v =
     (let lower = ToLower v in
      if Contains lower ''intel'' then ''Intel''
      else if Contains lower ''nvidia'' then ''NVIDIA''
      else if Contains lower ''amd'' \<or> Contains lower ''advanced micro devices'' \<or> Contains lower ''ati'' then ''AMD''
      else ''Unknown'')"

text \<open>The lines behind a device: at most six, up to the first that is empty or not indented; the last
  driver counts.\<close>

fun kernel_driver :: "string \<Rightarrow> string list \<Rightarrow> string" where
  "kernel_driver driver [] = driver"
| "kernel_driver driver (raw # rest) =
     (let line = TrimSpace raw in
      if line = [] \<or> (\<not> HasPrefix raw [CHR 0x09] \<and> \<not> HasPrefix raw '' '') then driver
      else kernel_driver (if HasPrefix line ''Kernel driver in use:''
                          then TrimSpace (TrimPrefix line ''Kernel driver in use:'') else driver) rest)"

fun parse_lspci :: "string list \<Rightarrow> GPUInventory list" where
  "parse_lspci [] = []"
| "parse_lspci (line # lines) =
     (case FindStringSubmatch pciGPUHeader line of None \<Rightarrow> parse_lspci lines
      | Some match \<Rightarrow>
          let model = stripPCIIDs (TrimSpace (match 2))
          in no_gpu\<lparr>gpu_Vendor := vendorFromText model, gpu_Model := model, gpu_DeviceType := ''unknown'',
                    gpu_MemoryType := ''unknown'', gpu_KernelDriver := kernel_driver [] (take 6 lines)\<rparr>
             # parse_lspci lines)"

definition parseLSPCIGPUs :: "string \<Rightarrow> GPUInventory list" where
  "parseLSPCIGPUs raw = parse_lspci (Split (CHR 0x0A) raw)"

fun mesa_version :: "string list \<Rightarrow> string" where
  "mesa_version (a # b # rest) = (if EqualFold a ''Mesa'' then TrimSuffix b '','' else mesa_version (b # rest))"
| "mesa_version _ = []"

definition extractMesaVersion :: "string \<Rightarrow> string" where
  "extractMesaVersion v = mesa_version (Fields v)"

text \<open>\<open>flush\<close>: the device of the fields read so far, if they are one.\<close>

definition vulkan_device :: "(string \<Rightarrow> string) \<Rightarrow> string_map option \<Rightarrow> GPUInventory list" where
  "vulkan_device lower state =
     (case state of None \<Rightarrow> []
      | Some values \<Rightarrow>
          if value_of values ''deviceName'' = [] then []
          else let model = value_of values ''deviceName'';
                   deviceType = RemoveAllString (Lit ''_gpu'')
                     (lower (TrimPrefix (value_of values ''deviceType'') ''PHYSICAL_DEVICE_TYPE_''))
               in [no_gpu\<lparr>gpu_Vendor := vendorFromText model, gpu_Model := model, gpu_DeviceType := deviceType,
                     gpu_MemoryType := (if deviceType = ''integrated'' then ''shared'' else ''unknown''),
                     gpu_DriverName := value_of values ''driverName'',
                     gpu_DriverVersion := firstNonEmpty [extractMesaVersion (value_of values ''driverInfo''),
                                                         value_of values ''driverVersion'']\<rparr>])"

definition vulkanDeviceLine :: re where
  "vulkanDeviceLine = cats [BeginText, Lit ''GPU'', Plus Digit, Lit '':'', EndText]"

fun vulkan_lines :: "(string \<Rightarrow> string) \<Rightarrow> string_map option \<Rightarrow> string list \<Rightarrow> GPUInventory list" where
  "vulkan_lines lower state [] = vulkan_device lower state"
| "vulkan_lines lower state (line # lines) =
     (if MatchString vulkanDeviceLine (TrimSpace line)
      then vulkan_device lower state @ vulkan_lines lower (Some Map.empty) lines
      else vulkan_lines lower
             (case state of None \<Rightarrow> None
              | Some values \<Rightarrow> (case Cut (CHR ''='') line of None \<Rightarrow> Some values
                  | Some (key, v) \<Rightarrow> Some (values(TrimSpace key \<mapsto> TrimSpace v)))) lines)"

definition parseVulkanSummary :: "(string \<Rightarrow> string) \<Rightarrow> string \<Rightarrow> GPUInventory list" where
  "parseVulkanSummary lower raw = vulkan_lines lower None (Split (CHR 0x0A) raw)"

definition ignored_words :: "string list" where
  "ignored_words = [''nvidia'', ''corporation'', ''geforce'', ''intel'', ''advanced'', ''micro'', ''devices'', ''amd'', ''graphics'']"

definition normalizeGPUModel :: "(string \<Rightarrow> string) \<Rightarrow> string \<Rightarrow> string" where
  "normalizeGPUModel lower v =
     (let spaced = map (\<lambda>c. if c \<in> set ''[]()-_'' then CHR '' '' else c) v
      in Join (filter (\<lambda>x. x \<notin> set ignored_words) (Fields (lower spaced))) '' '')"

definition sameGPU :: "(string \<Rightarrow> string) \<Rightarrow> GPUInventory \<Rightarrow> GPUInventory \<Rightarrow> bool" where
  "sameGPU lower a b =
     (let aModel = normalizeGPUModel lower (gpu_Model a); bModel = normalizeGPUModel lower (gpu_Model b)
      in aModel \<noteq> [] \<and> bModel \<noteq> [] \<and> (Contains aModel bModel \<or> Contains bModel aModel))"

text \<open>\<open>for i := range xs { if P { update; matched = true; break } }\<close>, then an append if nothing matched.\<close>

fun update_first :: "('a \<Rightarrow> bool) \<Rightarrow> ('a \<Rightarrow> 'a) \<Rightarrow> 'a \<Rightarrow> 'a list \<Rightarrow> 'a list" where
  "update_first P f x [] = [x]"
| "update_first P f x (y # ys) = (if P y then f y # ys else y # update_first P f x ys)"

definition vulkan_update :: "GPUInventory \<Rightarrow> GPUInventory \<Rightarrow> GPUInventory" where
  "vulkan_update dev g =
     (let deviceType = firstNonEmpty [gpu_DeviceType dev, gpu_DeviceType g]
      in g\<lparr>gpu_Model := firstNonEmpty [gpu_Model dev, gpu_Model g], gpu_DeviceType := deviceType,
           gpu_DriverName := gpu_DriverName dev, gpu_DriverVersion := gpu_DriverVersion dev,
           gpu_MemoryType := (if deviceType = ''integrated'' then ''shared'' else gpu_MemoryType g)\<rparr>)"

definition merge_vulkan :: "(string \<Rightarrow> string) \<Rightarrow> GPUInventory list \<Rightarrow> GPUInventory list \<Rightarrow> GPUInventory list" where
  "merge_vulkan lower devices gpus0 =
     (let physical = filter (\<lambda>d. gpu_DeviceType d \<noteq> ''cpu'') devices
      in fold (\<lambda>dev gpus. update_first (\<lambda>g. (length gpus = 1 \<and> length physical = 1) \<or> sameGPU lower g dev)
                            (vulkan_update dev) dev gpus) physical gpus0)"

definition nvidia_line :: "(string \<Rightarrow> string) \<Rightarrow> string \<Rightarrow> GPUInventory list \<Rightarrow> GPUInventory list" where
  "nvidia_line lower line gpus =
     (case Split (CHR '','') line of
        a # b # c # _ \<Rightarrow>
          (let model = TrimSpace a in
           case ParseUint (TrimSpace b) of None \<Rightarrow> gpus
           | Some mib \<Rightarrow>
               if model = [] then gpus
               else let vram = mib * 1024 * 1024; driver = TrimSpace c;
                        known = (\<lambda>g. g\<lparr>gpu_Vendor := ''NVIDIA'', gpu_Model := model, gpu_DeviceType := ''discrete'',
                          gpu_MemoryType := ''dedicated'', gpu_UsableVRAMBytes := Some vram,
                          gpu_DriverName := ''NVIDIA'', gpu_DriverVersion := driver\<rparr>)
                    in update_first (\<lambda>g. EqualFold (gpu_Vendor g) ''NVIDIA'' \<and> sameGPU lower g (no_gpu\<lparr>gpu_Model := model\<rparr>))
                         known (known no_gpu) gpus)
      | _ \<Rightarrow> gpus)"

definition mergeNvidiaSMI :: "(string \<Rightarrow> string) \<Rightarrow> GPUInventory list \<Rightarrow> string \<Rightarrow> GPUInventory list" where
  "mergeNvidiaSMI lower gpus raw = fold (nvidia_line lower) (Split (CHR 0x0A) raw) gpus"

definition detectLinuxGPUs :: "'w linux_machine \<Rightarrow> 'w \<Rightarrow> GPUInventory list \<times> 'w" where
  "detectLinuxGPUs m w0 =
     (let ((pci, e1), w1) = lm_Run m ''lspci'' [''-nnk''] w0;
          gpus1 = (if e1 = None then parseLSPCIGPUs pci else []);
          ((vulkan, e2), w2) = lm_Run m ''vulkaninfo'' [''--summary''] w1;
          gpus2 = (if e2 = None then merge_vulkan (lm_Lower m) (parseVulkanSummary (lm_Lower m) vulkan) gpus1 else gpus1);
          ((smi, e3), w3) = lm_Run m ''nvidia-smi''
             [''--query-gpu=name,memory.total,driver_version'', ''--format=csv,noheader,nounits''] w2
      in (if e3 = None then mergeNvidiaSMI (lm_Lower m) gpus2 smi else gpus2, w3))"
section \<open>Acceleration and runtimes\<close>

definition sycl_ls :: string where "sycl_ls = ''/opt/intel/oneapi/compiler/latest/bin/sycl-ls''"

definition detectLinuxAcceleration :: "'w linux_machine \<Rightarrow> 'w \<Rightarrow> AccelerationRuntime list \<times> 'w" where
  "detectLinuxAcceleration m w0 =
     (let ((vulkan, e1), w1) = lm_Run m ''vulkaninfo'' [''--summary''] w0;
          r1 = (if e1 = None
                then [\<lparr>acc_Name = ''Vulkan'', acc_Version = vulkan_version vulkan, acc_Status = ''available''\<rparr>] else []);
          ((cuda, e2), w2) = lm_Run m ''nvidia-smi'' [''--query-gpu=driver_version'', ''--format=csv,noheader''] w1;
          r2 = (if e2 = None \<and> TrimSpace cuda \<noteq> []
                then [\<lparr>acc_Name = ''CUDA'', acc_Version = [], acc_Status = ''available''\<rparr>] else []);
          ((rocm, e3), w3) = lm_Run m ''rocminfo'' [] w2;
          r3 = (if e3 = None then [\<lparr>acc_Name = ''ROCm'', acc_Version = [], acc_Status = ''available''\<rparr>] else [])
      in if \<not> lm_Stat m sycl_ls w3 then (r1 @ r2 @ r3, w3)
         else let ((out, e4), w4) = lm_Run m sycl_ls [] w3;
                  status = (if e4 \<noteq> None \<or> Contains (ToLower out) ''no platforms found'' \<or> TrimSpace out = []
                            then ''installed_unavailable'' else ''available'')
              in (r1 @ r2 @ r3 @ [\<lparr>acc_Name = ''SYCL'', acc_Version = [], acc_Status = status\<rparr>], w4))"

definition versionWord :: re where
  "versionWord = cats [BeginText, Plus Digit, Plus (Cat (Lit ''.'') (Plus Digit))]"

text \<open>The last word that starts like a version.\<close>

definition parseTrailingVersion :: "string \<Rightarrow> string" where
  "parseTrailingVersion raw =
     (case find (MatchString versionWord) (rev (Fields raw)) of None \<Rightarrow> [] | Some x \<Rightarrow> TrimSpace x)"

definition parseLlamaVersion :: "string \<Rightarrow> string" where
  "parseLlamaVersion raw =
     (case find (\<lambda>l. HasPrefix (TrimSpace l) ''version:'') (Split (CHR 0x0A) raw) of
        None \<Rightarrow> []
      | Some l \<Rightarrow> TrimSpace (TrimPrefix (TrimSpace l) ''version:''))"

definition llama_candidates :: "string \<Rightarrow> string list" where
  "llama_candidates home =
     [JoinPath [home, ''llama.cpp'', ''build'', ''bin'', ''llama-server''],
      JoinPath [home, ''llama.cpp'', ''build-sycl'', ''bin'', ''llama-server''],
      JoinPath [home, ''llama.cpp'', ''build-vulkan'', ''bin'', ''llama-server'']]"

text \<open>The loop over the candidates, with \<open>seenLlama\<close> and the result so far.\<close>

fun llama_loop :: "'w linux_machine \<Rightarrow> string list \<Rightarrow> bool \<Rightarrow> AIRuntimeInventory list \<Rightarrow> 'w \<Rightarrow> AIRuntimeInventory list \<times> 'w" where
  "llama_loop m [] seen result w = (result, w)"
| "llama_loop m (candidate # rest) seen result w =
     (if \<not> lm_Stat m candidate w then llama_loop m rest seen result w
      else let ((out, e), w') = lm_Run m candidate [''--version''] w;
               status = (if e \<noteq> None then ''installed_unavailable'' else ''available'');
               entry = \<lparr>air_Name = ''llama.cpp'', air_Version = parseLlamaVersion out, air_Status = status\<rparr>
           in if \<not> seen then llama_loop m rest True (result @ [entry]) w'
              else if status = ''available''
              then llama_loop m rest True (map (\<lambda>r. if air_Name r = ''llama.cpp'' then entry else r) result) w'
              else llama_loop m rest seen result w')"

definition detectLinuxAIRuntimes :: "'w linux_machine \<Rightarrow> string \<Rightarrow> 'w \<Rightarrow> AIRuntimeInventory list \<times> 'w" where
  "detectLinuxAIRuntimes m home w0 =
     (let ((out, e), w1) = lm_Run m ''ollama'' [''--version''] w0;
          result = (if e = None
                    then [\<lparr>air_Name = ''Ollama'', air_Version = parseTrailingVersion out, air_Status = ''available''\<rparr>] else [])
      in llama_loop m (llama_candidates home) False result w1)"

section \<open>Models\<close>

definition parseOllamaList :: "string \<Rightarrow> ModelInventory list" where
  "parseOllamaList raw = map (ollama_model parseHumanBytes) (ollama_lines raw)"

definition parseQuantization :: "string \<Rightarrow> string" where
  "parseQuantization name = FindString quantizationPattern name"

definition discoverGGUFModels :: "'w linux_machine \<Rightarrow> 'w \<Rightarrow> string \<Rightarrow> ModelInventory list" where
  "discoverGGUFModels m w base =
     (case lm_Roots m base w of
        Some (Directory es, Some resolvedRoot) \<Rightarrow>
          lm_Range m base (map (group_model parseQuantization) (model_groups (\<lambda>_. False) (lm_Lower m) resolvedRoot es))
      | _ \<Rightarrow> [])"

text \<open>The inner loop over the models of one root, with its \<open>break\<close>.\<close>

fun add_models :: "(string \<Rightarrow> string) \<Rightarrow> ModelInventory list \<Rightarrow> (string \<times> ModelInventory) list \<Rightarrow> (string \<times> ModelInventory) list" where
  "add_models lower [] models = models"
| "add_models lower (x # xs) models =
     (let models' = AList.update (gguf_key lower x) x models in
      if length models' \<ge> maxDiscoveredModels then models' else add_models lower xs models')"

definition detectLinuxModels :: "'w linux_machine \<Rightarrow> string \<Rightarrow> 'w \<Rightarrow> ModelInventory list \<times> 'w" where
  "detectLinuxModels m home w0 =
     (let ((out, e), w1) = lm_Run m ''ollama'' [''list''] w0;
          models1 = (if e = None
                     then fold (\<lambda>x models. AList.update (ollama_key x) x models) (parseOllamaList out) [] else []);
          models2 = fold (\<lambda>base models. add_models (lm_Lower m) (discoverGGUFModels m w1 base) models)
                      (model_roots home) models1
      in (sorted_models (lm_Range m [] (map snd models2)), w1))"

section \<open>The inventory\<close>

definition collectHardwareInventoryLinux :: "'w linux_machine \<Rightarrow> 'w \<Rightarrow> (err + HardwareInventory) \<times> 'w" where
  "collectHardwareInventoryLinux m w0 =
     (let (now, w1) = lm_Now m w0;
          (os, w2) = detectLinuxOS m w1;
          (cpu, w3) = detectLinuxCPU m w2;
          memory = detectLinuxMemory m w3;
          (gpus, w4) = detectLinuxGPUs m w3;
          (acceleration, w5) = detectLinuxAcceleration m w4;
          home = lm_HomeDir m w5;
          (runtimes, w6) = detectLinuxAIRuntimes m home w5;
          (models, w7) = detectLinuxModels m home w6
      in if os_Name os = [] \<or> cpu_LogicalCores cpu \<le> 0 \<or> mem_TotalBytes memory = 0
         then (Inl (Err ''hardware inventory missing required OS, CPU, or memory information''), w7)
         else (Inr \<lparr>hi_SchemaVersion = HardwareInventorySchemaVersion, hi_CollectedAt = now, hi_OS = os, hi_CPU = cpu,
                    hi_Memory = memory, hi_GPUs = gpus, hi_Acceleration = acceleration, hi_AIRuntimes = runtimes,
                    hi_Models = models\<rparr>, w7))"

definition CollectHardwareInventory_linux :: "'w os_exec \<Rightarrow> 'w linux_machine \<Rightarrow> 'w \<Rightarrow> (err + HardwareInventory) \<times> 'w" where
  "CollectHardwareInventory_linux ex m = collectHardwareInventoryLinux (m\<lparr>lm_Run := osCommandRunner_Run ex\<rparr>)"

end
