(* ===== verification/InventoryDarwin.thy ===== *)
theory InventoryDarwin
  imports Inventory
begin

text \<open>
  \<^verbatim>\<open>agent/inventory_darwin.go\<close>: the hardware inventory of macOS. Programs that the system does not
  own run only if they resolve to an executable inside a trusted directory. Commands and files act on
  a state \<open>'w\<close> of the outside world; the contexts with their timeouts are left out.
\<close>

definition darwinOutputLimit :: int where "darwinOutputLimit = 256 * 2 ^ 10"
definition darwinModelLimit :: nat where "darwinModelLimit = 200"

definition darwinLimitedBuffer_Write :: "buffer \<Rightarrow> string \<Rightarrow> nat \<times> buffer" where
  "darwinLimitedBuffer_Write b p0 =
     (case b of (w, n) \<Rightarrow>
        if n \<le> 0 then (length p0, b)
        else let p = (if int (length p0) > n then take (nat n) p0 else p0)
             in (length p0, (w @ p, n - int (length p))))"

interpretation darwin_inventory_buffer: limited_writer darwinLimitedBuffer_Write
  by unfold_locales (auto simp: darwinLimitedBuffer_Write_def Let_def)

definition darwinOSRunner_Run :: "'w os_exec \<Rightarrow> 'w runner" where
  "darwinOSRunner_Run ex name args w =
     (case ex name args w of (r, w') \<Rightarrow>
        let stdout = captured darwinLimitedBuffer_Write darwinOutputLimit (x_stdout r);
            stderr = captured darwinLimitedBuffer_Write darwinOutputLimit (x_stderr r)
        in ((if length stdout = 0 then stderr else stdout, x_err r), w'))"

text \<open>What \<open>stat\<close> tells of a file, and the machine. \<open>dm_Lstat\<close> tells whether the path is a symbolic
  link, \<open>None\<close> is an error throughout.\<close>

record file_mode =
  fm_IsRegular :: bool
  fm_Perm :: nat

record 'w darwin_machine =
  dm_Run :: "'w runner"
  dm_Lstat :: "string \<Rightarrow> 'w \<Rightarrow> bool option"
  dm_Stat :: "string \<Rightarrow> 'w \<Rightarrow> file_mode option"
  dm_EvalSymlinks :: "string \<Rightarrow> 'w \<Rightarrow> string option"
  dm_Getwd :: "'w \<Rightarrow> string option"
  dm_HomeDir :: "'w \<Rightarrow> string option"
  dm_Now :: "'w \<Rightarrow> gotime \<times> 'w"
  dm_GOARCH :: string
  dm_NumCPU :: int
  dm_Roots :: "'w roots"
  dm_Lower :: "string \<Rightarrow> string"
  dm_Range :: enumeration

section \<open>Operating system, CPU and memory\<close>

text \<open>\<open>if out, err := runDarwin(...); err == nil { ... }\<close>: the trimmed output of a command that succeeded.\<close>

definition ask :: "'w darwin_machine \<Rightarrow> string \<Rightarrow> string list \<Rightarrow> 'w \<Rightarrow> string option \<times> 'w" where
  "ask m name args w =
     (case dm_Run m name args w of ((out, e), w') \<Rightarrow> (if e = None then Some (TrimSpace out) else None, w'))"

definition detectDarwinOS :: "'w darwin_machine \<Rightarrow> 'w \<Rightarrow> OperatingSystemInventory \<times> 'w" where
  "detectDarwinOS m w0 =
     (let (name, w1) = ask m ''/usr/bin/sw_vers'' [''-productName''] w0;
          (version, w2) = ask m ''/usr/bin/sw_vers'' [''-productVersion''] w1;
          (kernel, w3) = ask m ''/usr/bin/uname'' [''-r''] w2;
          (arch, w4) = ask m ''/usr/bin/uname'' [''-m''] w3
      in (\<lparr>os_Name = (case name of None \<Rightarrow> ''macOS'' | Some v \<Rightarrow> if v \<noteq> [] then v else ''macOS''),
           os_Version = (case version of None \<Rightarrow> [] | Some v \<Rightarrow> v),
           os_Architecture = (case arch of None \<Rightarrow> dm_GOARCH m | Some v \<Rightarrow> if v \<noteq> [] then v else dm_GOARCH m),
           os_Kernel = (case kernel of None \<Rightarrow> [] | Some v \<Rightarrow> v)\<rparr>, w4))"

definition positive_int :: "string option \<Rightarrow> int \<Rightarrow> int" where
  "positive_int answer other =
     (case answer of None \<Rightarrow> other
      | Some s \<Rightarrow> (case Atoi s of None \<Rightarrow> other | Some v \<Rightarrow> if v > 0 then v else other))"

definition detectDarwinCPU :: "'w darwin_machine \<Rightarrow> 'w \<Rightarrow> CPUInventory \<times> 'w" where
  "detectDarwinCPU m w0 =
     (let (brand, w1) = ask m ''/usr/sbin/sysctl'' [''-n'', ''machdep.cpu.brand_string''] w0;
          (physical, w2) = ask m ''/usr/sbin/sysctl'' [''-n'', ''hw.physicalcpu''] w1;
          (logical, w3) = ask m ''/usr/sbin/sysctl'' [''-n'', ''hw.logicalcpu''] w2
      in (\<lparr>cpu_Model = (case brand of None \<Rightarrow> [] | Some v \<Rightarrow> v), cpu_PhysicalCores = positive_int physical 0,
           cpu_LogicalCores = positive_int logical (dm_NumCPU m)\<rparr>, w3))"

definition detectDarwinMemory :: "'w darwin_machine \<Rightarrow> 'w \<Rightarrow> MemoryInventory \<times> 'w" where
  "detectDarwinMemory m w0 =
     (let (answer, w1) = ask m ''/usr/sbin/sysctl'' [''-n'', ''hw.memsize''] w0
      in (\<lparr>mem_TotalBytes = (case answer of None \<Rightarrow> 0
             | Some s \<Rightarrow> (case ParseUint s of None \<Rightarrow> 0 | Some v \<Rightarrow> v))\<rparr>, w1))"

section \<open>Graphics processors\<close>

record darwinGPUFields =
  gf_model :: string
  gf_vendor :: string
  gf_bus :: string
  gf_vram :: string

definition darwinVendor :: "string \<Rightarrow> string \<Rightarrow> string" where
  "darwinVendor vendor model =
     (let v = ToLower (vendor @ '' '' @ model) in
      if Contains v ''intel'' then ''Intel''
      else if Contains v ''amd'' \<or> Contains v ''advanced micro devices'' \<or> Contains v ''ati'' then ''AMD''
      else if Contains v ''nvidia'' then ''NVIDIA''
      else if Contains v ''apple'' then ''Apple''
      else ''Unknown'')"

definition darwinVRAMPattern :: re where
  "darwinVRAMPattern =
     cats [BeginText, Star Space, Group 1 (cats [Plus Digit, Optional (Cat (Lit ''.'') (Plus Digit))]), Star Space,
           Group 2 (ors [FoldLit ''KB'', FoldLit ''MB'', FoldLit ''GB'', FoldLit ''TB'']), Star Space, EndText]"

definition binary_units :: "(string \<times> f64) list" where
  "binary_units = [(''KB'', Fin 1024), (''MB'', Fin (1024 * 1024)), (''GB'', Fin (1024 * 1024 * 1024)),
     (''TB'', Fin (1024 * 1024 * 1024 * 1024))]"

definition parseDarwinVRAM :: "string \<Rightarrow> u64 option" where
  "parseDarwinVRAM v =
     (case FindStringSubmatch darwinVRAMPattern (TrimSpace v) of None \<Rightarrow> None
      | Some match \<Rightarrow>
          (case ParseFloat (match 1) of None \<Rightarrow> None
           | Some number \<Rightarrow>
               if f_lt number (Fin 0) then None
               else (case map_of binary_units (ToUpper (match 2)) of None \<Rightarrow> None
                     | Some multiplier \<Rightarrow> Some (f_to_u64 (f_mul number multiplier)))))"

text \<open>\<open>flush\<close>: the device of the fields read so far, if they are one.\<close>

definition darwin_device :: "darwinGPUFields option \<Rightarrow> GPUInventory list" where
  "darwin_device state =
     (case state of None \<Rightarrow> []
      | Some c \<Rightarrow>
          if TrimSpace (gf_model c) = [] then []
          else let bus = ToLower (TrimSpace (gf_bus c));
                   gpu = \<lparr>gpu_Vendor = darwinVendor (gf_vendor c) (gf_model c), gpu_Model = TrimSpace (gf_model c),
                          gpu_DeviceType = ''unknown'', gpu_MemoryType = ''unknown'', gpu_UsableVRAMBytes = None,
                          gpu_KernelDriver = [], gpu_DriverName = [], gpu_DriverVersion = []\<rparr>
               in [if bus = ''built-in'' then gpu\<lparr>gpu_DeviceType := ''integrated'', gpu_MemoryType := ''shared''\<rparr>
                   else if bus = ''pcie'' \<or> bus = ''pci''
                   then gpu\<lparr>gpu_DeviceType := ''discrete'', gpu_MemoryType := ''dedicated'',
                            gpu_UsableVRAMBytes := parseDarwinVRAM (gf_vram c)\<rparr>
                   else gpu])"

fun darwin_gpu_lines :: "darwinGPUFields option \<Rightarrow> string list \<Rightarrow> GPUInventory list" where
  "darwin_gpu_lines state [] = darwin_device state"
| "darwin_gpu_lines state (line # lines) =
     (case Cut (CHR '':'') (TrimSpace line) of None \<Rightarrow> darwin_gpu_lines state lines
      | Some (k, v) \<Rightarrow>
          (let key = TrimSpace k; val = TrimSpace v in
           if key = ''Chipset Model''
           then darwin_device state
                @ darwin_gpu_lines (Some \<lparr>gf_model = val, gf_vendor = [], gf_bus = [], gf_vram = []\<rparr>) lines
           else darwin_gpu_lines
                  (case state of None \<Rightarrow> None
                   | Some c \<Rightarrow> Some (if key = ''Vendor'' then c\<lparr>gf_vendor := val\<rparr>
                                      else if key = ''Bus'' then c\<lparr>gf_bus := val\<rparr>
                                      else if HasPrefix key ''VRAM'' then c\<lparr>gf_vram := val\<rparr>
                                      else c)) lines))"

definition parseDarwinGPUs :: "string \<Rightarrow> GPUInventory list" where
  "parseDarwinGPUs raw = darwin_gpu_lines None (Split (CHR 0x0A) raw)"

section \<open>Trusted executables\<close>

definition darwinPathInside :: "string \<Rightarrow> string \<Rightarrow> bool" where
  "darwinPathInside base target =
     (case Rel base target of None \<Rightarrow> False
      | Some rel \<Rightarrow> \<not> (IsAbs rel \<or> rel = ''..'' \<or> HasPrefix rel ''../''))"

definition allowed_roots :: "string option \<Rightarrow> string list" where
  "allowed_roots home =
     [''/usr/local'', ''/opt/homebrew'', ''/Applications/Ollama.app'']
     @ (case home of None \<Rightarrow> [] | Some h \<Rightarrow> [JoinPath [h, ''llama.cpp'']])"

definition darwinExecutableAllowed :: "string option \<Rightarrow> string option \<Rightarrow> string \<Rightarrow> string \<Rightarrow> bool" where
  "darwinExecutableAllowed cwd home candidate resolved =
     (let abs = (\<lambda>p. case Abs cwd p of None \<Rightarrow> [] | Some q \<Rightarrow> q) in
      list_ex (\<lambda>base0. case Abs cwd base0 of None \<Rightarrow> False
                 | Some base \<Rightarrow> darwinPathInside base (abs candidate) \<and> darwinPathInside base (abs resolved))
        (allowed_roots home))"

definition trustedDarwinExecutable :: "'w darwin_machine \<Rightarrow> 'w \<Rightarrow> string \<Rightarrow> string option" where
  "trustedDarwinExecutable m w path =
     (case dm_Lstat m path w of None \<Rightarrow> None
      | Some isLink \<Rightarrow>
     (case (if isLink then dm_EvalSymlinks m path w else Some path) of None \<Rightarrow> None
      | Some resolved0 \<Rightarrow>
     (case Abs (dm_Getwd m w) resolved0 of None \<Rightarrow> None
      | Some resolved \<Rightarrow>
     (case dm_Stat m resolved w of None \<Rightarrow> None
      | Some info \<Rightarrow>
          if \<not> fm_IsRegular info \<or> and (fm_Perm info) 73 = 0 then None
          else if \<not> darwinExecutableAllowed (dm_Getwd m w) (dm_HomeDir m w) path resolved then None
          else Some resolved))))"

fun firstDarwinExecutable :: "'w darwin_machine \<Rightarrow> 'w \<Rightarrow> string list \<Rightarrow> string option" where
  "firstDarwinExecutable m w [] = None"
| "firstDarwinExecutable m w (candidate # rest) =
     (case trustedDarwinExecutable m w candidate of
        Some path \<Rightarrow> Some path
      | None \<Rightarrow> firstDarwinExecutable m w rest)"
section \<open>Acceleration and runtimes\<close>

definition metal_line :: "string \<Rightarrow> string option" where
  "metal_line raw =
     (let line = TrimSpace raw in
      if \<not> HasPrefix line ''Metal Support:'' then None
      else let v = TrimSpace (TrimPrefix line ''Metal Support:'')
           in if v \<noteq> [] \<and> \<not> EqualFold v ''unsupported'' then Some v else None)"

definition darwinMetalVersion :: "string \<Rightarrow> string" where
  "darwinMetalVersion raw = (case List.map_filter metal_line (Split (CHR 0x0A) raw) of [] \<Rightarrow> [] | v # _ \<Rightarrow> v)"

fun darwin_vulkan :: "'w darwin_machine \<Rightarrow> string list \<Rightarrow> 'w \<Rightarrow> AccelerationRuntime list \<times> 'w" where
  "darwin_vulkan m [] w = ([], w)"
| "darwin_vulkan m (candidate # rest) w =
     (case trustedDarwinExecutable m w candidate of None \<Rightarrow> darwin_vulkan m rest w
      | Some path \<Rightarrow>
         (case dm_Run m path [''--summary''] w of ((out, e), w') \<Rightarrow>
            if e \<noteq> None then darwin_vulkan m rest w'
            else ([\<lparr>acc_Name = ''Vulkan'', acc_Version = vulkan_version out, acc_Status = ''available''\<rparr>], w')))"

definition vulkaninfo_candidates :: "string list" where
  "vulkaninfo_candidates = [''/usr/local/bin/vulkaninfo'', ''/opt/homebrew/bin/vulkaninfo'']"

definition detectDarwinAcceleration :: "'w darwin_machine \<Rightarrow> string \<Rightarrow> 'w \<Rightarrow> AccelerationRuntime list \<times> 'w" where
  "detectDarwinAcceleration m profiler w0 =
     (let metal = darwinMetalVersion profiler;
          r = (if metal \<noteq> [] then [\<lparr>acc_Name = ''Metal'', acc_Version = metal, acc_Status = ''available''\<rparr>] else []);
          (vulkan, w1) = darwin_vulkan m vulkaninfo_candidates w0
      in (r @ vulkan, w1))"

definition darwinVersion :: re where
  "darwinVersion =
     (let part = Cat (Lit ''.'') (Plus Digit);
          tail_byte = ors [Byte (\<lambda>c. is_alnum c \<or> c \<in> set ''._-''), Lit [CHR 0xE2, CHR 0x84, CHR 0xAA], Lit [CHR 0xC5, CHR 0xBF]]
      in cats [WordBoundary,
               Group 1 (cats [Optional (FoldLit ''v''), Plus Digit, Cat part (Optional (Cat part (Optional part))),
                              Optional (Cat (Byte (\<lambda>c. c \<in> set ''-+'')) (Plus tail_byte))]),
               WordBoundary])"

definition darwinTrailingVersion :: "string \<Rightarrow> string" where
  "darwinTrailingVersion raw =
     (let found = FindAllString darwinVersion raw in if found = [] then [] else TrimPrefix (last found) ''v'')"

definition ollama_candidates :: "string list" where
  "ollama_candidates =
     [''/usr/local/bin/ollama'', ''/opt/homebrew/bin/ollama'', ''/Applications/Ollama.app/Contents/Resources/ollama'']"

definition darwin_llama_candidates :: "string \<Rightarrow> string list" where
  "darwin_llama_candidates home =
     [JoinPath [home, ''llama.cpp'', ''build'', ''bin'', ''llama-server''],
      JoinPath [home, ''llama.cpp'', ''build-metal'', ''bin'', ''llama-server''],
      ''/usr/local/bin/llama-server'', ''/opt/homebrew/bin/llama-server'']"

text \<open>One runtime: the first trusted candidate, asked for its version.\<close>

definition darwin_runtime :: "'w darwin_machine \<Rightarrow> string \<Rightarrow> string list \<Rightarrow> 'w \<Rightarrow> AIRuntimeInventory list \<times> 'w" where
  "darwin_runtime m name candidates w =
     (case firstDarwinExecutable m w candidates of None \<Rightarrow> ([], w)
      | Some path \<Rightarrow>
         (case dm_Run m path [''--version''] w of ((out, e), w') \<Rightarrow>
            ([\<lparr>air_Name = name, air_Version = darwinTrailingVersion out,
               air_Status = (if e \<noteq> None then ''installed_unavailable'' else ''available'')\<rparr>], w')))"

definition detectDarwinAIRuntimes :: "'w darwin_machine \<Rightarrow> string \<Rightarrow> 'w \<Rightarrow> AIRuntimeInventory list \<times> 'w" where
  "detectDarwinAIRuntimes m home w0 =
     (let (ollama, w1) = darwin_runtime m ''Ollama'' ollama_candidates w0;
          (llama, w2) = darwin_runtime m ''llama.cpp'' (darwin_llama_candidates home) w1
      in (ollama @ llama, w2))"

section \<open>Models\<close>

definition darwinHumanBytes :: "string \<Rightarrow> string \<Rightarrow> u64 option" where
  "darwinHumanBytes = parseHumanBytes"

definition parseDarwinOllamaList :: "string \<Rightarrow> ModelInventory list" where
  "parseDarwinOllamaList raw = take darwinModelLimit (map (ollama_model darwinHumanBytes) (ollama_lines raw))"

definition darwin_quantization :: "string \<Rightarrow> string" where
  "darwin_quantization base =
     (case FindStringSubmatch quantizationPattern base of None \<Rightarrow> [] | Some m \<Rightarrow> ToUpper (m 1))"

definition darwin_model :: "string \<times> string \<times> u64 \<Rightarrow> ModelInventory" where
  "darwin_model = group_model darwin_quantization"

definition discoverDarwinGGUF :: "'w darwin_machine \<Rightarrow> 'w \<Rightarrow> string \<Rightarrow> ModelInventory list" where
  "discoverDarwinGGUF m w base =
     (case dm_Roots m base w of
        Some (Directory es, Some resolvedRoot) \<Rightarrow>
          take darwinModelLimit (sort_key mdl_Name
            (dm_Range m base (map darwin_model
               (model_groups (\<lambda>n. n \<ge> darwinModelLimit) (dm_Lower m) resolvedRoot es))))
      | _ \<Rightarrow> [])"

text \<open>Adding models until the map is full; the flag tells that the loop was left by its \<open>break\<close>.\<close>

fun add_until_full :: "(ModelInventory \<Rightarrow> string) \<Rightarrow> ModelInventory list \<Rightarrow> (string \<times> ModelInventory) list
    \<Rightarrow> (string \<times> ModelInventory) list \<times> bool" where
  "add_until_full key [] models = (models, False)"
| "add_until_full key (x # xs) models =
     (let models' = AList.update (key x) x models in
      if length models' \<ge> darwinModelLimit then (models', True) else add_until_full key xs models')"

fun root_loop :: "'w darwin_machine \<Rightarrow> 'w \<Rightarrow> string list \<Rightarrow> (string \<times> ModelInventory) list \<Rightarrow> (string \<times> ModelInventory) list" where
  "root_loop m w [] models = models"
| "root_loop m w (base # rest) models =
     (case add_until_full (gguf_key (dm_Lower m)) (discoverDarwinGGUF m w base) models of
        (models', full) \<Rightarrow> if full then models' else root_loop m w rest models')"

definition detectDarwinModels :: "'w darwin_machine \<Rightarrow> string \<Rightarrow> 'w \<Rightarrow> ModelInventory list \<times> 'w" where
  "detectDarwinModels m home w0 =
     (let (listing, w1) = (case firstDarwinExecutable m w0 ollama_candidates of None \<Rightarrow> (None, w0)
            | Some path \<Rightarrow> (case dm_Run m path [''list''] w0 of ((out, e), w') \<Rightarrow> (if e = None then Some out else None, w')));
          models1 = (case listing of None \<Rightarrow> []
            | Some out \<Rightarrow> fst (add_until_full ollama_key (parseDarwinOllamaList out) []))
      in (take darwinModelLimit (sorted_models (dm_Range m [] (map snd (root_loop m w1 (model_roots home) models1)))), w1))"

section \<open>The inventory\<close>

definition collectHardwareInventoryDarwin :: "'w darwin_machine \<Rightarrow> 'w \<Rightarrow> (err + HardwareInventory) \<times> 'w" where
  "collectHardwareInventoryDarwin m w0 =
     (let (now, w1) = dm_Now m w0;
          (os, w2) = detectDarwinOS m w1;
          (cpu, w3) = detectDarwinCPU m w2;
          (memory, w4) = detectDarwinMemory m w3;
          ((display, _), w5) = dm_Run m ''/usr/sbin/system_profiler'' [''SPDisplaysDataType''] w4;
          (acceleration, w6) = detectDarwinAcceleration m display w5;
          home = (case dm_HomeDir m w6 of None \<Rightarrow> [] | Some h \<Rightarrow> h);
          (runtimes, w7) = detectDarwinAIRuntimes m home w6;
          (models, w8) = detectDarwinModels m home w7
      in if os_Name os = [] \<or> cpu_LogicalCores cpu \<le> 0 \<or> mem_TotalBytes memory = 0
         then (Inl (Err ''hardware inventory missing required OS, CPU, or memory information''), w8)
         else (Inr \<lparr>hi_SchemaVersion = HardwareInventorySchemaVersion, hi_CollectedAt = now, hi_OS = os, hi_CPU = cpu,
                    hi_Memory = memory, hi_GPUs = parseDarwinGPUs display, hi_Acceleration = acceleration,
                    hi_AIRuntimes = runtimes, hi_Models = models\<rparr>, w8))"

definition CollectHardwareInventory_darwin :: "'w os_exec \<Rightarrow> 'w darwin_machine \<Rightarrow> 'w \<Rightarrow> (err + HardwareInventory) \<times> 'w" where
  "CollectHardwareInventory_darwin ex m = collectHardwareInventoryDarwin (m\<lparr>dm_Run := darwinOSRunner_Run ex\<rparr>)"

end
