(* ===== verification/InventoryProperties.thy ===== *)
theory InventoryProperties
  imports InventoryLinux InventoryDarwin BenchProperties
begin

text \<open>
  The inventory of both platforms: which inventories the server accepts, what the discovery of model
  files counts, and which programs the collection on macOS runs.
\<close>

section \<open>Paths and confinement\<close>

lemma Split_plain: "sep \<notin> set x \<Longrightarrow> Split sep x = [x]"
  by (induction x) auto

lemma Split_first: "sep \<notin> set x \<Longrightarrow> Split sep (x @ sep # y) = x # Split sep y"
  by (induction x) auto

lemma Split_Join: "t \<noteq> [] \<Longrightarrow> \<forall>e\<in>set t. sep \<notin> set e \<Longrightarrow> Split sep (Join t [sep]) = t"
proof (induction t rule: induct_list012)
  case (3 x y zs)
  then show ?case by (simp add: Split_first)
qed (simp_all add: Split_plain)

lemma clean_elems_rooted:
  assumes "e \<in> set (clean_elems True out es)"
  shows "e \<in> set out \<or> (e \<in> set es \<and> e \<noteq> [] \<and> e \<noteq> ''.'' \<and> e \<noteq> ''..'')"
  using assms
proof (induction es arbitrary: out)
  case (Cons x xs)
  consider "x = [] \<or> x = ''.''" | "x = ''..''" "out = []" | y ys where "x = ''..''" "out = y # ys" "y \<noteq> ''..''"
    | ys where "x = ''..''" "out = ''..'' # ys" | "x \<noteq> []" "x \<noteq> ''.''" "x \<noteq> ''..''"
    by (cases out) auto
  then show ?case
  proof cases
    case (4 ys)
    then have "e \<in> set (clean_elems True (''..'' # out) xs)" using Cons.prems by simp
    from Cons.IH [OF this] 4 show ?thesis by auto
  next
    case 5
    then have "e \<in> set (clean_elems True (x # out) xs)" using Cons.prems by simp
    from Cons.IH [OF this] 5 show ?thesis by auto
  qed (use Cons.IH Cons.prems in fastforce)+
qed simp

lemma IsAbs_Clean: "IsAbs p \<Longrightarrow> IsAbs (Clean p)"
  by (simp add: Clean_def IsAbs_def Let_def HasPrefix_def)

text \<open>The elements of an absolute path: none is empty or a step up.\<close>

lemma path_elems_abs:
  assumes "IsAbs p"
  shows "path_elems p = clean_elems True [] (Split (CHR ''/'') p)"
    and "\<forall>e\<in>set (path_elems p). e \<noteq> [] \<and> e \<noteq> ''.'' \<and> e \<noteq> ''..'' \<and> CHR ''/'' \<notin> set e"
proof -
  let ?es = "clean_elems True [] (Split (CHR ''/'') p)"
  have es: "\<forall>e\<in>set ?es. e \<noteq> [] \<and> e \<noteq> ''.'' \<and> e \<noteq> ''..'' \<and> CHR ''/'' \<notin> set e"
    using clean_elems_rooted [of _ "[]" "Split (CHR ''/'') p"] Split_no_sep by fastforce
  have "Clean p = CHR ''/'' # Join ?es ''/''" using assms by (simp add: Clean_def IsAbs_def Let_def)
  then have "path_elems p = filter (\<lambda>e. e \<noteq> []) (Split (CHR ''/'') (Join ?es ''/''))" by (simp add: path_elems_def)
  also have "\<dots> = ?es"
    using es by (cases "?es = []") (auto simp: Split_Join intro: filter_True)
  finally show "path_elems p = ?es" .
  with es show "\<forall>e\<in>set (path_elems p). e \<noteq> [] \<and> e \<noteq> ''.'' \<and> e \<noteq> ''..'' \<and> CHR ''/'' \<notin> set e" by simp
qed

lemma drop_common_split: "drop_common xs ys = (b, t) \<Longrightarrow> (b = [] \<longleftrightarrow> prefix xs ys) \<and> (b = [] \<longrightarrow> ys = xs @ t)"
  by (induction xs ys rule: drop_common.induct) (auto split: if_splits)

lemma drop_common_set: "drop_common xs ys = (b, t) \<Longrightarrow> set t \<subseteq> set ys"
  by (induction xs ys rule: drop_common.induct) (auto split: if_splits)

lemma inside_iff:
  assumes "IsAbs base"
  shows "pathInsideRoot base target \<longleftrightarrow> IsAbs target \<and> prefix (path_elems base) (path_elems target)"
proof (cases "IsAbs target")
  case True
  obtain b t where bt: "drop_common (path_elems base) (path_elems target) = (b, t)" by fastforce
  define rel where "rel = (if b = [] \<and> t = [] then ''.'' else Join (map (\<lambda>_. ''..'') b @ t) ''/'')"
  have rel: "Rel base target = Some rel" using assms True bt by (simp add: Rel_def rel_def)
  have t: "\<forall>e\<in>set t. e \<noteq> [] \<and> e \<noteq> ''..'' \<and> CHR ''/'' \<notin> set e"
    using drop_common_set [OF bt] path_elems_abs(2) [OF True] by blast
  show ?thesis
  proof (cases "b = []")
    case b: True
    have sp: "t \<noteq> [] \<Longrightarrow> Split (CHR ''/'') rel = t" using t b by (simp add: rel_def Split_Join)
    have "\<not> IsAbs rel \<and> rel \<noteq> ''..'' \<and> \<not> HasPrefix rel ''../''"
    proof (cases "t = []")
      case False
      have up: False if "CHR ''/'' \<notin> set u" "rel = u @ CHR ''/'' # y \<or> rel = u" "u = [] \<or> u = ''..''" for u y
      proof -
        have "hd (Split (CHR ''/'') rel) = u" using that(1,2) Split_first [of "CHR ''/''" u] Split_plain [of "CHR ''/''" u] by auto
        then have "u \<in> set t" using sp [OF False] hd_in_set [OF False] by simp
        then show False using t that(3) by auto
      qed
      show ?thesis
        using up [of "[]"] up [of "''..''"] by (auto simp: IsAbs_def HasPrefix_def prefix_def)
    qed (simp add: rel_def b IsAbs_def HasPrefix_def)
    then show ?thesis using rel drop_common_split [OF bt] b True by (simp add: pathInsideRoot_def)
  next
    case False
    then obtain x bs where "b = x # bs" by (cases b) auto
    then have "rel = ''..'' \<or> HasPrefix rel ''../''"
      unfolding rel_def HasPrefix_def by (cases "map (\<lambda>_. ''..'') bs @ t") auto
    then show ?thesis using rel drop_common_split [OF bt] False by (auto simp: pathInsideRoot_def)
  qed
qed (use assms in \<open>simp add: pathInsideRoot_def Rel_def\<close>)

lemma darwinPathInside_eq: "darwinPathInside base target = pathInsideRoot base target"
  by (auto simp: darwinPathInside_def pathInsideRoot_def split: option.split)

lemma IsAbs_Abs: "Abs cwd p = Some q \<Longrightarrow> \<forall>d. cwd = Some d \<longrightarrow> IsAbs d \<Longrightarrow> IsAbs q"
proof -
  assume q: "Abs cwd p = Some q" and cwd: "\<forall>d. cwd = Some d \<longrightarrow> IsAbs d"
  show "IsAbs q"
  proof (cases "IsAbs p")
    case False
    then obtain d where d: "cwd = Some d" "q = JoinPath [d, p]" using q by (auto simp: Abs_def)
    then have "IsAbs d" using cwd by simp
    then have "d \<noteq> []" "IsAbs d" "\<And>x. IsAbs (d @ x)" by (auto simp: IsAbs_def HasPrefix_def)
    then show ?thesis using d by (auto simp: JoinPath_def intro!: IsAbs_Clean)
  qed (use q in \<open>auto simp: Abs_def IsAbs_Clean\<close>)
qed

section \<open>Discovery of model files\<close>

text \<open>The specification: the bytes of the model files down to six levels below a directory, a link
  counting if the path it resolves to lies below the root; and the tree without the other links.\<close>

definition model_name :: "string \<Rightarrow> bool" where
  "model_name name \<longleftrightarrow> EqualFold (Ext name) ''.gguf'' \<and> \<not> HasPrefix (ToLower name) ''mmproj-''"

definition below :: "string \<Rightarrow> string \<Rightarrow> bool" where
  "below base target \<longleftrightarrow> IsAbs target \<and> prefix (path_elems base) (path_elems target)"

definition file_bytes :: "file_info option \<Rightarrow> nat" where
  "file_bytes info = (case info of None \<Rightarrow> 0 | Some i \<Rightarrow> if fi_IsRegular i then nat (fi_Size i) else 0)"

fun tree_bytes :: "string \<Rightarrow> nat \<Rightarrow> string \<Rightarrow> tree \<Rightarrow> nat"
  and entries_bytes :: "string \<Rightarrow> nat \<Rightarrow> (string \<times> tree) list \<Rightarrow> nat" where
  "tree_bytes base levels name (Directory es) = entries_bytes base levels es"
| "tree_bytes base levels name (Link None) = 0"
| "tree_bytes base levels name (Link (Some (target, info))) = (if model_name name \<and> below base target then file_bytes info else 0)"
| "tree_bytes base levels name (Entry info) = (if model_name name then file_bytes info else 0)"
| "entries_bytes base 0 es = 0"
| "entries_bytes base (Suc levels) [] = 0"
| "entries_bytes base (Suc levels) ((n, t) # es) = tree_bytes base levels n t + entries_bytes base (Suc levels) es"

fun leaves :: "string \<Rightarrow> tree \<Rightarrow> bool" where
  "leaves base (Link (Some (target, info))) = (\<not> below base target)"
| "leaves base _ = False"

fun confined_tree :: "string \<Rightarrow> tree \<Rightarrow> tree" and confined :: "string \<Rightarrow> (string \<times> tree) list \<Rightarrow> (string \<times> tree) list" where
  "confined_tree base (Directory es) = Directory (confined base es)"
| "confined_tree base t = t"
| "confined base [] = []"
| "confined base ((n, t) # es) = (if leaves base t then confined base es else (n, confined_tree base t) # confined base es)"

definition counted_bytes :: "string \<Rightarrow> nat \<times> string \<times> tree \<Rightarrow> nat" where
  "counted_bytes base e = (case counted base e of None \<Rightarrow> 0 | Some n \<Rightarrow> nat n)"

lemma counted_nonneg: "counted base e = Some n \<Longrightarrow> 0 \<le> n"
  by (auto simp: counted_def regular_size_def split: prod.splits if_splits tree.splits option.splits)

lemma walk_bytes:
  assumes "IsAbs base"
  shows "sum_list (map (counted_bytes base) (walk depth name t)) = (if depth \<le> 6 then tree_bytes base (6 - depth) name t else 0)"
    and "sum_list (map (counted_bytes base) (walk_entries depth es)) = entries_bytes base (7 - depth) es"
proof (induction depth name t and depth es rule: walk_walk_entries.induct)
  case (4 depth)
  then show ?case by (cases "7 - depth") auto
next
  case (5 depth n t es)
  show ?case
  proof (cases "depth \<le> 6")
    case True
    then have "7 - depth = Suc (6 - depth)" by simp
    then show ?thesis using 5 True by simp
  qed (use 5 in simp)
qed (auto simp: counted_bytes_def counted_def model_name_def below_def inside_iff [OF assms] file_bytes_def regular_size_def
      maxModelWalkDepth_def split: option.split)

text \<open>Grouping: no byte is lost or counted twice, and every group has one key.\<close>

definition group_sizes :: "groups \<Rightarrow> u64" where
  "group_sizes gs = sum_list (map (\<lambda>(k, n, s). s) gs)"

lemma group_sizes_bump:
  "distinct (map fst gs) \<Longrightarrow> map_of gs key = Some ns \<Longrightarrow>
   group_sizes (map (\<lambda>(k, n, s). if k = key then (k, n, s + x) else (k, n, s)) gs) = group_sizes gs + x"
proof (induction gs)
  case (Cons g gs)
  obtain k n s where g: "g = (k, n, s)" by (metis surj_pair)
  show ?case
  proof (cases "k = key")
    case True
    then have "map (\<lambda>(k, n, s). if k = key then (k, n, s + x) else (k, n, s)) gs = gs"
      using Cons.prems(1) g by (intro map_idI) (auto simp: image_iff)
    then show ?thesis using g True by (simp add: group_sizes_def)
  qed (use Cons g in \<open>auto simp: group_sizes_def\<close>)
qed simp

lemma add_file_sizes:
  assumes "distinct (map fst gs)" "\<not> full (length gs) \<or> map_of gs (fst kn) \<noteq> None"
  shows "group_sizes (add_file full kn n gs) = group_sizes gs + word_of_int n"
  using assms by (auto simp: add_file_def group_sizes_bump split: prod.split option.splits)
    (simp_all add: group_sizes_def)

lemma add_file_distinct: "distinct (map fst gs) \<Longrightarrow> distinct (map fst (add_file full kn n gs))"
proof -
  assume d: "distinct (map fst gs)"
  have m: "map fst (map (\<lambda>(k, n, s). if k = key then (k, n, s + x) else (k, n, s)) gs) = map fst gs" for key and x :: u64
    by (simp add: comp_def split_beta if_distrib cong: if_cong)
  obtain key name where kn: "kn = (key, name)" by fastforce
  show ?thesis
  proof (cases "map_of gs key")
    case None
    then have "key \<notin> fst ` set gs" by (simp add: map_of_eq_None_iff)
    with None show ?thesis using d by (simp add: add_file_def kn)
  next
    case (Some ns)
    then have "add_file full kn n gs = map (\<lambda>(k, na, s). if k = key then (k, na, s + word_of_int n) else (k, na, s)) gs"
      by (simp add: add_file_def kn)
    then show ?thesis using d by (simp only: m)
  qed
qed

lemma visit_fold:
  assumes "distinct (map fst gs)"
  shows "distinct (map fst (fold (visit (\<lambda>_. False) lower base) es gs))
       \<and> group_sizes (fold (visit (\<lambda>_. False) lower base) es gs)
         = group_sizes gs + of_nat (sum_list (map (counted_bytes base) es))"
  using assms
proof (induction es arbitrary: gs)
  case (Cons e es)
  have v: "distinct (map fst (visit (\<lambda>_. False) lower base e gs))"
    "group_sizes (visit (\<lambda>_. False) lower base e gs) = group_sizes gs + of_nat (counted_bytes base e)"
    using Cons.prems counted_nonneg [of base e]
    by (auto simp: visit_def counted_bytes_def add_file_distinct add_file_sizes split: option.split)
  show ?case using Cons.IH [OF v(1)] v(2) by (simp add: algebra_simps)
qed (simp add: group_sizes_def)

lemma model_groups_sizes:
  assumes "IsAbs base"
  shows "distinct (map fst (model_groups (\<lambda>_. False) lower base es))"
    and "group_sizes (model_groups (\<lambda>_. False) lower base es) = of_nat (entries_bytes base 6 es)"
  using visit_fold [of "[]" lower base "walk 0 [] (Directory es)"] walk_bytes(1) [OF assms, of 0 "[]" "Directory es"]
  by (simp_all add: model_groups_def group_sizes_def)

text \<open>A link that leaves the root changes nothing.\<close>

lemma outside_not_counted:
  assumes "IsAbs base" "leaves base t"
  shows "counted base (depth, name, t) = None" "walk depth name t = [(depth, name, t)]"
proof -
  obtain target info where "t = Link (Some (target, info))" "\<not> below base target"
    using assms(2) by (auto elim: leaves.elims)
  then show "counted base (depth, name, t) = None" "walk depth name t = [(depth, name, t)]"
    using assms(1) by (auto simp: counted_def below_def inside_iff)
qed

lemma visit_skip: "counted base e = None \<Longrightarrow> visit full lower base e gs = gs"
  by (simp add: visit_def)

lemma walk_confined:
  assumes "IsAbs base"
  shows "fold (visit full lower base) (walk depth name (confined_tree base t)) gs = fold (visit full lower base) (walk depth name t) gs"
    and "fold (visit full lower base) (walk_entries depth (confined base es)) gs = fold (visit full lower base) (walk_entries depth es) gs"
proof (induction depth name t and depth es arbitrary: gs and gs rule: walk_walk_entries.induct)
  case (5 depth n t es)
  show ?case
  proof (cases "leaves base t")
    case True
    then show ?thesis
      using 5 outside_not_counted [OF assms True, of depth n] by (simp add: visit_skip)
  qed (use 5 in simp)
qed auto

lemma model_groups_confined:
  "IsAbs base \<Longrightarrow> model_groups full lower base (confined base es) = model_groups full lower base es"
  using walk_confined(1) [of base full lower 0 "[]" "Directory es" "[]"] by (simp add: model_groups_def)

definition enumerates :: "enumeration \<Rightarrow> bool" where
  "enumerates f \<longleftrightarrow> (\<forall>k xs. mset (f k xs) = mset xs)"

lemma sum_sizes_enum: "enumerates f \<Longrightarrow> sum_list (map g (f k xs)) = (sum_list (map g xs) :: u64)"
  by (metis enumerates_def mset_map sum_mset_sum_list)

definition with_root :: "string \<times> (string \<times> tree) list \<Rightarrow> 'w roots" where
  "with_root r base w = Some (Directory (snd r), Some (fst r))"

section \<open>What the server accepts\<close>

lemma firstNonEmpty_trimmed: "firstNonEmpty vs \<noteq> [] \<Longrightarrow> TrimSpace (firstNonEmpty vs) \<noteq> []"
  by (induction vs rule: firstNonEmpty.induct) (auto simp: TrimSpace_idem split: if_splits)

lemma os_fallbacks: "TrimSpace ''Linux'' = ''Linux''" "TrimSpace ''macOS'' = ''macOS''" by code_simp+

lemma firstNonEmpty_fallback: "v \<in> set vs \<Longrightarrow> TrimSpace v \<noteq> [] \<Longrightarrow> TrimSpace (firstNonEmpty vs) \<noteq> []"
  by (induction vs rule: firstNonEmpty.induct) (auto simp: TrimSpace_idem)

lemma linux_os_name: "detectLinuxOS m w = (os, w') \<Longrightarrow> TrimSpace (os_Name os) \<noteq> []"
proof -
  assume d: "detectLinuxOS m w = (os, w')"
  obtain r e w1 where r: "lm_Run m ''uname'' [''-r''] w = ((r, e), w1)" by (metis surj_pair)
  obtain a e' w2 where a: "lm_Run m ''uname'' [''-m''] w1 = ((a, e'), w2)" by (metis surj_pair)
  have l: "TrimSpace (firstNonEmpty [x, y, ''Linux'']) \<noteq> []" for x y
    by (rule firstNonEmpty_fallback [of "''Linux''"]) (simp_all add: os_fallbacks)
  show ?thesis
  proof (cases "lm_ReadFile m ''/etc/os-release'' w")
    case None
    then have "os_Name os = ''Linux''" using d by (auto simp: detectLinuxOS_def r a)
    then show ?thesis by (simp add: os_fallbacks)
  next
    case (Some raw)
    let ?n = "firstNonEmpty [value_of (parseOSRelease raw) ''NAME'', value_of (parseOSRelease raw) ''ID'', ''Linux'']"
    have "os_Name os = (if ?n = [] then ''Linux'' else ?n)"
      using d by (auto simp: detectLinuxOS_def r a Some Let_def simp del: firstNonEmpty.simps)
    then show ?thesis using l os_fallbacks by (simp del: firstNonEmpty.simps)
  qed
qed

lemma ask_trimmed: "ask m c a w = (Some v, w') \<Longrightarrow> TrimSpace v = v"
  by (auto simp: ask_def TrimSpace_idem split: prod.splits if_splits)

lemma darwin_os_name: "detectDarwinOS m w = (os, w') \<Longrightarrow> TrimSpace (os_Name os) \<noteq> []"
proof -
  assume d: "detectDarwinOS m w = (os, w')"
  obtain n w1 where n: "ask m ''/usr/bin/sw_vers'' [''-productName''] w = (n, w1)" by (metis surj_pair)
  obtain v w2 where v: "ask m ''/usr/bin/sw_vers'' [''-productVersion''] w1 = (v, w2)" by (metis surj_pair)
  obtain k w3 where k: "ask m ''/usr/bin/uname'' [''-r''] w2 = (k, w3)" by (metis surj_pair)
  obtain a w4 where a: "ask m ''/usr/bin/uname'' [''-m''] w3 = (a, w4)" by (metis surj_pair)
  have "os_Name os = (case n of None \<Rightarrow> ''macOS'' | Some v \<Rightarrow> if v \<noteq> [] then v else ''macOS'')"
    using d n v k a by (auto simp: detectDarwinOS_def Let_def)
  then show ?thesis using ask_trimmed [of m _ _ w _ w1] n os_fallbacks by (auto split: option.splits if_splits)
qed

lemma linux_acceleration_length: "length (fst (detectLinuxAcceleration m w)) \<le> 4"
  by (simp add: detectLinuxAcceleration_def Let_def split: prod.split)

lemma llama_loop_length: "length (fst (llama_loop m cs seen r w)) \<le> length r + (if seen then 0 else 1)"
proof (induction cs arbitrary: seen r w)
  case (Cons c cs)
  obtain out e w' where run: "lm_Run m c [''--version''] w = ((out, e), w')" by (metis surj_pair)
  define x where "x = \<lparr>air_Name = ''llama.cpp'', air_Version = parseLlamaVersion out,
    air_Status = (if e \<noteq> None then ''installed_unavailable'' else ''available'')\<rparr>"
  have "llama_loop m (c # cs) seen r w =
     (if \<not> lm_Stat m c w then llama_loop m cs seen r w
      else if \<not> seen then llama_loop m cs True (r @ [x]) w'
      else if air_Status x = ''available'' then llama_loop m cs True (map (\<lambda>y. if air_Name y = ''llama.cpp'' then x else y) r) w'
      else llama_loop m cs seen r w')"
    unfolding x_def by (auto simp: run Let_def)
  then show ?case
    using Cons.IH [of seen r w] Cons.IH [of True "r @ [x]" w'] Cons.IH [of seen r w']
      Cons.IH [of True "map (\<lambda>y. if air_Name y = ''llama.cpp'' then x else y) r" w']
    by (cases seen) (simp_all del: llama_loop.simps)
qed simp

lemma linux_runtimes_length: "length (fst (detectLinuxAIRuntimes m home w)) \<le> 2"
proof -
  obtain out e w1 where run: "lm_Run m ''ollama'' [''--version''] w = ((out, e), w1)" by (metis surj_pair)
  define r where "r = (if e = None then [\<lparr>air_Name = ''Ollama'', air_Version = parseTrailingVersion out, air_Status = ''available''\<rparr>] else [])"
  have "detectLinuxAIRuntimes m home w = llama_loop m (llama_candidates home) False r w1"
    by (simp add: detectLinuxAIRuntimes_def run r_def)
  moreover have "length r \<le> 1" by (simp add: r_def)
  ultimately show ?thesis using llama_loop_length [of m "llama_candidates home" False r w1] by simp
qed

lemma darwin_vulkan_length: "length (fst (darwin_vulkan m cs w)) \<le> 1"
  by (induction m cs w rule: darwin_vulkan.induct) (auto split: option.split prod.split)

lemma darwin_acceleration_length: "length (fst (detectDarwinAcceleration m p w)) \<le> 2"
  using darwin_vulkan_length [of m vulkaninfo_candidates w]
  by (auto simp: detectDarwinAcceleration_def Let_def split: prod.split)

lemma darwin_runtime_length: "length (fst (darwin_runtime m n cs w)) \<le> 1"
  by (auto simp: darwin_runtime_def split: option.split prod.split)

lemma darwin_runtimes_length: "length (fst (detectDarwinAIRuntimes m home w)) \<le> 2"
proof -
  obtain o1 w1 where o1: "darwin_runtime m ''Ollama'' ollama_candidates w = (o1, w1)" by fastforce
  obtain o2 w2 where o2: "darwin_runtime m ''llama.cpp'' (darwin_llama_candidates home) w1 = (o2, w2)" by fastforce
  show ?thesis
    using darwin_runtime_length [of m "''Ollama''" ollama_candidates w]
      darwin_runtime_length [of m "''llama.cpp''" "darwin_llama_candidates home" w1] o1 o2
    by (simp add: detectDarwinAIRuntimes_def)
qed

text \<open>What a collected inventory always satisfies.\<close>

definition sound_inventory :: "HardwareInventory \<Rightarrow> bool" where
  "sound_inventory inventory \<longleftrightarrow> hi_SchemaVersion inventory = HardwareInventorySchemaVersion \<and> TrimSpace (os_Name (hi_OS inventory)) \<noteq> []
     \<and> 0 < cpu_LogicalCores (hi_CPU inventory) \<and> mem_TotalBytes (hi_Memory inventory) \<noteq> 0
     \<and> length (hi_Acceleration inventory) \<le> 4 \<and> length (hi_AIRuntimes inventory) \<le> 2"

lemma linux_inventory_sound:
  assumes "collectHardwareInventoryLinux m w = (Inr inventory, w')"
  shows "sound_inventory inventory"
proof -
  obtain now w1 where 1: "lm_Now m w = (now, w1)" by fastforce
  obtain os w2 where 2: "detectLinuxOS m w1 = (os, w2)" by fastforce
  obtain cpu w3 where 3: "detectLinuxCPU m w2 = (cpu, w3)" by fastforce
  obtain gpus w4 where 4: "detectLinuxGPUs m w3 = (gpus, w4)" by fastforce
  obtain acc w5 where 5: "detectLinuxAcceleration m w4 = (acc, w5)" by fastforce
  obtain rt w6 where 6: "detectLinuxAIRuntimes m (lm_HomeDir m w5) w5 = (rt, w6)" by fastforce
  obtain ms w7 where 7: "detectLinuxModels m (lm_HomeDir m w5) w6 = (ms, w7)" by fastforce
  show ?thesis
    using assms linux_os_name [OF 2] linux_acceleration_length [of m w4] linux_runtimes_length [of m "lm_HomeDir m w5" w5] 1 2 3 4 5 6 7
    by (auto simp: collectHardwareInventoryLinux_def Let_def sound_inventory_def split: if_splits)
qed

lemma darwin_inventory_sound:
  assumes "collectHardwareInventoryDarwin m w = (Inr inventory, w')"
  shows "sound_inventory inventory \<and> length (hi_Models inventory) \<le> 200"
proof -
  obtain now w1 where 1: "dm_Now m w = (now, w1)" by fastforce
  obtain os w2 where 2: "detectDarwinOS m w1 = (os, w2)" by fastforce
  obtain cpu w3 where 3: "detectDarwinCPU m w2 = (cpu, w3)" by fastforce
  obtain mem w4 where 4: "detectDarwinMemory m w3 = (mem, w4)" by fastforce
  obtain d de w5 where 5: "dm_Run m ''/usr/sbin/system_profiler'' [''SPDisplaysDataType''] w4 = ((d, de), w5)" by (metis surj_pair)
  obtain acc w6 where 6: "detectDarwinAcceleration m d w5 = (acc, w6)" by fastforce
  define home where "home = (case dm_HomeDir m w6 of None \<Rightarrow> [] | Some h \<Rightarrow> h)"
  obtain rt w7 where 7: "detectDarwinAIRuntimes m home w6 = (rt, w7)" by fastforce
  obtain ms w8 where 8: "detectDarwinModels m home w7 = (ms, w8)" by fastforce
  have "length ms \<le> 200"
    using 8 by (auto simp: detectDarwinModels_def Let_def darwinModelLimit_def split: prod.splits)
  then show ?thesis
    using assms darwin_os_name [OF 2] darwin_acceleration_length [of m d w5] darwin_runtimes_length [of m home w6]
      1 2 3 4 5 6 7 8
    by (auto simp: collectHardwareInventoryDarwin_def Let_def sound_inventory_def home_def [symmetric] split: if_splits)
qed
lemma sound_inventory_accepted:
  assumes "isub_Version sub = InventorySubmissionVersion" "validUUIDv4 (isub_NodeID sub)" "validUUIDv4 (isub_ReportID sub)"
    and "isub_SignedAt sub \<noteq> 0" "hi_CollectedAt (isub_Inventory sub) \<noteq> 0" "skew_accepted t (isub_SignedAt sub)"
    and "skew_accepted (isub_SignedAt sub) (hi_CollectedAt (isub_Inventory sub))"
    and "sound_inventory (isub_Inventory sub)"
  shows "validateInventorySubmission sub t = Inr () \<longleftrightarrow>
           TrimSpace (cpu_Model (hi_CPU (isub_Inventory sub))) \<noteq> [] \<and> length (hi_GPUs (isub_Inventory sub)) \<le> 32
         \<and> length (hi_Models (isub_Inventory sub)) \<le> 200"
  using assms unfolding inventory_accepted_iff sound_inventory_def by auto

lemma collected_inventory_sound:
  "CollectHardwareInventory_linux ex lm w = (Inr i, w') \<Longrightarrow> sound_inventory i"
  "CollectHardwareInventory_darwin ex' dm w = (Inr i, w') \<Longrightarrow> sound_inventory i \<and> length (hi_Models i) \<le> 200"
  using linux_inventory_sound darwin_inventory_sound
  unfolding CollectHardwareInventory_linux_def CollectHardwareInventory_darwin_def by metis+

text \<open>On Linux the cap of 200 models is not one: every root still adds a model when the map is full
  (the \<open>break\<close> leaves the inner loop only), and the list of \<open>ollama\<close> is not capped at all.\<close>

lemma update_length: "length (AList.update k v al) = (if k \<in> fst ` set al then length al else Suc (length al))"
  by (induction al) auto

lemma add_models_length: "length (add_models lower xs models) \<le> max 200 (length models + 1)"
proof (induction xs arbitrary: models)
  case (Cons x xs)
  let ?m = "AList.update (gguf_key lower x) x models"
  have l: "length ?m \<le> length models + 1" by (simp add: update_length)
  show ?case
  proof (cases "length ?m \<ge> 200")
    case False
    then have "length (add_models lower xs ?m) \<le> 200" using Cons.IH [of ?m] by simp
    then show ?thesis using False by (simp add: maxDiscoveredModels_def Let_def)
  qed (use l in \<open>simp add: maxDiscoveredModels_def Let_def\<close>)
qed simp

lemma enumerates_length: "enumerates f \<Longrightarrow> length (f k xs) = length xs"
  by (metis enumerates_def size_mset)

lemma length_sorted_models [simp]: "length (sorted_models xs) = length xs"
  by (simp add: sorted_models_def)

definition ollama_map :: "ModelInventory list \<Rightarrow> (string \<times> ModelInventory) list" where
  "ollama_map xs = fold (\<lambda>x models. AList.update (ollama_key x) x models) xs []"

lemma linux_models_bound:
  assumes "enumerates (lm_Range m)" "lm_Run m ''ollama'' [''list''] w = ((out, e), w')"
  shows "length (fst (detectLinuxModels m home w)) \<le> max 202 (length (if e = None then ollama_map (parseOllamaList out) else []) + 3)"
proof -
  define al where "al = (if e = None then ollama_map (parseOllamaList out) else [])"
  define d where "d = (\<lambda>base. discoverGGUFModels m w' base)"
  define l where "l = lm_Lower m"
  obtain a b c where roots: "model_roots home = [a, b, c]" by (simp add: model_roots_def)
  have "length (fst (detectLinuxModels m home w)) = length (add_models l (d c) (add_models l (d b) (add_models l (d a) al)))"
    using assms by (simp add: detectLinuxModels_def ollama_map_def [symmetric] roots enumerates_length al_def d_def l_def)
  then show ?thesis
    using add_models_length [of l "d a" al] add_models_length [of l "d b" "add_models l (d a) al"]
      add_models_length [of l "d c" "add_models l (d b) (add_models l (d a) al)"]
    unfolding al_def [symmetric] by linarith
qed

lemma linux_ollama_unbounded:
  assumes "enumerates (lm_Range m)" "lm_Run m ''ollama'' [''list''] w = ((out, None), w')" "lm_Roots m = (\<lambda>_ _. None)"
  shows "length (fst (detectLinuxModels m home w)) = card (mdl_Name ` set (parseOllamaList out))"
proof -
  have "length (fold (\<lambda>x models. AList.update (ollama_key x) x models) xs al) = card (fst ` set al \<union> ollama_key ` set xs)"
    if "distinct (map fst al)" for xs and al :: "(string \<times> ModelInventory) list"
    using that
  proof (induction xs arbitrary: al)
    case Nil
    from distinct_card [OF this] show ?case by simp
  next
    case (Cons x xs)
    have "fst ` set (AList.update (ollama_key x) x al) = insert (ollama_key x) (fst ` set al)"
      using dom_update [of "ollama_key x" x al] by (simp add: dom_map_of_conv_image_fst)
    then show ?case using Cons.IH [OF distinct_update [OF Cons.prems]] by simp
  qed
  from this [of "[]" "parseOllamaList out"]
  have "length (ollama_map (parseOllamaList out)) = card (ollama_key ` set (parseOllamaList out))" by (simp add: ollama_map_def)
  also have "ollama_key ` set (parseOllamaList out) = (\<lambda>n. ''ollama'' @ [CHR 0x00] @ n) ` mdl_Name ` set (parseOllamaList out)"
    by (simp add: image_image ollama_key_def)
  also have "card \<dots> = card (mdl_Name ` set (parseOllamaList out))" by (rule card_image) (simp add: inj_on_def)
  finally show ?thesis
    using assms by (simp add: detectLinuxModels_def ollama_map_def model_roots_def discoverGGUFModels_def enumerates_length)
qed
section \<open>Programs run on macOS\<close>

text \<open>The machine with a log of the commands, each with the state of the world it ran in.\<close>

type_synonym 'v observed_world = "'v \<times> (string \<times> string list \<times> 'v) list"

definition observed :: "'v darwin_machine \<Rightarrow> 'v observed_world darwin_machine" where
  "observed m =
     \<lparr>dm_Run = (\<lambda>c a w. case dm_Run m c a (fst w) of (r, v) \<Rightarrow> (r, (v, snd w @ [(c, a, fst w)]))),
      dm_Lstat = (\<lambda>p w. dm_Lstat m p (fst w)), dm_Stat = (\<lambda>p w. dm_Stat m p (fst w)),
      dm_EvalSymlinks = (\<lambda>p w. dm_EvalSymlinks m p (fst w)), dm_Getwd = (\<lambda>w. dm_Getwd m (fst w)),
      dm_HomeDir = (\<lambda>w. dm_HomeDir m (fst w)),
      dm_Now = (\<lambda>w. case dm_Now m (fst w) of (t, v) \<Rightarrow> (t, (v, snd w))),
      dm_GOARCH = dm_GOARCH m, dm_NumCPU = dm_NumCPU m, dm_Roots = (\<lambda>p w. dm_Roots m p (fst w)),
      dm_Lower = dm_Lower m, dm_Range = dm_Range m\<rparr>"

definition ran :: "(string \<times> string list \<times> 'v \<Rightarrow> bool) \<Rightarrow> nat \<Rightarrow> 'v observed_world \<Rightarrow> 'v observed_world \<Rightarrow> bool" where
  "ran P n w w' \<longleftrightarrow> (\<exists>es. snd w' = snd w @ es \<and> length es \<le> n \<and> (\<forall>e\<in>set es. P e))"

lemma ran_refl: "snd w' = snd w \<Longrightarrow> ran P n w w'"
  by (auto simp: ran_def)

lemma ran_trans: "ran P n a b \<Longrightarrow> ran P k b c \<Longrightarrow> ran P (n + k) a c"
proof -
  assume "ran P n a b" "ran P k b c"
  then obtain es fs where "snd b = snd a @ es" "length es \<le> n" "\<forall>e\<in>set es. P e"
    "snd c = snd b @ fs" "length fs \<le> k" "\<forall>e\<in>set fs. P e" by (auto simp: ran_def)
  then show ?thesis unfolding ran_def by (intro exI [of _ "es @ fs"]) auto
qed

lemma ran_mono: "ran P n w w' \<Longrightarrow> n \<le> k \<Longrightarrow> ran P k w w'"
  by (auto simp: ran_def)

lemma ran_command: "dm_Run (observed m) c a w = (r, w') \<Longrightarrow> P (c, a, fst w) \<Longrightarrow> ran P 1 w w'"
  by (auto simp: observed_def ran_def split: prod.splits)

text \<open>A program is trusted in a state of the world if it is a tool of the system, or what a candidate
  resolves to: an executable regular file below a trusted directory, as is the candidate.\<close>

definition system_tools :: "string list" where
  "system_tools = [''/usr/bin/sw_vers'', ''/usr/bin/uname'', ''/usr/sbin/sysctl'', ''/usr/sbin/system_profiler'']"

definition candidates_of :: "string \<Rightarrow> string list" where
  "candidates_of home = vulkaninfo_candidates @ ollama_candidates @ darwin_llama_candidates home"

definition resolves :: "'v darwin_machine \<Rightarrow> 'v \<Rightarrow> string \<Rightarrow> string \<Rightarrow> bool" where
  "resolves m v path file \<longleftrightarrow>
     (dm_Lstat m path v = Some False \<and> Abs (dm_Getwd m v) path = Some file)
   \<or> (dm_Lstat m path v = Some True \<and> (\<exists>r. dm_EvalSymlinks m path v = Some r \<and> Abs (dm_Getwd m v) r = Some file))"

definition trusted_file :: "'v darwin_machine \<Rightarrow> 'v \<Rightarrow> string \<Rightarrow> string \<Rightarrow> bool" where
  "trusted_file m v path file \<longleftrightarrow>
     resolves m v path file
   \<and> (\<exists>info. dm_Stat m file v = Some info \<and> fm_IsRegular info \<and> and (fm_Perm info) 73 \<noteq> 0)
   \<and> (\<exists>dir\<in>set (allowed_roots (dm_HomeDir m v)). \<exists>b q.
        Abs (dm_Getwd m v) dir = Some b \<and> Abs (dm_Getwd m v) path = Some q \<and> below b q \<and> below b file)"

definition trusted_command :: "'v darwin_machine \<Rightarrow> string \<times> string list \<times> 'v \<Rightarrow> bool" where
  "trusted_command m e = (case e of (file, args, v) \<Rightarrow>
     file \<in> set system_tools \<or> (\<exists>home. \<exists>path\<in>set (candidates_of home). trusted_file m v path file))"

definition rooted_cwd :: "'v darwin_machine \<Rightarrow> bool" where
  "rooted_cwd m \<longleftrightarrow> (\<forall>v d. dm_Getwd m v = Some d \<longrightarrow> IsAbs d)"

lemma Clean_fix: "IsAbs p \<Longrightarrow> path_elems (Clean p) = path_elems p"
proof -
  assume p: "IsAbs p"
  let ?es = "path_elems p"
  have es: "\<forall>e\<in>set ?es. e \<noteq> [] \<and> e \<noteq> ''.'' \<and> e \<noteq> ''..'' \<and> CHR ''/'' \<notin> set e" by (rule path_elems_abs(2) [OF p])
  have "\<forall>e\<in>set xs. e \<noteq> [] \<and> e \<noteq> ''.'' \<and> e \<noteq> ''..'' \<Longrightarrow> clean_elems True out xs = rev out @ xs" for out xs
    by (induction xs arbitrary: out) auto
  then have fix1: "clean_elems True [] ?es = ?es" using es by simp
  have "Clean p = CHR ''/'' # Join ?es ''/''" using p by (simp add: Clean_def IsAbs_def Let_def path_elems_abs(1))
  then have "path_elems (Clean p) = clean_elems True [] ([] # Split (CHR ''/'') (Join ?es ''/''))"
    using path_elems_abs(1) [OF IsAbs_Clean [OF p]] by simp
  also have "\<dots> = ?es" using fix1 es by (cases "?es = []") (auto simp: Split_Join)
  finally show ?thesis .
qed

lemma trusted_executable:
  assumes "trustedDarwinExecutable m v path = Some file" "rooted_cwd m"
  shows "trusted_file m v path file"
proof -
  let ?cwd = "dm_Getwd m v"
  have cwd: "\<forall>d. ?cwd = Some d \<longrightarrow> IsAbs d" using assms(2) by (auto simp: rooted_cwd_def)
  obtain isLink r info where r: "dm_Lstat m path v = Some isLink"
      "(if isLink then dm_EvalSymlinks m path v else Some path) = Some r" "Abs ?cwd r = Some file"
      "dm_Stat m file v = Some info" "fm_IsRegular info" "and (fm_Perm info) 73 \<noteq> 0"
      "darwinExecutableAllowed ?cwd (dm_HomeDir m v) path file"
    using assms(1) by (auto simp: trustedDarwinExecutable_def split: option.splits if_splits)
  obtain dir b where dir: "dir \<in> set (allowed_roots (dm_HomeDir m v))" "Abs ?cwd dir = Some b"
      "darwinPathInside b (case Abs ?cwd path of None \<Rightarrow> [] | Some q \<Rightarrow> q)"
      "darwinPathInside b (case Abs ?cwd file of None \<Rightarrow> [] | Some q \<Rightarrow> q)"
    using r(7) by (auto simp: darwinExecutableAllowed_def Let_def list_ex_iff split: option.splits)
  have b: "IsAbs b" and abs: "IsAbs file" using IsAbs_Abs dir(2) r(3) cwd by blast+
  have inside: "darwinPathInside b x \<longleftrightarrow> below b x" for x by (simp add: darwinPathInside_eq inside_iff [OF b] below_def)
  have "\<exists>q. Abs ?cwd path = Some q \<and> below b q"
    using dir(3) unfolding inside by (auto simp: below_def IsAbs_def HasPrefix_def split: option.splits)
  moreover have "below b file"
    using dir(4) abs unfolding inside by (simp add: Abs_def below_def Clean_fix)
  moreover have "resolves m v path file" using r(1-3) by (auto simp: resolves_def split: if_splits)
  ultimately show ?thesis using r(4-6) dir(1,2) by (auto simp: trusted_file_def)
qed
lemma observed_files:
  "dm_Lstat (observed m) p w = dm_Lstat m p (fst w)" "dm_Stat (observed m) p w = dm_Stat m p (fst w)"
  "dm_EvalSymlinks (observed m) p w = dm_EvalSymlinks m p (fst w)" "dm_Getwd (observed m) w = dm_Getwd m (fst w)"
  "dm_HomeDir (observed m) w = dm_HomeDir m (fst w)"
  by (simp_all add: observed_def)

lemma observed_trusted [simp]: "trustedDarwinExecutable (observed m) w path = trustedDarwinExecutable m (fst w) path"
  unfolding trustedDarwinExecutable_def observed_files ..

lemma observed_first [simp]: "firstDarwinExecutable (observed m) w cs = firstDarwinExecutable m (fst w) cs"
  by (induction cs) (auto split: option.split)

lemma first_trusted:
  "firstDarwinExecutable m v cs = Some file \<Longrightarrow> rooted_cwd m \<Longrightarrow> \<exists>path\<in>set cs. trusted_file m v path file"
  by (induction cs) (auto split: option.splits dest: trusted_executable)

lemma ask_ran:
  "ask (observed m) c a w = (r, w') \<Longrightarrow> c \<in> set system_tools \<Longrightarrow> ran (trusted_command m) 1 w w'"
proof -
  assume d: "ask (observed m) c a w = (r, w')" and c: "c \<in> set system_tools"
  obtain out e w1 where run: "dm_Run (observed m) c a w = ((out, e), w1)" by (metis surj_pair)
  then show ?thesis using d c ran_command [OF run, of "trusted_command m"] by (simp add: ask_def trusted_command_def)
qed

lemma os_ran: "detectDarwinOS (observed m) w = (r, w') \<Longrightarrow> ran (trusted_command m) 4 w w'"
proof -
  assume d: "detectDarwinOS (observed m) w = (r, w')"
  obtain n w1 where 1: "ask (observed m) ''/usr/bin/sw_vers'' [''-productName''] w = (n, w1)" by (metis surj_pair)
  obtain v w2 where 2: "ask (observed m) ''/usr/bin/sw_vers'' [''-productVersion''] w1 = (v, w2)" by (metis surj_pair)
  obtain k w3 where 3: "ask (observed m) ''/usr/bin/uname'' [''-r''] w2 = (k, w3)" by (metis surj_pair)
  obtain a w4 where 4: "ask (observed m) ''/usr/bin/uname'' [''-m''] w3 = (a, w4)" by (metis surj_pair)
  have "w' = w4" using d 1 2 3 4 by (simp add: detectDarwinOS_def)
  moreover have "ran (trusted_command m) (1 + 1 + 1 + 1) w w4"
    by (intro ran_trans [OF ran_trans [OF ran_trans [OF ask_ran [OF 1] ask_ran [OF 2]] ask_ran [OF 3]] ask_ran [OF 4]])
      (simp_all add: system_tools_def)
  ultimately show ?thesis by (simp add: eval_nat_numeral)
qed

lemma cpu_ran: "detectDarwinCPU (observed m) w = (r, w') \<Longrightarrow> ran (trusted_command m) 3 w w'"
proof -
  assume d: "detectDarwinCPU (observed m) w = (r, w')"
  obtain n w1 where 1: "ask (observed m) ''/usr/sbin/sysctl'' [''-n'', ''machdep.cpu.brand_string''] w = (n, w1)" by (metis surj_pair)
  obtain v w2 where 2: "ask (observed m) ''/usr/sbin/sysctl'' [''-n'', ''hw.physicalcpu''] w1 = (v, w2)" by (metis surj_pair)
  obtain k w3 where 3: "ask (observed m) ''/usr/sbin/sysctl'' [''-n'', ''hw.logicalcpu''] w2 = (k, w3)" by (metis surj_pair)
  have "w' = w3" using d 1 2 3 by (simp add: detectDarwinCPU_def)
  moreover have "ran (trusted_command m) (1 + 1 + 1) w w3"
    by (intro ran_trans [OF ran_trans [OF ask_ran [OF 1] ask_ran [OF 2]] ask_ran [OF 3]]) (simp_all add: system_tools_def)
  ultimately show ?thesis by (simp add: eval_nat_numeral)
qed

lemma memory_ran: "detectDarwinMemory (observed m) w = (r, w') \<Longrightarrow> ran (trusted_command m) 1 w w'"
proof -
  assume d: "detectDarwinMemory (observed m) w = (r, w')"
  obtain n w1 where 1: "ask (observed m) ''/usr/sbin/sysctl'' [''-n'', ''hw.memsize''] w = (n, w1)" by (metis surj_pair)
  show ?thesis using d 1 ask_ran [OF 1] by (simp add: detectDarwinMemory_def system_tools_def)
qed

text \<open>A trusted file found among candidates.\<close>

lemma candidate_command:
  "trusted_file m (fst w) path f \<Longrightarrow> path \<in> set (candidates_of home) \<Longrightarrow> trusted_command m (f, args, fst w)"
  by (auto simp: trusted_command_def)

lemma vulkan_ran:
  assumes "rooted_cwd m"
  shows "darwin_vulkan (observed m) cs w = (r, w') \<Longrightarrow> set cs \<subseteq> set vulkaninfo_candidates \<Longrightarrow>
    ran (trusted_command m) (length cs) w w'"
proof (induction cs arbitrary: w r w')
  case (Cons c cs)
  show ?case
  proof (cases "trustedDarwinExecutable m (fst w) c")
    case None
    then show ?thesis using Cons ran_mono [of "trusted_command m" "length cs"] by auto
  next
    case (Some f)
    obtain out e w1 where run: "dm_Run (observed m) f [''--summary''] w = ((out, e), w1)" by (metis surj_pair)
    have "trusted_command m (f, [''--summary''], fst w)"
      by (rule candidate_command [OF trusted_executable [OF Some assms], of "[]"])
         (use Cons.prems in \<open>auto simp: candidates_of_def\<close>)
    then have one: "ran (trusted_command m) 1 w w1" by (rule ran_command [OF run])
    show ?thesis
    proof (cases "e = None")
      case True
      then have "w' = w1" using Cons.prems Some run by simp
      then show ?thesis using ran_mono [OF one] by simp
    next
      case False
      then have "darwin_vulkan (observed m) cs w1 = (r, w')" using Cons.prems Some run by simp
      from ran_trans [OF one Cons.IH [OF this]] show ?thesis using Cons.prems by simp
    qed
  qed
qed (simp add: ran_refl)

lemma acceleration_ran:
  "rooted_cwd m \<Longrightarrow> detectDarwinAcceleration (observed m) p w = (r, w') \<Longrightarrow> ran (trusted_command m) 2 w w'"
proof -
  assume c: "rooted_cwd m" and d: "detectDarwinAcceleration (observed m) p w = (r, w')"
  obtain v w1 where 1: "darwin_vulkan (observed m) vulkaninfo_candidates w = (v, w1)" by (metis surj_pair)
  have "w' = w1" using d 1 by (simp add: detectDarwinAcceleration_def Let_def)
  then show ?thesis using vulkan_ran [OF c 1 order_refl] by (simp add: vulkaninfo_candidates_def numeral_2_eq_2)
qed

lemma runtime_ran:
  assumes "rooted_cwd m" "darwin_runtime (observed m) n cs w = (r, w')" "set cs \<subseteq> set (candidates_of home)"
  shows "ran (trusted_command m) 1 w w'"
proof (cases "firstDarwinExecutable m (fst w) cs")
  case None
  then show ?thesis using assms(2) by (simp add: darwin_runtime_def ran_refl)
next
  case (Some f)
  obtain out e w1 where run: "dm_Run (observed m) f [''--version''] w = ((out, e), w1)" by (metis surj_pair)
  obtain path where "path \<in> set cs" "trusted_file m (fst w) path f" using first_trusted [OF Some assms(1)] by blast
  then have "ran (trusted_command m) 1 w w1" using candidate_command assms(3) by (blast intro: ran_command [OF run])
  then show ?thesis using assms(2) Some run by (simp add: darwin_runtime_def)
qed

lemma runtimes_ran:
  assumes "rooted_cwd m" "detectDarwinAIRuntimes (observed m) home w = (r, w')"
  shows "ran (trusted_command m) 2 w w'"
proof -
  obtain a w1 where 1: "darwin_runtime (observed m) ''Ollama'' ollama_candidates w = (a, w1)" by (metis surj_pair)
  obtain b w2 where 2: "darwin_runtime (observed m) ''llama.cpp'' (darwin_llama_candidates home) w1 = (b, w2)" by (metis surj_pair)
  have "w' = w2" using assms(2) 1 2 by (simp add: detectDarwinAIRuntimes_def)
  moreover have "ran (trusted_command m) (1 + 1) w w2"
    by (rule ran_trans [OF runtime_ran [OF assms(1) 1, of home] runtime_ran [OF assms(1) 2, of home]])
      (auto simp: candidates_of_def)
  ultimately show ?thesis by (simp add: numeral_2_eq_2)
qed

lemma models_ran:
  assumes "rooted_cwd m" "detectDarwinModels (observed m) home w = (r, w')"
  shows "ran (trusted_command m) 1 w w'"
proof (cases "firstDarwinExecutable m (fst w) ollama_candidates")
  case None
  then show ?thesis using assms(2) by (simp add: detectDarwinModels_def Let_def ran_refl)
next
  case (Some f)
  obtain out e w1 where run: "dm_Run (observed m) f [''list''] w = ((out, e), w1)" by (metis surj_pair)
  obtain path where "path \<in> set (candidates_of home)" "trusted_file m (fst w) path f"
    using first_trusted [OF Some assms(1)] by (auto simp: candidates_of_def)
  then have "ran (trusted_command m) 1 w w1" by (blast intro: ran_command [OF run] candidate_command)
  then show ?thesis using assms(2) Some run by (simp add: detectDarwinModels_def Let_def)
qed

text \<open>C31: On macOS the collection of the inventory runs at most 14 commands, and each of them is a tool of
  the system or a trusted program at the moment it runs: an executable regular file below
  \<^verbatim>\<open>/usr/local\<close>, \<^verbatim>\<open>/opt/homebrew\<close>, the Ollama application or the home directory's \<^verbatim>\<open>llama.cpp\<close>, to which
  one of the fixed candidates resolves that lies below the same directory. No search path is used, and a
  link that leads out of its directory is not followed.\<close>

theorem darwin_commands_trusted:
  assumes "collectHardwareInventoryDarwin (observed m) w = (result, w')" and "rooted_cwd m"
  shows "\<exists>es. snd w' = snd w @ es \<and> length es \<le> 14 \<and> (\<forall>e\<in>set es. trusted_command m e)"
proof -
  let ?m = "observed m"
  obtain now w1 where 1: "dm_Now ?m w = (now, w1)" by (metis surj_pair)
  obtain os w2 where 2: "detectDarwinOS ?m w1 = (os, w2)" by (metis surj_pair)
  obtain cpu w3 where 3: "detectDarwinCPU ?m w2 = (cpu, w3)" by (metis surj_pair)
  obtain mem w4 where 4: "detectDarwinMemory ?m w3 = (mem, w4)" by (metis surj_pair)
  obtain d de w5 where 5: "dm_Run ?m ''/usr/sbin/system_profiler'' [''SPDisplaysDataType''] w4 = ((d, de), w5)" by (metis surj_pair)
  obtain acc w6 where 6: "detectDarwinAcceleration ?m d w5 = (acc, w6)" by (metis surj_pair)
  define home where "home = (case dm_HomeDir ?m w6 of None \<Rightarrow> [] | Some h \<Rightarrow> h)"
  obtain rt w7 where 7: "detectDarwinAIRuntimes ?m home w6 = (rt, w7)" by (metis surj_pair)
  obtain ms w8 where 8: "detectDarwinModels ?m home w7 = (ms, w8)" by (metis surj_pair)
  have w': "w' = w8"
    using assms(1) 1 2 3 4 5 6 7 8 by (auto simp: collectHardwareInventoryDarwin_def home_def [symmetric] Let_def split: if_splits)
  have clock: "ran (trusted_command m) 0 w w1" using 1 by (auto simp: observed_def intro: ran_refl split: prod.splits)
  have display: "ran (trusted_command m) 1 w4 w5"
    by (rule ran_command [OF 5]) (simp add: trusted_command_def system_tools_def)
  have "ran (trusted_command m) (0 + 4 + 3 + 1 + 1 + 2 + 2 + 1) w w8"
    by (rule ran_trans [OF ran_trans [OF ran_trans [OF ran_trans [OF ran_trans [OF ran_trans [OF ran_trans [OF clock
          os_ran [OF 2]] cpu_ran [OF 3]] memory_ran [OF 4]] display] acceleration_ran [OF assms(2) 6]]
          runtimes_ran [OF assms(2) 7]] models_ran [OF assms(2) 8]])
  then show ?thesis using w' by (simp add: ran_def)
qed
section \<open>Examples\<close>

definition answers :: "(string \<times> string list \<times> string) list \<Rightarrow> 'w os_exec" where
  "answers table name args w =
     (case map_of (map (\<lambda>(c, a, out). ((c, a), out)) table) (name, args) of
        Some out \<Rightarrow> (\<lparr>x_stdout = [out], x_stderr = [], x_err = None\<rparr>, w)
      | None \<Rightarrow> (\<lparr>x_stdout = [], x_stderr = [], x_err = Some (Err ''not found'')\<rparr>, w))"

definition split_model :: "(string \<times> tree) list" where
  "split_model =
     [(''a-00001-of-00002.gguf'', Entry (Some \<lparr>fi_IsRegular = True, fi_Size = 10\<rparr>)),
      (''a-00002-of-00002.gguf'', Entry (Some \<lparr>fi_IsRegular = True, fi_Size = 20\<rparr>)),
      (''b.gguf'', Link (Some (''/etc/b.gguf'', Some \<lparr>fi_IsRegular = True, fi_Size = 5\<rparr>)))]"

definition demo_linux :: "unit linux_machine" where
  "demo_linux =
     \<lparr>lm_Run = (\<lambda>c a w. (([], Some (Err ''not found'')), w)),
      lm_ReadFile = (\<lambda>p w. if p = ''/proc/meminfo'' then Some ''MemTotal: 2048 kB'' else None),
      lm_Stat = (\<lambda>p w. False), lm_HomeDir = (\<lambda>w. ''/home/u''), lm_Now = (\<lambda>w. (1000, w)),
      lm_GOARCH = ''amd64'', lm_NumCPU = 4,
      lm_Roots = (\<lambda>p w. if p = ''/home/u/models'' then Some (Directory split_model, Some ''/home/u/models'') else None),
      lm_Lower = map lower_char, lm_Range = (\<lambda>k xs. xs)\<rparr>"

definition demo_darwin :: "unit darwin_machine" where
  "demo_darwin =
     \<lparr>dm_Run = (\<lambda>c a w. (([], Some (Err ''not found'')), w)),
      dm_Lstat = (\<lambda>p w. if p = ''/usr/local/bin/ollama'' then Some False else None),
      dm_Stat = (\<lambda>p w. Some \<lparr>fm_IsRegular = True, fm_Perm = 493\<rparr>), dm_EvalSymlinks = (\<lambda>p w. None),
      dm_Getwd = (\<lambda>w. Some ''/''), dm_HomeDir = (\<lambda>w. Some ''/Users/u''), dm_Now = (\<lambda>w. (1000, w)),
      dm_GOARCH = ''arm64'', dm_NumCPU = 8,
      dm_Roots = (\<lambda>p w. Some (Directory split_model, Some ''/home/u/models'')),
      dm_Lower = map lower_char, dm_Range = (\<lambda>k xs. xs)\<rparr>"

definition linux_answers :: "unit os_exec" where
  "linux_answers = answers [(''lscpu'', [], ''Model name: Demo CPU'')]"

definition darwin_answers :: "unit os_exec" where
  "darwin_answers = answers
     [(''/usr/sbin/sysctl'', [''-n'', ''machdep.cpu.brand_string''], ''Demo CPU''),
      (''/usr/sbin/sysctl'', [''-n'', ''hw.memsize''], ''2097152'')]"


definition demo_inventory :: "string \<Rightarrow> string \<Rightarrow> int \<Rightarrow> AIRuntimeInventory list \<Rightarrow> HardwareInventory" where
  "demo_inventory os arch cores runtimes =
     \<lparr>hi_SchemaVersion = ''m7-v1'', hi_CollectedAt = 1000,
      hi_OS = \<lparr>os_Name = os, os_Version = [], os_Architecture = arch, os_Kernel = []\<rparr>,
      hi_CPU = \<lparr>cpu_Model = ''Demo CPU'', cpu_PhysicalCores = 0, cpu_LogicalCores = cores\<rparr>,
      hi_Memory = \<lparr>mem_TotalBytes = 2097152\<rparr>, hi_GPUs = [], hi_Acceleration = [], hi_AIRuntimes = runtimes,
      hi_Models = []\<rparr>"

definition empty_linux :: "unit linux_machine" where
  "empty_linux = demo_linux\<lparr>lm_Roots := (\<lambda>_ _. None)\<rparr>"

definition empty_darwin :: "unit darwin_machine" where
  "empty_darwin = demo_darwin\<lparr>dm_Roots := (\<lambda>_ _. None)\<rparr>"

lemma demo_linux_collects:
  "CollectHardwareInventory_linux linux_answers empty_linux () = (Inr (demo_inventory ''Linux'' ''amd64'' 4 []), ())"
  by code_simp

lemma demo_darwin_collects:
  "CollectHardwareInventory_darwin darwin_answers empty_darwin ()
     = (Inr (demo_inventory ''macOS'' ''arm64'' 8
          [\<lparr>air_Name = ''Ollama'', air_Version = [], air_Status = ''installed_unavailable''\<rparr>]), ())"
  by code_simp
lemma demo_darwin_runs_ollama:
  "(''/usr/local/bin/ollama'', [''list''], ()) \<in> set (snd (snd (collectHardwareInventoryDarwin (observed empty_darwin) ((), []))))"
  by code_simp

theorem darwin_commands_trusted_witness:
  "\<exists>es. (''/usr/local/bin/ollama'', [''list''], ()) \<in> set es \<and> length es \<le> 14 \<and> (\<forall>e\<in>set es. trusted_command empty_darwin e)"
proof -
  obtain r v es where run: "collectHardwareInventoryDarwin (observed empty_darwin) ((), []) = (r, (v, es))" by (metis surj_pair)
  have "rooted_cwd empty_darwin" by (simp add: rooted_cwd_def empty_darwin_def demo_darwin_def IsAbs_def HasPrefix_def)
  from darwin_commands_trusted [OF run this] demo_darwin_runs_ollama run show ?thesis by auto
qed
section \<open>Parsed texts\<close>

text \<open>What a pattern finds is part of the text.\<close>

lemma FindString_part: "sublist (FindString r s) s"
  by (auto simp: FindString_def sublist_def split: option.split dest: find_from_split)

lemma quantization_part: "sublist (parseQuantization name) name"
  by (simp add: parseQuantization_def FindString_part)

text \<open>The vendor test for \<open>ati\<close> is met by every corporation; on macOS it comes before that for NVIDIA.\<close>

lemma corporation_is_amd:
  "vendorFromText ''Microsoft Corporation Hyper-V virtual VGA'' = ''AMD''"
  "darwinVendor ''NVIDIA Corporation'' ''GeForce GT 750M'' = ''AMD''"
  by code_simp+

end
