(* ===== verification/CollectedReports.thy ===== *)
theory CollectedReports
  imports NetProperties InventoryProperties AgentSubmit
begin

text \<open>
  From the machine to the table for the network benchmark and the hardware inventory: the collection on
  Linux or macOS, the signed submission (\<^verbatim>\<open>agent/network_benchmark_submit.go\<close>,
  \<^verbatim>\<open>agent/inventory_submit.go\<close>) and the handler of the server. The compute benchmark is in
  \<open>SessionReports\<close>.
\<close>

section \<open>The endpoints\<close>

lemma network_endpoint:
  assumes "sv_owner s \<noteq> None" "readBody r = ReadAll body" "decodeNetworkBenchmarkSubmissionBody (c_json c) body = Inr sub"
    "validateNetworkBenchmarkSubmission sub (c_now c) = Inr ()"
    "InventoryPublicKey (c_env c 0) (nsub_NodeID sub) (sv_db s) = Inr pk"
    "verifyNetworkBenchmarkSignature (c_crypto c) pk (rq_signature r) body = Inr ()"
    "enc_network (c_json c) (nsub_Benchmark sub) = Some payload"
  shows "rs_status (fst (networkBenchmarkSubmission c r s)) = 201 \<longleftrightarrow>
     is_ok (fst (InsertNetworkBenchmark (c_pg c) (c_env c 1) (nsub_ReportID sub) (nsub_NodeID sub) payload
              (networkScoreOf (nsub_Benchmark sub)) (c_now c) (sv_db s)))"
  using assms by (auto simp: networkBenchmarkSubmission_def Let_def split: sum.split prod.split)

lemma inventory_endpoint:
  assumes "sv_owner s \<noteq> None" "readBody r = ReadAll body" "decodeInventorySubmissionBody (c_json c) body = Inr sub"
    "InventoryPublicKey (c_env c 0) (isub_NodeID sub) (sv_db s) = Inr pk"
    "verifyInventorySignature (c_crypto c) pk (rq_signature r) body = Inr ()"
    "enc_inventory (c_json c) (isub_Inventory sub) = Some payload"
  shows "rs_status (fst (inventorySubmission c r s)) = 201 \<longleftrightarrow> validateInventorySubmission sub (c_now c) = Inr ()
     \<and> is_ok (fst (InsertInventory (c_pg c) (c_env c 1) (isub_ReportID sub) (isub_NodeID sub) payload (c_now c) (sv_db s)))"
  using assms by (cases "validateInventorySubmission sub (c_now c)")
    (auto simp: inventorySubmission_def Let_def split: sum.split prod.split)

section \<open>An honest request\<close>

text \<open>The request \<open>r\<close> carries the signed body of the node with this key pair, to a server on a database
  that has enrolled the node under its public key.\<close>

definition posted :: "agent_crypto \<Rightarrow> u8 list \<Rightarrow> u8 list \<Rightarrow> string \<Rightarrow> string \<Rightarrow> call \<Rightarrow> request \<Rightarrow> server \<Rightarrow> bool" where
  "posted a seed uuid body sig c r s \<longleftrightarrow> ed25519_law a seed \<and> c_crypto c = crypto.truncate a \<and> sv_owner s \<noteq> None
     \<and> rq_body r = body \<and> rq_signature r = sig \<and> length body \<le> 1048576 \<and> \<not> rq_read_error r
     \<and> InventoryPublicKey (c_env c 0) (newUUIDv4 uuid) (sv_db s) = Inr (idn_PublicKey (fresh_identity a seed uuid))"

text \<open>The times are those of an exchange without delay: collection, signature and arrival within five
  minutes of each other.\<close>

definition prompt_times :: "gotime \<Rightarrow> gotime \<Rightarrow> gotime \<Rightarrow> bool" where
  "prompt_times tc ts ta \<longleftrightarrow> tc \<noteq> 0 \<and> ts \<noteq> 0
     \<and> \<bar>ta - ts\<bar> \<le> 5 * Minute \<and> \<bar>ts - tc\<bar> \<le> 5 * Minute"

lemma built_network:
  assumes "BuildSignedNetworkBenchmarkSubmission a enc (Some raw) (fresh_identity a seed uuid) b now = Inr (sub, body, sig)"
  shows "sub = \<lparr>nsub_Version = NetworkBenchmarkSubmissionVersion, nsub_NodeID = newUUIDv4 uuid,
      nsub_ReportID = newUUIDv4 raw, nsub_SignedAt = now, nsub_Benchmark = b\<rparr>"
  using assms by (auto simp: BuildSignedNetworkBenchmarkSubmission_def bindE_Inr_iff random_uuid_def Let_def
      fresh_identity_def split: if_splits)

lemma built_inventory:
  assumes "BuildSignedInventorySubmission a enc (Some raw) (fresh_identity a seed uuid) inventory now = Inr (sub, body, sig)"
  shows "sub = \<lparr>isub_Version = InventorySubmissionVersion, isub_NodeID = newUUIDv4 uuid,
      isub_ReportID = newUUIDv4 raw, isub_SignedAt = now, isub_Inventory = inventory\<rparr>"
  using assms by (auto simp: BuildSignedInventorySubmission_def bindE_Inr_iff random_uuid_def Let_def
      fresh_identity_def split: if_splits)

section \<open>The network benchmark\<close>

text \<open>C32: a network benchmark from the machine to the table. Whatever the commands of the machine print,
  a benchmark that the agent collects on Linux or macOS, signs with its identity and posts promptly
  passes decoding, validation and the signature check of the server that enrolled the identity: whether
  it is answered with 201 depends on the insertion alone, which stores it with the server's own score.
  The server decodes what the agent encoded.\<close>

theorem collected_network_report:
  assumes "CollectNetworkBenchmark_linux ex fs clk w = (Inr b, w') \<or> CollectNetworkBenchmark_darwin decode ex clk w = (Inr b, w')"
    "BuildSignedNetworkBenchmarkSubmission a enc (Some raw) (fresh_identity a seed uuid) b now = Inr (sub, body, sig)"
    "length uuid = 16" "length raw = 16" "prompt_times (nb_CollectedAt b) now (c_now c)" "posted a seed uuid body sig c r s"
    "dec_network (c_json c) body = Some (sub, [])" "enc_network (c_json c) b = Some payload"
  shows "rs_status (fst (networkBenchmarkSubmission c r s)) = 201 \<longleftrightarrow>
     is_ok (fst (InsertNetworkBenchmark (c_pg c) (c_env c 1) (newUUIDv4 raw) (newUUIDv4 uuid) payload
              (networkScoreOf b) (c_now c) (sv_db s)))"
proof -
  note sub = built_network [OF assms(2)]
  have p: "ed25519_law a seed" "c_crypto c = crypto.truncate a" "sv_owner s \<noteq> None" "rq_body r = body" "rq_signature r = sig"
    "length body \<le> 1048576" "\<not> rq_read_error r"
    "InventoryPublicKey (c_env c 0) (newUUIDv4 uuid) (sv_db s) = Inr (idn_PublicKey (fresh_identity a seed uuid))"
    using assms(6) by (simp_all add: posted_def)
  have "validateNetworkBenchmarkSubmission sub (c_now c) = Inr ()"
    using sound_figures_accepted [of sub "c_now c"] collected_network_sound [OF assms(1)] assms(3-5) sub
    by (simp add: prompt_times_def IsZero_def skew_accepted_def validUUIDv4_newUUIDv4)
  moreover have "decodeNetworkBenchmarkSubmissionBody (c_json c) body = Inr sub"
    using assms(7) by (simp add: decodeNetworkBenchmarkSubmissionBody_def at_eof_def)
  moreover have "verifyNetworkBenchmarkSignature (c_crypto c) (idn_PublicKey (fresh_identity a seed uuid)) (rq_signature r) body = Inr ()"
    using signed_reports_verify(2) [OF p(1) assms(2)] p(2,5) by simp
  ultimately show ?thesis
    using network_endpoint [OF p(3) readBody_ok [OF p(4,6,7)], of c sub _ payload] p(8) assms(8) sub by simp
qed

section \<open>The hardware inventory\<close>

text \<open>C29: an inventory from the machine to the table. An inventory that the agent collects, signs with its
  identity and posts promptly to the server that enrolled it is answered with 201 exactly if the
  insertion succeeds and the inventory names a CPU and has at most 32 graphics processors, and on
  Linux, where the collection does not cap them, at most 200 models.\<close>

theorem collected_inventory_report:
  assumes "CollectHardwareInventory_linux ex lm w = (Inr inventory, w') \<or> CollectHardwareInventory_darwin ex' dm w = (Inr inventory, w')"
    "BuildSignedInventorySubmission a enc (Some raw) (fresh_identity a seed uuid) inventory now = Inr (sub, body, sig)"
    "length uuid = 16" "length raw = 16" "prompt_times (hi_CollectedAt inventory) now (c_now c)" "posted a seed uuid body sig c r s"
    "dec_inventory (c_json c) body = Some (sub, [])" "enc_inventory (c_json c) inventory = Some payload"
  shows "rs_status (fst (inventorySubmission c r s)) = 201 \<longleftrightarrow>
       TrimSpace (cpu_Model (hi_CPU inventory)) \<noteq> [] \<and> length (hi_GPUs inventory) \<le> 32
     \<and> (CollectHardwareInventory_darwin ex' dm w = (Inr inventory, w') \<or> length (hi_Models inventory) \<le> 200)
     \<and> is_ok (fst (InsertInventory (c_pg c) (c_env c 1) (newUUIDv4 raw) (newUUIDv4 uuid) payload (c_now c) (sv_db s)))"
proof -
  note sub = built_inventory [OF assms(2)]
  have p: "ed25519_law a seed" "c_crypto c = crypto.truncate a" "sv_owner s \<noteq> None" "rq_body r = body" "rq_signature r = sig"
    "length body \<le> 1048576" "\<not> rq_read_error r"
    "InventoryPublicKey (c_env c 0) (newUUIDv4 uuid) (sv_db s) = Inr (idn_PublicKey (fresh_identity a seed uuid))"
    using assms(6) by (simp_all add: posted_def)
  have sound: "sound_inventory inventory"
    "CollectHardwareInventory_darwin ex' dm w = (Inr inventory, w') \<Longrightarrow> length (hi_Models inventory) \<le> 200"
    using assms(1) by (auto dest: collected_inventory_sound)
  have "validateInventorySubmission sub (c_now c) = Inr () \<longleftrightarrow>
       TrimSpace (cpu_Model (hi_CPU inventory)) \<noteq> [] \<and> length (hi_GPUs inventory) \<le> 32
     \<and> (CollectHardwareInventory_darwin ex' dm w = (Inr inventory, w') \<or> length (hi_Models inventory) \<le> 200)"
    using sound_inventory_accepted [of sub "c_now c"] sound assms(3-5) sub
    by (auto simp: prompt_times_def skew_accepted_def validUUIDv4_newUUIDv4)
  moreover have "decodeInventorySubmissionBody (c_json c) body = Inr sub"
    using assms(7) by (simp add: decodeInventorySubmissionBody_def at_eof_def)
  moreover have "verifyInventorySignature (c_crypto c) (idn_PublicKey (fresh_identity a seed uuid)) (rq_signature r) body = Inr ()"
    using signed_reports_verify(1) [OF p(1) assms(2)] p(2,5) by simp
  ultimately show ?thesis
    using inventory_endpoint [OF p(3) readBody_ok [OF p(4,6,7)], of c sub _ payload] p(8) assms(8) sub by auto
qed

section \<open>The reports of a node\<close>

text \<open>The node of \<open>toy_server\<close> reports what the machines of \<open>NetProperties\<close> and
  \<open>InventoryProperties\<close> yield.\<close>

definition report_call :: "codecs \<Rightarrow> call" where
  "report_call j = sample_call\<lparr>c_crypto := crypto.truncate toy_crypto, c_json := j\<rparr>"

lemma report_call_simps:
  "c_now (report_call j) = 1000" "c_crypto (report_call j) = crypto.truncate toy_crypto" "c_pg (report_call j) = sample_pg"
  "c_env (report_call j) = (\<lambda>_. sample_env 1000 ''id'')" "c_json (report_call j) = j"
  by (simp_all add: report_call_def sample_call_def)

lemma toy_posted: "posted toy_crypto toy_seed toy_raw ''body'' sig (report_call j) (sample_request\<lparr>rq_signature := sig\<rparr>) toy_server"
  using toy_law toy_key by (simp add: posted_def report_call_simps sample_request_def toy_server_def sample_server_def)

lemma toy_inserts:
  "is_ok (fst (InsertNetworkBenchmark sample_pg (sample_env 1000 ''id'') r (newUUIDv4 toy_raw) ''{}'' sc 1000 (sv_db toy_server)))"
  "is_ok (fst (InsertInventory sample_pg (sample_env 1000 ''id'') r (newUUIDv4 toy_raw) ''{}'' 1000 (sv_db toy_server)))"
  by (simp_all add: InsertNetworkBenchmark_def InsertInventory_def toy_server_def sample_db_def empty_db_def stmt_def sample_env_def
      sample_pg_def to_uuid_def bindE_def insert_reports_def is_ok_def inserted_def exec_def)

theorem collected_network_report_witness:
  "\<exists>b sub sig. CollectNetworkBenchmark_linux demo_exec demo_files (\<lambda>w. (1000, w)) () = (Inr b, ()) \<and> nsub_Benchmark sub = b
     \<and> rs_status (fst (networkBenchmarkSubmission (report_call (sample_codecs\<lparr>dec_network := \<lambda>_. Some (sub, [])\<rparr>))
          (sample_request\<lparr>rq_signature := sig\<rparr>) toy_server)) = 201"
proof -
  let ?i = "fresh_identity toy_crypto toy_seed toy_raw"
  obtain b where b: "CollectNetworkBenchmark_linux demo_exec demo_files (\<lambda>w. (1000, w)) () = (Inr b, ())" "nb_CollectedAt b = 1000"
    using demo_collect by blast
  have v: "nb_SchemaVersion b = NetworkBenchmarkSchemaVersion"
    using collected_network_sound [OF disjI1 [OF b(1)]] by (simp add: sound_figures_def)
  obtain sig where "sign_with toy_crypto ?i (NetworkBenchmarkSigningMessage (Sum256 toy_crypto) ''body'') = Inr sig"
    using toy_signs by blast
  then obtain sub where sub: "BuildSignedNetworkBenchmarkSubmission toy_crypto (\<lambda>_. Some ''body'') (Some toy_raw) ?i b 1000
      = Inr (sub, ''body'', sig)"
    using v toy_valid by (simp add: BuildSignedNetworkBenchmarkSubmission_def random_uuid_def marshal_def Let_def)
  let ?j = "sample_codecs\<lparr>dec_network := \<lambda>_. Some (sub, [])\<rparr>"
  have l: "length toy_raw = 16" by (simp add: toy_raw_def)
  have "rs_status (fst (networkBenchmarkSubmission (report_call ?j) (sample_request\<lparr>rq_signature := sig\<rparr>) toy_server)) = 201"
    using collected_network_report [OF disjI1 [OF b(1)] sub l l _ toy_posted [where j = ?j], of "''{}''"] toy_inserts(1) b(2)
    by (simp add: report_call_simps prompt_times_def duration_units sample_codecs_def)
  moreover have "nsub_Benchmark sub = b" by (simp add: built_network [OF sub])
  ultimately show ?thesis using b(1) by blast
qed

theorem collected_inventory_report_witness:
  "\<exists>i sub sig. CollectHardwareInventory_linux linux_answers empty_linux () = (Inr i, ()) \<and> isub_Inventory sub = i
     \<and> rs_status (fst (inventorySubmission (report_call (sample_codecs\<lparr>dec_inventory := \<lambda>_. Some (sub, [])\<rparr>))
          (sample_request\<lparr>rq_signature := sig\<rparr>) toy_server)) = 201"
proof -
  let ?h = "demo_inventory ''Linux'' ''amd64'' 4 []" and ?i = "fresh_identity toy_crypto toy_seed toy_raw"
  obtain sig where "sign_with toy_crypto ?i (InventorySigningMessage (Sum256 toy_crypto) ''body'') = Inr sig"
    using toy_signs by blast
  then obtain sub where sub: "BuildSignedInventorySubmission toy_crypto (\<lambda>_. Some ''body'') (Some toy_raw) ?i ?h 1000
      = Inr (sub, ''body'', sig)"
    using toy_valid by (simp add: BuildSignedInventorySubmission_def random_uuid_def marshal_def Let_def
        demo_inventory_def HardwareInventorySchemaVersion_def)
  let ?j = "sample_codecs\<lparr>dec_inventory := \<lambda>_. Some (sub, [])\<rparr>"
  have l: "length toy_raw = 16" "hi_CollectedAt ?h = 1000" "hi_CPU ?h = \<lparr>cpu_Model = ''Demo CPU'', cpu_PhysicalCores = 0, cpu_LogicalCores = 4\<rparr>"
    "hi_GPUs ?h = []" "hi_Models ?h = []"
    by (simp_all add: toy_raw_def demo_inventory_def)
  have "TrimSpace ''Demo CPU'' \<noteq> []" by code_simp
  then have "rs_status (fst (inventorySubmission (report_call ?j) (sample_request\<lparr>rq_signature := sig\<rparr>) toy_server)) = 201"
    using collected_inventory_report [OF disjI1 [OF demo_linux_collects] sub l(1) l(1) _ toy_posted [where j = ?j], of "''{}''"] toy_inserts(2)
    by (simp add: report_call_simps prompt_times_def duration_units sample_codecs_def l)
  moreover have "isub_Inventory sub = ?h" by (simp add: built_inventory [OF sub])
  ultimately show ?thesis using demo_linux_collects by blast
qed

end
