(* ===== verification/AgentCommands.thy ===== *)
theory AgentCommands
  imports AgentSubmit RuntimeAdapter GoNumber
begin

text \<open>
  The command line of the agent, \<^verbatim>\<open>agent/cmd/meshalot-agent\<close>: the options of Go's \<open>flag\<close> package, the
  commands \<open>enroll\<close>, \<open>identity\<close> (or \<open>status\<close>), \<open>runtime\<close> and \<open>version\<close>, and the exit code. A command
  acts on the file system and on a state \<open>'w\<close> of the network; what it prints on the standard output
  is its result.
\<close>

section \<open>The flag package\<close>

text \<open>\<open>strconv.ParseInt(s, 0, 64)\<close>: the base comes from the prefix, digits may be separated.\<close>

definition base_of :: "string \<Rightarrow> int \<times> string" where
  "base_of s =
     (case s of
        c # d # e # r \<Rightarrow>
          if c = CHR ''0'' \<and> lower_ascii [d] = ''b'' then (2, e # r)
          else if c = CHR ''0'' \<and> lower_ascii [d] = ''o'' then (8, e # r)
          else if c = CHR ''0'' \<and> lower_ascii [d] = ''x'' then (16, e # r)
          else if c = CHR ''0'' then (8, d # e # r)
          else (10, s)
      | c # r \<Rightarrow> if c = CHR ''0'' then (8, r) else (10, s)
      | [] \<Rightarrow> (10, []))"

definition digit_in :: "int \<Rightarrow> char \<Rightarrow> int option" where
  "digit_in b c =
     (let v = (if is_digit c then digit_val c
               else let l = (of_char (hd (lower_ascii [c])) :: int)
                    in if 97 \<le> l \<and> l \<le> 122 then l - 87 else 99)
      in if v < b then Some v else None)"

fun digits_in :: "int \<Rightarrow> int \<Rightarrow> string \<Rightarrow> int option" where
  "digits_in b n [] = Some n"
| "digits_in b n (c # s) =
     (if c = CHR ''_'' then digits_in b n s
      else case digit_in b c of None \<Rightarrow> None | Some d \<Rightarrow> digits_in b (b * n + d) s)"

definition ParseInt0 :: "string \<Rightarrow> int option" where
  "ParseInt0 s =
     (let (neg, u) = unsigned_part s in
      if u = [] then None
      else let (b, ds) = base_of u in
      case digits_in b 0 ds of None \<Rightarrow> None
      | Some n \<Rightarrow>
          let v = (if neg then - n else n)
          in if (CHR ''_'' \<in> set u \<and> \<not> underscoreOK u) \<or> v < - (2 ^ 63) \<or> v \<ge> 2 ^ 63 then None else Some v)"

datatype flag_kind = StringFlag | IntFlag | Float64Flag

datatype flag_error =
    BadSyntax string
  | NotDefined string
  | NeedsArgument string
  | InvalidValue string string
  | HelpRequested

definition flag_accepts :: "flag_kind \<Rightarrow> string \<Rightarrow> bool" where
  "flag_accepts kind v =
     (case kind of StringFlag \<Rightarrow> True | IntFlag \<Rightarrow> ParseInt0 v \<noteq> None | Float64Flag \<Rightarrow> ParseFloat v \<noteq> None)"

text \<open>A name with its value behind the first \<open>=\<close>, which cannot be its first byte.\<close>

definition flag_name :: "string \<Rightarrow> string \<times> string option" where
  "flag_name name =
     (case Cut (CHR ''='') (tl name) of
        None \<Rightarrow> (name, None)
      | Some (k, v) \<Rightarrow> (hd name # k, Some v))"

type_synonym settings = "(string \<times> string) list"

text \<open>\<open>FlagSet.Parse\<close>: the values that were set, the last first, and the remaining arguments.\<close>

fun parse_flags :: "(string \<times> flag_kind) list \<Rightarrow> settings \<Rightarrow> string list \<Rightarrow> flag_error + settings \<times> string list" where
  "parse_flags fs acc [] = Inr (acc, [])"
| "parse_flags fs acc (s # rest) =
     (if length s < 2 \<or> hd s \<noteq> CHR ''-'' then Inr (acc, s # rest)
      else if s = ''--'' then Inr (acc, rest)
      else
        let body = (if s ! 1 = CHR ''-'' then drop 2 s else drop 1 s) in
        if hd body = CHR ''-'' \<or> hd body = CHR ''='' then Inl (BadSyntax s)
        else (case flag_name body of (name, v0) \<Rightarrow>
        (case map_of fs name of
           None \<Rightarrow> Inl (if name = ''help'' \<or> name = ''h'' then HelpRequested else NotDefined name)
         | Some kind \<Rightarrow>
             (case v0 of
                Some v \<Rightarrow> if flag_accepts kind v then parse_flags fs ((name, v) # acc) rest else Inl (InvalidValue v name)
              | None \<Rightarrow>
                  (case rest of
                     [] \<Rightarrow> Inl (NeedsArgument name)
                   | v # rest' \<Rightarrow> if flag_accepts kind v then parse_flags fs ((name, v) # acc) rest'
                                  else Inl (InvalidValue v name))))))"

definition setting :: "settings \<Rightarrow> string \<Rightarrow> string \<Rightarrow> string" where
  "setting acc name fallback = (case map_of acc name of None \<Rightarrow> fallback | Some v \<Rightarrow> v)"

section \<open>The process\<close>

text \<open>What the process gets from its surroundings. \<open>ap_Write\<close> is the error of printing a text, if any;
  the error of \<open>fmt.Println\<close> is ignored by the code.\<close>

record 'w agent_process =
  ap_Getenv :: "string \<Rightarrow> string"
  ap_Stdin :: string
  ap_ConfigDir :: "err + string"
  ap_faults :: "nat \<Rightarrow> faults"
  ap_written :: nat
  ap_between :: "fs \<Rightarrow> fs"
  ap_crypto :: agent_crypto
  ap_seed :: "u8 list option"
  ap_uuid :: "u8 list option"
  ap_identity :: identity_codec
  ap_enroll :: enroll_codec
  ap_llama :: llama_codecs
  ap_status_text :: "int \<Rightarrow> string"
  ap_quote :: "string \<Rightarrow> string"
  ap_net :: "'w doer"
  ap_Write :: "string \<Rightarrow> err option"

datatype cli_error = FlagError flag_error | CommandError err

definition command :: "err + 'a \<Rightarrow> cli_error + 'a" where
  "command r = mapErr CommandError r"

definition process_env :: "'w agent_process \<Rightarrow> string \<Rightarrow> string \<Rightarrow> string" where
  "process_env p name fallback = (let v = TrimSpace (ap_Getenv p name) in if v \<noteq> [] then v else fallback)"

definition resolveIdentityPath :: "'w agent_process \<Rightarrow> string \<Rightarrow> err + string" where
  "resolveIdentityPath p v = (if TrimSpace v \<noteq> [] then Inr v else DefaultIdentityPath (ap_ConfigDir p))"

text \<open>The first line of the standard input, with its newline if there is one.\<close>

definition first_line :: "string \<Rightarrow> string" where
  "first_line s = (if CHR 0x0A \<in> set s then takeWhile (\<lambda>c. c \<noteq> CHR 0x0A) s @ [CHR 0x0A] else s)"

definition readEnrollmentCode :: "'w agent_process \<Rightarrow> fs \<Rightarrow> string \<Rightarrow> err + string" where
  "readEnrollmentCode p d codeFile =
     (if TrimSpace codeFile \<noteq> []
      then bindE (wrap ''read enrollment code file'' (ReadFile (ap_faults p 3) d codeFile)) (\<lambda>data.
             if TrimSpace data = [] then Inl (Err ''enrollment code file is empty'') else Inr (TrimSpace data))
      else if TrimSpace (ap_Getenv p ''MESHALOT_ENROLLMENT_CODE'') \<noteq> []
      then Inr (TrimSpace (ap_Getenv p ''MESHALOT_ENROLLMENT_CODE''))
      else if ap_Stdin p = [] then Inl (Wrap ''read enrollment code'' (Err ''EOF''))
      else if TrimSpace (first_line (ap_Stdin p)) = [] then Inl (Err ''enrollment code is required'')
      else Inr (TrimSpace (first_line (ap_Stdin p))))"

definition enroll_flags :: "(string \<times> flag_kind) list" where
  "enroll_flags = [(''server'', StringFlag), (''identity'', StringFlag), (''code-file'', StringFlag)]"

definition fingerprint_lines :: "'w agent_process \<Rightarrow> Identity \<Rightarrow> string \<Rightarrow> string \<Rightarrow> string list" where
  "fingerprint_lines p identity keyFingerprint path =
     [''Node identity fingerprint: '' @ NodeIDFingerprint (ap_crypto p) (idn_NodeID identity),
      ''Public key fingerprint: '' @ keyFingerprint, ''Identity file: '' @ path]"

definition runEnroll :: "'w agent_process \<Rightarrow> string list \<Rightarrow> fs \<times> 'w \<Rightarrow> (cli_error + string list) \<times> fs \<times> 'w" where
  "runEnroll p args st =
     (case st of (d, w) \<Rightarrow>
      case parse_flags enroll_flags [] args of
        Inl e \<Rightarrow> (Inl (FlagError e), d, w)
      | Inr (acc, rest) \<Rightarrow>
      if rest \<noteq> []
      then (Inl (CommandError (Err ''enrollment codes are not accepted as command-line arguments; use the prompt, MESHALOT_ENROLLMENT_CODE, or --code-file'')), d, w)
      else case readEnrollmentCode p d (setting acc ''code-file'' []) of
        Inl e \<Rightarrow> (Inl (CommandError e), d, w)
      | Inr enrollCode \<Rightarrow>
      (case resolveIdentityPath p (setting acc ''identity'' []) of
        Inl e \<Rightarrow> (Inl (CommandError e), d, w)
      | Inr path \<Rightarrow>
      (case LoadOrCreateIdentity (ap_crypto p) (ap_seed p) (ap_uuid p) (ap_faults p) (ap_written p) (ap_identity p)
              (ap_between p) path d of
        (Inl e, d') \<Rightarrow> (Inl (CommandError e), d', w)
      | (Inr (identity, created), d') \<Rightarrow>
      (case EnrollSecure (ap_enroll p) (ap_net p)
              (setting acc ''server'' (process_env p ''MESHALOT_SERVER_URL'' ''https://api.meshalot.com''))
              identity enrollCode w of
        (Inl e, w') \<Rightarrow> (Inl (CommandError e), d', w')
      | (Inr _, w') \<Rightarrow>
      (case PublicKeyFingerprint (ap_crypto p) identity of
        Inl e \<Rightarrow> (Inl (CommandError e), d', w')
      | Inr keyFingerprint \<Rightarrow>
          (Inr ([''Enrollment accepted.''] @ fingerprint_lines p identity keyFingerprint path
                @ [if created then ''A new persistent local identity was created with restrictive permissions.''
                   else ''The existing persistent local identity was reused.'']), d', w'))))))"

definition runIdentity :: "'w agent_process \<Rightarrow> string list \<Rightarrow> fs \<Rightarrow> cli_error + string list" where
  "runIdentity p args d =
     bindE (mapErr FlagError (parse_flags [(''identity'', StringFlag)] [] args)) (\<lambda>(acc, rest).
     bindE (command (resolveIdentityPath p (setting acc ''identity'' []))) (\<lambda>path.
     bindE (command (LoadIdentity (ap_faults p 0) (ap_identity p) d path)) (\<lambda>identity.
     bindE (command (PublicKeyFingerprint (ap_crypto p) identity)) (\<lambda>keyFingerprint.
       Inr (fingerprint_lines p identity keyFingerprint path)))))"
section \<open>runtime.go\<close>

definition defaultRuntimeURL :: string where "defaultRuntimeURL = ''http://127.0.0.1:8080''"

definition newRuntimeAdapter :: "'w agent_process \<Rightarrow> string \<Rightarrow> err + LlamaCppAdapter" where
  "newRuntimeAdapter p runtimeURL = NewLlamaCppAdapter (ap_quote p) \<lparr>rc_Kind = RuntimeKindLlamaCpp, rc_BaseURL = runtimeURL\<rparr>"

definition health_text :: "RuntimeHealthStatus \<Rightarrow> string" where
  "health_text s = (case s of RuntimeHealthUnknown \<Rightarrow> ''unknown'' | RuntimeHealthHealthy \<Rightarrow> ''healthy''
     | RuntimeHealthUnhealthy \<Rightarrow> ''unhealthy'')"

text \<open>Printing texts one after the other, up to the first that fails.\<close>

fun print_all :: "'w agent_process \<Rightarrow> string list \<Rightarrow> cli_error option \<times> string list" where
  "print_all p [] = (None, [])"
| "print_all p (t # ts) =
     (case ap_Write p t of Some e \<Rightarrow> (Some (CommandError e), [])
      | None \<Rightarrow> (case print_all p ts of (e, out) \<Rightarrow> (e, t # out)))"

text \<open>The options of a runtime command, none of which takes positional arguments, and its adapter.\<close>

definition runtime_flags :: "string \<Rightarrow> (string \<times> flag_kind) list" where
  "runtime_flags action = (''url'', StringFlag)
     # (if action = ''complete'' then [(''model'', StringFlag), (''prompt'', StringFlag), (''max-tokens'', IntFlag), (''temperature'', Float64Flag)]
        else [])"

definition runtime_command :: "'w agent_process \<Rightarrow> string \<Rightarrow> string list
    \<Rightarrow> (settings \<Rightarrow> LlamaCppAdapter \<Rightarrow> 'w \<Rightarrow> (cli_error option \<times> string list) \<times> 'w) \<Rightarrow> 'w
    \<Rightarrow> (cli_error option \<times> string list) \<times> 'w" where
  "runtime_command p action args body w =
     (case parse_flags (runtime_flags action) [] args of
        Inl e \<Rightarrow> ((Some (FlagError e), []), w)
      | Inr (acc, rest) \<Rightarrow>
          if rest \<noteq> [] then ((Some (CommandError (Err (''runtime '' @ action @ '' accepts no positional arguments''))), []), w)
          else (case newRuntimeAdapter p (setting acc ''url'' defaultRuntimeURL) of
                  Inl e \<Rightarrow> ((Some (CommandError e), []), w)
                | Inr adapter \<Rightarrow> body acc adapter w))"

definition runRuntimeHealth :: "'w agent_process \<Rightarrow> string list \<Rightarrow> 'w \<Rightarrow> (cli_error option \<times> string list) \<times> 'w" where
  "runRuntimeHealth p args = runtime_command p ''health'' args (\<lambda>acc adapter w.
     case Health (ap_llama p) (ap_net p) adapter w of
       ((status, Some e), w') \<Rightarrow> ((Some (CommandError e), []), w')
     | ((status, None), w') \<Rightarrow>
         (print_all p [''runtime='' @ RuntimeKindLlamaCpp @ '' health='' @ health_text status @ [CHR 0x0A]], w'))"

definition model_line :: "RuntimeModel \<Rightarrow> string" where
  "model_line model = ''model='' @ rm_ID model @ '' context_tokens='' @ Itoa (rm_ContextWindowTokens model)
     @ '' operations='' @ Join (rm_Operations model) '','' @ [CHR 0x0A]"

definition runRuntimeModels :: "'w agent_process \<Rightarrow> string list \<Rightarrow> 'w \<Rightarrow> (cli_error option \<times> string list) \<times> 'w" where
  "runRuntimeModels p args = runtime_command p ''models'' args (\<lambda>acc adapter w.
     case Capabilities (ap_status_text p) (ap_llama p) (ap_net p) adapter w of
       (Inl e, w') \<Rightarrow> ((Some (CommandError e), []), w')
     | (Inr capabilities, w') \<Rightarrow>
         (print_all p (if cap_Models capabilities = [] then [''no models detected'' @ [CHR 0x0A]]
                       else map model_line (cap_Models capabilities)), w'))"

definition completion_of :: "settings \<Rightarrow> CompletionRequest" where
  "completion_of acc =
     \<lparr>cr_Model = setting acc ''model'' [], cr_Prompt = setting acc ''prompt'' [],
      cr_MaxTokens = (case map_of acc ''max-tokens'' of None \<Rightarrow> 32 | Some v \<Rightarrow> (case ParseInt0 v of None \<Rightarrow> 0 | Some n \<Rightarrow> n)),
      cr_Temperature = (case map_of acc ''temperature'' of None \<Rightarrow> Fin 0
                        | Some v \<Rightarrow> (case ParseFloat v of None \<Rightarrow> Fin 0 | Some x \<Rightarrow> x))\<rparr>"

definition runRuntimeComplete :: "'w agent_process \<Rightarrow> string list \<Rightarrow> 'w \<Rightarrow> (cli_error option \<times> string list) \<times> 'w" where
  "runRuntimeComplete p args = runtime_command p ''complete'' args (\<lambda>acc adapter w.
     case Complete (ap_status_text p) (ap_llama p) (ap_net p) adapter (completion_of acc) w of
       (Inl e, w') \<Rightarrow> ((Some (CommandError e), []), w')
     | (Inr resp, w') \<Rightarrow>
         (print_all p [cp_Text resp @ [CHR 0x0A],
            ''prompt_tokens='' @ Itoa (cp_PromptTokens resp) @ '' completion_tokens='' @ Itoa (cp_CompletionTokens resp)
              @ [CHR 0x0A]], w'))"

definition runRuntimeWithOutput :: "'w agent_process \<Rightarrow> string list \<Rightarrow> 'w \<Rightarrow> (cli_error option \<times> string list) \<times> 'w" where
  "runRuntimeWithOutput p args w =
     (case args of
        [] \<Rightarrow> ((Some (CommandError (Err ''runtime action is required: health, models, or complete'')), []), w)
      | action # rest \<Rightarrow>
          if action = ''health'' then runRuntimeHealth p rest w
          else if action = ''models'' then runRuntimeModels p rest w
          else if action = ''complete'' then runRuntimeComplete p rest w
          else ((Some (CommandError (Err (''unsupported runtime action '' @ ap_quote p action))), []), w))"

section \<open>main.go\<close>

text \<open>The exit code, the texts on the standard output, and the error reported on the other stream.\<close>

record outcome =
  oc_exit :: int
  oc_output :: "string list"
  oc_error :: "cli_error option"

definition finished :: "cli_error option \<Rightarrow> string list \<Rightarrow> outcome" where
  "finished e out = \<lparr>oc_exit = (if e = None then 0 else 1), oc_output = out, oc_error = e\<rparr>"

definition usage_exit :: outcome where "usage_exit = \<lparr>oc_exit = 2, oc_output = [], oc_error = None\<rparr>"

definition lines_of :: "cli_error + string list \<Rightarrow> outcome" where
  "lines_of r = (case r of Inl e \<Rightarrow> finished (Some e) [] | Inr out \<Rightarrow> finished None (map (\<lambda>l. l @ [CHR 0x0A]) out))"

text \<open>\<open>args\<close> is \<open>os.Args\<close> without the name of the program.\<close>

definition agent_main :: "'w agent_process \<Rightarrow> string list \<Rightarrow> fs \<times> 'w \<Rightarrow> outcome \<times> fs \<times> 'w" where
  "agent_main p args st =
     (case args of
        [] \<Rightarrow> (usage_exit, st)
      | cmd # rest \<Rightarrow>
          if cmd = ''enroll'' then (case runEnroll p rest st of (r, st') \<Rightarrow> (lines_of r, st'))
          else if cmd = ''identity'' \<or> cmd = ''status'' then (lines_of (runIdentity p rest (fst st)), st)
          else if cmd = ''runtime''
          then (case runRuntimeWithOutput p rest (snd st) of ((e, out), w') \<Rightarrow> (finished e out, fst st, w'))
          else if cmd = ''version'' then (finished None [SecureEnrollmentVersion @ [CHR 0x0A]], st)
          else (usage_exit, st))"

section \<open>What a runtime command sends\<close>

lemma newRuntimeAdapter_accepted:
  "newRuntimeAdapter p url = Inr a \<Longrightarrow> \<exists>config. NewLlamaCppAdapter (ap_quote p) config = Inr a \<and> rc_BaseURL config = url"
  by (auto simp: newRuntimeAdapter_def)

text \<open>The requests \<open>sent\<close> of one run: at most one, to one of the paths, and one if the run succeeds.\<close>

definition at_most_one :: "cli_error option \<Rightarrow> http_request list \<Rightarrow> bool" where
  "at_most_one e sent \<longleftrightarrow> length sent \<le> 1 \<and> (e = None \<longrightarrow> sent \<noteq> [])
     \<and> list_all (\<lambda>r. local_request ''/health'' r \<or> local_request ''/v1/models'' r \<or> local_request ''/v1/completions'' r) sent"

lemma runtime_command_one:
  assumes "\<And>acc. parse_flags (runtime_flags action) [] args = Inr (acc, []) \<Longrightarrow> \<not> HasSuffix (setting acc ''url'' defaultRuntimeURL) ''?''"
    and "\<And>config acc adapter. NewLlamaCppAdapter (ap_quote p) config = Inr adapter \<Longrightarrow> \<not> HasSuffix (rc_BaseURL config) ''?''
        \<Longrightarrow> at_most_one (fst (fst (body acc adapter []))) (snd (body acc adapter []))"
  shows "at_most_one (fst (fst (runtime_command p action args body []))) (snd (runtime_command p action args body []))"
proof -
  have no: "at_most_one (Some e) []" for e by (simp add: at_most_one_def)
  show ?thesis
  proof (cases "parse_flags (runtime_flags action) [] args")
    case (Inr x)
    obtain acc rest where x: "x = (acc, rest)" by (metis surj_pair)
    show ?thesis
    proof (cases "rest = []")
      case True
      show ?thesis
      proof (cases "newRuntimeAdapter p (setting acc ''url'' defaultRuntimeURL)")
        case a: (Inr adapter)
        from newRuntimeAdapter_accepted [OF a] obtain config where "NewLlamaCppAdapter (ap_quote p) config = Inr adapter"
          "rc_BaseURL config = setting acc ''url'' defaultRuntimeURL" by blast
        then show ?thesis using assms x Inr a True by (simp add: runtime_command_def)
      qed (simp add: runtime_command_def Inr x True no)
    qed (simp add: runtime_command_def Inr x no)
  qed (simp add: runtime_command_def no)
qed

lemma runRuntimeHealth_one:
  assumes "\<And>acc. parse_flags (runtime_flags ''health'') [] args = Inr (acc, []) \<Longrightarrow> \<not> HasSuffix (setting acc ''url'' defaultRuntimeURL) ''?''"
    and net: "ap_net p = recording f"
  shows "at_most_one (fst (fst (runRuntimeHealth p args []))) (snd (runRuntimeHealth p args []))"
  unfolding runRuntimeHealth_def
proof (rule runtime_command_one [OF assms(1)], goal_cases)
  case (2 config acc adapter)
  obtain r where "local_request ''/health'' r" "snd (Health (ap_llama p) (recording f) adapter []) = [] @ [r]"
    by (rule Health_local [OF 2])
  then show ?case by (auto simp: net at_most_one_def split: prod.splits option.splits)
qed

lemma runRuntimeModels_one:
  assumes "\<And>acc. parse_flags (runtime_flags ''models'') [] args = Inr (acc, []) \<Longrightarrow> \<not> HasSuffix (setting acc ''url'' defaultRuntimeURL) ''?''"
    and net: "ap_net p = recording f"
  shows "at_most_one (fst (fst (runRuntimeModels p args []))) (snd (runRuntimeModels p args []))"
  unfolding runRuntimeModels_def
proof (rule runtime_command_one [OF assms(1)], goal_cases)
  case (2 config acc adapter)
  obtain r where "local_request ''/v1/models'' r"
    "snd (Capabilities (ap_status_text p) (ap_llama p) (recording f) adapter []) = [] @ [r]"
    by (rule Models_local [OF 2])
  then show ?case by (auto simp: net at_most_one_def split: prod.splits sum.splits)
qed

lemma runRuntimeComplete_one:
  assumes "\<And>acc. parse_flags (runtime_flags ''complete'') [] args = Inr (acc, []) \<Longrightarrow> \<not> HasSuffix (setting acc ''url'' defaultRuntimeURL) ''?''"
    and net: "ap_net p = recording f"
  shows "at_most_one (fst (fst (runRuntimeComplete p args []))) (snd (runRuntimeComplete p args []))"
  unfolding runRuntimeComplete_def
proof (rule runtime_command_one [OF assms(1)], goal_cases)
  case (2 config acc adapter)
  show ?case
  proof (cases "is_ok (ValidateCompletionRequest (completion_of acc)) \<and> lc_request (ap_llama p) (completion_of acc) \<noteq> None")
    case True
    obtain r where "local_request ''/v1/completions'' r"
      "snd (Complete (ap_status_text p) (ap_llama p) (recording f) adapter (completion_of acc) []) = [] @ [r]"
      by (rule Complete_local [OF 2 True])
    then show ?thesis by (auto simp: net at_most_one_def split: prod.splits sum.splits)
  next
    case False
    show ?thesis
      using Complete_refused [OF False, of "ap_status_text p" "recording f" adapter "[]"]
      by (auto simp: net at_most_one_def split: prod.splits sum.splits)
  qed
qed


definition command_process :: "'w doer \<Rightarrow> 'w agent_process" where
  "command_process net =
     \<lparr>ap_Getenv = (\<lambda>_. []), ap_Stdin = [], ap_ConfigDir = Inr ''/c'', ap_faults = (\<lambda>_. no_faults), ap_written = 0,
      ap_between = id, ap_crypto = toy_crypto, ap_seed = None, ap_uuid = None,
      ap_identity = \<lparr>idc_encode = (\<lambda>i. None), idc_decode = (\<lambda>s. None)\<rparr>,
      ap_enroll = \<lparr>ec_request = (\<lambda>_. None), ec_response = (\<lambda>_. None), ec_api_error = id\<rparr>,
      ap_llama = \<lparr>lc_health = Some, lc_models = (\<lambda>_. None), lc_request = (\<lambda>_. None), lc_completion = (\<lambda>_. None)\<rparr>,
      ap_status_text = (\<lambda>_. []), ap_quote = id, ap_net = net, ap_Write = (\<lambda>_. None)\<rparr>"

definition healthy_runtime :: "http_request \<Rightarrow> err + http_response" where
  "healthy_runtime r = Inr \<lparr>hp_status = 200, hp_text = [], hp_body = ''ok'', hp_fail = False\<rparr>"


end
