(* ===== verification/AgentEnrollment.thy ===== *)
theory AgentEnrollment
  imports AgentCommands AgentSubmit ServerProperties
begin

text \<open>
  The command \<open>meshalot-agent enroll\<close> against the server of this repository: the command line, the
  identity file, the enrollment request, the handler and the tables together.
\<close>

section \<open>Texts the server trims\<close>

lemma hex_val_plain: "hex_val c \<noteq> None \<Longrightarrow> plain c"
  by (auto simp: hex_val_def plain_def ascii_byte_def ascii_space_def Let_def split: if_splits)

lemma hex_decode_chars: "hex_decode s \<noteq> None \<Longrightarrow> c \<in> set s \<Longrightarrow> hex_val c \<noteq> None"
  by (induction s rule: hex_decode.induct) (auto split: option.splits)

lemma uuid_plain: "validUUIDv4 v \<Longrightarrow> list_all plain v \<and> v \<noteq> []"
proof -
  assume v: "validUUIDv4 v"
  have "plain c" if "c \<in> set v" for c
  proof (cases "c = CHR ''-''")
    case False
    then have "c \<in> set (filter (\<lambda>c. c \<noteq> CHR ''-'') v)" using that by simp
    then show ?thesis
      using v hex_decode_chars [of "filter (\<lambda>c. c \<noteq> CHR ''-'') v" c] hex_val_plain
      by (auto simp: validUUIDv4_def split: option.splits)
  qed (simp add: plain_def ascii_byte_def ascii_space_def)
  moreover have "v \<noteq> []" using v by (auto simp: validUUIDv4_def)
  ultimately show ?thesis by (simp add: list_all_iff)
qed

lemma SecureEnrollmentVersion_trim: "TrimSpace SecureEnrollmentVersion = SecureEnrollmentVersion"
  by code_simp

lemma TrimSpace_uuid: "validUUIDv4 v \<Longrightarrow> TrimSpace v = v"
  using uuid_plain [of v] by (intro TrimSpace_plain) (auto simp: list_all_iff)

lemma index_of_mem: "index_of al c = Some i \<Longrightarrow> c \<in> set al"
  by (induction al arbitrary: i) (auto split: if_splits)

lemma all_some_members: "all_some xs = Some vs \<Longrightarrow> x \<in> set xs \<Longrightarrow> x \<noteq> None"
  by (induction xs arbitrary: vs rule: all_some.induct) auto

lemma b64_decode_members:
  assumes "b64_decode al s = Some bs" "c \<in> set s" "c \<noteq> CHR 0x0A" "c \<noteq> CHR 0x0D"
  shows "c \<in> set al"
proof -
  obtain vs where "all_some (map (index_of al) (filter (\<lambda>c. c \<noteq> CHR 0x0A \<and> c \<noteq> CHR 0x0D) s)) = Some vs"
    using assms(1) by (auto simp: b64_decode_def b64_values_def split: option.splits)
  from all_some_members [OF this, of "index_of al c"] assms(2-4) show ?thesis by (auto dest: index_of_mem)
qed

definition ascii :: "string \<Rightarrow> bool" where "ascii s \<longleftrightarrow> list_all ascii_byte s"

lemma DecodeString_ascii:
  assumes "DecodeString s = Some bs"
  shows "ascii s"
proof -
  have "list_all ascii_byte std_alphabet" by code_simp
  then have al: "ascii_byte c" if "c \<in> set std_alphabet" for c using that by (simp add: list_all_iff)
  have "ascii_byte c" if "c \<in> set s" for c
  proof (cases "c = CHR 0x0A \<or> c = CHR 0x0D")
    case False
    then show ?thesis using b64_decode_members [OF assms [unfolded DecodeString_def] that] by (intro al) auto
  qed (auto simp: ascii_byte_def)
  then show ?thesis by (simp add: ascii_def list_all_iff)
qed

section \<open>The server behind the network\<close>

text \<open>A request as the server sees it, and the server as a network: \<open>enc\<close> encodes its bodies.\<close>

definition server_request :: "http_request \<Rightarrow> request" where
  "server_request q =
     \<lparr>rq_method = hr_method q, rq_path = (case Parse (hr_url q) of None \<Rightarrow> [] | Some u \<Rightarrow> u_Path u), rq_origin = [],
      rq_authorization = (case map_of (hr_headers q) ''Authorization'' of None \<Rightarrow> [] | Some v \<Rightarrow> v),
      rq_forwarded = [], rq_signature = (case map_of (hr_headers q) InventorySignatureHeader of None \<Rightarrow> [] | Some v \<Rightarrow> v),
      rq_cookie = None, rq_tls = True, rq_body = hr_body q, rq_read_error = False\<rparr>"

definition server_net :: "call \<Rightarrow> (int \<Rightarrow> string) \<Rightarrow> (reply \<Rightarrow> string) \<Rightarrow> server doer" where
  "server_net c text enc q s =
     (case Handler c (server_request q) s of (resp, s') \<Rightarrow>
        (Inr \<lparr>hp_status = rs_status resp, hp_text = text (rs_status resp), hp_body = enc (rs_body resp), hp_fail = False\<rparr>, s'))"

text \<open>What the two ends' JSON packages agree on: a request whose texts are ASCII and whose encoding
  the server decodes within its limit of 16384 bytes is decoded to itself. (Bytes that are not UTF-8
  would be replaced, and an encoding cut off by the limit does not decode.)\<close>

definition codecs_agree :: "enroll_codec \<Rightarrow> codecs \<Rightarrow> bool" where
  "codecs_agree j k \<longleftrightarrow> (\<forall>r body q. ec_request j r = Some body \<and> dec_secure k (take 16384 body) = Some q
     \<and> ascii (ser_NodeID r) \<and> ascii (ser_EnrollmentCode r) \<and> ascii (ser_AgentVersion r) \<and> ascii (ser_PublicKey r) \<longrightarrow> q = r)"

lemma enroll_route:
  assumes "rq_method r = ''POST''" "rq_path r = ''/v1/agent/enroll''"
  shows "rs_status (fst (Handler c r s)) = rs_status (fst (secureEnroll c r s))" "snd (Handler c r s) = snd (secureEnroll c r s)"
  using assms by (auto simp: Handler_def middleware_def route_def post_def Let_def split: prod.split)

lemma secureEnroll_201:
  assumes "secureEnroll c r s0 = (resp, s')" "rs_status resp = 201"
  obtains q where "dec_secure (c_json c) (take 16384 (rq_body r)) = Some q"
    "RedeemEnrollmentToken (c_pg c) (c_env c 0) (hashEnrollmentCode (c_crypto c) (TrimSpace (ser_EnrollmentCode q)))
           (TrimSpace (ser_NodeID q)) (TrimSpace (ser_PublicKey q)) (TrimSpace (ser_AgentVersion q)) (sv_db s0) = (Inr (), sv_db s')"
proof -
  obtain b s where a: "allowSecureEnrollment (c_now c) s0 = (b, s)" by (metis surj_pair)
  have db: "sv_db s = sv_db s0" by (rule allowSecureEnrollment_db [OF a])
  show ?thesis
    using assms a db that
    by (auto simp: secureEnroll_def Let_def writeError_def writeJSON_def split: if_splits option.splits prod.splits sum.splits)
qed

lemma EnrollSecure_posts:
  assumes "EnrollSecure j net serverURL identity enrollCode w = (Inr (), w')"
  obtains body req resp where "validateIdentity identity = Inr ()" "ec_request j (enroll_request identity (TrimSpace enrollCode)) = Some body"
    "req = \<lparr>hr_method = ''POST'', hr_url = TrimRight (TrimSpace serverURL) (CHR ''/'') @ ''/v1/agent/enroll'',
            hr_headers = [(''Content-Type'', ''application/json'')], hr_body = body\<rparr>"
    "net req w = (Inr resp, w')" "hp_status resp = 201"
  using assms that
  by (auto simp: EnrollSecure_def Let_def NewRequest_def split: if_splits option.splits prod.splits sum.splits)

lemma EnrollSecure_confirmed:
  assumes "validateIdentity identity = Inr ()" "TrimSpace enrollCode = sent" "sent \<noteq> []"
    "TrimRight (TrimSpace serverURL) (CHR ''/'') = base" "base \<noteq> []"
    "ec_request j (enroll_request identity sent) = Some body"
    "NewRequest ''POST'' (base @ ''/v1/agent/enroll'') [(''Content-Type'', ''application/json'')] body = Inr req"
    "net req w = (Inr resp, w')" "hp_status resp = 201"
    "ec_response j (limited 32768 resp) = Some result" "ersp_Accepted result" "ersp_NodeID result = idn_NodeID identity"
  shows "EnrollSecure j net serverURL identity enrollCode w = (Inr (), w')"
  using assms by (simp add: EnrollSecure_def)

lemma runEnroll_steps:
  assumes "runEnroll p args (d, w) = (Inr out, d', w')"
  obtains acc identity created enrollCode path where "parse_flags enroll_flags [] args = Inr (acc, [])"
    "readEnrollmentCode p d (setting acc ''code-file'' []) = Inr enrollCode"
    "resolveIdentityPath p (setting acc ''identity'' []) = Inr path"
    "LoadOrCreateIdentity (ap_crypto p) (ap_seed p) (ap_uuid p) (ap_faults p) (ap_written p) (ap_identity p)
        (ap_between p) path d = (Inr (identity, created), d')"
    "EnrollSecure (ap_enroll p) (ap_net p)
        (setting acc ''server'' (process_env p ''MESHALOT_SERVER_URL'' ''https://api.meshalot.com'')) identity enrollCode w = (Inr (), w')"
  using assms that
  by (auto simp: runEnroll_def split: if_splits option.splits prod.splits sum.splits)

section \<open>From the command line to the tables\<close>


definition demo_identity :: Identity where
  "demo_identity = fresh_identity toy_crypto (replicate 32 7) (replicate 16 5)"

definition demo_codec :: identity_codec where
  "demo_codec = \<lparr>idc_encode = (\<lambda>i. Some ''x''), idc_decode = (\<lambda>s. Some demo_identity)\<rparr>"

definition demo_enroll :: enroll_codec where
  "demo_enroll = \<lparr>ec_request = (\<lambda>r. if r = enroll_request demo_identity ''mesh_code'' then Some ''{}'' else None),
     ec_response = (\<lambda>_. Some \<lparr>ersp_NodeID = idn_NodeID demo_identity, ersp_Accepted = True\<rparr>), ec_api_error = id\<rparr>"

definition demo_call :: call where
  "demo_call = sample_call\<lparr>c_json := sample_codecs\<lparr>dec_secure := \<lambda>_. Some (enroll_request demo_identity ''mesh_code'')\<rparr>\<rparr>"

definition demo_process :: "server agent_process" where
  "demo_process =
     \<lparr>ap_Getenv = (\<lambda>n. if n = ''MESHALOT_ENROLLMENT_CODE'' then ''mesh_code '' else []), ap_Stdin = [],
      ap_ConfigDir = Inr ''/c'', ap_faults = (\<lambda>_. no_faults), ap_written = 0, ap_between = id,
      ap_crypto = toy_crypto, ap_seed = Some (replicate 32 7), ap_uuid = Some (replicate 16 5), ap_identity = demo_codec,
      ap_enroll = demo_enroll, ap_llama = \<lparr>lc_health = (\<lambda>_. None), lc_models = (\<lambda>_. None), lc_request = (\<lambda>_. None),
      lc_completion = (\<lambda>_. None)\<rparr>, ap_status_text = (\<lambda>_. []), ap_quote = id,
      ap_net = server_net demo_call (\<lambda>_. []) (\<lambda>_. []), ap_Write = (\<lambda>_. None)\<rparr>"

definition demo_token :: token_row where
  "demo_token = (sample_token ''t1'' (hashEnrollmentCode (c_crypto demo_call) ''mesh_code''))\<lparr>tk_expires := 2000\<rparr>"

definition demo_state :: server where
  "demo_state = sample_server\<lparr>sv_db := sample_db [demo_token]\<rparr>"

definition demo_fs :: fs where "demo_fs = [''/c'' \<mapsto> DirectoryEntry 448]"

lemma demo_db_inv: "db_inv (sv_db demo_state)"
  by (simp add: demo_state_def demo_token_def sample_db_def empty_db_def sample_token_def db_inv_def nodes_ok_def
      statuses_ok_def tokens_ok_def token_ok_def sessions_ok_def table_ok_def pubkeys_def)

lemma demo_canonical: "canonical_ids (c_pg demo_call) (c_env demo_call 0) (sv_db demo_state)"
  by (simp add: canonical_ids_def demo_call_def sample_call_def sample_pg_def)

lemma demo_codecs_agree: "codecs_agree (ap_enroll demo_process) (c_json demo_call)"
  by (simp add: codecs_agree_def demo_process_def demo_enroll_def demo_call_def sample_codecs_def)

lemma demo_code: "readEnrollmentCode demo_process demo_fs [] = Inr ''mesh_code''"
proof -
  have "TrimSpace [] = []" "TrimSpace ''mesh_code '' = ''mesh_code''" by code_simp+
  then show ?thesis by (simp add: readEnrollmentCode_def demo_process_def)
qed

lemma demo_url: "TrimRight (TrimSpace (process_env demo_process ''MESHALOT_SERVER_URL'' ''https://api.meshalot.com'')) (CHR ''/'')
    = ''https://api.meshalot.com''"
proof -
  have "TrimSpace [] = []" "TrimRight (TrimSpace ''https://api.meshalot.com'') (CHR ''/'') = ''https://api.meshalot.com''"
    by code_simp+
  then show ?thesis by (simp add: process_env_def demo_process_def)
qed

lemma demo_address: "map_option u_Path (Parse (''https://api.meshalot.com'' @ ''/v1/agent/enroll'')) = Some ''/v1/agent/enroll''"
  by code_simp

lemma demo_identity_path: "resolveIdentityPath demo_process [] = Inr ''/c/meshalot/agent-identity.json''"
proof -
  have "TrimSpace [] = []" "DefaultIdentityPath (Inr ''/c'') = Inr ''/c/meshalot/agent-identity.json''" by code_simp+
  then show ?thesis by (simp add: resolveIdentityPath_def demo_process_def)
qed

lemma demo_created:
  "\<exists>d'. LoadOrCreateIdentity toy_crypto (Some (replicate 32 7)) (Some (replicate 16 5)) (\<lambda>_. no_faults) 0 demo_codec id
     ''/c/meshalot/agent-identity.json'' demo_fs = (Inr (demo_identity, True), d')"
proof -
  have "fst (LoadOrCreateIdentity toy_crypto (Some (replicate 32 7)) (Some (replicate 16 5)) (\<lambda>_. no_faults) 0 demo_codec id
     ''/c/meshalot/agent-identity.json'' demo_fs) = Inr (demo_identity, True)" by code_simp
  then show ?thesis by (metis prod.collapse)
qed

definition demo_request :: http_request where
  "demo_request = \<lparr>hr_method = ''POST'', hr_url = ''https://api.meshalot.com'' @ ''/v1/agent/enroll'',
     hr_headers = [(''Content-Type'', ''application/json'')], hr_body = ''{}''\<rparr>"

lemma demo_served: "\<exists>s'. ap_net demo_process demo_request demo_state
    = (Inr \<lparr>hp_status = 201, hp_text = [], hp_body = [], hp_fail = False\<rparr>, s')"
proof -
  have "rs_status (fst (secureEnroll demo_call (server_request demo_request) demo_state)) = 201" by code_simp
  moreover have "rq_method (server_request demo_request) = ''POST''" "rq_path (server_request demo_request) = ''/v1/agent/enroll''"
    by code_simp+
  ultimately have "rs_status (fst (Handler demo_call (server_request demo_request) demo_state)) = 201"
    by (simp add: enroll_route)
  then show ?thesis by (auto simp: demo_process_def server_net_def split: prod.splits)
qed

lemma demo_enrolled: "\<exists>out d' s'. runEnroll demo_process [] (demo_fs, demo_state) = (Inr out, d', s')"
proof -
  obtain d' where d': "LoadOrCreateIdentity toy_crypto (Some (replicate 32 7)) (Some (replicate 16 5)) (\<lambda>_. no_faults) 0 demo_codec id
     ''/c/meshalot/agent-identity.json'' demo_fs = (Inr (demo_identity, True), d')" using demo_created by blast
  obtain s' where s': "ap_net demo_process demo_request demo_state
    = (Inr \<lparr>hp_status = 201, hp_text = [], hp_body = [], hp_fail = False\<rparr>, s')" using demo_served by blast
  have p: "ap_crypto demo_process = toy_crypto" "ap_seed demo_process = Some (replicate 32 7)" "ap_uuid demo_process = Some (replicate 16 5)"
    "ap_faults demo_process = (\<lambda>_. no_faults)" "ap_written demo_process = 0" "ap_identity demo_process = demo_codec"
    "ap_between demo_process = id" "ap_enroll demo_process = demo_enroll"
    by (simp_all add: demo_process_def)
  have i: "validateIdentity demo_identity = Inr ()" "is_ok (PublicKeyFingerprint toy_crypto demo_identity)"
    "TrimSpace ''mesh_code'' = ''mesh_code''" by code_simp+
  then obtain k where k: "PublicKeyFingerprint toy_crypto demo_identity = Inr k" by (auto simp: is_ok_def split: sum.splits)
  have req: "NewRequest ''POST'' (''https://api.meshalot.com'' @ ''/v1/agent/enroll'') [(''Content-Type'', ''application/json'')] ''{}''
      = Inr demo_request"
    using demo_address by (auto simp: NewRequest_def demo_request_def split: option.splits)
  have j: "ec_request demo_enroll (enroll_request demo_identity ''mesh_code'') = Some ''{}''"
    "ec_response demo_enroll b = Some \<lparr>ersp_NodeID = idn_NodeID demo_identity, ersp_Accepted = True\<rparr>" for b
    by (simp_all add: demo_enroll_def)
  have "EnrollSecure demo_enroll (ap_net demo_process)
      (process_env demo_process ''MESHALOT_SERVER_URL'' ''https://api.meshalot.com'') demo_identity ''mesh_code'' demo_state = (Inr (), s')"
    by (rule EnrollSecure_confirmed, rule i(1), rule i(3), simp, rule demo_url, simp, rule j(1), rule req, rule s', simp, rule j(2))
      simp_all
  then show ?thesis
    using k d' by (simp add: runEnroll_def setting_def demo_code demo_identity_path p)
qed


end
