(* ===== verification/ReportFlow.thy ===== *)
theory ReportFlow
  imports AgentEnrollment
begin

text \<open>
  The submission flow of the agent (\<^verbatim>\<open>agent/compute_benchmark_submit_flow.go\<close>) against the server of
  this repository, over a network that may lose the request or the reply: what the agent may conclude
  about the server's tables from the result of the flow.
\<close>

section \<open>A network that loses messages\<close>

datatype delivery = Delivered | RequestLost err | ReplyLost err

definition faulty_net :: "delivery \<Rightarrow> 'w doer \<Rightarrow> 'w doer" where
  "faulty_net v net q w =
     (case v of Delivered \<Rightarrow> net q w | RequestLost e \<Rightarrow> (Inl e, w) | ReplyLost e \<Rightarrow> (Inl e, snd (net q w)))"

text \<open>The agent decodes the short replies of the submission endpoints.\<close>

definition replies_agree :: "transport_codec \<Rightarrow> (reply \<Rightarrow> string) \<Rightarrow> bool" where
  "replies_agree j encode \<longleftrightarrow> (\<forall>v. validUUIDv4 (sr_ReportID v) \<longrightarrow>
     tc_response j (take m9ComputeBenchmarkResponseLimit (encode (SubmissionBody v))) = Some v)"

section \<open>The endpoint behind the route\<close>

lemma compute_route:
  assumes "rq_method r = ''POST''" "rq_path r = ComputeBenchmarkSubmissionPath"
  shows "rs_status (fst (Handler c r s)) = rs_status (fst (computeBenchmarkSubmission c r s))"
    "rs_body (fst (Handler c r s)) = rs_body (fst (computeBenchmarkSubmission c r s))"
    "snd (Handler c r s) = snd (computeBenchmarkSubmission c r s)"
proof -
  have "route ''POST'' ComputeBenchmarkSubmissionPath = computeBenchmarkSubmission"
    by (simp add: route_def post_def ComputeBenchmarkSubmissionPath_def InventorySubmissionPath_def
        NetworkBenchmarkSubmissionPath_def)
  then have "Handler c r s = (let (resp, s') = computeBenchmarkSubmission c r s in
      (resp\<lparr>rs_headers := rs_headers (fst (Handler c r s))\<rparr>, s'))"
    using assms by (simp add: Handler_def middleware_def Let_def split: prod.split)
  then show "rs_status (fst (Handler c r s)) = rs_status (fst (computeBenchmarkSubmission c r s))"
    "rs_body (fst (Handler c r s)) = rs_body (fst (computeBenchmarkSubmission c r s))"
    "snd (Handler c r s) = snd (computeBenchmarkSubmission c r s)"
    by (metis (no_types, lifting) Let_def case_prod_beta fst_conv snd_conv response.select_convs(1,4) response.surjective
        response.update_convs(2))+
qed

lemma accepted_body:
  assumes "rs_status (fst (computeBenchmarkSubmission c r s)) = 201"
    "decodeComputeBenchmarkSubmissionBody (c_json c) (rq_body r) = Inr sub"
  shows "rs_body (fst (computeBenchmarkSubmission c r s)) = SubmissionBody \<lparr>sr_ReportID = csub_ReportID sub, sr_Accepted = True\<rparr>"
  using assms unfolding computeBenchmarkSubmission_def Let_def
  by (auto simp: accepted_response_def writeError_def writeJSON_def databaseError_def dest!: readBody_All
      split: read_result.splits if_splits sum.splits option.splits prod.splits)

section \<open>The post\<close>

lemma post_outcome:
  assumes "CHR ''?'' \<notin> set addr" "CHR ''#'' \<notin> set addr"
    "PostSignedComputeBenchmark j True net addr body sig rid w = (res, w')"
  shows "(w' = w \<and> (\<exists>e. res = Inl e)) \<or> (\<exists>q r. report_request body q
    \<and> map_of (hr_headers q) InventorySignatureHeader = Some (TrimSpace sig) \<and> net q w = (r, w')
    \<and> res = (case r of Inl e \<Rightarrow> Inl (Wrap (''submit compute benchmark report '' @ TrimSpace rid) e)
              | Inr resp \<Rightarrow> computeBenchmarkAnswer j (TrimSpace rid) resp))"
proof (cases "normalizeComputeBenchmarkServerURL addr")
  case (Inr baseURL)
  have h: "\<not> HasSuffix (TrimSpace addr) ''?''" "CHR ''#'' \<notin> set (TrimSpace addr)"
    using no_question_suffix assms(1,2) set_TrimSpace [of addr] by auto
  obtain u where u: "Parse (baseURL @ ComputeBenchmarkSubmissionPath) = Some u" "trusted_target u"
    "u_Path u = ComputeBenchmarkSubmissionPath"
    using normalize_target [OF Inr h] by blast
  let ?q = "\<lparr>hr_method = ''POST'', hr_url = baseURL @ ComputeBenchmarkSubmissionPath,
     hr_headers = [(''Content-Type'', ''application/json''), (InventorySignatureHeader, TrimSpace sig)], hr_body = body\<rparr>"
  have q: "report_request body ?q" "map_of (hr_headers ?q) InventorySignatureHeader = Some (TrimSpace sig)"
    using u by (simp_all add: report_request_def InventorySignatureHeader_def)
  obtain r t where r: "net ?q w = (r, t)" by (metis surj_pair)
  show ?thesis
  proof (cases "body = [] \<or> TrimSpace sig = [] \<or> TrimSpace rid = []")
    case True
    then show ?thesis using assms(3) Inr by (auto simp: PostSignedComputeBenchmark_def Let_def split: if_splits)
  next
    case False
    then have "t = w'" "res = (case r of Inl e \<Rightarrow> Inl (Wrap (''submit compute benchmark report '' @ TrimSpace rid) e)
              | Inr resp \<Rightarrow> computeBenchmarkAnswer j (TrimSpace rid) resp)"
      using assms(3) Inr u(1) r
      by (auto simp: PostSignedComputeBenchmark_def NewRequest_def Let_def split: sum.splits)
    with q r show ?thesis by blast
  qed
qed (use assms(3) in \<open>auto simp: PostSignedComputeBenchmark_def split: if_splits\<close>)

section \<open>The report in the table\<close>

text \<open>The submission was accepted and stored: it was valid when it arrived, and one row was added to the
  table, for the node it names, under its report identifier and with the score of its benchmark.\<close>

definition stored_report :: "call \<Rightarrow> ComputeBenchmarkSubmission \<Rightarrow> server \<Rightarrow> server \<Rightarrow> bool" where
  "stored_report c sub s s' \<longleftrightarrow> validateComputeBenchmarkSubmission sub (c_now c) = Inr ()
     \<and> (\<exists>x. new_row (c_pg c) (sv_db s) (computes (sv_db s)) (csub_ReportID sub) (csub_NodeID sub)
              (Some (sb_Score (CalculateComputeScore (csub_Benchmark sub)))) (c_now c) x
            \<and> computes (sv_db s') = computes (sv_db s) @ [x])"

lemma served_report:
  assumes "report_request body q" "server_net c status_text encode q s = (r, s')" "db_inv (sv_db s)"
    "\<And>sub' rest. dec_compute (c_json c) body = Some (sub', rest) \<Longrightarrow> sub' = sub" "replies_agree j encode"
  shows "\<exists>resp. r = Inr resp \<and>
    (if stored_report c sub s s'
     then computeBenchmarkAnswer j (TrimSpace (csub_ReportID sub)) resp = Inr \<lparr>sr_ReportID = csub_ReportID sub, sr_Accepted = True\<rparr>
     else s' = s \<and> (\<exists>e. computeBenchmarkAnswer j (TrimSpace (csub_ReportID sub)) resp = Inl e))"
proof -
  let ?r = "server_request q"
  obtain a t where h: "computeBenchmarkSubmission c ?r s = (a, t)" by (metis surj_pair)
  have route: "rq_method ?r = ''POST''" "rq_path ?r = ComputeBenchmarkSubmissionPath" "rq_body ?r = body"
    using assms(1) by (auto simp: report_request_def server_request_def split: option.splits)
  note served = compute_route [OF route(1,2), of c s, unfolded h fst_conv snd_conv]
  obtain resp where resp: "r = Inr resp" "hp_status resp = rs_status a" "hp_body resp = encode (rs_body a)" "\<not> hp_fail resp" "s' = t"
    using assms(2) served by (auto simp: server_net_def split: prod.splits)
  show ?thesis
  proof (cases "rs_status a = 201")
    case True
    from compute_pipeline.accepts [OF h True assms(3)] obtain sub' x where
      dec: "decodeComputeBenchmarkSubmissionBody (c_json c) body = Inr sub'" and valid: "validateComputeBenchmarkSubmission sub' (c_now c) = Inr ()"
      and row: "new_row (c_pg c) (sv_db s) (computes (sv_db s)) (csub_ReportID sub') (csub_NodeID sub')
        (Some (sb_Score (CalculateComputeScore (csub_Benchmark sub')))) (c_now c) x" "computes (sv_db t) = computes (sv_db s) @ [x]"
      using route(3) by auto
    have sub: "sub' = sub"
      using dec assms(4) by (auto simp: decodeComputeBenchmarkSubmissionBody_def split: option.splits if_splits)
    have id: "validUUIDv4 (csub_ReportID sub)" using valid by (simp add: compute_accepted_iff sub)
    have "rs_body a = SubmissionBody \<lparr>sr_ReportID = csub_ReportID sub, sr_Accepted = True\<rparr>"
      using accepted_body [of c ?r s sub] h True dec route(3) sub by simp
    then have "computeBenchmarkAnswer j (TrimSpace (csub_ReportID sub)) resp = Inr \<lparr>sr_ReportID = csub_ReportID sub, sr_Accepted = True\<rparr>"
      using assms(5) id resp True
      by (simp add: computeBenchmarkAnswer_def ReadLimited_def limited_def replies_agree_def TrimSpace_uuid)
    moreover have "stored_report c sub s s'" using valid row resp(5) by (auto simp: stored_report_def sub)
    ultimately show ?thesis using resp(1) by auto
  next
    case False
    have "s' = s" using compute_pipeline.rejects [OF h False assms(3)] resp(5) by simp
    moreover from this have "\<not> stored_report c sub s s'" by (simp add: stored_report_def)
    moreover have "\<exists>e. computeBenchmarkAnswer j (TrimSpace (csub_ReportID sub)) resp = Inl e"
      using False resp by (auto simp: computeBenchmarkAnswer_def Let_def split: option.splits)
    ultimately show ?thesis using resp(1) by auto
  qed
qed


section \<open>A concrete exchange\<close>

definition demo_encode :: "reply \<Rightarrow> string" where
  "demo_encode r = (case r of SubmissionBody v \<Rightarrow> (if sr_Accepted v then CHR ''1'' else CHR ''0'') # sr_ReportID v | _ \<Rightarrow> [])"

definition demo_transport :: transport_codec where
  "demo_transport = \<lparr>tc_response = (\<lambda>t. case t of [] \<Rightarrow> None | x # i \<Rightarrow> Some \<lparr>sr_ReportID = i, sr_Accepted = (x = CHR ''1'')\<rparr>),
     tc_api_error = (\<lambda>_. [])\<rparr>"

lemma demo_replies: "replies_agree demo_transport demo_encode"
  unfolding replies_agree_def
proof (intro allI impI)
  fix v :: SubmissionResponse assume "validUUIDv4 (sr_ReportID v)"
  then have "length (sr_ReportID v) = 36" by (simp add: validUUIDv4_def)
  then show "tc_response demo_transport (take m9ComputeBenchmarkResponseLimit (demo_encode (SubmissionBody v))) = Some v"
    by (simp add: demo_encode_def demo_transport_def m9ComputeBenchmarkResponseLimit_def)
qed

lemma post_sent:
  assumes "normalizeComputeBenchmarkServerURL addr = Inr base" "body \<noteq> []" "TrimSpace sig \<noteq> []" "TrimSpace rid \<noteq> []"
    "NewRequest ''POST'' (base @ ComputeBenchmarkSubmissionPath)
       [(''Content-Type'', ''application/json''), (InventorySignatureHeader, TrimSpace sig)] body = Inr q"
    "net q w = (Inr resp, w')"
  shows "PostSignedComputeBenchmark j True net addr body sig rid w = (computeBenchmarkAnswer j (TrimSpace rid) resp, w')"
  using assms by (simp add: PostSignedComputeBenchmark_def)

lemma toy_insert:
  "is_ok (fst (InsertComputeBenchmark sample_pg (sample_env 1000 ''id'') r (newUUIDv4 toy_raw) ''{}'' sc 1000 (sv_db toy_server)))"
  by (simp add: InsertComputeBenchmark_def toy_server_def sample_db_def empty_db_def stmt_def sample_env_def sample_pg_def
      to_uuid_def bindE_def insert_reports_def is_ok_def inserted_def exec_def)

lemma toy_db_inv: "db_inv (sv_db toy_server)"
  by (simp add: toy_server_def sample_db_def empty_db_def db_inv_def nodes_ok_def statuses_ok_def tokens_ok_def
      sessions_ok_def table_ok_def pubkeys_def)

lemma toy_served:
  assumes b: "finalizeComputeBenchmarkRuns (five_runs good_run) = Inr b"
    and built: "BuildSignedComputeBenchmarkSubmission toy_crypto (\<lambda>_. Some ''body'') (Some toy_raw)
      (fresh_identity toy_crypto toy_seed toy_raw) b 9 = Inr (toy_submission b, ''body'', sig)"
    and r: "rq_body r = ''body''" "rq_signature r = sig" "\<not> rq_read_error r"
  shows "rs_status (fst (computeBenchmarkSubmission (toy_call b) r toy_server)) = 201"
proof -
  have l: "length toy_raw = 16" "fi_CollectedAt (five_runs good_run) = 7" by (simp_all add: toy_raw_def five_runs_def)
  note p = signed_report_passes [OF toy_law l(1) l(1) b five_runs_fit(2) built, of 1000]
  have "decodeComputeBenchmarkSubmissionBody (c_json (toy_call b)) ''body'' = Inr (toy_submission b)"
    by (simp add: decodeComputeBenchmarkSubmissionBody_def toy_call_simps at_eof_def)
  from compute_endpoint [OF _ readBody_ok [OF r(1) _ r(3)] this, of toy_server "idn_PublicKey (fresh_identity toy_crypto toy_seed toy_raw)" "''{}''"]
  show ?thesis using p r l toy_key toy_insert
    by (simp add: toy_call_simps toy_submission_def duration_units toy_server_def sample_server_def)
qed

lemma toy_trim: "TrimSpace sig = sig \<and> sig \<noteq> []"
  if "BuildSignedComputeBenchmarkSubmission toy_crypto (\<lambda>_. Some ''body'') (Some toy_raw)
      (fresh_identity toy_crypto toy_seed toy_raw) b 9 = Inr (sub, body, sig)"
proof -
  have "\<exists>bs. sig = EncodeToString bs \<and> bs \<noteq> []"
    using build_compute [OF that] by (auto simp: sign_with_def toy_crypto_def bindE_Inr_iff split: option.splits if_splits)
  then obtain bs where bs: "sig = EncodeToString bs" "bs \<noteq> []" by blast
  have "DecodeString [] = Some []" by code_simp
  then have "EncodeToString bs \<noteq> []" using Decode_EncodeToString [of bs] bs(2) by auto
  with bs show ?thesis by (simp add: TrimSpace_EncodeToString)
qed


end
