(* ===== verification/SessionReports.thy ===== *)
theory SessionReports
  imports CollectedReports ReportFlow BenchSession
begin

text \<open>
  From the benchmark session to the table: what the sessions of both platforms put into a compute
  benchmark, and what the server makes of it. The measurements pass the server's validation whatever
  the processes print; only the lengths of the texts are left to the configuration and to the version
  that \<open>llama-bench\<close> prints.
\<close>

section \<open>The telemetry of a session\<close>

lemma milli_celsius_range:
  assumes "parseLinuxMilliCelsius raw = Inr t"
  shows "fin_in 0 150 t"
proof -
  obtain milli where m: "0 < milli" "t = f_div (f_of_int milli) (Fin 1000)" "\<not> f_lt (Fin 150) t"
    using assms unfolding parseLinuxMilliCelsius_def Let_def by (auto simp: not_le split: option.splits if_splits)
  have "f_of_int milli = PosInf \<or> (\<exists>y. f_of_int milli = Fin y \<and> 0 \<le> y)"
    using fl_nonneg [of "of_int milli"] m(1) by (simp add: f_of_int_def)
  then obtain y where "f_of_int milli = Fin y" "0 \<le> y" using m(2,3) by auto
  then have "t = fl (y / 1000)" "0 \<le> y / 1000" using m(2) by simp_all
  then show ?thesis using fl_nonneg [of "y / 1000"] m(3) by (auto simp: fin_in_def)
qed

definition plausible_temperature :: "f64 option \<Rightarrow> bool" where
  "plausible_temperature t \<longleftrightarrow> (\<forall>c. t = Some c \<longrightarrow> fin_in 0 150 c)"

lemma hotter_plausible: "plausible_temperature m \<Longrightarrow> plausible_temperature (hotter rd w m path)"
  by (auto simp: hotter_def plausible_temperature_def dest: milli_celsius_range split: option.splits sum.splits)

lemma hottest_plausible: "plausible_temperature m \<Longrightarrow> plausible_temperature (foldl (hotter rd w) m paths)"
  by (induction paths arbitrary: m) (simp_all add: hotter_plausible)

lemma linux_temperature_plausible: "plausible_temperature (sn_TemperatureCelsius (readLinuxComputeTelemetry reader w))"
proof (cases reader)
  case (Some rd)
  have "plausible_temperature m \<Longrightarrow> plausible_temperature
      (foldl (\<lambda>m pattern. case rd_Glob rd pattern w of None \<Rightarrow> m | Some paths \<Rightarrow> foldl (hotter rd w) m paths) m patterns)"
    for m patterns
    by (induction patterns arbitrary: m) (auto simp: hottest_plausible split: option.split)
  from this [of None] show ?thesis using Some by (simp add: readLinuxComputeTelemetry_def plausible_temperature_def)
qed (simp add: readLinuxComputeTelemetry_def plausible_temperature_def)

lemma max_temperature_plausible:
  "plausible_temperature a \<Longrightarrow> plausible_temperature b \<Longrightarrow> plausible_temperature (maxOptionalTemperature a b)"
  by (auto simp: maxOptionalTemperature_def plausible_temperature_def split: option.splits)

lemma linux_run_temperature:
  assumes "collectLinuxLlamaBenchRun decode ex reader ctx path model w = (Inr x, w')"
  shows "plausible_temperature (lr_TemperatureCelsius x)"
  using assms max_temperature_plausible [OF linux_temperature_plausible linux_temperature_plausible]
  by (auto simp: collectLinuxLlamaBenchRun_def measureLinuxLlamaBenchRun_def bindE_Inr_iff Let_def
      split: sum.splits option.splits prod.splits if_splits)

lemma plausible_from_temperature:
  "plausible_temperature (tm_TemperatureCelsius t) \<Longrightarrow> tm_TimeToFirstToken t < 2 ^ 63 \<Longrightarrow> plausible_telemetry t"
  by (auto simp: plausible_temperature_def plausible_telemetry_def fin_in_iff split: option.split)

lemma linux_throughput_plausible:
  "plausible_telemetry (fst (snd (fst (linux_throughput (collectLinuxLlamaBenchRun decode ex reader ctx) path model n w))))"
  using linux_run_temperature [of decode ex reader ctx path model w]
  by (auto simp: linux_throughput_def Let_def no_linux_run_def plausible_temperature_def
      intro!: plausible_from_temperature split: prod.splits sum.splits)

lemma darwin_throughput_plausible:
  "plausible_telemetry (fst (snd (fst (partial_throughput (darwin_throughput f path model) n w))))"
  by (auto simp: partial_throughput_def darwin_throughput_def Let_def no_telemetry_def plausible_telemetry_def
      split: prod.splits sum.splits option.splits)

lemma time_sub_bound: "time_sub t u < 2 ^ 63"
  by (simp add: time_sub_def dur_min_def dur_max_def)

lemma measured_ttft_bound: "fst (ttft_result (fst (measureLlamaServerTTFT j net base prompt clk w))) < 2 ^ 63"
  using time_sub_bound
  by (auto simp: measureLlamaServerTTFT_def ttft_result_def Let_def split: sum.splits option.splits prod.splits)

lemma darwin_ttft_bound: "fst (fst (partial_ttft (darwin_ttft j input model) n w)) < 2 ^ 63"
proof (cases w)
  case (Some v)
  have "d < 2 ^ 63" if "darwin_ttft j input model v = Some ((d, x), v')" for d x v'
  proof -
    from that consider "d = 0" | url w1 r w2 where
      "measureLlamaServerTTFT j (Some (do_TTFTClient input)) url m9DarwinStandardTTFTPrompt (Some (do_Now input)) w1 = (r, w2)"
      "d = fst (ttft_result r)"
      by (fastforce simp: darwin_ttft_def Let_def split: option.splits sum.splits prod.splits)
    then show ?thesis
    proof cases
      case (2 url w1 r w2)
      then show ?thesis using measured_ttft_bound [of j "Some (do_TTFTClient input)" url m9DarwinStandardTTFTPrompt "Some (do_Now input)" w1]
        by simp
    qed simp
  qed
  then show ?thesis using Some by (auto simp: partial_ttft_def split: option.split prod.split)
qed (simp add: partial_ttft_def)

section \<open>The runs of a session\<close>

lemma run_loop_plausible:
  assumes "\<And>n w. plausible_telemetry (fst (snd (fst (collectT n w))))" "\<And>n w. fst (fst (collectF n w)) < 2 ^ 63"
    and "run_loop ctx collectT collectF ns w = (Inr runs, w')"
  shows "list_all (\<lambda>run. plausible_telemetry (rn_Telemetry run)) runs"
  using assms(3)
proof (induction ns arbitrary: w runs)
  case (Cons n ns)
  obtain tp tm te w1 where t: "collectT n w = ((tp, tm, te), w1)" by (metis surj_pair)
  obtain d fe w2 where f: "collectF n w1 = ((d, fe), w2)" by (metis surj_pair)
  obtain r w3 where rest: "run_loop ctx collectT collectF ns w2 = (r, w3)" by (metis surj_pair)
  have "plausible_telemetry tm" "d < 2 ^ 63" using assms(1) [of n w] assms(2) [of n w1] t f by simp_all
  then have "plausible_telemetry (if d > 0 then tm\<lparr>tm_TimeToFirstToken := d\<rparr> else tm)"
    by (simp add: plausible_telemetry_def)
  then show ?case
    using Cons.prems Cons.IH rest
    by (auto simp: canceled_def t f Let_def bindE_Inr_iff split: option.splits)
qed simp

lemma orchestrated_wf:
  assumes "orchestrateComputeBenchmarkRuns ctx input w = (Inr b, w')"
    and "\<And>f n w. oi_CollectThroughput input = Some f \<Longrightarrow> plausible_telemetry (fst (snd (fst (f n w))))"
    and "\<And>f n w. oi_CollectTTFT input = Some f \<Longrightarrow> fst (fst (f n w)) < 2 ^ 63"
  shows "wf_compute_benchmark b \<longleftrightarrow> texts_fit b"
proof -
  obtain c f g where cfg: "ctx = Some c" "oi_CollectThroughput input = Some f" "oi_CollectTTFT input = Some g"
    using assms(1) by (auto simp: orchestrateComputeBenchmarkRuns_def split: option.splits)
  obtain r v where loop: "run_loop c f g [1..<m9StandardRepetitions + 1] w = (r, v)" by (metis surj_pair)
  obtain runs where runs: "r = Inr runs" "finalizeComputeBenchmarkRuns
      \<lparr>fi_CollectedAt = oi_CollectedAt input, fi_Condition = oi_Condition input,
       fi_Quantization = oi_Quantization input, fi_ModelPath = oi_ModelPath input, fi_Runs = runs\<rparr> = Inr b"
    using assms(1) loop by (auto simp: orchestrateComputeBenchmarkRuns_def cfg bindE_Inr_iff simp del: upt_Suc)
  have "list_all (\<lambda>run. plausible_telemetry (rn_Telemetry run)) runs"
    by (rule run_loop_plausible [OF assms(2) [OF cfg(2)] assms(3) [OF cfg(3)] loop [unfolded runs(1)]])
  then show ?thesis by (intro finalize_wf_iff [OF runs(2)]) simp
qed

lemma linux_session_wf:
  assumes "ExecuteLinuxComputeBenchmark j decode world ctx options w = Some ((Some b, e), w')"
  shows "wf_compute_benchmark b \<longleftrightarrow> texts_fit b"
proof -
  obtain base w1 w2 where "orchestrateLinuxComputeBenchmark j ctx
       \<lparr>lo_CollectedAt = lp_CollectedAt options, lo_Condition = lp_Condition options,
        lo_Quantization = lp_Quantization options, lo_LlamaBenchPath = lp_LlamaBenchPath options,
        lo_ModelPath = lp_ModelPath options, lo_TTFTBaseURL = base, lo_HTTPClient = lw_net world, lo_Now = lw_now world,
        lo_CollectRun = collectLinuxLlamaBenchRun decode (lw_exec world) (lw_sysfs world) (ctx \<noteq> None)\<rparr> w1 = (Inr b, w2)"
    using assms by (auto simp: ExecuteLinuxComputeBenchmark_def executeLinuxComputeBenchmark_def Let_def
        split: if_splits sum.splits option.splits prod.splits)
  then obtain input where run: "orchestrateComputeBenchmarkRuns ctx input w1 = (Inr b, w2)"
    and T: "oi_CollectThroughput input = Some (linux_throughput (collectLinuxLlamaBenchRun decode (lw_exec world) (lw_sysfs world)
          (ctx \<noteq> None)) (TrimSpace (lp_LlamaBenchPath options)) (TrimSpace (lp_ModelPath options)))"
    and F: "\<exists>url. oi_CollectTTFT input = Some (\<lambda>n w. case measureLlamaServerTTFT j (Some (lw_net world)) url m9StandardTTFTPrompt
          (Some (lw_now world)) w of (r, w') \<Rightarrow> (ttft_result r, w'))"
    by (fastforce simp: orchestrateLinuxComputeBenchmark_def Let_def split: if_splits sum.splits)
  show ?thesis
  proof (rule orchestrated_wf [OF run])
    show "plausible_telemetry (fst (snd (fst (f n v))))" if "oi_CollectThroughput input = Some f" for f n v
      using that T linux_throughput_plausible by auto
    show "fst (fst (f n v)) < 2 ^ 63" if "oi_CollectTTFT input = Some f" for f n v
      using that F measured_ttft_bound by (auto simp: case_prod_beta)
  qed
qed

lemma darwin_session_wf:
  assumes "ExecuteDarwinComputeBenchmark j decode world ctx options w = Some (Inr b, w')"
  shows "wf_compute_benchmark b \<longleftrightarrow> texts_fit b"
proof -
  from assms obtain input v where run: "orchestrateComputeBenchmarkRuns (map_option partial_ctx ctx) input (Some w) = (Inr b, v)"
    and T: "\<exists>f path model. oi_CollectThroughput input = Some (partial_throughput (darwin_throughput f path model))"
    and F: "\<exists>i model. oi_CollectTTFT input = Some (partial_ttft (darwin_ttft j i model))"
    by (fastforce simp: ExecuteDarwinComputeBenchmark_def executeDarwinComputeBenchmark_def orchestrateDarwinComputeBenchmark_def
        returned_def Let_def split: if_splits sum.splits option.splits prod.splits)
  show ?thesis
  proof (rule orchestrated_wf [OF run])
    show "plausible_telemetry (fst (snd (fst (f n v))))" if "oi_CollectThroughput input = Some f" for f n v
      using that T darwin_throughput_plausible by auto
    show "fst (fst (f n v)) < 2 ^ 63" if "oi_CollectTTFT input = Some f" for f n v
      using that F darwin_ttft_bound by auto
  qed
qed

section \<open>From the session to the table\<close>

text \<open>C7: a compute benchmark from the machine to the table. Whatever the processes print and whichever
  repetitions fail, and even if the benchmark server could not be stopped in time, a benchmark that a
  session returns on Linux or macOS, signed with the agent's identity and posted promptly to the server
  that enrolled it, is answered with 201 exactly if the insertion with the server's own score succeeds and
  its texts keep the server's limits: the condition 64 bytes, the model a name of at most 512, the
  version that \<open>llama-bench\<close> prints and the quantization 128. The server decodes what the agent encoded.\<close>

theorem collected_compute_report:
  assumes "ExecuteLinuxComputeBenchmark j decode lw ctx lp w = Some ((Some b, e), w')
         \<or> ExecuteDarwinComputeBenchmark j decode dw ctx dp w = Some (Inr b, w')"
    "BuildSignedComputeBenchmarkSubmission a enc (Some raw) (fresh_identity a seed uuid) b now = Inr (sub, body, sig)"
    "length uuid = 16" "length raw = 16" "prompt_times (cb_CollectedAt b) now (c_now c)" "posted a seed uuid body sig c r s"
    "dec_compute (c_json c) body = Some (sub, [])" "enc_compute (c_json c) b = Some payload"
  shows "rs_status (fst (computeBenchmarkSubmission c r s)) = 201 \<longleftrightarrow>
       length (cb_Condition b) \<le> 64 \<and> TrimSpace (cb_Model b) \<noteq> [] \<and> length (TrimSpace (cb_Model b)) \<le> 512
     \<and> length (cb_RuntimeVersion b) \<le> 128 \<and> length (cb_Quantization b) \<le> 128
     \<and> is_ok (fst (InsertComputeBenchmark (c_pg c) (c_env c 1) (newUUIDv4 raw) (newUUIDv4 uuid) payload
              (sb_Score (CalculateComputeScore b)) (c_now c) (sv_db s)))"
proof -
  have sub: "sub = \<lparr>csub_Version = ComputeBenchmarkSubmissionVersion, csub_NodeID = newUUIDv4 uuid,
      csub_ReportID = newUUIDv4 raw, csub_SignedAt = now, csub_Benchmark = b\<rparr>"
    and sig: "sign_with a (fresh_identity a seed uuid) (ComputeBenchmarkSigningMessage (Sum256 a) body) = Inr sig"
    using build_compute [OF assms(2)] by (auto simp: fresh_identity_def)
  have p: "ed25519_law a seed" "c_crypto c = crypto.truncate a" "sv_owner s \<noteq> None" "rq_body r = body" "rq_signature r = sig"
    "length body \<le> 1048576" "\<not> rq_read_error r"
    "InventoryPublicKey (c_env c 0) (newUUIDv4 uuid) (sv_db s) = Inr (idn_PublicKey (fresh_identity a seed uuid))"
    using assms(6) by (simp_all add: posted_def)
  have "wf_compute_benchmark b \<longleftrightarrow> texts_fit b"
    using assms(1) by (elim disjE) (rule linux_session_wf, assumption, rule darwin_session_wf)
  then have "validateComputeBenchmarkSubmission sub (c_now c) = Inr () \<longleftrightarrow> texts_fit b"
    using assms(3-5) by (simp add: compute_accepted_iff sub prompt_times_def skew_accepted_def validUUIDv4_newUUIDv4)
  moreover have "decodeComputeBenchmarkSubmissionBody (c_json c) body = Inr sub"
    using assms(7) by (simp add: decodeComputeBenchmarkSubmissionBody_def at_eof_def)
  moreover have "verifyComputeBenchmarkSignature (c_crypto c) (idn_PublicKey (fresh_identity a seed uuid)) (rq_signature r) body = Inr ()"
    using signed_ok [OF p(1) sig] p(2,5) by (simp add: verify_iff)
  ultimately show ?thesis
    using compute_decision [OF p(3) readBody_ok [OF p(4,6,7)], of c sub _ payload] p(8) assms(8)
    by (simp add: sub texts_fit_def validComputeBenchmarkText_def Let_def)
qed

text \<open>A Linux machine whose benchmark server answers every request with an empty 200 and whose runs of
  \<open>llama-bench\<close> fail: the session returns a benchmark with five failed repetitions.\<close>

definition empty_answer :: "nat doer" where
  "empty_answer req w = (Inr \<lparr>hp_status = 200, hp_text = ''200 OK'', hp_body = [], hp_fail = False\<rparr>, w)"

definition idle_linux :: "nat linux_world" where
  "idle_linux = \<lparr>lw_server = \<lparr>so_start = (\<lambda>c a w. (Inr (), w)), so_interrupt = (\<lambda>w. w), so_kill = (\<lambda>w. w),
        so_poll = (\<lambda>w. (PollTick, w)), so_stop = (\<lambda>w. (None, w)), so_timeout = (\<lambda>w. (Err ''context deadline exceeded'', w))\<rparr>,
     lw_net = empty_answer, lw_now = (\<lambda>w. (0, w)),
     lw_exec = (\<lambda>c a w. (\<lparr>x_stdout = [], x_stderr = [], x_err = Some (Err ''exit status 1'')\<rparr>, w)),
     lw_sysfs = \<lparr>rd_Glob = (\<lambda>p w. None), rd_ReadFile = (\<lambda>p w. None)\<rparr>\<rparr>"

definition idle_failures :: "err \<times> err" where
  "idle_failures = (Wrap ''llama-bench execution failed'' (Err ''exit status 1''), Err ''llama.cpp stream ended before first token'')"

lemma idle_ttft: "measureLlamaServerTTFT toy_codec (Some empty_answer) server_url m9StandardTTFTPrompt (Some (\<lambda>w. (0, w))) w
    = (Inl (snd idle_failures), w)"
proof -
  have "TrimSpace m9StandardTTFTPrompt \<noteq> []" "HasPrefix (TrimSpace []) ''data:'' = False" by code_simp+
  then show ?thesis
    by (simp add: measureLlamaServerTTFT_def server_url_valid completion_request_made toy_codec_def empty_answer_def
        waitForFirstLlamaToken_def idle_failures_def)
qed

lemma idle_bench: "collectLinuxLlamaBenchRun decode (lw_exec idle_linux) rd True ''/opt/llama-bench'' ''/m/model.gguf'' w
    = (Inl (fst idle_failures), w)"
proof -
  have "TrimSpace ''/opt/llama-bench'' = ''/opt/llama-bench''" "TrimSpace ''/m/model.gguf'' \<noteq> []" "TrimSpace m9LinuxTimePath \<noteq> []"
    by code_simp+
  then show ?thesis
    by (simp add: collectLinuxLlamaBenchRun_def measureLinuxLlamaBenchRun_def m9LlamaBenchArgs_def linux_runner_def
        linuxOneAPIWrappedCommand_def idle_linux_def idle_failures_def Let_def)
qed

definition idle_run :: computeBenchmarkRunMeasurement where
  "idle_run = \<lparr>rn_Throughput = no_throughput,
     rn_Telemetry = \<lparr>tm_TimeToFirstToken = 0, tm_PeakSystemRAM = 0, tm_PeakVRAMBytes = None, tm_TemperatureCelsius = None, tm_Throttled = None\<rparr>,
     rn_Error = computeBenchmarkRunFailure (Some (fst idle_failures)) (Some (snd idle_failures))\<rparr>"

lemma idle_loop:
  assumes "\<And>n w. collectT n w = ((no_throughput, rn_Telemetry idle_run, Some (fst idle_failures)), w)"
    "\<And>n w. collectF n w = ((0, Some (snd idle_failures)), w)"
  shows "run_loop (\<lambda>_. None) collectT collectF ns w = (Inr (map (\<lambda>_. idle_run) ns), w)"
  by (induction ns arbitrary: w) (simp_all add: canceled_def assms Let_def idle_run_def)

lemma idle_finalized:
  "\<exists>b. finalizeComputeBenchmarkRuns \<lparr>fi_CollectedAt = 1000, fi_Condition = ''idle'', fi_Quantization = ''Q4_K_M'',
      fi_ModelPath = ''/m/model.gguf'', fi_Runs = map (\<lambda>_. idle_run) [1::nat, 2, 3, 4, 5]\<rparr> = Inr b
    \<and> cb_CollectedAt b = 1000 \<and> cb_SchemaVersion b = ComputeBenchmarkSchemaVersion \<and> texts_fit b"
proof -
  have t: "TrimSpace ''idle'' = ''idle''" "TrimSpace ''/m/model.gguf'' = ''/m/model.gguf''" "Base ''/m/model.gguf'' = ''model.gguf''"
    "TrimSpace ''Q4_K_M'' = ''Q4_K_M''" "TrimSpace ''model.gguf'' = ''model.gguf''" "length (TrimSpace (rn_Error idle_run)) \<le> 1024"
    by code_simp+
  have f: "failed_run idle_run" by (simp add: failed_run_def idle_run_def run_failure_iff)
  have r: "reportable_failure idle_run" using t(6) by (simp add: reportable_failure_def idle_run_def)
  show ?thesis
    unfolding finalize_iff using f r by (simp add: t reference_def benchmark_of_def texts_fit_def validComputeBenchmarkText_def)
qed

lemma idle_session:
  obtains b where "ExecuteLinuxComputeBenchmark toy_codec decode idle_linux (Some (\<lambda>_. None)) linux_options 0 = Some ((Some b, None), 0)"
    "cb_CollectedAt b = 1000" "cb_SchemaVersion b = ComputeBenchmarkSchemaVersion" "texts_fit b"
proof -
  obtain b where b: "finalizeComputeBenchmarkRuns \<lparr>fi_CollectedAt = 1000, fi_Condition = ''idle'', fi_Quantization = ''Q4_K_M'',
      fi_ModelPath = ''/m/model.gguf'', fi_Runs = map (\<lambda>_. idle_run) [1::nat, 2, 3, 4, 5]\<rparr> = Inr b"
    "cb_CollectedAt b = 1000" "cb_SchemaVersion b = ComputeBenchmarkSchemaVersion" "texts_fit b"
    using idle_finalized by blast
  have t: "TrimSpace ''idle'' \<noteq> []" "TrimSpace ''Q4_K_M'' \<noteq> []" "TrimSpace ''/m/model.gguf'' = ''/m/model.gguf''"
    "TrimSpace ''/opt/llama-bench'' = ''/opt/llama-bench''" "TrimSpace ''/opt/llama-server'' = ''/opt/llama-server''"
    by code_simp+
  have args: "\<exists>args. m9LlamaBenchArgs ''/m/model.gguf'' = Inr args" by (simp add: m9LlamaBenchArgs_def t Let_def)
  obtain c a where cmd: "linuxBenchmarkServerCommand ''/opt/llama-server'' ''/m/model.gguf'' = Inr (c, a, server_url)"
  proof -
    have "\<exists>x. linuxBenchmarkServerCommand ''/opt/llama-server'' ''/m/model.gguf'' = Inr x"
      by (simp add: linuxBenchmarkServerCommand_def linuxOneAPIWrappedCommand_def t bindE_def Let_def)
    then show thesis using linux_server_url that by (metis surj_pair)
  qed
  have loop: "health_loop ''M9'' empty_answer poll health_request 0 = Some ((None, False), 0)" for poll
    by (subst health_loop.simps) (simp add: empty_answer_def healthy_def)
  have start: "startLinuxComputeBenchmarkServer (lw_server idle_linux) empty_answer ''/opt/llama-server'' ''/m/model.gguf'' 0
      = Some (Inr server_url, 0)"
    by (simp add: startLinuxComputeBenchmarkServer_def cmd start_server_def wait_for_health_def server_url_valid
        health_request_made loop idle_linux_def)
  let ?T = "linux_throughput (collectLinuxLlamaBenchRun decode (lw_exec idle_linux) (lw_sysfs idle_linux) True)
      ''/opt/llama-bench'' ''/m/model.gguf''"
  have T: "?T n w = ((no_throughput, rn_Telemetry idle_run, Some (fst idle_failures)), w)" for n w
    by (simp add: linux_throughput_def idle_bench no_linux_run_def idle_run_def)
  let ?F = "\<lambda>n w. case measureLlamaServerTTFT toy_codec (Some empty_answer) server_url m9StandardTTFTPrompt (Some (\<lambda>w. (0, w))) w of
      (r, w') \<Rightarrow> (ttft_result r, w')"
  have F: "?F n w = ((0, Some (snd idle_failures)), w)" for n :: nat and w by (simp add: idle_ttft ttft_result_def)
  note loop5 = idle_loop [of ?T ?F "[Suc 0, 2, 3, 4, 5]" 0, OF T F]
  have net: "lw_net idle_linux = empty_answer" "lw_now idle_linux = (\<lambda>w. (0, w))" by (simp_all add: idle_linux_def)
  have stop: "stop_server (lw_server idle_linux) False 0 = (None, 0)" by (simp add: stop_server_def idle_linux_def)
  have range: "[Suc 0..<Suc m9StandardRepetitions] = [1, 2, 3, 4, 5]" using five by simp
  have "ExecuteLinuxComputeBenchmark toy_codec decode idle_linux (Some (\<lambda>_. None)) linux_options 0 = Some ((Some b, None), 0)"
    using args cmd b(1)
    by (auto simp: ExecuteLinuxComputeBenchmark_def executeLinuxComputeBenchmark_def linux_session_input_def linux_options_def
        IsZero_def t start net orchestrateLinuxComputeBenchmark_def server_url_valid orchestrateComputeBenchmarkRuns_def range
        loop5 bindE_def join_errors_def Stop_linux_def stop Let_def simp del: run_loop.simps upt_Suc)
  then show thesis using that b(2-4) by blast
qed

theorem collected_compute_report_witness:
  "\<exists>b sub sig. ExecuteLinuxComputeBenchmark toy_codec (\<lambda>_. None) idle_linux (Some (\<lambda>_. None)) linux_options 0 = Some ((Some b, None), 0)
     \<and> csub_Benchmark sub = b
     \<and> rs_status (fst (computeBenchmarkSubmission (report_call (sample_codecs\<lparr>dec_compute := \<lambda>_. Some (sub, [])\<rparr>))
          (sample_request\<lparr>rq_signature := sig\<rparr>) toy_server)) = 201"
proof -
  let ?i = "fresh_identity toy_crypto toy_seed toy_raw"
  obtain b where b: "ExecuteLinuxComputeBenchmark toy_codec (\<lambda>_. None) idle_linux (Some (\<lambda>_. None)) linux_options 0 = Some ((Some b, None), 0)"
    "cb_CollectedAt b = 1000" "cb_SchemaVersion b = ComputeBenchmarkSchemaVersion" "texts_fit b" by (rule idle_session)
  obtain sig where "sign_with toy_crypto ?i (ComputeBenchmarkSigningMessage (Sum256 toy_crypto) ''body'') = Inr sig"
    using toy_signs by blast
  then obtain sub where sub: "BuildSignedComputeBenchmarkSubmission toy_crypto (\<lambda>_. Some ''body'') (Some toy_raw) ?i b 1000
      = Inr (sub, ''body'', sig)"
    using b(3) toy_valid by (simp add: BuildSignedComputeBenchmarkSubmission_def random_uuid_def marshal_def Let_def)
  let ?j = "sample_codecs\<lparr>dec_compute := \<lambda>_. Some (sub, [])\<rparr>"
  have l: "length toy_raw = 16" by (simp add: toy_raw_def)
  have "rs_status (fst (computeBenchmarkSubmission (report_call ?j) (sample_request\<lparr>rq_signature := sig\<rparr>) toy_server)) = 201"
    using collected_compute_report [OF disjI1 [OF b(1)] sub l l _ toy_posted [where j = ?j], of "''{}''"] toy_insert b(2,4)
    by (simp add: report_call_simps prompt_times_def duration_units sample_codecs_def texts_fit_def validComputeBenchmarkText_def Let_def)
  moreover have "csub_Benchmark sub = b" using build_compute [OF sub] by auto
  ultimately show ?thesis using b(1) by blast
qed

end
