(* ===== verification/ServiceLifetime.thy ===== *)
theory ServiceLifetime
  imports ServerProperties
begin

text \<open>
  \<^verbatim>\<open>server/cmd/meshalot-server/main.go\<close>: the start of the service, and a service that serves one
  request after the other. Every request performs at most one operation of the store, so that the
  properties of store runs hold for the lifetime of the service. Listening, logging and the
  connection pool are not modelled; \<open>dsn_ok\<close> is the check of the connection string by \<open>sql.Open\<close>.
\<close>

section \<open>The start of the service\<close>

text \<open>The variables of a new service; in the in-memory mode the tables \<open>d\<close> are not used.\<close>

definition New :: "string \<Rightarrow> db \<Rightarrow> server" where
  "New devToken d = \<lparr>sv_owner = None, sv_token = devToken, sv_nodes = [], sv_db = d, sv_window = 0, sv_attempts = 0\<rparr>"

definition NewWithPostgres :: "string \<Rightarrow> string \<Rightarrow> db \<Rightarrow> server" where
  "NewWithPostgres token owner d = (New token d)\<lparr>sv_owner := Some owner\<rparr>"

definition OpenPostgres :: "(string \<Rightarrow> bool) \<Rightarrow> pg \<Rightarrow> env \<Rightarrow> string \<Rightarrow> string \<Rightarrow> db \<Rightarrow> string + string" where
  "OpenPostgres dsn_ok p e dsn owner d =
     (if \<not> dsn_ok dsn then Inl ''invalid database configuration''
      else (case stmt e 0 (bindE (to_uuid p owner) (\<lambda>u. Inr (u \<in> u_id ` set (users d)))) of
              Inl err \<Rightarrow> Inl ''database unavailable or POC owner missing''
            | Inr exists \<Rightarrow>
                if \<not> exists then Inl ''database unavailable or POC owner missing''
                else (case stmt e 1 (Inr ()) of
                        Inl err \<Rightarrow> Inl ''node persistence schema unavailable''
                      | Inr _ \<Rightarrow> Inr owner)))"

definition server_env :: "(string \<Rightarrow> string) \<Rightarrow> string \<Rightarrow> string \<Rightarrow> string" where
  "server_env getenv name fallback = (if getenv name \<noteq> [] then getenv name else fallback)"

text \<open>The address it listens on and the service, or the message it exits with.\<close>

definition server_main ::
    "(string \<Rightarrow> string) \<Rightarrow> (string \<Rightarrow> bool) \<Rightarrow> pg \<Rightarrow> env \<Rightarrow> db \<Rightarrow> string + string \<times> server" where
  "server_main getenv dsn_ok p e d =
     (let addr = server_env getenv ''MESHALOT_LISTEN_ADDR'' '':8080'';
          token = server_env getenv ''MESHALOT_DEV_ENROLLMENT_TOKEN'' ''dev-enrollment-token'';
          dsn = getenv ''MESHALOT_DATABASE_DSN''
      in if dsn \<noteq> []
         then if token = ''dev-enrollment-token'' \<or> length token < 32
              then Inl ''PostgreSQL mode requires an explicit POC token of at least 32 characters''
              else (case OpenPostgres dsn_ok p e dsn (getenv ''MESHALOT_POC_USER_ID'') d of
                      Inl err \<Rightarrow> Inl ''database startup failed; check configuration and migrations''
                    | Inr owner \<Rightarrow> Inr (addr, NewWithPostgres token owner d))
         else Inr (addr, New token d))"

fun serve :: "(call \<times> request) list \<Rightarrow> server \<Rightarrow> response list \<times> server" where
  "serve [] s = ([], s)"
| "serve ((c, r) # rs) s =
     (let (resp, s') = Handler c r s; (resps, t) = serve rs s' in (resp # resps, t))"

section \<open>At most one store operation per request\<close>

text \<open>A handler that leaves the configuration alone and changes the tables by at most one operation,
  and the map of the in-memory mode only in that mode.\<close>

definition one_operation :: "handler \<Rightarrow> bool" where
  "one_operation h \<longleftrightarrow> (\<forall>c r s. sv_owner (snd (h c r s)) = sv_owner s \<and> sv_token (snd (h c r s)) = sv_token s
     \<and> (sv_owner s \<noteq> None \<longrightarrow> sv_nodes (snd (h c r s)) = sv_nodes s)
     \<and> (sv_owner s = None \<longrightarrow> sv_db (snd (h c r s)) = sv_db s)
     \<and> (sv_db (snd (h c r s)) = sv_db s \<or> store_step (c_pg c) (sv_db s) (sv_db (snd (h c r s)))))"

named_theorems one_operation_intros \<open>handlers that perform at most one store operation\<close>

lemma steps:
  "CreateEnrollmentToken p e u h x d = (a1, d') \<Longrightarrow> store_step p d d'"
  "RedeemEnrollmentToken p e h k pk v d = (a2, d') \<Longrightarrow> store_step p d d'"
  "Enroll p e ow k v d = (a3, d') \<Longrightarrow> store_step p d d'"
  "Heartbeat p e ow k m d = (a4, d') \<Longrightarrow> store_step p d d'"
  "CreateSession p e u h x d = (a5, d') \<Longrightarrow> store_step p d d'"
  "DeleteSession e h d = (a6, d') \<Longrightarrow> store_step p d d'"
  "InsertInventory p e a b c t d = (a7, d') \<Longrightarrow> store_step p d d'"
  "InsertNetworkBenchmark p e a b c sc t d = (a8, d') \<Longrightarrow> store_step p d d'"
  "InsertComputeBenchmark p e a b c sc t d = (a9, d') \<Longrightarrow> store_step p d d'"
  by (metis store_step.intros snd_conv)+

lemma one_readers [one_operation_intros]:
  "one_operation health" "one_operation listNodes" "one_operation (me u)" "one_operation (dashboard u)"
  "one_operation (accountNodes u)" "one_operation (accountNode u k)" "one_operation (Accounts.wallet u)"
  "one_operation (jobs_handler u)" "one_operation (accountNodeInventory u k)" "one_operation notFound"
  "one_operation methodNotAllowed"
  by (auto simp: one_operation_def health_def listNodes_def me_def dashboard_def accountNodes_def accountNode_def
      wallet_def jobs_handler_def accountNodeInventory_def notFound_def methodNotAllowed_def
      split: sum.splits option.splits)

lemma one_agent [one_operation_intros]: "one_operation enroll" "one_operation heartbeat"
  by (auto simp: one_operation_def enroll_def heartbeat_def Let_def dest: steps
      split: sum.splits option.splits prod.splits if_splits)

lemma one_login [one_operation_intros]: "one_operation login" "one_operation logout"
  by (auto simp: one_operation_def login_def logout_def Let_def dest: steps
      split: sum.splits option.splits prod.splits if_splits)

lemma one_issue [one_operation_intros]: "one_operation (issueEnrollmentCode u)"
  by (auto simp: one_operation_def issueEnrollmentCode_def Let_def dest: steps
      split: sum.splits option.splits prod.splits if_splits)

lemma allowSecureEnrollment_keeps:
  "allowSecureEnrollment now s = (b, s') \<Longrightarrow> sv_owner s' = sv_owner s \<and> sv_token s' = sv_token s \<and> sv_nodes s' = sv_nodes s"
  by (auto simp: allowSecureEnrollment_def Let_def split: if_splits)

lemma one_secureEnroll [one_operation_intros]: "one_operation secureEnroll"
  unfolding one_operation_def
proof (intro allI)
  fix c :: call and r s
  obtain b s1 where a: "allowSecureEnrollment (c_now c) s = (b, s1)" by (metis surj_pair)
  show "sv_owner (snd (secureEnroll c r s)) = sv_owner s \<and> sv_token (snd (secureEnroll c r s)) = sv_token s
     \<and> (sv_owner s \<noteq> None \<longrightarrow> sv_nodes (snd (secureEnroll c r s)) = sv_nodes s)
     \<and> (sv_owner s = None \<longrightarrow> sv_db (snd (secureEnroll c r s)) = sv_db s)
     \<and> (sv_db (snd (secureEnroll c r s)) = sv_db s \<or> store_step (c_pg c) (sv_db s) (sv_db (snd (secureEnroll c r s))))"
    using allowSecureEnrollment_keeps [OF a] allowSecureEnrollment_db [OF a]
    by (auto simp: secureEnroll_def a Let_def dest: steps split: sum.splits option.splits prod.splits if_splits)
qed

lemma one_submissions [one_operation_intros]:
  "one_operation inventorySubmission" "one_operation networkBenchmarkSubmission" "one_operation computeBenchmarkSubmission"
  by (auto simp: one_operation_def inventorySubmission_def networkBenchmarkSubmission_def computeBenchmarkSubmission_def
      Let_def dest: steps split: read_result.splits sum.splits option.splits prod.splits if_splits)

lemma one_guards [one_operation_intros]:
  "one_operation h \<Longrightarrow> one_operation (authenticated h)" "(\<And>u. one_operation (f u)) \<Longrightarrow> one_operation (requireSession f)"
  "one_operation h \<Longrightarrow> one_operation (get m h)" "one_operation h \<Longrightarrow> one_operation (post m h)"
  by (auto simp: one_operation_def authenticated_def requireSession_def get_def post_def methodNotAllowed_def
      split: option.splits sum.splits)

lemma one_route: "one_operation (route m path)"
  unfolding route_def by (simp add: one_operation_intros split: list.split)

lemma one_Handler: "one_operation Handler"
  using one_route by (auto simp: one_operation_def Handler_def middleware_def Let_def split: prod.split)
    (metis snd_conv)+

section \<open>The lifetime of a service\<close>

lemma store_run_trans: "store_run p d d' \<Longrightarrow> store_run p d' d'' \<Longrightarrow> store_run p d d''"
  by (rotate_tac, induction rule: store_run.induct) (auto intro: run_step)

lemma serve_runs:
  assumes "serve requests s = (responses, t)" "\<And>x. x \<in> set requests \<Longrightarrow> c_pg (fst x) = p" "sv_owner s \<noteq> None"
  shows "length responses = length requests \<and> store_run p (sv_db s) (sv_db t) \<and> sv_owner t = sv_owner s
    \<and> sv_token t = sv_token s \<and> sv_nodes t = sv_nodes s"
  using assms
proof (induction requests s arbitrary: responses rule: serve.induct)
  case (2 c r rs s)
  obtain resp s1 where h: "Handler c r s = (resp, s1)" by (metis surj_pair)
  obtain resps where rest: "serve rs s1 = (resps, t)" and resps: "responses = resp # resps"
    using "2.prems"(1) h by (auto split: prod.splits)
  have s1: "sv_owner s1 = sv_owner s" "sv_token s1 = sv_token s" "sv_nodes s1 = sv_nodes s"
    "sv_db s1 = sv_db s \<or> store_step p (sv_db s) (sv_db s1)"
    using one_Handler "2.prems"(2) [of "(c, r)"] "2.prems"(3) h unfolding one_operation_def
    by (metis fst_conv list.set_intros(1) snd_conv)+
  have one: "store_run p (sv_db s) (sv_db s1)" using s1(4) by (auto intro: store_run.intros)
  have IH: "length resps = length rs \<and> store_run p (sv_db s1) (sv_db t) \<and> sv_owner t = sv_owner s1
    \<and> sv_token t = sv_token s1 \<and> sv_nodes t = sv_nodes s1"
    by (rule "2.IH" [OF h [symmetric] refl rest]) (use "2.prems" s1(1) in auto)
  with store_run_trans [OF one] s1(1-3) resps show ?case by simp
qed (auto intro: run_done)

lemma server_main_database:
  assumes "server_main getenv dsn_ok p e d = Inr (addr, s)" "getenv ''MESHALOT_DATABASE_DSN'' \<noteq> []"
  shows "sv_db s = d \<and> sv_nodes s = [] \<and> 32 \<le> length (sv_token s) \<and> sv_token s \<noteq> ''dev-enrollment-token''
    \<and> (\<exists>owner u. sv_owner s = Some owner \<and> pg_uuid p owner = Some u \<and> u \<in> u_id ` set (users d))"
  using assms
  by (auto simp: server_main_def OpenPostgres_def NewWithPostgres_def New_def stmt_def to_uuid_def bindE_def Let_def
      split: if_splits sum.splits option.splits)

lemma unauthenticated_agent:
  assumes "sv_owner s \<noteq> None" "sv_token s \<noteq> []"
    "(rq_method r, rq_path r) \<in> {(''POST'', ''/v1/heartbeat''), (''GET'', ''/v1/nodes'')}" "rq_authorization r \<noteq> ''Bearer '' @ sv_token s"
  shows "rs_status (fst (Handler c r s)) = 401 \<and> snd (Handler c r s) = s"
proof -
  have a: "authenticated h c r s = (writeError 401 ''authentication required'', s)" for h
    using assms by (simp add: authenticated_def)
  have "route (rq_method r) (rq_path r) c r s = (writeError 401 ''authentication required'', s)"
    using assms(3) by (elim insertE emptyE) (simp_all add: route_def post_def get_def a)
  moreover have "rq_method r \<noteq> ''OPTIONS''" using assms(3) by auto
  ultimately show ?thesis by (simp add: Handler_def middleware_def writeError_def writeJSON_def Let_def)
qed


definition start_env :: "string \<Rightarrow> string" where
  "start_env n = (if n = ''MESHALOT_DATABASE_DSN'' then ''postgres://db''
     else if n = ''MESHALOT_DEV_ENROLLMENT_TOKEN'' then replicate 32 (CHR ''k'')
     else if n = ''MESHALOT_POC_USER_ID'' then ''u1'' else [])"


end
